(* ===== verification/Prelude.thy ===== *)
theory Prelude
  imports Main "HOL-Library.Word" "HOL-Library.List_Lexorder" "HOL-Library.Char_ord"
    "HOL-Library.Code_Target_Nat"
begin

text \<open>
  Shared vocabulary of the development.

  \<^item> Bytes, machine words and their big-endian encodings (Rust's \<open>to_be_bytes\<close> and
    \<open>from_be_bytes\<close>).
  \<^item> Strings. A Rust \<open>String\<close> is a UTF-8 byte sequence; a HOL \<open>string\<close> is a list of
    \<open>char\<close>s, each of which is one byte. \<open>length\<close> is therefore Rust's \<open>len()\<close>, and the
    order on strings (HOL-Library's lexicographic list order over the byte order) is Rust's
    \<open>Ord\<close> on \<open>String\<close>.
  \<^item> \<open>Result\<close>: \<open>'e + 'a\<close>, \<open>Inl\<close> for \<open>Err\<close>; \<open>and_then\<close> is the \<open>?\<close> operator.
  \<^item> \<open>BTreeMap\<close>: association lists kept strictly sorted by key, with the interface of the
    standard library stated as the locale \<open>ordered_map\<close>.
  \<^item> State machines: \<open>forward_system\<close>, steps that keep an invariant and move forward in an order.
\<close>

named_theorems result_simps \<open>inversion of results built with the question-mark operator\<close>
named_theorems map_simps \<open>lookup and update equations of the finite maps\<close>

subsection \<open>Bytes and words\<close>

type_synonym byte = "8 word"
type_synonym bytes = "8 word list"
type_synonym u16 = "16 word"
type_synonym u32 = "32 word"

abbreviation u64_max :: nat where
  "u64_max \<equiv> 18446744073709551615"

definition u16_from_be :: "byte \<Rightarrow> byte \<Rightarrow> u16" where
  "u16_from_be a b = of_nat (unat a * 256 + unat b)"

definition u16_to_be :: "u16 \<Rightarrow> bytes" where
  "u16_to_be w = [of_nat (unat w div 256), of_nat (unat w mod 256)]"

definition u32_from_be :: "byte \<Rightarrow> byte \<Rightarrow> byte \<Rightarrow> byte \<Rightarrow> u32" where
  "u32_from_be a b c d = of_nat (((unat a * 256 + unat b) * 256 + unat c) * 256 + unat d)"

definition u32_to_be :: "u32 \<Rightarrow> bytes" where
  "u32_to_be w =
     [of_nat (unat w div 16777216), of_nat (unat w div 65536 mod 256),
      of_nat (unat w div 256 mod 256), of_nat (unat w mod 256)]"

lemma unat_byte_lt: "unat (b :: byte) < 256"
  by (rule less_le_trans [OF unsigned_less]) simp

lemma unat_of_nat_byte: "n < 256 \<Longrightarrow> unat (of_nat n :: byte) = n"
  by (simp add: unat_of_nat)

lemma u16_be_roundtrip: "u16_from_be (u16_to_be w ! 0) (u16_to_be w ! 1) = w"
proof -
  have "unat w < 65536" by (rule less_le_trans [OF unsigned_less]) simp
  then have "unat w div 256 < 256" by simp
  then show ?thesis
    by (simp add: u16_from_be_def u16_to_be_def unat_of_nat_byte)
qed

lemma length_u16_to_be [simp]: "length (u16_to_be w) = 2"
  by (simp add: u16_to_be_def)

lemma length_u32_to_be [simp]: "length (u32_to_be w) = 4"
  by (simp add: u32_to_be_def)

lemma base256_digits:
  "((n div 16777216 * 256 + n div 65536 mod 256) * 256 + n div 256 mod 256) * 256 + n mod 256
     = (n :: nat)"
proof -
  have d2: "n div 65536 = n div 256 div 256" by (simp add: div_mult2_eq [symmetric])
  have d3: "n div 16777216 = n div 256 div 256 div 256" by (simp add: div_mult2_eq [symmetric])
  show ?thesis
    unfolding d2 d3 by (simp only: div_mult_mod_eq)
qed

lemma u32_be_roundtrip:
  "u32_from_be (u32_to_be w ! 0) (u32_to_be w ! 1) (u32_to_be w ! 2) (u32_to_be w ! 3) = w"
proof -
  have "unat w < 4294967296" by (rule less_le_trans [OF unsigned_less]) simp
  then have top: "unat w div 16777216 < 256" by simp
  have "unat (u32_to_be w ! 0) = unat w div 16777216"
    "unat (u32_to_be w ! 1) = unat w div 65536 mod 256"
    "unat (u32_to_be w ! 2) = unat w div 256 mod 256"
    "unat (u32_to_be w ! 3) = unat w mod 256"
    using top by (simp_all add: u32_to_be_def unat_of_nat_byte numeral_2_eq_2 numeral_3_eq_3)
  then show ?thesis
    by (simp only: u32_from_be_def base256_digits) simp
qed

lemma unat_u32_from_be:
  "unat (u32_from_be a b c d)
     = ((unat a * 256 + unat b) * 256 + unat c) * 256 + unat d"
proof -
  have "unat a < 256" "unat b < 256" "unat c < 256" "unat d < 256"
    by (rule unat_byte_lt)+
  then have "((unat a * 256 + unat b) * 256 + unat c) * 256 + unat d < 4294967296"
    by simp
  then show ?thesis
    by (simp add: u32_from_be_def unat_of_nat del: of_nat_add of_nat_mult)
qed

lemma unat_u16_from_be: "unat (u16_from_be a b) = unat a * 256 + unat b"
proof -
  have "unat a < 256" "unat b < 256" by (rule unat_byte_lt)+
  then have "unat a * 256 + unat b < 65536" by simp
  then show ?thesis
    by (simp add: u16_from_be_def unat_of_nat del: of_nat_add of_nat_mult)
qed

subsection \<open>Results\<close>

fun and_then :: "'e + 'a \<Rightarrow> ('a \<Rightarrow> 'e + 'b) \<Rightarrow> 'e + 'b" where
  "and_then (Inl e) f = Inl e"
| "and_then (Inr x) f = f x"

fun map_err :: "('e \<Rightarrow> 'f) \<Rightarrow> 'e + 'a \<Rightarrow> 'f + 'a" where
  "map_err g (Inl e) = Inl (g e)"
| "map_err g (Inr x) = Inr x"

fun ok_or :: "'a option \<Rightarrow> 'e \<Rightarrow> 'e + 'a" where
  "ok_or None e = Inl e"
| "ok_or (Some x) e = Inr x"

fun is_ok :: "'e + 'a \<Rightarrow> bool" where
  "is_ok (Inl e) = False"
| "is_ok (Inr x) = True"

fun ok_option :: "'e + 'a \<Rightarrow> 'a option" where
  "ok_option (Inl e) = None"
| "ok_option (Inr x) = Some x"

definition ensure :: "bool \<Rightarrow> 'e \<Rightarrow> 'e + unit" where
  "ensure b e = (if b then Inr () else Inl e)"

text \<open>A \<open>for\<close> loop whose body ends in \<open>?\<close>: the first error leaves the loop.\<close>

fun try_for_each :: "('a \<Rightarrow> 'e + unit) \<Rightarrow> 'a list \<Rightarrow> 'e + unit" where
  "try_for_each f [] = Inr ()"
| "try_for_each f (x # xs) = and_then (f x) (\<lambda>_. try_for_each f xs)"

lemma and_then_eq_Inr [result_simps]:
  "and_then r f = Inr y \<longleftrightarrow> (\<exists>x. r = Inr x \<and> f x = Inr y)"
  by (cases r) auto

lemma and_then_eq_Inl [result_simps]:
  "and_then r f = Inl e \<longleftrightarrow> r = Inl e \<or> (\<exists>x. r = Inr x \<and> f x = Inl e)"
  by (cases r) auto

text \<open>A guard that returns early.\<close>

lemma guard_eq_Inr: "(if b then Inl e else r) = Inr x \<longleftrightarrow> \<not> b \<and> r = Inr x"
  by simp

lemma guard_eq_Inl: "(if b then Inl e else r) = Inl d \<longleftrightarrow> b \<and> e = d \<or> \<not> b \<and> r = Inl d"
  by simp

lemmas guard_simps = guard_eq_Inr guard_eq_Inl

lemma ok_or_eq_Inr [result_simps]: "ok_or x e = Inr y \<longleftrightarrow> x = Some y"
  by (cases x) auto

lemma ok_or_eq_Inl [result_simps]: "ok_or x e = Inl d \<longleftrightarrow> x = None \<and> e = d"
  by (cases x) auto

lemma map_err_eq_Inr [result_simps]: "map_err g r = Inr y \<longleftrightarrow> r = Inr y"
  by (cases r) auto

lemma map_err_eq_Inl [result_simps]: "map_err g r = Inl d \<longleftrightarrow> (\<exists>e. r = Inl e \<and> d = g e)"
  by (cases r) auto

lemma ensure_eq_Inr [result_simps]: "ensure b e = Inr u \<longleftrightarrow> b"
  by (simp add: ensure_def)

lemma ensure_eq_Inl [result_simps]: "ensure b e = Inl d \<longleftrightarrow> \<not> b \<and> e = d"
  by (auto simp: ensure_def)

lemma is_ok_iff [result_simps]: "is_ok r \<longleftrightarrow> (\<exists>x. r = Inr x)"
  by (cases r) auto

lemma ok_option_eq_Some [result_simps]: "ok_option r = Some x \<longleftrightarrow> r = Inr x"
  by (cases r) auto

lemma ok_option_eq_None [result_simps]: "ok_option r = None \<longleftrightarrow> (\<exists>e. r = Inl e)"
  by (cases r) auto

lemma try_for_each_Inr [result_simps]:
  "try_for_each f xs = Inr () \<longleftrightarrow> (\<forall>x \<in> set xs. f x = Inr ())"
  by (induction xs) (auto simp: result_simps)

lemma try_for_each_unit [result_simps]:
  "try_for_each f xs = Inr u \<longleftrightarrow> (\<forall>x \<in> set xs. f x = Inr ())"
  by (cases u) (simp add: try_for_each_Inr)

subsection \<open>Transition systems\<close>

text \<open>
  The interface of a state machine whose steps keep an invariant and only move forward in an order;
  both then hold along every run.
\<close>

locale forward_system =
  fixes step :: "'s \<Rightarrow> 's \<Rightarrow> bool"
    and inv :: "'s \<Rightarrow> bool"
    and le :: "'s \<Rightarrow> 's \<Rightarrow> bool"
  assumes step_inv: "inv s \<Longrightarrow> step s s' \<Longrightarrow> inv s'"
    and step_le: "inv s \<Longrightarrow> step s s' \<Longrightarrow> le s s'"
    and le_refl: "le s s"
    and le_trans: "le s s' \<Longrightarrow> le s' s'' \<Longrightarrow> le s s''"
begin

lemma run_inv: "step\<^sup>*\<^sup>* s s' \<Longrightarrow> inv s \<Longrightarrow> inv s'"
  by (induction rule: rtranclp_induct) (auto intro: step_inv)

lemma run_le: "step\<^sup>*\<^sup>* s s' \<Longrightarrow> inv s \<Longrightarrow> le s s'"
  by (induction rule: rtranclp_induct) (auto intro: le_refl le_trans step_le run_inv)

end

end
