(* ===== verification/Rust_Str.thy ===== *)
theory Rust_Str
  imports Prelude
begin

text \<open>
  The operations of Rust's \<open>str\<close> and \<open>char\<close> the repository uses, on byte strings.
  \<open>trim\<close> removes the code points of Unicode's \<open>White_Space\<close> property, as the standard
  library does; their UTF-8 encodings are one, two or three bytes long. \<open>from_utf8_lossy\<close>
  replaces every maximal invalid sequence by the three bytes of U+FFFD.
\<close>

subsection \<open>Characters\<close>

definition code :: "char \<Rightarrow> nat" where
  "code c = of_char c"

definition is_ascii_lowercase :: "char \<Rightarrow> bool" where
  "is_ascii_lowercase c \<longleftrightarrow> 97 \<le> code c \<and> code c \<le> 122"

definition is_ascii_uppercase :: "char \<Rightarrow> bool" where
  "is_ascii_uppercase c \<longleftrightarrow> 65 \<le> code c \<and> code c \<le> 90"

definition is_ascii_digit :: "char \<Rightarrow> bool" where
  "is_ascii_digit c \<longleftrightarrow> 48 \<le> code c \<and> code c \<le> 57"

definition is_ascii_hexdigit :: "char \<Rightarrow> bool" where
  "is_ascii_hexdigit c \<longleftrightarrow>
     is_ascii_digit c \<or> (97 \<le> code c \<and> code c \<le> 102) \<or> (65 \<le> code c \<and> code c \<le> 70)"

definition ascii_lower :: "char \<Rightarrow> char" where
  "ascii_lower c = (if is_ascii_uppercase c then char_of (code c + 32) else c)"

definition to_ascii_lowercase :: "string \<Rightarrow> string" where
  "to_ascii_lowercase s = map ascii_lower s"

text \<open>A printable ASCII byte is neither white space nor part of a longer encoding of one.\<close>

definition graphic :: "char \<Rightarrow> bool" where
  "graphic c \<longleftrightarrow> 33 \<le> code c \<and> code c < 128"

lemma code_char_of: "n < 256 \<Longrightarrow> code (char_of n) = n"
  by (simp add: code_def)

lemma code_eq_iff: "code c = code d \<longleftrightarrow> c = d"
  by (simp add: code_def)

lemma ascii_lower_idem [simp]: "ascii_lower (ascii_lower c) = ascii_lower c"
  by (auto simp: ascii_lower_def is_ascii_uppercase_def code_char_of)

lemma ascii_lower_id: "\<not> is_ascii_uppercase c \<Longrightarrow> ascii_lower c = c"
  by (simp add: ascii_lower_def)

lemma lowercase_not_upper: "is_ascii_lowercase c \<Longrightarrow> \<not> is_ascii_uppercase c"
  by (simp add: is_ascii_lowercase_def is_ascii_uppercase_def)

lemma digit_not_upper: "is_ascii_digit c \<Longrightarrow> \<not> is_ascii_uppercase c"
  by (simp add: is_ascii_digit_def is_ascii_uppercase_def)

lemma length_to_ascii_lowercase [simp]: "length (to_ascii_lowercase s) = length s"
  by (simp add: to_ascii_lowercase_def)

lemma to_ascii_lowercase_idem [simp]:
  "to_ascii_lowercase (to_ascii_lowercase s) = to_ascii_lowercase s"
  by (simp add: to_ascii_lowercase_def)

lemma to_ascii_lowercase_id:
  "\<forall>c \<in> set s. \<not> is_ascii_uppercase c \<Longrightarrow> to_ascii_lowercase s = s"
  by (induction s) (auto simp: to_ascii_lowercase_def ascii_lower_id)

lemma to_ascii_lowercase_append [simp]:
  "to_ascii_lowercase (s @ t) = to_ascii_lowercase s @ to_ascii_lowercase t"
  by (simp add: to_ascii_lowercase_def)

lemma to_ascii_lowercase_eq_Nil [simp]: "to_ascii_lowercase s = [] \<longleftrightarrow> s = []"
  by (simp add: to_ascii_lowercase_def)

lemma to_ascii_lowercase_no_upper: "c \<in> set (to_ascii_lowercase s) \<Longrightarrow> \<not> is_ascii_uppercase c"
  by (auto simp: to_ascii_lowercase_def ascii_lower_def is_ascii_uppercase_def code_char_of)

lemma ascii_lower_eq_other:
  "\<not> is_ascii_lowercase d \<Longrightarrow> \<not> is_ascii_uppercase d \<Longrightarrow> ascii_lower c = d \<longleftrightarrow> c = d"
  by (auto simp: ascii_lower_def is_ascii_uppercase_def is_ascii_lowercase_def code_char_of)

lemma in_set_lowercase_other:
  "\<not> is_ascii_lowercase d \<Longrightarrow> \<not> is_ascii_uppercase d
     \<Longrightarrow> d \<in> set (to_ascii_lowercase s) \<longleftrightarrow> d \<in> set s"
proof (induction s)
  case (Cons a s)
  then have "ascii_lower a = d \<longleftrightarrow> a = d" by (simp add: ascii_lower_eq_other)
  with Cons show ?case by (auto simp: to_ascii_lowercase_def)
qed (simp add: to_ascii_lowercase_def)

subsection \<open>White space\<close>

definition ws_one :: "string \<Rightarrow> bool" where
  "ws_one s \<longleftrightarrow> s \<noteq> [] \<and> code (hd s) \<in> {9, 10, 11, 12, 13, 32}"

definition ws_two :: "string \<Rightarrow> bool" where
  "ws_two s \<longleftrightarrow> map code (take 2 s) \<in> {[194, 133], [194, 160]}"

definition ws_three :: "string \<Rightarrow> bool" where
  "ws_three s \<longleftrightarrow>
     (case map code (take 3 s) of
        [a, b, c] \<Rightarrow>
          (a = 225 \<and> b = 154 \<and> c = 128) \<or>
          (a = 226 \<and> b = 128 \<and> (128 \<le> c \<and> c \<le> 138 \<or> c = 168 \<or> c = 169 \<or> c = 175)) \<or>
          (a = 226 \<and> b = 129 \<and> c = 159) \<or>
          (a = 227 \<and> b = 128 \<and> c = 128)
      | _ \<Rightarrow> False)"

fun trim_start :: "string \<Rightarrow> string" where
  "trim_start [] = []"
| "trim_start (a # s) =
     (if ws_one (a # s) then trim_start s
      else if ws_two (a # s) then trim_start (drop 1 s)
      else if ws_three (a # s) then trim_start (drop 2 s)
      else a # s)"

text \<open>The same from the end: the string is reversed, and so are the encodings.\<close>

fun trim_rev :: "string \<Rightarrow> string" where
  "trim_rev [] = []"
| "trim_rev (a # s) =
     (if ws_one (a # s) then trim_rev s
      else if ws_two (rev (take 2 (a # s))) then trim_rev (drop 1 s)
      else if ws_three (rev (take 3 (a # s))) then trim_rev (drop 2 s)
      else a # s)"

definition trim_end :: "string \<Rightarrow> string" where
  "trim_end s = rev (trim_rev (rev s))"

definition trim :: "string \<Rightarrow> string" where
  "trim s = trim_end (trim_start s)"

lemma trim_start_graphic: "graphic a \<Longrightarrow> trim_start (a # s) = a # s"
  by (auto simp: graphic_def ws_one_def ws_two_def ws_three_def split: list.splits)

lemma ws_two_last: "ws_two (xs @ [a]) \<Longrightarrow> length xs = 1 \<Longrightarrow> \<not> graphic a"
  by (cases xs) (auto simp: ws_two_def graphic_def)

lemma ws_three_last:
  assumes "ws_three [b, c, a]"
  shows "\<not> graphic a"
  using assms by (auto simp: ws_three_def graphic_def)

lemma trim_rev_graphic:
  assumes "graphic a"
  shows "trim_rev (a # s) = a # s"
proof -
  have one: "\<not> ws_one (a # s)"
    using assms by (auto simp: ws_one_def graphic_def)
  have two: "\<not> ws_two (rev (take 2 (a # s)))"
    using assms by (cases s) (auto simp: ws_two_def graphic_def numeral_2_eq_2)
  have three: "\<not> ws_three (rev (take 3 (a # s)))"
  proof (cases s)
    case Nil
    then show ?thesis by (simp add: ws_three_def)
  next
    case (Cons b t)
    show ?thesis
    proof (cases t)
      case Nil
      with Cons show ?thesis by (simp add: ws_three_def)
    next
      case (Cons c u)
      with \<open>s = b # t\<close> assms show ?thesis
        using ws_three_last [of c b a] by auto
    qed
  qed
  from one two three show ?thesis by simp
qed

declare trim_start.simps(2) [simp del] trim_rev.simps(2) [simp del]

lemma trim_end_graphic: "graphic a \<Longrightarrow> trim_end (s @ [a]) = s @ [a]"
  by (simp add: trim_end_def trim_rev_graphic)

lemma trim_end_Nil [simp]: "trim_end [] = []"
  by (simp add: trim_end_def)

lemma trim_end_last_graphic: "s \<noteq> [] \<Longrightarrow> graphic (last s) \<Longrightarrow> trim_end s = s"
  using trim_end_graphic [of "last s" "butlast s"] by simp

lemma trim_graphic:
  assumes "\<forall>c \<in> set s. graphic c"
  shows "trim s = s"
proof (cases s)
  case Nil
  then show ?thesis by (simp add: trim_def)
next
  case (Cons a t)
  with assms have "trim_start s = s"
    using trim_start_graphic [of a t] by simp
  moreover from Cons assms have "graphic (last s)"
    by (metis last_in_set list.discI)
  ultimately show ?thesis
    using Cons trim_end_last_graphic [of s] by (simp add: trim_def)
qed

lemma length_trim_rev: "length (trim_rev s) \<le> length s"
  by (induction s rule: trim_rev.induct) (auto simp: trim_rev.simps(2))

lemma length_trim_start: "length (trim_start s) \<le> length s"
  by (induction s rule: trim_start.induct) (auto simp: trim_start.simps(2))

lemma trim_rev_suffix: "\<exists>p. s = p @ trim_rev s"
proof (induction s rule: trim_rev.induct)
  case 1
  then show ?case by simp
next
  case (2 a s)
  have drop: "\<exists>p. a # s = p @ x" if "\<exists>p. drop n s = p @ x" for n x
  proof -
    from that obtain p where "drop n s = p @ x" by blast
    then have "a # s = (a # take n s @ p) @ x"
      using append_take_drop_id [of n s] by (metis append.assoc append_Cons)
    then show ?thesis by blast
  qed
  show ?case
    using 2 drop [of 0] drop [of 1] drop [of 2] by (auto simp: trim_rev.simps(2))
qed

lemma trim_rev_idem [simp]: "trim_rev (trim_rev s) = trim_rev s"
  by (induction s rule: trim_rev.induct) (auto simp: trim_rev.simps(2))

lemma trim_end_idem [simp]: "trim_end (trim_end s) = trim_end s"
  by (simp add: trim_end_def)

lemma trim_end_prefix: "\<exists>p. s = trim_end s @ p"
  unfolding trim_end_def using trim_rev_suffix [of "rev s"]
  by (metis rev_append rev_rev_ident)

subsection \<open>Searching and splitting\<close>

definition trim_start_matches :: "char \<Rightarrow> string \<Rightarrow> string" where
  "trim_start_matches c s = dropWhile (\<lambda>x. x = c) s"

definition trim_end_matches :: "char \<Rightarrow> string \<Rightarrow> string" where
  "trim_end_matches c s = rev (dropWhile (\<lambda>x. x = c) (rev s))"

definition contains_char :: "string \<Rightarrow> char \<Rightarrow> bool" where
  "contains_char s c \<longleftrightarrow> c \<in> set s"

definition starts_with :: "string \<Rightarrow> char \<Rightarrow> bool" where
  "starts_with s c \<longleftrightarrow> s \<noteq> [] \<and> hd s = c"

definition ends_with :: "string \<Rightarrow> char \<Rightarrow> bool" where
  "ends_with s c \<longleftrightarrow> s \<noteq> [] \<and> last s = c"

definition strip_prefix :: "string \<Rightarrow> string \<Rightarrow> string option" where
  "strip_prefix p s = (if take (length p) s = p then Some (drop (length p) s) else None)"

text \<open>\<open>split_once\<close>; also \<open>splitn(2, c)\<close>, which yields the same two pieces.\<close>

definition split_once :: "char \<Rightarrow> string \<Rightarrow> (string \<times> string) option" where
  "split_once c s =
     (if c \<in> set s
      then Some (takeWhile (\<lambda>x. x \<noteq> c) s, tl (dropWhile (\<lambda>x. x \<noteq> c) s)) else None)"

text \<open>The first piece of \<open>split(c)\<close>, which always exists.\<close>

definition split_first :: "char \<Rightarrow> string \<Rightarrow> string" where
  "split_first c s = takeWhile (\<lambda>x. x \<noteq> c) s"

text \<open>\<open>rsplit(c).next()\<close>: the piece after the last separator, or the whole string.\<close>

definition rsplit_first :: "char \<Rightarrow> string \<Rightarrow> string" where
  "rsplit_first c s = rev (takeWhile (\<lambda>x. x \<noteq> c) (rev s))"

fun split_char :: "char \<Rightarrow> string \<Rightarrow> string list" where
  "split_char c [] = [[]]"
| "split_char c (x # xs) =
     (if x = c then [] # split_char c xs
      else (case split_char c xs of [] \<Rightarrow> [[x]] | p # ps \<Rightarrow> (x # p) # ps))"

fun join :: "string \<Rightarrow> string list \<Rightarrow> string" where
  "join sep [] = []"
| "join sep [x] = x"
| "join sep (x # y # ys) = x @ sep @ join sep (y # ys)"

text \<open>\<open>find([..])\<close> with a set of characters, as the pair \<open>(&s[..i], &s[i..])\<close>.\<close>

definition split_at_any :: "char list \<Rightarrow> string \<Rightarrow> string \<times> string" where
  "split_at_any cs s =
     (takeWhile (\<lambda>x. x \<notin> set cs) s, dropWhile (\<lambda>x. x \<notin> set cs) s)"

lemma takeWhile_no_sep: "c \<notin> set s \<Longrightarrow> takeWhile (\<lambda>x. x \<noteq> c) s = s"
  by (induction s) auto

lemma takeWhile_sep: "c \<notin> set s \<Longrightarrow> takeWhile (\<lambda>x. x \<noteq> c) (s @ c # t) = s"
  by (induction s) auto

lemma dropWhile_sep: "c \<notin> set s \<Longrightarrow> dropWhile (\<lambda>x. x \<noteq> c) (s @ c # t) = c # t"
  by (induction s) auto

lemma split_once_append [simp]: "c \<notin> set s \<Longrightarrow> split_once c (s @ c # t) = Some (s, t)"
  by (simp add: split_once_def takeWhile_sep dropWhile_sep)

lemma split_once_None [simp]: "c \<notin> set s \<Longrightarrow> split_once c s = None"
  by (simp add: split_once_def)

lemma split_once_eq_None: "split_once c s = None \<longleftrightarrow> c \<notin> set s"
  by (simp add: split_once_def)

lemma split_once_SomeD:
  assumes "split_once c s = Some (a, b)"
  shows "s = a @ c # b" and "c \<notin> set a"
proof -
  from assms have c: "c \<in> set s"
    by (simp add: split_once_def split: if_splits)
  then obtain u v where uv: "s = u @ c # v" "c \<notin> set u"
    by (meson split_list_first)
  then have "split_once c s = Some (u, v)" by simp
  with assms have "a = u" "b = v" by simp_all
  with uv show "s = a @ c # b" and "c \<notin> set a" by simp_all
qed

lemma split_first_no_sep: "c \<notin> set s \<Longrightarrow> split_first c s = s"
  by (simp add: split_first_def takeWhile_no_sep)

lemma split_first_sep: "c \<notin> set s \<Longrightarrow> split_first c (s @ c # t) = s"
  by (simp add: split_first_def takeWhile_sep)

lemma split_first_no_char: "c \<notin> set (split_first c s)"
  by (auto simp: split_first_def dest: set_takeWhileD)

lemma split_first_subset: "x \<in> set (split_first c s) \<Longrightarrow> x \<in> set s"
  by (auto simp: split_first_def dest: set_takeWhileD)

lemma strip_prefix_append [simp]: "strip_prefix p (p @ s) = Some s"
  by (simp add: strip_prefix_def)

lemma strip_prefix_SomeD: "strip_prefix p s = Some t \<Longrightarrow> s = p @ t"
  by (auto simp: strip_prefix_def split: if_splits) (metis append_take_drop_id)

lemma strip_prefix_eq_Some: "strip_prefix p s = Some t \<longleftrightarrow> s = p @ t"
  using strip_prefix_SomeD [of p s t] by auto

lemma split_char_no_sep: "c \<notin> set s \<Longrightarrow> split_char c s = [s]"
  by (induction s) auto

lemma split_char_append: "c \<notin> set s \<Longrightarrow> split_char c (s @ c # t) = s # split_char c t"
  by (induction s) auto

lemma split_char_nonempty [simp]: "split_char c s \<noteq> []"
  by (induction s) (auto split: list.splits)

lemma split_char_pieces: "p \<in> set (split_char c s) \<Longrightarrow> c \<notin> set p"
  by (induction s arbitrary: p) (auto split: list.splits if_splits)

lemma join_split_char: "join [c] (split_char c s) = s"
proof (induction s)
  case Nil
  then show ?case by simp
next
  case (Cons x xs)
  obtain p ps where sp: "split_char c xs = p # ps"
    by (meson neq_Nil_conv split_char_nonempty)
  show ?case
    using Cons.IH sp by (cases ps) auto
qed

lemma split_join:
  assumes "ls \<noteq> []" and "\<forall>l \<in> set ls. c \<notin> set l"
  shows "split_char c (join [c] ls) = ls"
  using assms
proof (induction ls rule: list_nonempty_induct)
  case (single x)
  then show ?case by (simp add: split_char_no_sep)
next
  case (cons x xs)
  then obtain y ys where "xs = y # ys" by (meson neq_Nil_conv)
  with cons show ?case by (simp add: split_char_append)
qed

subsection \<open>Formatting\<close>

fun show_nat :: "nat \<Rightarrow> string" where
  "show_nat n =
     (if n < 10 then [char_of (48 + n)] else show_nat (n div 10) @ [char_of (48 + n mod 10)])"

declare show_nat.simps [simp del]

fun read_nat :: "string \<Rightarrow> nat \<Rightarrow> nat option" where
  "read_nat [] n = Some n"
| "read_nat (c # s) n = (if is_ascii_digit c then read_nat s (10 * n + (code c - 48)) else None)"

lemma show_nat_digits: "c \<in> set (show_nat n) \<Longrightarrow> is_ascii_digit c"
proof (induction n rule: show_nat.induct)
  case (1 n)
  have "c \<in> set (show_nat (n div 10)) \<or> c = char_of (48 + n mod 10)" if "\<not> n < 10"
    using "1.prems" that by (subst (asm) show_nat.simps) auto
  moreover have "c = char_of (48 + n)" if "n < 10"
    using "1.prems" that by (subst (asm) show_nat.simps) auto
  ultimately show ?case
    using "1.IH" by (cases "n < 10") (auto simp: is_ascii_digit_def code_char_of)
qed

lemma show_nat_nonempty: "show_nat n \<noteq> []"
  by (subst show_nat.simps) simp

lemma read_nat_append:
  "read_nat (s @ t) n = (case read_nat s n of None \<Rightarrow> None | Some m \<Rightarrow> read_nat t m)"
  by (induction s arbitrary: n) auto

lemma read_show_nat: "read_nat (show_nat n) 0 = Some n"
proof (induction n rule: show_nat.induct)
  case (1 n)
  show ?case
  proof (cases "n < 10")
    case True
    then show ?thesis by (subst show_nat.simps) (simp add: is_ascii_digit_def code_char_of)
  next
    case False
    with "1.IH" show ?thesis
      by (subst show_nat.simps) (simp add: read_nat_append is_ascii_digit_def code_char_of)
  qed
qed

lemma show_nat_inj: "show_nat m = show_nat n \<Longrightarrow> m = n"
  using read_show_nat by (metis option.inject)

text \<open>\<open>str::parse::<u64>()\<close>: an optional plus sign, decimal digits, no overflow.\<close>

definition parse_u64 :: "string \<Rightarrow> nat option" where
  "parse_u64 s =
     (let digits = (if starts_with s (CHR ''+'') then tl s else s)
      in if digits = [] then None
         else case read_nat digits 0 of
                Some n \<Rightarrow> if n \<le> u64_max then Some n else None
              | None \<Rightarrow> None)"

lemma parse_show_u64: "n \<le> u64_max \<Longrightarrow> parse_u64 (show_nat n) = Some n"
proof -
  assume n: "n \<le> u64_max"
  obtain c s where cs: "show_nat n = c # s" using show_nat_nonempty by (cases "show_nat n") auto
  then have "is_ascii_digit c" using show_nat_digits [of c n] by simp
  then have "c \<noteq> CHR ''+''" by (auto simp: is_ascii_digit_def code_def)
  then show ?thesis
    using n cs read_show_nat [of n] by (simp add: parse_u64_def starts_with_def)
qed

subsection \<open>Bytes of a string\<close>

definition bytes_of_str :: "string \<Rightarrow> bytes" where
  "bytes_of_str s = map (\<lambda>c. of_nat (code c)) s"

definition str_of_bytes :: "bytes \<Rightarrow> string" where
  "str_of_bytes bs = map (\<lambda>b. char_of (unat b)) bs"

lemma code_lt: "code c < 256"
  by (simp add: code_def)

lemma str_of_bytes_of_str [simp]: "str_of_bytes (bytes_of_str s) = s"
  by (simp add: str_of_bytes_def bytes_of_str_def o_def unat_of_nat_byte code_lt)
     (simp add: code_def)

lemma bytes_of_str_inj: "bytes_of_str s = bytes_of_str t \<Longrightarrow> s = t"
  using str_of_bytes_of_str by metis

lemma length_bytes_of_str [simp]: "length (bytes_of_str s) = length s"
  by (simp add: bytes_of_str_def)

end
