(* ===== verification/BTree_Map.thy ===== *)
theory BTree_Map
  imports Prelude
begin

text \<open>
  The standard library's \<open>BTreeMap\<close> (and \<open>BTreeSet\<close>-like uses), as association lists that
  are strictly sorted by key: iteration, \<open>values()\<close> and \<open>collect()\<close> see the entries in key
  order, as Rust does. The embedded database's tables (\<open>redb\<close>) are ordered the same way.

  The locale \<open>key_value\<close> is the interface a client of such a map uses (\<open>get\<close> after
  \<open>insert\<close>); it is interpreted on the association lists below.
\<close>

type_synonym ('k, 'v) bmap = "('k \<times> 'v) list"

definition bm_get :: "('k, 'v) bmap \<Rightarrow> 'k \<Rightarrow> 'v option" where
  "bm_get m k = map_of m k"

fun bm_insert :: "'k::linorder \<Rightarrow> 'v \<Rightarrow> ('k, 'v) bmap \<Rightarrow> ('k, 'v) bmap" where
  "bm_insert k v [] = [(k, v)]"
| "bm_insert k v ((k', v') # m) =
     (if k < k' then (k, v) # (k', v') # m
      else if k = k' then (k, v) # m
      else (k', v') # bm_insert k v m)"

definition bm_remove :: "'k \<Rightarrow> ('k, 'v) bmap \<Rightarrow> ('k, 'v) bmap" where
  "bm_remove k m = filter (\<lambda>p. fst p \<noteq> k) m"

definition bm_contains :: "('k, 'v) bmap \<Rightarrow> 'k \<Rightarrow> bool" where
  "bm_contains m k \<longleftrightarrow> k \<in> set (map fst m)"

definition bm_values :: "('k, 'v) bmap \<Rightarrow> 'v list" where
  "bm_values m = map snd m"

definition bm_keys :: "('k, 'v) bmap \<Rightarrow> 'k list" where
  "bm_keys m = map fst m"

definition bm_last :: "('k, 'v) bmap \<Rightarrow> ('k \<times> 'v) option" where
  "bm_last m = (if m = [] then None else Some (last m))"

text \<open>\<open>collect()\<close> into a map: later entries overwrite earlier ones.\<close>

definition bm_extend :: "('k::linorder \<times> 'v) list \<Rightarrow> ('k, 'v) bmap \<Rightarrow> ('k, 'v) bmap" where
  "bm_extend kvs m = fold (\<lambda>(k, v). bm_insert k v) kvs m"

definition bm_sorted :: "('k::linorder, 'v) bmap \<Rightarrow> bool" where
  "bm_sorted m \<longleftrightarrow> sorted_wrt (<) (map fst m)"

subsection \<open>The interface\<close>

locale key_value =
  fixes get :: "'m \<Rightarrow> 'k \<Rightarrow> 'v option"
    and insert :: "'k \<Rightarrow> 'v \<Rightarrow> 'm \<Rightarrow> 'm"
  assumes get_insert: "get (insert k v m) k' = (if k' = k then Some v else get m k')"
begin

lemma get_insert_same: "get (insert k v m) k = Some v"
  by (simp add: get_insert)

lemma get_insert_other: "k' \<noteq> k \<Longrightarrow> get (insert k v m) k' = get m k'"
  by (simp add: get_insert)

lemma get_fold_insert:
  "get (fold (\<lambda>(k, v). insert k v) kvs m) k
     = (case map_of (rev kvs) k of None \<Rightarrow> get m k | Some v \<Rightarrow> Some v)"
  by (induction kvs arbitrary: m) (auto simp: get_insert map_add_def split: option.splits)

end

lemma bm_get_insert_eq:
  "bm_get (bm_insert k v m) k' = (if k' = k then Some v else bm_get m k')"
  by (induction k v m rule: bm_insert.induct) (auto simp: bm_get_def)

interpretation bm: key_value bm_get bm_insert
  by unfold_locales (rule bm_get_insert_eq)

lemmas [map_simps] = bm.get_insert

subsection \<open>Facts about the sorted lists\<close>

lemma bm_get_Nil [simp]: "bm_get [] k = None"
  by (simp add: bm_get_def)

lemma bm_contains_iff: "bm_contains m k \<longleftrightarrow> bm_get m k \<noteq> None"
  by (simp add: bm_contains_def bm_get_def map_of_eq_None_iff)

lemma bm_contains_insert [map_simps]:
  "bm_contains (bm_insert k v m) k' \<longleftrightarrow> k' = k \<or> bm_contains m k'"
  by (simp add: bm_contains_iff map_simps)

lemma bm_get_remove [map_simps]:
  "bm_get (bm_remove k m) k' = (if k' = k then None else bm_get m k')"
  by (induction m) (auto simp: bm_get_def bm_remove_def)

lemma bm_get_extend:
  "bm_get (bm_extend kvs m) k = (case map_of (rev kvs) k of None \<Rightarrow> bm_get m k | Some v \<Rightarrow> Some v)"
  unfolding bm_extend_def by (rule bm.get_fold_insert)

lemma set_bm_insert_keys: "set (map fst (bm_insert k v m)) = insert k (set (map fst m))"
  by (induction k v m rule: bm_insert.induct) auto

lemma bm_sorted_Nil [simp]: "bm_sorted []"
  by (simp add: bm_sorted_def)

lemma bm_sorted_Cons:
  "bm_sorted ((k, v) # m) \<longleftrightarrow> (\<forall>k' \<in> set (map fst m). k < k') \<and> bm_sorted m"
  by (simp add: bm_sorted_def)

lemma bm_sorted_insert [simp]: "bm_sorted m \<Longrightarrow> bm_sorted (bm_insert k v m)"
proof (induction k v m rule: bm_insert.induct)
  case (2 k v k' v' m)
  have keys: "set (map fst (bm_insert k v m)) = insert k (set (map fst m))"
    by (rule set_bm_insert_keys)
  show ?case
    using 2 keys by (auto simp: bm_sorted_Cons simp del: set_map)
qed (simp add: bm_sorted_def)

lemma bm_sorted_filter: "bm_sorted m \<Longrightarrow> bm_sorted (filter P m)"
  by (simp add: bm_sorted_def sorted_wrt_map sorted_wrt_filter)

lemma bm_sorted_remove: "bm_sorted m \<Longrightarrow> bm_sorted (bm_remove k m)"
  by (induction m) (auto simp: bm_sorted_def bm_remove_def)

lemma bm_sorted_extend: "bm_sorted m \<Longrightarrow> bm_sorted (bm_extend kvs m)"
  unfolding bm_extend_def by (induction kvs arbitrary: m) (auto simp: case_prod_unfold)

lemma bm_sorted_distinct: "bm_sorted m \<Longrightarrow> distinct (map fst m)"
  unfolding bm_sorted_def by (induction m) auto

lemma bm_in_set: "bm_sorted m \<Longrightarrow> (k, v) \<in> set m \<longleftrightarrow> bm_get m k = Some v"
  by (simp add: bm_get_def bm_sorted_distinct)

lemma bm_get_in_set: "bm_get m k = Some v \<Longrightarrow> (k, v) \<in> set m"
  by (simp add: bm_get_def map_of_SomeD)

lemma bm_get_value: "bm_get m k = Some v \<Longrightarrow> v \<in> set (bm_values m)"
  by (force simp: bm_values_def dest: bm_get_in_set)

lemma bm_value_get: "bm_sorted m \<Longrightarrow> v \<in> set (bm_values m) \<Longrightarrow> \<exists>k. bm_get m k = Some v"
  by (auto simp: bm_values_def bm_in_set)

lemma set_bm_insert:
  assumes "bm_sorted m"
  shows "set (bm_insert k v m) = insert (k, v) {p \<in> set m. fst p \<noteq> k}"
proof -
  have "x \<in> set (bm_insert k v m) \<longleftrightarrow> x = (k, v) \<or> (x \<in> set m \<and> fst x \<noteq> k)" for x
    using assms bm_in_set [of "bm_insert k v m" "fst x" "snd x"] bm_in_set [of m "fst x" "snd x"]
    by (cases x) (auto simp: map_simps split: if_splits)
  then show ?thesis by blast
qed

text \<open>Sorted lists with the same lookups are the same list.\<close>

lemma bm_from_keys:
  assumes "bm_sorted m"
  shows "m = map (\<lambda>k. (k, the (bm_get m k))) (map fst m)"
proof -
  have "(fst p, the (bm_get m (fst p))) = p" if "p \<in> set m" for p
    using that bm_in_set [OF assms, of "fst p" "snd p"] by auto
  then show ?thesis
    by (simp add: map_idI o_def)
qed

lemma bm_ext:
  assumes "bm_sorted m" and "bm_sorted n" and "\<And>k. bm_get m k = bm_get n k"
  shows "m = n"
proof -
  have "k \<in> set (map fst m) \<longleftrightarrow> k \<in> set (map fst n)" for k
    using assms(3) [of k] by (metis bm_contains_def bm_contains_iff)
  then have "map fst m = map fst n"
    using assms(1,2) unfolding bm_sorted_def by (intro strict_sorted_equal) auto
  moreover have "bm_get m = bm_get n" using assms(3) by auto
  ultimately show ?thesis
    using bm_from_keys [OF assms(1)] bm_from_keys [OF assms(2)] by metis
qed

lemma bm_extend_self:
  assumes "bm_sorted m"
  shows "bm_extend m [] = m"
proof (rule bm_ext)
  show "bm_sorted (bm_extend m [])" by (simp add: bm_sorted_extend)
  have "map_of (rev m) = map_of m"
    using bm_sorted_distinct [OF assms] by (subst map_of_inject_set) (auto simp: rev_map [symmetric])
  then show "bm_get (bm_extend m []) k = bm_get m k" for k
    unfolding bm_get_extend by (simp add: bm_get_def split: option.splits)
qed (rule assms)

text \<open>Rebuilding a table from the records of a map whose keys are a field of the record.\<close>

lemma bm_extend_values:
  assumes "bm_sorted m" and "\<forall>(k, v) \<in> set m. key v = k"
  shows "bm_extend (map (\<lambda>v. (key v, v)) (bm_values m)) [] = m"
proof -
  have "map (\<lambda>v. (key v, v)) (bm_values m) = m"
    using assms(2) by (auto simp: bm_values_def intro!: map_idI)
  then show ?thesis using bm_extend_self [OF assms(1)] by simp
qed

lemma length_bm_insert:
  "bm_sorted m \<Longrightarrow> length (bm_insert k v m) = (if bm_contains m k then length m else Suc (length m))"
proof (induction m)
  case (Cons p m)
  obtain k' v' where p: "p = (k', v')" by (cases p)
  have "k < k' \<Longrightarrow> \<not> bm_contains (p # m) k"
    using Cons.prems p by (auto simp: bm_contains_def bm_sorted_Cons simp del: set_map)
  then show ?case
    using Cons p by (auto simp: bm_contains_def bm_sorted_Cons)
qed (simp add: bm_contains_def)

subsection \<open>Mapping over the values, and appending a last entry\<close>

definition bm_map :: "('v \<Rightarrow> 'w) \<Rightarrow> ('k, 'v) bmap \<Rightarrow> ('k, 'w) bmap" where
  "bm_map f m = map (\<lambda>(k, v). (k, f v)) m"

lemma bm_map_insert: "bm_insert k (f v) (bm_map f m) = bm_map f (bm_insert k v m)"
  unfolding bm_map_def by (induction k v m rule: bm_insert.induct) auto

lemma bm_get_map [map_simps]: "bm_get (bm_map f m) k = map_option f (bm_get m k)"
  by (induction m) (auto simp: bm_map_def bm_get_def)

lemma bm_values_map [simp]: "bm_values (bm_map f m) = map f (bm_values m)"
  by (simp add: bm_map_def bm_values_def case_prod_unfold)

lemma bm_map_Nil [simp]: "bm_map f [] = []"
  by (simp add: bm_map_def)

lemma length_bm_map [simp]: "length (bm_map f m) = length m"
  by (simp add: bm_map_def)

lemma bm_sorted_map [simp]: "bm_sorted (bm_map f m) = bm_sorted m"
  by (simp add: bm_map_def bm_sorted_def case_prod_unfold o_def)

text \<open>A table rebuilt from the records of a map whose keys are a field of the record.\<close>

lemma bm_extend_fields:
  assumes "bm_sorted m" and "\<forall>(k, v) \<in> set m. key v = k"
  shows "bm_extend (map (\<lambda>v. (key v, f v)) (bm_values m)) [] = bm_map f m"
proof -
  have "map (\<lambda>v. (key v, f v)) (bm_values m) = bm_map f m"
    using assms(2) by (auto simp: bm_values_def bm_map_def)
  then show ?thesis using bm_extend_self [of "bm_map f m"] assms(1) by simp
qed

lemma bm_insert_last: "\<forall>k' \<in> set (map fst m). k' < k \<Longrightarrow> bm_insert k v m = m @ [(k, v)]"
  by (induction m) auto

text \<open>A log: rows numbered from zero.\<close>

definition bm_log :: "'v list \<Rightarrow> (nat, 'v) bmap" where
  "bm_log xs = zip [0..<length xs] xs"

lemma bm_log_Nil [simp]: "bm_log [] = []"
  by (simp add: bm_log_def)

lemma bm_values_log [simp]: "bm_values (bm_log xs) = xs"
  by (simp add: bm_log_def bm_values_def)

lemma bm_last_log:
  "bm_last (bm_log xs) = (if xs = [] then None else Some (length xs - 1, last xs))"
proof (cases "xs = []")
  case False
  then have "last (zip [0..<length xs] xs) = (length xs - 1, last xs)"
    by (simp add: last_zip)
  with False show ?thesis
    by (force simp: bm_last_def bm_log_def)
qed (simp add: bm_last_def)

lemma bm_log_append: "bm_insert (length xs) x (bm_log xs) = bm_log (xs @ [x])"
  by (subst bm_insert_last) (auto simp: bm_log_def set_zip)

end
