(* ===== verification/Fed_Core.thy ===== *)
theory Fed_Core
  imports Rust_Str BTree_Map
begin

text \<open>
  \<open>crates/federate-core/src/lib.rs\<close>: the error type every crate returns, its rendering, and
  the canonical JSON that every signature covers; and the record \<open>deps\<close> of the third-party
  functions the crates call, which the development takes as a parameter.
\<close>

subsection \<open>Errors\<close>

text \<open>
  \<open>Io\<close> and \<open>Serde\<close> wrap errors of the standard library and of \<open>serde_json\<close>; only that
  they happened is kept.
\<close>

datatype federate_error =
    NotFederateDomain string
  | UnknownTld string
  | DomainNotFound string
  | PathNotFound string
  | ManifestNotFound string
  | BlockNotFound string
  | HashMismatch string string
  | RootUnavailable
  | InvalidRoot string
  | InvalidTldName string string
  | BlockedTld string string
  | ReservedTld string string
  | TldNotFound string
  | TldUnavailable string string
  | DelegatedRegistryUnavailable string string
  | VerificationFailed string string string
  | InvalidSignature
  | Unauthorized string
  | Replay string
  | MutationRejected string
  | StorageError string
  | NetworkError string
  | Io
  | Serde

type_synonym 'a result = "federate_error + 'a"

fun error_display :: "federate_error \<Rightarrow> string" where
  "error_display (NotFederateDomain s) = ''not a federate domain: '' @ s"
| "error_display (UnknownTld s) = ''unknown TLD: '' @ s"
| "error_display (DomainNotFound s) = ''domain not found in root zone: '' @ s"
| "error_display (PathNotFound s) = ''path not found in manifest: '' @ s"
| "error_display (ManifestNotFound s) = ''manifest not found: '' @ s"
| "error_display (BlockNotFound s) = ''block not found: '' @ s"
| "error_display (HashMismatch e a) = ''hash mismatch: expected '' @ e @ '', got '' @ a"
| "error_display RootUnavailable = ''root zone unavailable (network down and no local cache)''"
| "error_display (InvalidRoot s) = ''invalid root zone: '' @ s"
| "error_display (InvalidTldName n r) = ''invalid TLD name '' @ [CHR 0x27] @ n @ [CHR 0x27] @ '': '' @ r"
| "error_display (BlockedTld t r) = ''TLD '' @ [CHR 0x27] @ t @ [CHR 0x27] @ '' is blocked: '' @ r"
| "error_display (ReservedTld t r) = ''TLD '' @ [CHR 0x27] @ t @ [CHR 0x27] @ '' is reserved: '' @ r"
| "error_display (TldNotFound t) =
     ''TLD '' @ [CHR 0x27] @ t @ [CHR 0x27] @ '' not found in Federate root registry''"
| "error_display (TldUnavailable t st) =
     ''TLD '' @ [CHR 0x27] @ t @ [CHR 0x27] @ '' is not resolvable (status: '' @ st @ '')''"
| "error_display (DelegatedRegistryUnavailable t r) =
     ''delegated registry for TLD '' @ [CHR 0x27] @ t @ [CHR 0x27] @ '' unavailable: '' @ r"
| "error_display (VerificationFailed l s r) =
     ''verification failed at '' @ l @ '' layer for '' @ [CHR 0x27] @ s @ [CHR 0x27] @ '': '' @ r"
| "error_display InvalidSignature = ''invalid signature''"
| "error_display (Unauthorized s) = ''unauthorized: '' @ s"
| "error_display (Replay s) = ''replay rejected: '' @ s"
| "error_display (MutationRejected s) = ''mutation rejected: '' @ s"
| "error_display (StorageError s) = ''storage error: '' @ s"
| "error_display (NetworkError s) = ''network error: '' @ s"
| "error_display Io = ''io error: ''"
| "error_display Serde = ''serialization error: ''"

subsection \<open>JSON values\<close>

text \<open>\<open>serde_json::Value\<close>. Objects are ordered maps; a float is its 64-bit pattern.\<close>

datatype json_number = PosInt nat | NegInt int | Float "64 word"

datatype json =
    JNull
  | JBool bool
  | JNumber json_number
  | JString string
  | JArray "json list"
  | JObject "(string \<times> json) list"

fun scalar :: "json \<Rightarrow> bool" where
  "scalar (JArray xs) = False"
| "scalar (JObject m) = False"
| "scalar _ = True"

text \<open>The values \<open>serde_json\<close> can hold: finite floats, 64-bit integers, sorted objects.\<close>

definition float_finite :: "64 word \<Rightarrow> bool" where
  "float_finite w \<longleftrightarrow> (unat w div 2 ^ 52) mod 2048 \<noteq> 2047"

fun number_wf :: "json_number \<Rightarrow> bool" where
  "number_wf (PosInt n) = (n \<le> u64_max)"
| "number_wf (NegInt i) = (- 9223372036854775808 \<le> i \<and> i < 0)"
| "number_wf (Float w) = float_finite w"

fun json_wf :: "json \<Rightarrow> bool" where
  "json_wf (JNumber n) = number_wf n"
| "json_wf (JArray xs) = (\<forall>x \<in> set xs. json_wf x)"
| "json_wf (JObject m) = (bm_sorted m \<and> (\<forall>p \<in> set m. json_wf (snd p)))"
| "json_wf _ = True"

subsection \<open>Third-party code\<close>

text \<open>
  What the crates call and this repository does not contain: \<open>serde_json\<close>'s printing of a
  scalar, the \<open>hex\<close> crate, BLAKE3 (\<open>to_hex\<close> of the digest), Ed25519
  (\<open>VerifyingKey::from_bytes\<close>, \<open>verify\<close>, \<open>sign\<close>, the public half of a signing key) and
  \<open>chrono\<close>'s RFC 3339 reader and writer; an instant is its nanoseconds since the epoch.
\<close>

record deps =
  x_json_scalar :: "json \<Rightarrow> bytes"
  x_hex_encode :: "bytes \<Rightarrow> string"
  x_hex_decode :: "string \<Rightarrow> bytes option"
  x_blake3_hex :: "bytes \<Rightarrow> string"
  x_vk_from_bytes :: "bytes \<Rightarrow> bool"
  x_ed_verify :: "bytes \<Rightarrow> bytes \<Rightarrow> bytes \<Rightarrow> bool"
  x_ed_sign :: "bytes \<Rightarrow> bytes \<Rightarrow> bytes"
  x_ed_public :: "bytes \<Rightarrow> bytes"
  x_parse_rfc3339 :: "string \<Rightarrow> int option"
  x_to_rfc3339 :: "int \<Rightarrow> string"

text \<open>\<open>DateTime::timestamp\<close>: whole seconds, rounded towards minus infinity.\<close>

definition timestamp :: "int \<Rightarrow> int" where
  "timestamp t = t div 1000000000"

subsection \<open>Canonical JSON\<close>

abbreviation byte_of_char :: "char \<Rightarrow> byte" where
  "byte_of_char c \<equiv> of_nat (code c)"

text \<open>The loop of \<open>write_canonical\<close> over already written items: a comma before all but the first.\<close>

fun comma_separated :: "bytes list \<Rightarrow> bytes" where
  "comma_separated [] = []"
| "comma_separated [x] = x"
| "comma_separated (x # y # ys) = x @ [44] @ comma_separated (y # ys)"

fun write_canonical :: "'x deps_scheme \<Rightarrow> json \<Rightarrow> bytes" where
  "write_canonical E (JObject m) =
     (let entries = sort_key fst (map (\<lambda>p. (fst p, write_canonical E (snd p))) m)
      in [123] @ comma_separated (map (\<lambda>(k, b). x_json_scalar E (JString k) @ [58] @ b) entries)
         @ [125])"
| "write_canonical E (JArray items) =
     [91] @ comma_separated (map (write_canonical E) items) @ [93]"
| "write_canonical E other = x_json_scalar E other"

text \<open>\<open>canonical_bytes\<close>; the value is what \<open>serde_json::to_value\<close> makes of the record.\<close>

definition canonical_bytes :: "'x deps_scheme \<Rightarrow> json \<Rightarrow> bytes" where
  "canonical_bytes E v = write_canonical E v"

text \<open>An object as \<open>to_value\<close> builds it from the fields of a struct, in declaration order.\<close>

definition json_obj :: "(string \<times> json) list \<Rightarrow> json" where
  "json_obj fs = JObject (bm_extend fs [])"

definition json_field :: "string \<Rightarrow> json \<Rightarrow> (string \<times> json) list" where
  "json_field k v = [(k, v)]"

text \<open>A field with \<open>skip_serializing_if = "Option::is_none"\<close>, and one without.\<close>

definition json_opt :: "string \<Rightarrow> ('a \<Rightarrow> json) \<Rightarrow> 'a option \<Rightarrow> (string \<times> json) list" where
  "json_opt k f x = (case x of None \<Rightarrow> [] | Some y \<Rightarrow> [(k, f y)])"

text \<open>A \<open>Vec<String>\<close> with \<open>skip_serializing_if = "Vec::is_empty"\<close>.\<close>

definition json_vec :: "string \<Rightarrow> string list \<Rightarrow> (string \<times> json) list" where
  "json_vec k xs = (if xs = [] then [] else [(k, JArray (map JString xs))])"

definition json_nullable :: "('a \<Rightarrow> json) \<Rightarrow> 'a option \<Rightarrow> json" where
  "json_nullable f x = (case x of None \<Rightarrow> JNull | Some y \<Rightarrow> f y)"

abbreviation json_nat :: "nat \<Rightarrow> json" where
  "json_nat n \<equiv> JNumber (PosInt n)"

text \<open>A \<open>BTreeMap<String, T>\<close>.\<close>

definition json_map :: "('a \<Rightarrow> json) \<Rightarrow> (string, 'a) bmap \<Rightarrow> json" where
  "json_map f m = json_obj (map (\<lambda>(k, v). (k, f v)) m)"

subsection \<open>Canonical JSON determines the value\<close>

text \<open>
  What JSON promises about the scalars \<open>serde_json\<close> prints: followed by a delimiter (a comma, a
  colon, a closing bracket or brace) or by nothing, a printed scalar can be read back in one way
  only, and none begins with a bracket or a brace.
\<close>

definition delimited :: "bytes \<Rightarrow> bool" where
  "delimited r \<longleftrightarrow> (case r of [] \<Rightarrow> True | b # _ \<Rightarrow> b \<in> {44, 58, 93, 125})"

definition json_scalar_ok :: "'x deps_scheme \<Rightarrow> bool" where
  "json_scalar_ok E \<longleftrightarrow>
     (\<forall>s t r q. scalar s \<longrightarrow> scalar t \<longrightarrow> json_wf s \<longrightarrow> json_wf t \<longrightarrow> delimited r \<longrightarrow> delimited q \<longrightarrow>
        x_json_scalar E s @ r = x_json_scalar E t @ q \<longrightarrow> s = t \<and> r = q) \<and>
     (\<forall>s. scalar s \<longrightarrow>
        (\<exists>b bs. x_json_scalar E s = b # bs \<and> b \<notin> {91, 93, 123, 125}))"

lemma json_scalar_unambiguous:
  assumes "json_scalar_ok E" "scalar s" "scalar t" "json_wf s" "json_wf t"
    "delimited r" "delimited q" "x_json_scalar E s @ r = x_json_scalar E t @ q"
  shows "s = t \<and> r = q"
  using assms unfolding json_scalar_ok_def by blast

lemma json_scalar_head:
  assumes "json_scalar_ok E" "scalar s"
  obtains b bs where "x_json_scalar E s = b # bs" "b \<notin> {91, 93, 123, 125}"
  using assms unfolding json_scalar_ok_def by blast

lemma write_canonical_scalar: "scalar v \<Longrightarrow> write_canonical E v = x_json_scalar E v"
  by (cases v) auto

text \<open>On a sorted object the sort is the identity.\<close>

lemma sort_key_bm_sorted:
  "bm_sorted m \<Longrightarrow> sort_key fst (map (\<lambda>p. (fst p, f (snd p))) m) = map (\<lambda>p. (fst p, f (snd p))) m"
  by (intro sort_key_id_if_sorted)
     (auto simp: bm_sorted_def sorted_wrt_map o_def intro: sorted_wrt_mono_rel [rotated])

fun write_entry :: "'x deps_scheme \<Rightarrow> string \<times> json \<Rightarrow> bytes" where
  "write_entry E (k, v) = x_json_scalar E (JString k) @ [58] @ write_canonical E v"

lemma write_canonical_object:
  "bm_sorted m \<Longrightarrow>
     write_canonical E (JObject m) = [123] @ comma_separated (map (write_entry E) m) @ [125]"
  by (simp add: sort_key_bm_sorted o_def case_prod_unfold Let_def)
     (rule arg_cong [where f = comma_separated], auto)

declare write_canonical.simps(1) [simp del]

lemma comma_separated_Cons:
  "comma_separated (x # xs) = x @ (if xs = [] then [] else 44 # comma_separated xs)"
  by (cases xs) auto


lemma write_canonical_head:
  assumes "json_scalar_ok E" "json_wf v"
  shows "\<exists>b bs. write_canonical E v = b # bs \<and> b \<noteq> 93 \<and> b \<noteq> 125"
proof (cases "scalar v")
  case True
  with assms(1) obtain b bs where "x_json_scalar E v = b # bs" "b \<notin> {91, 93, 123, 125}"
    by (rule json_scalar_head)
  with True show ?thesis by (simp add: write_canonical_scalar)
next
  case False
  then show ?thesis
    using assms(2) by (cases v) (auto simp: write_canonical_object)
qed

lemma write_entry_head:
  assumes "json_scalar_ok E"
  shows "\<exists>b bs. write_entry E p = b # bs \<and> b \<noteq> 93 \<and> b \<noteq> 125"
proof -
  have "scalar (JString (fst p))" by simp
  with assms obtain b bs where "x_json_scalar E (JString (fst p)) = b # bs" "b \<notin> {91, 93, 123, 125}"
    by (rule json_scalar_head)
  then show ?thesis by (cases p) simp
qed

lemma scalar_prefix_free:
  assumes E: "json_scalar_ok E" and v: "scalar v" and wf: "json_wf v" "json_wf w"
    and d: "delimited r" "delimited q"
    and eq: "write_canonical E v @ r = write_canonical E w @ q"
  shows "v = w \<and> r = q"
proof (cases "scalar w")
  case True
  with assms show ?thesis
    by (intro json_scalar_unambiguous [OF E]) (simp_all add: write_canonical_scalar)
next
  case False
  obtain b bs where "x_json_scalar E v = b # bs" "b \<notin> {91, 93, 123, 125}"
    using E v by (rule json_scalar_head)
  with False v wf eq show ?thesis
    by (cases w) (auto simp: write_canonical_scalar write_canonical_object)
qed

text \<open>
  A comma separated body is uniquely readable when each item is, in any context that begins
  with a delimiter or ends.
\<close>

lemma comma_separated_unambiguous:
  assumes item: "\<And>x y r q. x \<in> set xs \<Longrightarrow> y \<in> set ys \<Longrightarrow> delimited r \<Longrightarrow> delimited q \<Longrightarrow>
        enc x @ r = enc y @ q \<Longrightarrow> x = y \<and> r = q"
    and head: "\<And>x. x \<in> set xs \<union> set ys \<Longrightarrow> \<exists>b bs. enc x = b # bs \<and> b \<noteq> close"
    and close: "close = 93 \<or> close = 125"
    and eq: "comma_separated (map enc xs) @ close # r = comma_separated (map enc ys) @ close # q"
  shows "xs = ys \<and> r = q"
  using assms
proof (induction xs arbitrary: ys)
  case Nil
  show ?case
  proof (cases ys)
    case Nil
    with Nil.prems(4) show ?thesis by simp
  next
    case (Cons y ys')
    with Nil.prems(2) [of y] Nil.prems(4) show ?thesis
      by (auto simp: comma_separated_Cons)
  qed
next
  case (Cons x xs)
  show ?case
  proof (cases ys)
    case Nil
    with Cons.prems(2) [of x] Cons.prems(4) show ?thesis
      by (auto simp: comma_separated_Cons)
  next
    case (Cons y ys')
    define R where "R zs t = (if zs = [] then close # t else 44 # comma_separated (map enc zs) @ close # t)"
      for zs t
    have d: "delimited (R zs t)" for zs t
      using Cons.prems(3) by (auto simp: R_def delimited_def)
    have "enc x @ R xs r = enc y @ R ys' q"
      using Cons.prems(4) Cons by (auto simp: R_def comma_separated_Cons)
    with Cons.prems(1) [of x y] Cons d have xy: "x = y" and R: "R xs r = R ys' q"
      by auto
    from R Cons.prems(3) have empty: "xs = [] \<longleftrightarrow> ys' = []"
      by (auto simp: R_def split: if_splits)
    show ?thesis
    proof (cases "xs = []")
      case True
      with empty R xy Cons show ?thesis by (simp add: R_def)
    next
      case False
      with empty R have "comma_separated (map enc xs) @ close # r = comma_separated (map enc ys') @ close # q"
        by (simp add: R_def)
      moreover have "\<And>u v r q. u \<in> set xs \<Longrightarrow> v \<in> set ys' \<Longrightarrow> delimited r \<Longrightarrow> delimited q \<Longrightarrow>
          enc u @ r = enc v @ q \<Longrightarrow> u = v \<and> r = q"
        using Cons.prems(1) Cons by auto
      moreover have "\<And>u. u \<in> set xs \<union> set ys' \<Longrightarrow> \<exists>b bs. enc u = b # bs \<and> b \<noteq> close"
        using Cons.prems(2) Cons by auto
      ultimately have "xs = ys' \<and> r = q"
        using Cons.IH Cons.prems(3) by blast
      with xy Cons show ?thesis by simp
    qed
  qed
qed

lemma write_canonical_prefix_free:
  assumes E: "json_scalar_ok E"
  shows "json_wf v \<Longrightarrow> json_wf w \<Longrightarrow> delimited r \<Longrightarrow> delimited q \<Longrightarrow>
     write_canonical E v @ r = write_canonical E w @ q \<Longrightarrow> v = w \<and> r = q"
proof (induction v arbitrary: w r q)
  case (JArray xs)
  show ?case
  proof (cases w)
    case (JArray ys)
    have "comma_separated (map (write_canonical E) xs) @ 93 # r
        = comma_separated (map (write_canonical E) ys) @ 93 # q"
      using JArray.prems(5) JArray by simp
    moreover have "\<And>x y r q. x \<in> set xs \<Longrightarrow> y \<in> set ys \<Longrightarrow> delimited r \<Longrightarrow> delimited q \<Longrightarrow>
        write_canonical E x @ r = write_canonical E y @ q \<Longrightarrow> x = y \<and> r = q"
      using JArray.IH JArray.prems JArray by auto
    moreover have "\<And>x. x \<in> set xs \<union> set ys \<Longrightarrow> \<exists>b bs. write_canonical E x = b # bs \<and> b \<noteq> 93"
      using JArray.prems(1,2) JArray write_canonical_head [OF E] by (metis Un_iff json_wf.simps(2))
    ultimately have "xs = ys \<and> r = q"
      by (intro comma_separated_unambiguous) auto
    with JArray show ?thesis by simp
  next
    case (JObject m)
    with JArray.prems show ?thesis by (simp add: write_canonical_object)
  qed (use scalar_prefix_free [OF E, of w] JArray.prems in \<open>metis scalar.simps\<close>)+
next
  case (JObject m)
  show ?case
  proof (cases w)
    case (JObject n)
    have sorted: "bm_sorted m" "bm_sorted n"
      using JObject.prems JObject by auto
    have "comma_separated (map (write_entry E) m) @ 125 # r
        = comma_separated (map (write_entry E) n) @ 125 # q"
      using JObject.prems(5) JObject sorted by (simp add: write_canonical_object)
    moreover have "\<And>x y r q. x \<in> set m \<Longrightarrow> y \<in> set n \<Longrightarrow> delimited r \<Longrightarrow> delimited q \<Longrightarrow>
        write_entry E x @ r = write_entry E y @ q \<Longrightarrow> x = y \<and> r = q"
    proof -
      fix x y :: "string \<times> json" and r q
      assume xy: "x \<in> set m" "y \<in> set n" and d: "delimited r" "delimited q"
        and eq: "write_entry E x @ r = write_entry E y @ q"
      obtain k v l u where [simp]: "x = (k, v)" "y = (l, u)" by (cases x; cases y)
      have "JString k = JString l \<and> 58 # write_canonical E v @ r = 58 # write_canonical E u @ q"
        using eq by (intro json_scalar_unambiguous [OF E]) (auto simp: delimited_def)
      moreover have "json_wf v" "json_wf u"
        using JObject.prems(1,2) JObject xy by auto
      ultimately show "x = y \<and> r = q"
        using JObject.IH [of x v u r q] xy d by auto
    qed
    moreover have "\<And>x. x \<in> set m \<union> set n \<Longrightarrow> \<exists>b bs. write_entry E x = b # bs \<and> b \<noteq> 125"
      using write_entry_head [OF E] by metis
    ultimately have "m = n \<and> r = q"
      by (intro comma_separated_unambiguous) auto
    with JObject show ?thesis by simp
  next
    case (JArray ys)
    with JObject.prems show ?thesis by (simp add: write_canonical_object)
  qed (use scalar_prefix_free [OF E, of w] JObject.prems in \<open>metis scalar.simps\<close>)+
qed (rule scalar_prefix_free [OF E]; (assumption | simp))+


lemma canonical_bytes_eqD:
  assumes "json_scalar_ok E" and "json_wf v" and "json_wf w"
    and "canonical_bytes E v = canonical_bytes E w"
  shows "v = w"
  using write_canonical_prefix_free [OF assms(1-3), of "[]" "[]"] assms(4)
  by (simp add: canonical_bytes_def delimited_def)

text \<open>
  C20: Equal canonical bytes come from equal JSON values: whatever is signed, the signature
  covers every key and every value of it, at every nesting level.
\<close>

theorem canonical_bytes_injective:
  assumes "json_scalar_ok E" and "json_wf v" and "json_wf w"
    and "canonical_bytes E v = canonical_bytes E w"
  shows "v = w"
  using assms by (rule canonical_bytes_eqD)

lemma bm_get_extend_Nil: "bm_get (bm_extend kvs []) k = map_of (rev kvs) k"
  by (simp add: bm_get_extend split: option.splits)

lemma json_obj_eq_iff: "json_obj fs = json_obj gs \<longleftrightarrow> (\<forall>k. map_of (rev fs) k = map_of (rev gs) k)"
proof
  assume "json_obj fs = json_obj gs"
  then show "\<forall>k. map_of (rev fs) k = map_of (rev gs) k"
    by (simp add: json_obj_def flip: bm_get_extend_Nil)
next
  assume "\<forall>k. map_of (rev fs) k = map_of (rev gs) k"
  then have "bm_extend fs [] = bm_extend gs []"
    by (intro bm_ext) (simp_all add: bm_sorted_extend bm_get_extend_Nil)
  then show "json_obj fs = json_obj gs" by (simp add: json_obj_def)
qed

lemma set_bm_extend_subset: "set (bm_extend kvs m) \<subseteq> set kvs \<union> set m"
proof -
  have ins: "set (bm_insert k v m) \<subseteq> insert (k, v) (set m)" for k v and m :: "('a \<times> 'b) list"
    by (induction k v m rule: bm_insert.induct) auto
  show ?thesis
    unfolding bm_extend_def
  proof (induction kvs arbitrary: m)
    case (Cons p kvs)
    then show ?case using ins [of "fst p" "snd p" m] by (fastforce simp: case_prod_unfold)
  qed simp
qed

lemma json_wf_obj: "(\<forall>p \<in> set fs. json_wf (snd p)) \<Longrightarrow> json_wf (json_obj fs)"
  using set_bm_extend_subset [of fs "[]"] by (auto simp: json_obj_def bm_sorted_extend)

lemma json_map_inj:
  assumes eq: "json_map f m = json_map f n" and sorted: "bm_sorted m" "bm_sorted n"
    and inj: "inj_on f (set (bm_values m) \<union> set (bm_values n))"
  shows "m = n"
proof -
  let ?g = "\<lambda>(k :: string, v). (k, f v)"
  have "bm_extend (map ?g l) [] = map ?g l" if "bm_sorted l" for l
    using that by (intro bm_extend_self) (simp add: bm_sorted_def o_def case_prod_unfold)
  with eq sorted have "map ?g m = map ?g n"
    by (simp add: json_map_def json_obj_def)
  moreover have "inj_on ?g (set m \<union> set n)"
  proof (rule inj_onI)
    fix p q assume p: "p \<in> set m \<union> set n" and q: "q \<in> set m \<union> set n" and "?g p = ?g q"
    then have "fst p = fst q" and "f (snd p) = f (snd q)" by (simp_all split: prod.splits)
    moreover from p have "snd p \<in> set (bm_values m) \<union> set (bm_values n)"
      by (auto simp: bm_values_def)
    moreover from q have "snd q \<in> set (bm_values m) \<union> set (bm_values n)"
      by (auto simp: bm_values_def)
    ultimately show "p = q" using inj_onD [OF inj] by (simp add: prod_eq_iff)
  qed
  ultimately show ?thesis by (rule map_inj_on)
qed

text \<open>Reading an object built from fields, one key at a time.\<close>

lemma json_obj_field: "json_obj fs = json_obj gs \<Longrightarrow> map_of (rev fs) k = map_of (rev gs) k"
  by (simp add: json_obj_eq_iff)

lemma rev_json_field: "rev (json_field k v) = json_field k v"
  by (simp add: json_field_def)

lemma rev_json_opt: "rev (json_opt k f x) = json_opt k f x"
  by (simp add: json_opt_def split: option.splits)

lemma json_field_get: "map_of (json_field k v @ r) j = (if j = k then Some v else map_of r j)"
  by (simp add: json_field_def)

lemma json_opt_get:
  "map_of (json_opt k f x @ r) j = (if j = k \<and> x \<noteq> None then map_option f x else map_of r j)"
  by (auto simp: json_opt_def split: option.splits)

lemma rev_json_vec: "rev (json_vec k xs) = json_vec k xs"
  by (simp add: json_vec_def)

lemma json_vec_get:
  "map_of (json_vec k xs @ r) j =
     (if j = k \<and> xs \<noteq> [] then Some (JArray (map JString xs)) else map_of r j)"
  by (simp add: json_vec_def)

lemma json_field_get_last: "map_of (json_field k v) j = (if j = k then Some v else None)"
  by (simp add: json_field_def)

lemma json_opt_get_last: "map_of (json_opt k f x) j = (if j = k then map_option f x else None)"
  by (auto simp: json_opt_def split: option.splits)

lemmas json_get_simps =
  rev_append rev_json_field rev_json_opt rev_json_vec json_field_get json_opt_get json_vec_get
  json_field_get_last
  json_opt_get_last append_assoc

lemma json_nullable_inj:
  assumes "json_nullable f x = json_nullable f y" and "\<And>a. f a \<noteq> JNull"
    and "\<And>a b. f a = f b \<Longrightarrow> a = b"
  shows "x = y"
  using assms(1) assms(2) [symmetric] assms(2,3)
  by (auto simp: json_nullable_def split: option.splits)

lemma json_wf_field: "p \<in> set (json_field k v) \<Longrightarrow> json_wf v \<Longrightarrow> json_wf (snd p)"
  by (simp add: json_field_def)

lemma json_wf_fields [simp]:
  "(\<forall>p \<in> set (json_field k v). json_wf (snd p)) \<longleftrightarrow> json_wf v"
  "(\<forall>p \<in> set (json_opt k f x). json_wf (snd p)) \<longleftrightarrow> (\<forall>y \<in> set_option x. json_wf (f y))"
  "\<forall>p \<in> set (json_vec l xs). json_wf (snd p)"
  by (auto simp: json_field_def json_opt_def json_vec_def split: option.splits)

lemma json_wf_nullable [simp]:
  "json_wf (json_nullable f x) \<longleftrightarrow> (\<forall>y \<in> set_option x. json_wf (f y))"
  by (auto simp: json_nullable_def split: option.splits)

lemma json_wf_obj_append:
  "(\<forall>p \<in> set (fs @ gs). json_wf (snd p)) \<longleftrightarrow>
     (\<forall>p \<in> set fs. json_wf (snd p)) \<and> (\<forall>p \<in> set gs. json_wf (snd p))"
  by auto

lemma json_wf_map: "\<forall>v \<in> set (bm_values m). json_wf (f v) \<Longrightarrow> json_wf (json_map f m)"
  unfolding json_map_def by (rule json_wf_obj) (auto simp: bm_values_def)

lemmas json_wf_simps = json_wf_obj_append json_wf_fields json_wf_nullable

end
