(* ===== verification/Sample_Deps.thy ===== *)
theory Sample_Deps
  imports Fed_Core
begin

text \<open>
  One concrete, executable instance of the third-party parameter \<open>deps\<close>, on which the witness
  theorems evaluate the model: lower-case hexadecimal, a toy digest and a toy signature scheme
  (a signature repeats a checksum of key and message), decimal whole seconds as timestamps, and a
  scalar printer with escaped strings. It satisfies the documented behaviour the properties
  assume; the lemmas below prove that.
\<close>

definition hex_digit :: "nat \<Rightarrow> char" where
  "hex_digit n = (if n < 10 then char_of (48 + n) else char_of (87 + n))"

definition hex_value :: "char \<Rightarrow> nat option" where
  "hex_value c =
     (if 48 \<le> code c \<and> code c \<le> 57 then Some (code c - 48)
      else if 97 \<le> code c \<and> code c \<le> 102 then Some (code c - 87)
      else if 65 \<le> code c \<and> code c \<le> 70 then Some (code c - 55) else None)"

fun sample_hex_encode :: "bytes \<Rightarrow> string" where
  "sample_hex_encode [] = []"
| "sample_hex_encode (b # bs) =
     hex_digit (unat b div 16) # hex_digit (unat b mod 16) # sample_hex_encode bs"

fun sample_hex_decode :: "string \<Rightarrow> bytes option" where
  "sample_hex_decode [] = Some []"
| "sample_hex_decode [c] = None"
| "sample_hex_decode (c # d # s) =
     (case (hex_value c, hex_value d, sample_hex_decode s) of
        (Some h, Some l, Some bs) \<Rightarrow> Some (of_nat (16 * h + l) # bs)
      | _ \<Rightarrow> None)"

definition checksum :: "bytes \<Rightarrow> byte" where
  "checksum bs = foldl (\<lambda>a b. 31 * a + b + 7) 1 bs"

definition sample_digest :: "bytes \<Rightarrow> string" where
  "sample_digest bs = sample_hex_encode (replicate 32 (checksum bs))"

definition sample_sign :: "bytes \<Rightarrow> bytes \<Rightarrow> bytes" where
  "sample_sign sk m = replicate 64 (checksum (sk @ m))"

definition sample_parse_time :: "string \<Rightarrow> int option" where
  "sample_parse_time s =
     (if s = [] then None else map_option (\<lambda>n. int n * 1000000000) (read_nat s 0))"

definition sample_show_time :: "int \<Rightarrow> string" where
  "sample_show_time t = show_nat (nat (timestamp t))"

fun escape :: "string \<Rightarrow> bytes" where
  "escape [] = [34]"
| "escape (c # s) = 46 # byte_of_char c # escape s"

fun sample_scalar :: "json \<Rightarrow> bytes" where
  "sample_scalar JNull = [110]"
| "sample_scalar (JBool b) = (if b then [84] else [70])"
| "sample_scalar (JNumber (PosInt n)) = bytes_of_str (show_nat n)"
| "sample_scalar (JNumber (NegInt i)) = 45 # bytes_of_str (show_nat (nat (- i)))"
| "sample_scalar (JNumber (Float w)) = 102 # bytes_of_str (show_nat (unat w))"
| "sample_scalar (JString s) = 34 # escape s"
| "sample_scalar _ = [110]"

definition sample_ext :: "'x \<Rightarrow> 'x deps_scheme" where
  "sample_ext m = \<lparr>
     x_json_scalar = sample_scalar,
     x_hex_encode = sample_hex_encode,
     x_hex_decode = sample_hex_decode,
     x_blake3_hex = sample_digest,
     x_vk_from_bytes = (\<lambda>bs. length bs = 32),
     x_ed_verify = (\<lambda>pk m sig. sig = sample_sign pk m),
     x_ed_sign = sample_sign,
     x_ed_public = (\<lambda>sk. sk),
     x_parse_rfc3339 = sample_parse_time,
     x_to_rfc3339 = sample_show_time, \<dots> = m\<rparr>"

definition sample_deps :: deps where
  "sample_deps = sample_ext ()"

subsection \<open>The printer is unambiguous\<close>

definition digit_byte :: "byte \<Rightarrow> bool" where
  "digit_byte b \<longleftrightarrow> 48 \<le> unat b \<and> unat b \<le> 57"

lemma show_nat_digit_bytes: "b \<in> set (bytes_of_str (show_nat n)) \<Longrightarrow> digit_byte b"
  using show_nat_digits [of _ n]
  by (auto simp: bytes_of_str_def digit_byte_def is_ascii_digit_def unat_of_nat_byte code_lt)

lemma digits_delimited:
  assumes "\<forall>b \<in> set xs. digit_byte b" "\<forall>b \<in> set ys. digit_byte b"
    and "delimited r" "delimited q" "xs @ r = ys @ q"
  shows "xs = ys \<and> r = q"
  using assms
proof (induction xs arbitrary: ys)
  case Nil
  then show ?case
    by (cases ys) (auto simp: delimited_def digit_byte_def)
next
  case (Cons x xs)
  show ?case
  proof (cases ys)
    case Nil
    with Cons.prems show ?thesis
      by (auto simp: delimited_def digit_byte_def)
  next
    case (Cons y ys')
    with Cons.prems Cons.IH [of ys'] show ?thesis by auto
  qed
qed

lemma show_nat_delimited:
  assumes "delimited r" "delimited q"
    and "bytes_of_str (show_nat m) @ r = bytes_of_str (show_nat n) @ q"
  shows "m = n \<and> r = q"
proof -
  have "bytes_of_str (show_nat m) = bytes_of_str (show_nat n) \<and> r = q"
    using assms by (intro digits_delimited) (auto intro: show_nat_digit_bytes)
  then show ?thesis
    by (auto dest!: bytes_of_str_inj show_nat_inj)
qed

lemma escape_delimited: "escape s @ r = escape t @ q \<Longrightarrow> s = t \<and> r = q"
proof (induction s arbitrary: t)
  case Nil
  then show ?case by (cases t) auto
next
  case (Cons c s)
  then obtain d t' where t: "t = d # t'" by (cases t) auto
  with Cons.prems have "byte_of_char c = byte_of_char d" "escape s @ r = escape t' @ q" by auto
  moreover from this have "bytes_of_str [c] = bytes_of_str [d]"
    by (simp add: bytes_of_str_def)
  ultimately show ?case
    using t Cons.IH [of t'] bytes_of_str_inj [of "[c]" "[d]"] by simp
qed

lemma show_nat_head:
  obtains b bs where "bytes_of_str (show_nat n) = b # bs" "digit_byte b"
proof (cases "bytes_of_str (show_nat n)")
  case Nil
  then have "show_nat n = []" by (simp add: bytes_of_str_def)
  then show ?thesis using show_nat_nonempty by blast
next
  case (Cons b bs)
  with show_nat_digit_bytes [of b n] that show ?thesis by simp
qed

lemma sample_scalar_head:
  "scalar s \<Longrightarrow> \<exists>b bs. sample_scalar s = b # bs \<and> b \<notin> {91, 93, 123, 125}"
proof (induction s rule: sample_scalar.induct)
  case (3 n)
  obtain b bs where "bytes_of_str (show_nat n) = b # bs" "digit_byte b" by (rule show_nat_head)
  then show ?case by (auto simp: digit_byte_def)
qed auto

text \<open>The kind of a scalar, read off its first byte.\<close>

lemma pos_not_other:
  assumes "bytes_of_str (show_nat n) @ r = c # q" "c = 110 \<or> c = 84 \<or> c = 70 \<or> c = 45 \<or> c = 102 \<or> c = 34"
  shows False
proof -
  obtain b bs where "bytes_of_str (show_nat n) = b # bs" "digit_byte b" by (rule show_nat_head)
  with assms show False by (auto simp: digit_byte_def)
qed

lemma scalar_cases:
  assumes "scalar s"
  obtains "s = JNull" | b where "s = JBool b" | n where "s = JNumber (PosInt n)"
    | i where "s = JNumber (NegInt i)" | w where "s = JNumber (Float w)" | x where "s = JString x"
  using assms by (cases s; auto) (metis json_number.exhaust)

lemma sample_scalar_unambiguous:
  assumes s: "scalar s" and t: "scalar t" and wf: "json_wf s" "json_wf t"
    and d: "delimited r" "delimited q" and eq: "sample_scalar s @ r = sample_scalar t @ q"
  shows "s = t \<and> r = q"
  using s
proof (cases s rule: scalar_cases)
  case 1
  with t eq show ?thesis
    by (cases t rule: scalar_cases) (auto dest: pos_not_other [OF sym] split: if_splits)
next
  case (2 b)
  with t eq show ?thesis
    by (cases t rule: scalar_cases) (auto dest: pos_not_other [OF sym] split: if_splits)
next
  case (3 n)
  with t eq d show ?thesis
    by (cases t rule: scalar_cases)
       (auto dest: pos_not_other show_nat_delimited split: if_splits)
next
  case (4 i)
  with t eq d wf show ?thesis
    by (cases t rule: scalar_cases)
       (auto dest: pos_not_other [OF sym] dest!: show_nat_delimited [rotated 2] split: if_splits)
next
  case (5 w)
  with t eq d show ?thesis
    by (cases t rule: scalar_cases)
       (auto dest: pos_not_other [OF sym] dest!: show_nat_delimited [rotated 2]
          intro: unsigned_word_eqI split: if_splits)
next
  case (6 x)
  with t eq show ?thesis
    by (cases t rule: scalar_cases)
       (auto dest: pos_not_other [OF sym] dest!: escape_delimited split: if_splits)
qed

lemma sample_ext_scalar_ok: "json_scalar_ok (sample_ext m)"
  unfolding json_scalar_ok_def
  using sample_scalar_unambiguous sample_scalar_head by (auto simp: sample_ext_def)

lemma sample_deps_scalar_ok: "json_scalar_ok sample_deps"
  by (simp add: sample_deps_def sample_ext_scalar_ok)


theorem canonical_bytes_injective_witness:
  "json_scalar_ok sample_deps \<and> json_wf (json_obj [(''z'', json_nat 1), (''a'', json_nat 2)]) \<and>
   json_obj [(''a'', json_nat 2), (''z'', json_nat 1)] = json_obj [(''z'', json_nat 1), (''a'', json_nat 2)]"
proof -
  let ?v = "json_obj [(''a'', json_nat 2), (''z'', json_nat 1)]"
  let ?w = "json_obj [(''z'', json_nat 1), (''a'', json_nat 2)]"
  have wf: "json_wf ?v" "json_wf ?w" by code_simp+
  have "canonical_bytes sample_deps ?v = canonical_bytes sample_deps ?w" by code_simp
  with sample_deps_scalar_ok wf have "?v = ?w" by (rule canonical_bytes_injective)
  with wf(2) sample_deps_scalar_ok show ?thesis by (intro conjI)
qed

subsection \<open>Hexadecimal\<close>

lemma hex_value_digit: "n < 16 \<Longrightarrow> hex_value (hex_digit n) = Some n"
  by (auto simp: hex_value_def hex_digit_def code_char_of)

lemma sample_hex_roundtrip: "sample_hex_decode (sample_hex_encode bs) = Some bs"
proof (induction bs)
  case (Cons b bs)
  have "unat b < 256" by (rule unat_byte_lt)
  then have "unat b div 16 < 16" by simp
  moreover have "(of_nat (16 * (unat b div 16) + unat b mod 16) :: byte) = b" by simp
  ultimately show ?case using Cons by (simp add: hex_value_digit)
qed simp

lemma length_sample_hex_encode: "length (sample_hex_encode bs) = 2 * length bs"
  by (induction bs) auto

lemma hex_digit_lower: "n < 16 \<Longrightarrow> is_ascii_hexdigit (hex_digit n) \<and> \<not> is_ascii_uppercase (hex_digit n)"
  by (auto simp: hex_digit_def is_ascii_hexdigit_def is_ascii_digit_def is_ascii_uppercase_def
        code_char_of)

lemma sample_hex_digits:
  "c \<in> set (sample_hex_encode bs) \<Longrightarrow> is_ascii_hexdigit c \<and> \<not> is_ascii_uppercase c"
proof (induction bs)
  case (Cons b bs)
  have "unat b div 16 < 16" using unat_byte_lt [of b] by simp
  with Cons show ?case by (auto simp: hex_digit_lower)
qed simp

end
