(* ===== verification/Identity.thy ===== *)
theory Identity
  imports Sample_Deps
begin

text \<open>
  \<open>crates/federate-identity/src/lib.rs\<close>: Ed25519 node identities and signature checking; and the
  interface every signed record of the network shares (a payload that does not depend on the
  signature field), stated once as the locale \<open>signed_document\<close>.
\<close>

record node_identity =
  signing_key :: bytes

text \<open>
  \<open>load_or_create\<close>: what reading the key file gives if it exists, the key the generator would make,
  and whether the directory and the file could be written. The result carries the file as it is afterwards.
\<close>

definition load_or_create :: "bytes result option \<Rightarrow> bytes \<Rightarrow> bool \<Rightarrow> (node_identity \<times> bytes) result" where
  "load_or_create file generated written =
     (case file of
        Some (Inl e) \<Rightarrow> Inl e
      | Some (Inr bs) \<Rightarrow>
          (if length bs = 32 then Inr (\<lparr>signing_key = bs\<rparr>, bs)
           else Inl (InvalidRoot ''corrupt identity key''))
      | None \<Rightarrow> if written then Inr (\<lparr>signing_key = generated\<rparr>, generated) else Inl Io)"

definition node_id :: "'x deps_scheme \<Rightarrow> node_identity \<Rightarrow> string" where
  "node_id E i = x_hex_encode E (x_ed_public E (signing_key i))"

definition sign :: "'x deps_scheme \<Rightarrow> node_identity \<Rightarrow> bytes \<Rightarrow> string" where
  "sign E i message = x_hex_encode E (x_ed_sign E (signing_key i) message)"

definition verify_signature :: "'x deps_scheme \<Rightarrow> string \<Rightarrow> bytes \<Rightarrow> string \<Rightarrow> bool" where
  "verify_signature E public_key_hex message signature_hex =
     (case x_hex_decode E public_key_hex of
        None \<Rightarrow> False
      | Some pk \<Rightarrow>
          if length pk \<noteq> 32 then False
          else if \<not> x_vk_from_bytes E pk then False
          else (case x_hex_decode E signature_hex of
                  None \<Rightarrow> False
                | Some sig \<Rightarrow>
                    if length sig \<noteq> 64 then False else x_ed_verify E pk message sig))"

subsection \<open>Documented behaviour of the libraries\<close>

definition hex_ok :: "'x deps_scheme \<Rightarrow> bool" where
  "hex_ok E \<longleftrightarrow> (\<forall>bs. x_hex_decode E (x_hex_encode E bs) = Some bs)"

text \<open>Ed25519: keys and signatures have their sizes, and a signature verifies.\<close>

definition ed25519_ok :: "'x deps_scheme \<Rightarrow> bool" where
  "ed25519_ok E \<longleftrightarrow>
     (\<forall>sk m. length sk = 32 \<longrightarrow>
        length (x_ed_public E sk) = 32 \<and> x_vk_from_bytes E (x_ed_public E sk) \<and>
        length (x_ed_sign E sk m) = 64 \<and>
        x_ed_verify E (x_ed_public E sk) m (x_ed_sign E sk m))"

lemma sample_ext_hex_ok: "hex_ok (sample_ext m)"
  by (simp add: hex_ok_def sample_ext_def sample_hex_roundtrip)

lemma sample_ext_ed25519_ok: "ed25519_ok (sample_ext m)"
  by (simp add: ed25519_ok_def sample_ext_def sample_sign_def)

lemma sample_hex_ok: "hex_ok sample_deps"
  by (simp add: sample_deps_def sample_ext_hex_ok)

lemma sample_ed25519_ok: "ed25519_ok sample_deps"
  by (simp add: sample_deps_def sample_ext_ed25519_ok)

lemma verify_own_signature:
  assumes "hex_ok E" and "ed25519_ok E" and "length (signing_key i) = 32"
  shows "verify_signature E (node_id E i) m (sign E i m)"
  using assms by (simp add: verify_signature_def node_id_def sign_def hex_ok_def ed25519_ok_def)

subsection \<open>Signed documents\<close>

text \<open>The part of each record's \<open>verify\<close> that reads its optional signature.\<close>

definition signature_check :: "'x deps_scheme \<Rightarrow> string \<Rightarrow> bytes \<Rightarrow> string option \<Rightarrow> bool" where
  "signature_check E pk message sig =
     (case sig of None \<Rightarrow> False | Some s \<Rightarrow> verify_signature E pk message s)"

lemma signature_check_None [simp]: "\<not> signature_check E pk message None"
  by (simp add: signature_check_def)

lemma signature_check_Some [simp]:
  "signature_check E pk message (Some s) = verify_signature E pk message s"
  by (simp add: signature_check_def)

text \<open>
  The interface: \<open>payload\<close> is the record's \<open>signable_bytes\<close>, and the signature lives in a field
  the payload does not see. The code signs by storing the signature of the payload.
\<close>

locale signed_document =
  fixes E :: "'x deps_scheme"
    and payload :: "'d \<Rightarrow> bytes"
    and get_sig :: "'d \<Rightarrow> string option"
    and set_sig :: "string option \<Rightarrow> 'd \<Rightarrow> 'd"
  assumes payload_set_sig: "payload (set_sig s d) = payload d"
    and get_set_sig: "get_sig (set_sig s d) = s"
begin

lemma sealed_checks:
  assumes "hex_ok E" "ed25519_ok E" "length (signing_key i) = 32"
    and "d' = set_sig (Some (sign E i (payload d))) d"
  shows "signature_check E (node_id E i) (payload d') (get_sig d')"
  using assms by (simp add: get_set_sig payload_set_sig verify_own_signature)

end

text \<open>
  A payload that determines the document up to its signature: a signature cannot be moved to a
  document with different content. \<open>wf\<close> says that the document holds only JSON values that
  \<open>serde_json\<close> can hold.
\<close>

locale binding_document = signed_document +
  fixes wf :: "'b \<Rightarrow> bool"
  assumes payload_binds: "json_scalar_ok E \<Longrightarrow> wf d \<Longrightarrow> wf d' \<Longrightarrow> payload d = payload d'
      \<Longrightarrow> set_sig None d = set_sig None d'"
begin

lemma tampering_changes_payload:
  "json_scalar_ok E \<Longrightarrow> wf d \<Longrightarrow> wf d' \<Longrightarrow> set_sig None d \<noteq> set_sig None d' \<Longrightarrow> payload d \<noteq> payload d'"
  using payload_binds by blast

end

end
