(* ===== verification/Storage.thy ===== *)
theory Storage
  imports Identity
begin

text \<open>
  \<open>crates/federate-storage/src/lib.rs\<close>: content addresses and the block store. The store's
  directory is the map from relative paths (\<open>ab/abcd...\<close>) to file contents; other processes may
  have damaged any file. \<open>w\<close> says to which paths the file system accepts a write.

  \<open>content_store\<close> is the interface the registry, the resolver and the CDN cache rely on.
\<close>

definition HASH_HEX_LEN :: nat where
  "HASH_HEX_LEN = 64"

definition hash_bytes :: "'x deps_scheme \<Rightarrow> bytes \<Rightarrow> string" where
  "hash_bytes E bs = x_blake3_hex E bs"

definition is_valid_hash :: "string \<Rightarrow> bool" where
  "is_valid_hash hash \<longleftrightarrow>
     length hash = HASH_HEX_LEN \<and>
     list_all (\<lambda>b. is_ascii_hexdigit b \<and> \<not> is_ascii_uppercase b) hash"

definition storage_verify :: "'x deps_scheme \<Rightarrow> bytes \<Rightarrow> string \<Rightarrow> unit result" where
  "storage_verify E bs expected =
     (if \<not> is_valid_hash expected
      then Inl (HashMismatch expected ''<malformed expected hash>'')
      else let actual = hash_bytes E bs
           in if actual \<noteq> expected then Inl (HashMismatch expected actual) else Inr ())"

subsection \<open>The block store\<close>

type_synonym block_store = "(string, bytes) bmap"

definition block_path :: "string \<Rightarrow> string option" where
  "block_path hash = (if \<not> is_valid_hash hash then None else Some (take 2 hash @ ''/'' @ hash))"

definition block_store_has :: "block_store \<Rightarrow> string \<Rightarrow> bool" where
  "block_store_has st hash =
     (case block_path hash of None \<Rightarrow> False | Some p \<Rightarrow> bm_contains st p)"

definition block_store_get :: "'x deps_scheme \<Rightarrow> block_store \<Rightarrow> string \<Rightarrow> bytes result" where
  "block_store_get E st hash =
     and_then (ok_or (block_path hash) (BlockNotFound hash)) (\<lambda>path.
     and_then (ok_or (bm_get st path) (BlockNotFound hash)) (\<lambda>bs.
     and_then (storage_verify E bs hash) (\<lambda>_. Inr bs)))"

definition block_store_put ::
  "'x deps_scheme \<Rightarrow> (string \<Rightarrow> bool) \<Rightarrow> block_store \<Rightarrow> string \<Rightarrow> bytes \<Rightarrow> block_store result" where
  "block_store_put E w st hash bs =
     and_then (storage_verify E bs hash) (\<lambda>_.
     and_then (ok_or (block_path hash) (BlockNotFound hash)) (\<lambda>path.
     if \<not> w path then Inl Io else Inr (bm_insert path bs st)))"

definition block_store_remove :: "block_store \<Rightarrow> string \<Rightarrow> block_store result" where
  "block_store_remove st hash =
     and_then (ok_or (block_path hash) (BlockNotFound hash)) (\<lambda>path.
     if bm_contains st path then Inr (bm_remove path st) else Inl (BlockNotFound hash))"

text \<open>\<open>list\<close>: file name and length of every entry of every shard directory.\<close>

definition block_store_list :: "block_store \<Rightarrow> (string \<times> nat) list" where
  "block_store_list st = map (\<lambda>(p, bs). (rsplit_first (CHR ''/'') p, length bs)) st"

definition block_store_clear :: "block_store \<Rightarrow> nat \<times> block_store" where
  "block_store_clear st = (length (block_store_list st), [])"

subsection \<open>The interface of a content-addressed store\<close>

locale content_store =
  fixes E :: "'x deps_scheme"
    and get :: "'s \<Rightarrow> string \<Rightarrow> bytes result"
    and put :: "'s \<Rightarrow> string \<Rightarrow> bytes \<Rightarrow> 's result"
  assumes get_verified: "get s h = Inr b \<Longrightarrow> storage_verify E b h = Inr ()"
    and put_verified: "put s h b = Inr s' \<Longrightarrow> storage_verify E b h = Inr ()"
    and get_put: "put s h b = Inr s' \<Longrightarrow> get s' h' = (if h' = h then Inr b else get s h')"
begin

text \<open>Storing a batch: the loop \<open>for (hash, bytes) in blocks { put(hash, bytes)? }\<close>.\<close>

fun put_all :: "(string \<times> bytes) list \<Rightarrow> 's \<Rightarrow> 's result" where
  "put_all [] s = Inr s"
| "put_all ((h, b) # hbs) s = and_then (put s h b) (put_all hbs)"

lemma put_all_verified:
  "put_all hbs s = Inr s' \<Longrightarrow> (h, b) \<in> set hbs \<Longrightarrow> storage_verify E b h = Inr ()"
  by (induction hbs arbitrary: s) (auto simp: result_simps dest: put_verified)

lemma put_all_keeps:
  "put_all hbs s = Inr s' \<Longrightarrow> h \<notin> fst ` set hbs \<Longrightarrow> get s' h = get s h"
proof (induction hbs arbitrary: s)
  case (Cons p hbs)
  then obtain s1 where "put s (fst p) (snd p) = Inr s1" "put_all hbs s1 = Inr s'"
    by (cases p) (auto simp: result_simps)
  with Cons show ?case by (auto simp: get_put)
qed simp

text \<open>A stored block can be read back, whatever was stored before and after it.\<close>

lemma put_all_available:
  "put_all hbs s = Inr s' \<Longrightarrow> h \<in> fst ` set hbs \<Longrightarrow> \<exists>b. get s' h = Inr b"
proof (induction hbs arbitrary: s)
  case (Cons p hbs)
  then obtain s1 where s1: "put s (fst p) (snd p) = Inr s1" "put_all hbs s1 = Inr s'"
    by (cases p) (auto simp: result_simps)
  show ?case
  proof (cases "h \<in> fst ` set hbs")
    case True
    with s1 Cons.IH show ?thesis by blast
  next
    case False
    with put_all_keeps [OF s1(2)] get_put [OF s1(1), of h] Cons.prems(2) show ?thesis
      by auto
  qed
qed simp

end

lemma storage_verify_ok_iff [result_simps]:
  "storage_verify E bs h = Inr u \<longleftrightarrow> is_valid_hash h \<and> hash_bytes E bs = h"
  by (auto simp: storage_verify_def Let_def)

lemma storage_verify_error:
  "storage_verify E bs h = Inl e \<Longrightarrow> \<exists>a. e = HashMismatch h a"
  by (auto simp: storage_verify_def Let_def split: if_splits)

lemma block_path_inj: "block_path h = Some p \<Longrightarrow> block_path h' = Some p \<Longrightarrow> h = h'"
  by (auto simp: block_path_def is_valid_hash_def HASH_HEX_LEN_def split: if_splits)

lemma block_path_Some: "block_path h = Some p \<longleftrightarrow> is_valid_hash h \<and> p = take 2 h @ ''/'' @ h"
  by (auto simp: block_path_def)

interpretation bs: content_store E "block_store_get E" "block_store_put E w"
  for E :: "'x deps_scheme" and w
proof
  fix s h h' b and s' :: block_store
  show "block_store_get E s h = Inr b \<Longrightarrow> storage_verify E b h = Inr ()"
    by (auto simp: block_store_get_def result_simps)
  show "block_store_put E w s h b = Inr s' \<Longrightarrow> storage_verify E b h = Inr ()"
    by (auto simp: block_store_put_def result_simps)
  assume put: "block_store_put E w s h b = Inr s'"
  then obtain p where p: "block_path h = Some p" "s' = bm_insert p b s"
    and ok: "storage_verify E b h = Inr ()"
    by (auto simp: block_store_put_def result_simps split: if_splits)
  show "block_store_get E s' h' = (if h' = h then Inr b else block_store_get E s h')"
  proof (cases "block_path h'")
    case None
    with p show ?thesis by (auto simp: block_store_get_def)
  next
    case (Some q)
    then have "q = p \<longleftrightarrow> h' = h" using p block_path_inj by auto
    with Some p ok show ?thesis
      by (auto simp: block_store_get_def map_simps)
  qed
qed

text \<open>
  C23: What the block store returns for an address hashes to that address, even after the file on
  disk was damaged; and after a successful \<open>put\<close> every address reads as before, except the stored
  one, which reads as the stored bytes.
\<close>

theorem block_store_content_addressed:
  "(block_store_get E st h = Inr b \<longrightarrow> is_valid_hash h \<and> hash_bytes E b = h) \<and>
   (block_store_put E w st h b = Inr st' \<longrightarrow>
      block_store_get E st' h' = (if h' = h then Inr b else block_store_get E st h'))"
  using bs.get_verified [of E st h b] bs.get_put [of E w st h b st' h']
  by (auto simp: result_simps)

text \<open>
  No address leaves the block directory: an address that maps to a path at all maps to its two
  first characters, a slash and itself, so the path is made of hexadecimal digits and that one
  slash; every other string has no path, and reading, writing, testing and removing it fail without
  touching the store.
\<close>

lemma block_path_confined:
  "(case block_path h of
      Some p \<Rightarrow> p = take 2 h @ ''/'' @ h \<and> list_all is_ascii_hexdigit h \<and> length p = 67
    | None \<Rightarrow>
        block_store_get E st h = Inl (BlockNotFound h) \<and> \<not> block_store_has st h \<and>
        block_store_remove st h = Inl (BlockNotFound h) \<and>
        (\<exists>a. block_store_put E w st h b = Inl (HashMismatch h a)))"
proof (cases "is_valid_hash h")
  case True
  then show ?thesis
    by (auto simp: block_path_def is_valid_hash_def HASH_HEX_LEN_def list_all_iff)
next
  case False
  then show ?thesis
    by (auto simp: block_path_def block_store_get_def block_store_has_def block_store_remove_def
          block_store_put_def storage_verify_def)
qed

lemma is_valid_hash_sample: "is_valid_hash (hash_bytes (sample_ext m) bs)"
  by (auto simp: is_valid_hash_def HASH_HEX_LEN_def hash_bytes_def sample_ext_def sample_digest_def
        length_sample_hex_encode list_all_iff dest: sample_hex_digits)

text \<open>BLAKE3's \<open>to_hex\<close>: 64 lower-case hexadecimal digits.\<close>

definition blake3_ok :: "'x deps_scheme \<Rightarrow> bool" where
  "blake3_ok E \<longleftrightarrow> (\<forall>bs. is_valid_hash (x_blake3_hex E bs))"

lemma sample_blake3_ok: "blake3_ok (sample_ext m)"
  by (simp add: blake3_ok_def is_valid_hash_sample [unfolded hash_bytes_def])

theorem block_store_content_addressed_witness:
  "block_store_put sample_deps (\<lambda>_. True) [] (sample_digest [1, 2]) [1, 2]
     = Inr [(take 2 (sample_digest [1, 2]) @ ''/'' @ sample_digest [1, 2], [1, 2])] \<and>
   block_store_get sample_deps [(take 2 (sample_digest [1, 2]) @ ''/'' @ sample_digest [1, 2], [1, 2])]
     (sample_digest [1, 2]) = Inr [1, 2]"
proof -
  let ?h = "sample_digest [1, 2]"
  let ?st = "[(take 2 ?h @ ''/'' @ ?h, [1, 2 :: byte])]"
  have put: "block_store_put sample_deps (\<lambda>_. True) [] ?h [1, 2] = Inr ?st"
    by code_simp
  moreover have "block_store_get sample_deps ?st ?h = Inr [1, 2]"
    using block_store_content_addressed [of sample_deps "[]" ?h "[1, 2]" "\<lambda>_. True" ?st ?h] put
    by simp
  ultimately show ?thesis by (intro conjI)
qed

end
