(* ===== verification/Naming.thy ===== *)
theory Naming
  imports Storage
begin

text \<open>
  \<open>crates/federate-naming/src/lib.rs\<close>: statuses and modes, expiry, the naming rules, the parsed
  domain, and the domain record with its signature.
\<close>

subsection \<open>Statuses, modes and types\<close>

datatype tld_status =
    TldOfficial | TldDelegated | TldReserved | TldBlocked | TldDisabled | TldPending | TldExpired
  | TldRevoked

fun tld_status_is_resolvable :: "tld_status \<Rightarrow> bool" where
  "tld_status_is_resolvable TldOfficial = True"
| "tld_status_is_resolvable TldDelegated = True"
| "tld_status_is_resolvable _ = False"

fun tld_status_as_str :: "tld_status \<Rightarrow> string" where
  "tld_status_as_str TldOfficial = ''official''"
| "tld_status_as_str TldDelegated = ''delegated''"
| "tld_status_as_str TldReserved = ''reserved''"
| "tld_status_as_str TldBlocked = ''blocked''"
| "tld_status_as_str TldDisabled = ''disabled''"
| "tld_status_as_str TldPending = ''pending''"
| "tld_status_as_str TldExpired = ''expired''"
| "tld_status_as_str TldRevoked = ''revoked''"

datatype tld_mode = ModeOfficial | ModeDelegated | ModeReserved | ModeBlocked

fun tld_mode_str :: "tld_mode \<Rightarrow> string" where
  "tld_mode_str ModeOfficial = ''official''"
| "tld_mode_str ModeDelegated = ''delegated''"
| "tld_mode_str ModeReserved = ''reserved''"
| "tld_mode_str ModeBlocked = ''blocked''"

datatype registry_type =
    RootManaged | DelegatedManifest | DelegatedNative | DelegatedHttp | OfflineManual

fun registry_type_str :: "registry_type \<Rightarrow> string" where
  "registry_type_str RootManaged = ''root_managed''"
| "registry_type_str DelegatedManifest = ''delegated_manifest''"
| "registry_type_str DelegatedNative = ''delegated_native''"
| "registry_type_str DelegatedHttp = ''delegated_http''"
| "registry_type_str OfflineManual = ''offline_manual''"

text \<open>The derived \<open>Debug\<close> of a registry type, which some error messages print.\<close>

fun registry_type_debug :: "registry_type \<Rightarrow> string" where
  "registry_type_debug RootManaged = ''RootManaged''"
| "registry_type_debug DelegatedManifest = ''DelegatedManifest''"
| "registry_type_debug DelegatedNative = ''DelegatedNative''"
| "registry_type_debug DelegatedHttp = ''DelegatedHttp''"
| "registry_type_debug OfflineManual = ''OfflineManual''"

datatype domain_status =
    Active | Reserved | Pending | Suspended | Expired | Revoked | Transferred

fun domain_status_is_resolvable :: "domain_status \<Rightarrow> bool" where
  "domain_status_is_resolvable Active = True"
| "domain_status_is_resolvable _ = False"

fun domain_status_as_str :: "domain_status \<Rightarrow> string" where
  "domain_status_as_str Active = ''active''"
| "domain_status_as_str Reserved = ''reserved''"
| "domain_status_as_str Pending = ''pending''"
| "domain_status_as_str Suspended = ''suspended''"
| "domain_status_as_str Expired = ''expired''"
| "domain_status_as_str Revoked = ''revoked''"
| "domain_status_as_str Transferred = ''transferred''"

datatype target_type =
    TargetManifest | TargetService | TargetNode | TargetRedirect | TargetPlaceholder

fun target_type_str :: "target_type \<Rightarrow> string" where
  "target_type_str TargetManifest = ''manifest''"
| "target_type_str TargetService = ''service''"
| "target_type_str TargetNode = ''node''"
| "target_type_str TargetRedirect = ''redirect''"
| "target_type_str TargetPlaceholder = ''placeholder''"

lemma tld_status_str_inj: "tld_status_as_str s = tld_status_as_str t \<Longrightarrow> s = t"
  by (cases s; cases t) auto

lemma tld_mode_str_inj: "tld_mode_str s = tld_mode_str t \<Longrightarrow> s = t"
  by (cases s; cases t) auto

lemma registry_type_str_inj: "registry_type_str s = registry_type_str t \<Longrightarrow> s = t"
  by (cases s; cases t) auto

lemma domain_status_str_inj: "domain_status_as_str s = domain_status_as_str t \<Longrightarrow> s = t"
  by (cases s; cases t) auto

lemma target_type_str_inj: "target_type_str s = target_type_str t \<Longrightarrow> s = t"
  by (cases s; cases t) auto

lemmas serde_name_inj =
  tld_status_str_inj tld_mode_str_inj registry_type_str_inj domain_status_str_inj
  target_type_str_inj

subsection \<open>Expiration\<close>

definition expired_at :: "'x deps_scheme \<Rightarrow> string option \<Rightarrow> int \<Rightarrow> bool" where
  "expired_at E expires_at now =
     (case expires_at of
        None \<Rightarrow> False
      | Some ts \<Rightarrow> (case x_parse_rfc3339 E ts of Some t \<Rightarrow> t \<le> now | None \<Rightarrow> True))"

text \<open>\<open>expired\<close> reads the wall clock, which is the argument \<open>clock\<close>.\<close>

definition expired :: "'x deps_scheme \<Rightarrow> int \<Rightarrow> string option \<Rightarrow> bool" where
  "expired E clock expires_at = expired_at E expires_at clock"

subsection \<open>Naming rules\<close>

definition validate_tld_name :: "string \<Rightarrow> string result" where
  "validate_tld_name input =
     (let tld = to_ascii_lowercase (trim_start_matches (CHR ''.'') (trim input));
          reject = (\<lambda>reason. Inl (InvalidTldName input reason))
      in if length tld < 2 \<or> 32 < length tld then reject ''length must be 2-32 characters''
         else if \<not> list_all is_ascii_lowercase tld
         then reject (''only lowercase ASCII letters a-z are allowed '' @
                      ''(no digits, hyphens, dots, or unicode)'')
         else Inr tld)"

definition label_char :: "char \<Rightarrow> bool" where
  "label_char c \<longleftrightarrow> is_ascii_lowercase c \<or> is_ascii_digit c \<or> c = CHR ''-''"

definition validate_label :: "string \<Rightarrow> string result" where
  "validate_label input =
     (let label = to_ascii_lowercase (trim input);
          reject = (\<lambda>reason. Inl (NotFederateDomain
             (''invalid label '' @ [CHR 0x27] @ input @ [CHR 0x27] @ '': '' @ reason)))
      in if label = [] \<or> 63 < length label then reject ''length must be 1-63 characters''
         else if \<not> list_all label_char label then reject ''only a-z, 0-9 and hyphen are allowed''
         else if starts_with label (CHR ''-'') \<or> ends_with label (CHR ''-'')
         then reject ''hyphen not allowed at start or end''
         else Inr label)"

record federate_domain =
  fd_name :: string
  fd_tld :: string

definition fqdn :: "federate_domain \<Rightarrow> string" where
  "fqdn d = fd_name d @ ''.'' @ fd_tld d"

definition federate_domain_parse :: "string \<Rightarrow> federate_domain result" where
  "federate_domain_parse host0 =
     (let host = to_ascii_lowercase (split_first (CHR '':'') host0)
      in case split_once (CHR ''.'') host of
           None \<Rightarrow> Inl (NotFederateDomain host)
         | Some (name, tld) \<Rightarrow>
             if contains_char tld (CHR ''.'')
             then Inl (NotFederateDomain
               (host @ '': subdomains are not supported yet (exactly one label + one TLD)''))
             else and_then (validate_label name) (\<lambda>name.
                  and_then (validate_tld_name tld) (\<lambda>tld.
                  Inr \<lparr>fd_name = name, fd_tld = tld\<rparr>)))"

subsection \<open>Domain records\<close>

record domain_record =
  dr_domain :: string
  dr_tld :: string
  dr_label :: string
  dr_owner_public_key :: string
  dr_target_type :: target_type
  dr_manifest_hash :: string
  dr_service_id :: "string option"
  dr_node_id :: "string option"
  dr_status :: domain_status
  dr_created_at :: string
  dr_updated_at :: string
  dr_expires_at :: "string option"
  dr_renewal :: "json option"
  dr_pricing :: "json option"
  dr_signature_algorithm :: string
  dr_signature :: "string option"

text \<open>The derived \<open>Serialize\<close>: fields in declaration order, with their serde attributes.\<close>

definition domain_record_json :: "domain_record \<Rightarrow> json" where
  "domain_record_json r = json_obj (
     json_field ''domain'' (JString (dr_domain r)) @
     json_field ''tld'' (JString (dr_tld r)) @
     json_field ''label'' (JString (dr_label r)) @
     json_field ''owner_public_key'' (JString (dr_owner_public_key r)) @
     json_field ''target_type'' (JString (target_type_str (dr_target_type r))) @
     json_field ''manifest_hash'' (JString (dr_manifest_hash r)) @
     json_opt ''service_id'' JString (dr_service_id r) @
     json_opt ''node_id'' JString (dr_node_id r) @
     json_field ''status'' (JString (domain_status_as_str (dr_status r))) @
     json_field ''created_at'' (JString (dr_created_at r)) @
     json_field ''updated_at'' (JString (dr_updated_at r)) @
     json_opt ''expires_at'' JString (dr_expires_at r) @
     json_opt ''renewal'' id (dr_renewal r) @
     json_opt ''pricing'' id (dr_pricing r) @
     json_field ''signature_algorithm'' (JString (dr_signature_algorithm r)) @
     json_field ''signature'' (json_nullable JString (dr_signature r)))"

definition domain_record_is_expired :: "'x deps_scheme \<Rightarrow> int \<Rightarrow> domain_record \<Rightarrow> bool" where
  "domain_record_is_expired E clock r = expired E clock (dr_expires_at r)"

definition domain_record_signable_bytes :: "'x deps_scheme \<Rightarrow> domain_record \<Rightarrow> bytes" where
  "domain_record_signable_bytes E r =
     canonical_bytes E (domain_record_json (r\<lparr>dr_signature := None\<rparr>))"

definition domain_record_verify ::
  "'x deps_scheme \<Rightarrow> domain_record \<Rightarrow> string \<Rightarrow> unit result" where
  "domain_record_verify E r operator_public_key =
     (let fail = (\<lambda>reason. Inl (VerificationFailed ''domain'' (dr_domain r) reason))
      in if dr_domain r \<noteq> dr_label r @ ''.'' @ dr_tld r
         then fail ''domain does not match label + tld''
         else (case dr_signature r of
             None \<Rightarrow> fail ''record is unsigned''
           | Some sig \<Rightarrow>
               if \<not> verify_signature E operator_public_key (domain_record_signable_bytes E r) sig
               then fail ''signature is not from the authorized TLD operator key''
               else Inr ()))"

subsection \<open>Domain records are signed documents\<close>

text \<open>The record's free-form JSON is what \<open>serde_json\<close> can hold.\<close>

definition domain_record_wf :: "domain_record \<Rightarrow> bool" where
  "domain_record_wf r \<longleftrightarrow>
     pred_option json_wf (dr_renewal r) \<and> pred_option json_wf (dr_pricing r)"

lemma domain_record_json_wf: "domain_record_wf r \<Longrightarrow> json_wf (domain_record_json r)"
  unfolding domain_record_json_def
  by (rule json_wf_obj)
     (simp only: json_wf_simps json_wf.simps, simp add: domain_record_wf_def option.pred_set)

lemma domain_record_json_inj:
  assumes "domain_record_json r = domain_record_json s"
  shows "r = s"
proof -
  note get = json_obj_field [OF assms [unfolded domain_record_json_def], unfolded json_get_simps]
  have "dr_domain r = dr_domain s" using get [of "''domain''"] by simp
  moreover have "dr_tld r = dr_tld s" using get [of "''tld''"] by simp
  moreover have "dr_label r = dr_label s" using get [of "''label''"] by simp
  moreover have "dr_owner_public_key r = dr_owner_public_key s"
    using get [of "''owner_public_key''"] by simp
  moreover have "dr_target_type r = dr_target_type s"
    using get [of "''target_type''"] by (simp add: serde_name_inj)
  moreover have "dr_manifest_hash r = dr_manifest_hash s" using get [of "''manifest_hash''"] by simp
  moreover have "dr_service_id r = dr_service_id s" using get [of "''service_id''"]
    by (cases "dr_service_id r"; cases "dr_service_id s") simp_all
  moreover have "dr_node_id r = dr_node_id s" using get [of "''node_id''"]
    by (cases "dr_node_id r"; cases "dr_node_id s") simp_all
  moreover have "dr_status r = dr_status s"
    using get [of "''status''"] by (simp add: serde_name_inj)
  moreover have "dr_created_at r = dr_created_at s" using get [of "''created_at''"] by simp
  moreover have "dr_updated_at r = dr_updated_at s" using get [of "''updated_at''"] by simp
  moreover have "dr_expires_at r = dr_expires_at s" using get [of "''expires_at''"]
    by (cases "dr_expires_at r"; cases "dr_expires_at s") simp_all
  moreover have "dr_renewal r = dr_renewal s" using get [of "''renewal''"]
    by (cases "dr_renewal r"; cases "dr_renewal s") simp_all
  moreover have "dr_pricing r = dr_pricing s" using get [of "''pricing''"]
    by (cases "dr_pricing r"; cases "dr_pricing s") simp_all
  moreover have "dr_signature_algorithm r = dr_signature_algorithm s"
    using get [of "''signature_algorithm''"] by simp
  moreover have "dr_signature r = dr_signature s"
    using get [of "''signature''"] by (auto dest: json_nullable_inj)
  ultimately show ?thesis by (intro domain_record.equality) simp_all
qed

interpretation dr: binding_document E "domain_record_signable_bytes E" dr_signature
    "\<lambda>s. dr_signature_update (\<lambda>_. s)" domain_record_wf
  for E :: "'x deps_scheme"
proof unfold_locales
  fix s d d'
  show "domain_record_signable_bytes E (d\<lparr>dr_signature := s\<rparr>) = domain_record_signable_bytes E d"
    by (simp add: domain_record_signable_bytes_def)
  show "dr_signature (d\<lparr>dr_signature := s\<rparr>) = s" by simp
  assume "json_scalar_ok E" "domain_record_wf d" "domain_record_wf d'"
    "domain_record_signable_bytes E d = domain_record_signable_bytes E d'"
  then show "d\<lparr>dr_signature := None\<rparr> = d'\<lparr>dr_signature := None\<rparr>"
    unfolding domain_record_signable_bytes_def
    by (intro domain_record_json_inj canonical_bytes_eqD domain_record_json_wf)
       (simp_all add: domain_record_wf_def)
qed

text \<open>The signature part of \<open>domain_record_verify\<close> is the check of the interface.\<close>

lemma domain_record_verify_iff [result_simps]:
  "domain_record_verify E r pk = Inr u \<longleftrightarrow>
     dr_domain r = dr_label r @ ''.'' @ dr_tld r \<and> signature_check E pk (domain_record_signable_bytes E r) (dr_signature r)"
  by (auto simp: domain_record_verify_def signature_check_def split: option.splits)

lemma domain_record_verify_error:
  "domain_record_verify E r pk = Inl e \<Longrightarrow> \<exists>s. e = VerificationFailed ''domain'' (dr_domain r) s"
  by (auto simp: domain_record_verify_def Let_def split: option.splits if_splits)

subsection \<open>Names are canonical\<close>

definition label_ok :: "string \<Rightarrow> bool" where
  "label_ok l \<longleftrightarrow> l \<noteq> [] \<and> length l \<le> 63 \<and> list_all label_char l \<and>
     \<not> starts_with l (CHR ''-'') \<and> \<not> ends_with l (CHR ''-'')"

definition tld_ok :: "string \<Rightarrow> bool" where
  "tld_ok t \<longleftrightarrow> 2 \<le> length t \<and> length t \<le> 32 \<and> list_all is_ascii_lowercase t"

definition federate_domain_ok :: "federate_domain \<Rightarrow> bool" where
  "federate_domain_ok d \<longleftrightarrow> label_ok (fd_name d) \<and> tld_ok (fd_tld d)"

lemma lowercase_graphic: "is_ascii_lowercase c \<Longrightarrow> graphic c"
  by (simp add: is_ascii_lowercase_def graphic_def)

lemma label_char_graphic: "label_char c \<Longrightarrow> graphic c"
  by (auto simp: label_char_def is_ascii_lowercase_def is_ascii_digit_def graphic_def code_def)

lemma label_char_not_upper: "label_char c \<Longrightarrow> \<not> is_ascii_uppercase c"
  by (auto simp: label_char_def is_ascii_lowercase_def is_ascii_digit_def is_ascii_uppercase_def code_def)

lemma label_char_not_sep: "label_char c \<Longrightarrow> c \<noteq> CHR ''.'' \<and> c \<noteq> CHR '':'' \<and> c \<noteq> CHR ''/''"
  by (auto simp: label_char_def is_ascii_lowercase_def is_ascii_digit_def code_def)

lemma lowercase_label_char: "is_ascii_lowercase c \<Longrightarrow> label_char c"
  by (simp add: label_char_def)

lemma validate_label_ok: "validate_label input = Inr l \<Longrightarrow> label_ok l \<and> l = to_ascii_lowercase (trim input)"
  by (auto simp: validate_label_def Let_def label_ok_def split: if_splits)

lemma validate_label_id:
  assumes "label_ok l"
  shows "validate_label l = Inr l"
proof -
  have chars: "\<forall>c \<in> set l. label_char c" using assms by (simp add: label_ok_def list_all_iff)
  then have "trim l = l" by (intro trim_graphic) (auto simp: label_char_graphic)
  moreover have "to_ascii_lowercase l = l"
    using chars by (intro to_ascii_lowercase_id) (auto dest: label_char_not_upper)
  ultimately show ?thesis using assms by (auto simp: validate_label_def label_ok_def)
qed

lemma validate_tld_name_ok: "validate_tld_name input = Inr t \<Longrightarrow> tld_ok t"
  by (auto simp: validate_tld_name_def Let_def tld_ok_def split: if_splits)

lemma validate_tld_name_id:
  assumes "tld_ok t"
  shows "validate_tld_name t = Inr t"
proof -
  have chars: "\<forall>c \<in> set t. is_ascii_lowercase c" using assms by (simp add: tld_ok_def list_all_iff)
  then have "trim t = t" by (intro trim_graphic) (auto simp: lowercase_graphic)
  moreover have "trim_start_matches (CHR ''.'') t = t"
    using chars by (cases t) (auto simp: trim_start_matches_def is_ascii_lowercase_def code_def)
  moreover have "to_ascii_lowercase t = t"
    using chars by (intro to_ascii_lowercase_id) (auto dest: lowercase_not_upper)
  ultimately show ?thesis using assms by (auto simp: validate_tld_name_def tld_ok_def)
qed

lemma federate_domain_parse_Inr:
  "federate_domain_parse h = Inr d \<Longrightarrow> federate_domain_ok d"
  by (auto simp: federate_domain_parse_def Let_def result_simps federate_domain_ok_def
        dest!: validate_label_ok validate_tld_name_ok split: option.splits if_splits)

lemma fqdn_chars:
  assumes "federate_domain_ok d"
  shows "\<forall>c \<in> set (fqdn d). (label_char c \<or> c = CHR ''.'') \<and> c \<noteq> CHR '':'' \<and> c \<noteq> CHR ''/''"
  using assms
  by (auto simp: federate_domain_ok_def label_ok_def tld_ok_def fqdn_def list_all_iff
        dest: label_char_not_sep lowercase_label_char)

lemma federate_domain_parse_any_case:
  assumes ok: "federate_domain_ok d" and host: "to_ascii_lowercase host = fqdn d"
    and port: "port = [] \<or> starts_with port (CHR '':'')"
  shows "federate_domain_parse (host @ port) = Inr d"
proof -
  have "CHR '':'' \<notin> set (fqdn d)" using fqdn_chars [OF ok] by auto
  then have "CHR '':'' \<notin> set host"
    using in_set_lowercase_other [of "CHR '':''" host] host
    by (simp add: is_ascii_lowercase_def is_ascii_uppercase_def code_def)
  then have first: "split_first (CHR '':'') (host @ port) = host"
    using port split_first_sep [of "CHR '':''" host "tl port"]
    by (cases port) (auto simp: starts_with_def split_first_no_sep)
  have "CHR ''.'' \<notin> set (fd_name d)" "CHR ''.'' \<notin> set (fd_tld d)"
    using ok label_char_not_sep lowercase_label_char
    by (auto simp: federate_domain_ok_def label_ok_def tld_ok_def list_all_iff)
  then have "split_once (CHR ''.'') (fqdn d) = Some (fd_name d, fd_tld d)"
    and "\<not> contains_char (fd_tld d) (CHR ''.'')"
    by (simp_all add: fqdn_def contains_char_def)
  then show ?thesis
    using ok by (simp add: federate_domain_parse_def first host federate_domain_ok_def
        validate_label_id validate_tld_name_id)
qed

lemma dot_not_upper: "\<not> is_ascii_uppercase (CHR ''.'')"
  by (simp add: is_ascii_uppercase_def code_def)

lemma fqdn_lowercase: "federate_domain_ok d \<Longrightarrow> to_ascii_lowercase (fqdn d) = fqdn d"
  using fqdn_chars [of d] label_char_not_upper dot_not_upper
  by (intro to_ascii_lowercase_id) metis

lemma federate_domain_parse_fqdn: "federate_domain_ok d \<Longrightarrow> federate_domain_parse (fqdn d) = Inr d"
  using federate_domain_parse_any_case [of d "fqdn d" "[]"] by (simp add: fqdn_lowercase)

text \<open>
  C24: Domain names are canonical. Every parsed host is a well-formed name, whose canonical spelling
  (\<open>fqdn\<close>) parses back to it; and any mix of upper and lower case of that spelling, with or
  without a port, parses to the same domain.
\<close>

theorem federate_domain_canonical:
  "(federate_domain_parse h = Inr d \<longrightarrow>
      federate_domain_ok d \<and> federate_domain_parse (fqdn d) = Inr d) \<and>
   (federate_domain_ok d \<and> to_ascii_lowercase host = fqdn d \<and> (port = [] \<or> starts_with port (CHR '':''))
      \<longrightarrow> federate_domain_parse (host @ port) = Inr d)"
  using federate_domain_parse_Inr federate_domain_parse_fqdn federate_domain_parse_any_case by blast

theorem federate_domain_canonical_witness:
  "federate_domain_parse ''Joao.PAGINA:8080'' = Inr \<lparr>fd_name = ''joao'', fd_tld = ''pagina''\<rparr> \<and>
   federate_domain_parse ''joao.pagina'' = Inr \<lparr>fd_name = ''joao'', fd_tld = ''pagina''\<rparr>"
proof -
  let ?d = "\<lparr>fd_name = ''joao'', fd_tld = ''pagina''\<rparr>"
  have "federate_domain_ok ?d" "to_ascii_lowercase ''Joao.PAGINA'' = fqdn ?d"
    "starts_with '':8080'' (CHR '':'')" "fqdn ?d = ''joao.pagina''" by code_simp+
  moreover have "federate_domain_parse '' joao.pagina:1'' = Inr ?d" by code_simp
  ultimately show ?thesis
    using federate_domain_canonical [of "'' joao.pagina:1''" ?d "''Joao.PAGINA''" "'':8080''"] by simp
qed

subsection \<open>Expiry\<close>

lemma expired_at_mono: "expired_at E x t \<Longrightarrow> t \<le> t' \<Longrightarrow> expired_at E x t'"
  by (auto simp: expired_at_def split: option.splits)

text \<open>
  What a TLD operator signs is the whole domain record. A record sealed by an operator passes
  \<open>verify\<close> under the operator's key, and two records with the same signed bytes agree on every
  field except the signature, so a signature cannot be moved to a record with another owner,
  target, status or expiry.
\<close>

lemma domain_record_signature_binds:
  assumes "json_scalar_ok E" "hex_ok E" "ed25519_ok E" "length (signing_key i) = 32"
    and "domain_record_wf r" "domain_record_wf r'" "dr_domain r = dr_label r @ ''.'' @ dr_tld r"
  shows "domain_record_verify E (r\<lparr>dr_signature := Some (sign E i (domain_record_signable_bytes E r))\<rparr>)
           (node_id E i) = Inr () \<and>
    (domain_record_signable_bytes E r = domain_record_signable_bytes E r' \<longleftrightarrow>
           r\<lparr>dr_signature := None\<rparr> = r'\<lparr>dr_signature := None\<rparr>)"
proof (intro conjI)
  show "domain_record_verify E (r\<lparr>dr_signature := Some (sign E i (domain_record_signable_bytes E r))\<rparr>)
      (node_id E i) = Inr ()"
    unfolding domain_record_verify_iff
    using dr.sealed_checks [OF assms(2-4) refl, of r] assms(7) by simp
  show "domain_record_signable_bytes E r = domain_record_signable_bytes E r' \<longleftrightarrow>
      r\<lparr>dr_signature := None\<rparr> = r'\<lparr>dr_signature := None\<rparr>"
    using dr.payload_binds [OF assms(1,5,6)] by (auto simp: domain_record_signable_bytes_def)
qed

definition sample_domain_record :: domain_record where
  "sample_domain_record =
     \<lparr>dr_domain = ''joao.pagina'', dr_tld = ''pagina'', dr_label = ''joao'',
      dr_owner_public_key = ''0a'', dr_target_type = TargetManifest, dr_manifest_hash = ''ab'',
      dr_service_id = None, dr_node_id = None, dr_status = Active, dr_created_at = ''1'',
      dr_updated_at = ''1'', dr_expires_at = None, dr_renewal = None, dr_pricing = None,
      dr_signature_algorithm = ''ed25519'', dr_signature = None\<rparr>"

definition sample_identity :: node_identity where
  "sample_identity = \<lparr>signing_key = replicate 32 7\<rparr>"

definition sample_signed_domain :: domain_record where
  "sample_signed_domain = sample_domain_record
     \<lparr>dr_signature := Some (sign sample_deps sample_identity
        (domain_record_signable_bytes sample_deps sample_domain_record))\<rparr>"

lemma length_sample_identity: "length (signing_key sample_identity) = 32"
  by (simp add: sample_identity_def)

lemma sample_signed_domain_fields [simp]:
  "dr_domain sample_signed_domain = ''joao.pagina''" "dr_tld sample_signed_domain = ''pagina''"
  "dr_label sample_signed_domain = ''joao''" "dr_expires_at sample_signed_domain = None"
  "dr_status sample_signed_domain = Active" "domain_record_wf sample_signed_domain"
  by (simp_all add: sample_signed_domain_def sample_domain_record_def domain_record_wf_def)

lemma sample_signed_domain_verifies:
  "domain_record_verify sample_deps sample_signed_domain (node_id sample_deps sample_identity) = Inr ()"
  using dr.sealed_checks [OF sample_hex_ok sample_ed25519_ok length_sample_identity
        sample_signed_domain_def]
  by (simp add: domain_record_verify_iff)

lemma domain_record_signature_binds_witness:
  "domain_record_verify sample_deps (sample_domain_record
       \<lparr>dr_signature := Some (sign sample_deps sample_identity
          (domain_record_signable_bytes sample_deps sample_domain_record))\<rparr>)
     (node_id sample_deps sample_identity) = Inr () \<and>
   domain_record_signable_bytes sample_deps sample_domain_record \<noteq>
   domain_record_signable_bytes sample_deps (sample_domain_record\<lparr>dr_owner_public_key := ''0b''\<rparr>)"
proof -
  let ?r = "sample_domain_record\<lparr>dr_owner_public_key := ''0b''\<rparr>"
  have pre: "length (signing_key sample_identity) = 32" "domain_record_wf sample_domain_record"
    "domain_record_wf ?r"
    "dr_domain sample_domain_record = dr_label sample_domain_record @ ''.'' @ dr_tld sample_domain_record"
    by (simp_all add: sample_identity_def sample_domain_record_def domain_record_wf_def)
  have "sample_domain_record\<lparr>dr_signature := None\<rparr> \<noteq> ?r\<lparr>dr_signature := None\<rparr>"
    by (simp add: sample_domain_record_def)
  then show ?thesis
    using domain_record_signature_binds [OF sample_deps_scalar_ok sample_hex_ok sample_ed25519_ok pre]
    by simp
qed

end
