(* ===== verification/Uri.thy ===== *)
theory Uri
  imports Naming
begin

text \<open>
  \<open>crates/federate-uri/src/lib.rs\<close>: \<open>fed://label.tld/path?query\<close> addresses, their canonical
  spelling, and the gateway's translation of an HTTP request into one.
\<close>

definition MAX_PATH_LEN :: nat where
  "MAX_PATH_LEN = 2048"

record federate_uri =
  fu_domain :: federate_domain
  fu_path :: string
  fu_query :: "string option"

definition bad_uri :: "string \<Rightarrow> string \<Rightarrow> federate_error" where
  "bad_uri input reason =
     NotFederateDomain (''invalid Federate URI '' @ [CHR 0x27] @ input @ [CHR 0x27] @ '': '' @ reason)"

definition split_query :: "string \<Rightarrow> string \<times> string option" where
  "split_query s =
     (case split_once (CHR ''?'') s of
        Some (p, q) \<Rightarrow> (p, if q = [] then None else Some q)
      | None \<Rightarrow> (s, None))"

definition federate_uri_parse :: "string \<Rightarrow> federate_uri result" where
  "federate_uri_parse input =
     (let s = trim input in
      and_then (ok_or (strip_prefix ''fed://'' s) (bad_uri s ''must start with fed://'')) (\<lambda>rest.
      if rest = [] then Inl (bad_uri s ''missing domain'')
      else let (authority, tail) = split_at_any [CHR ''/'', CHR ''?'', CHR ''#''] rest in
        if contains_char authority (CHR ''@'')
        then Inl (bad_uri s ''userinfo is not allowed in Federate URIs'')
        else if contains_char authority (CHR '':'')
        then Inl (bad_uri s ''ports are not allowed; Federate names never carry transport addresses'')
        else and_then (federate_domain_parse authority) (\<lambda>domain.
          let (path, query) = split_query (split_first (CHR ''#'') tail);
              path = (if path = [] then ''/'' else path)
          in if \<not> starts_with path (CHR ''/'') then Inl (bad_uri s ''path must be absolute'')
             else if MAX_PATH_LEN < length path then Inl (bad_uri s ''path too long'')
             else Inr \<lparr>fu_domain = domain, fu_path = path, fu_query = query\<rparr>)))"

definition federate_uri_from_http :: "string \<Rightarrow> string \<Rightarrow> federate_uri result" where
  "federate_uri_from_http host path_and_query =
     and_then (federate_domain_parse host) (\<lambda>domain.
       let (path, query) = split_query path_and_query;
           path = (if path = [] then ''/'' else path)
       in if \<not> starts_with path (CHR ''/'')
          then Inl (bad_uri path_and_query ''path must be absolute'')
          else Inr \<lparr>fu_domain = domain, fu_path = path, fu_query = query\<rparr>)"

definition federate_uri_fqdn :: "federate_uri \<Rightarrow> string" where
  "federate_uri_fqdn u = fqdn (fu_domain u)"

definition federate_uri_display :: "federate_uri \<Rightarrow> string" where
  "federate_uri_display u =
     ''fed://'' @ fqdn (fu_domain u) @ (if fu_path u \<noteq> ''/'' then fu_path u else []) @
     (case fu_query u of Some q \<Rightarrow> ''?'' @ q | None \<Rightarrow> [])"

subsection \<open>Well-formed addresses\<close>

definition federate_uri_ok :: "federate_uri \<Rightarrow> bool" where
  "federate_uri_ok u \<longleftrightarrow>
     federate_domain_ok (fu_domain u) \<and> starts_with (fu_path u) (CHR ''/'') \<and>
     length (fu_path u) \<le> MAX_PATH_LEN \<and>
     CHR ''?'' \<notin> set (fu_path u) \<and> CHR ''#'' \<notin> set (fu_path u) \<and>
     (case fu_query u of None \<Rightarrow> True | Some q \<Rightarrow> q \<noteq> [] \<and> CHR ''#'' \<notin> set q)"

lemma split_query_chars:
  assumes "split_query s = (p, q)"
  shows "CHR ''?'' \<notin> set p \<and> set p \<subseteq> set s \<and>
    (case q of None \<Rightarrow> True | Some q \<Rightarrow> q \<noteq> [] \<and> set q \<subseteq> set s)"
  using assms split_once_SomeD [of "CHR ''?''" s]
  by (auto simp: split_query_def split_once_eq_None split: option.splits if_splits)

lemma split_query_join:
  "CHR ''?'' \<notin> set p \<Longrightarrow> q \<noteq> Some [] \<Longrightarrow>
     split_query (p @ (case q of Some q \<Rightarrow> ''?'' @ q | None \<Rightarrow> [])) = (p, q)"
  by (auto simp: split_query_def split: option.splits)

lemma federate_uri_parse_ok:
  assumes "federate_uri_parse s = Inr u"
  shows "federate_uri_ok u"
proof -
  obtain rest where sp: "strip_prefix ''fed://'' (trim s) = Some rest"
    using assms unfolding federate_uri_parse_def Let_def by (auto simp: and_then_eq_Inr ok_or_eq_Inr)
  obtain authority tail where at: "split_at_any [CHR ''/'', CHR ''?'', CHR ''#''] rest = (authority, tail)"
    by (cases "split_at_any [CHR ''/'', CHR ''?'', CHR ''#''] rest")
  obtain p q where pq: "split_query (split_first (CHR ''#'') tail) = (p, q)"
    by (cases "split_query (split_first (CHR ''#'') tail)")
  have dom: "federate_domain_parse authority = Inr (fu_domain u)"
    and u: "fu_path u = (if p = [] then ''/'' else p)" "fu_query u = q"
    and len: "starts_with (fu_path u) (CHR ''/'')" "length (fu_path u) \<le> MAX_PATH_LEN"
    using assms unfolding federate_uri_parse_def Let_def
    by (auto simp: sp result_simps at pq split: if_splits)
  have "CHR ''#'' \<notin> set (split_first (CHR ''#'') tail)" by (rule split_first_no_char)
  with split_query_chars [OF pq] federate_domain_parse_Inr [OF dom] u len show ?thesis
    by (auto simp: federate_uri_ok_def split: option.splits)
qed


text \<open>Parsing \<open>fed://authority tail\<close>, when no white space is trimmed off.\<close>

lemma federate_uri_parse_parts:
  assumes "trim s = ''fed://'' @ authority @ tail" and "authority \<noteq> []"
    and "\<forall>c \<in> set authority. c \<notin> {CHR ''/'', CHR ''?'', CHR ''#'', CHR ''@'', CHR '':''}"
    and "tail = [] \<or> hd tail \<in> {CHR ''/'', CHR ''?'', CHR ''#''}"
  shows "federate_uri_parse s =
    and_then (federate_domain_parse authority) (\<lambda>domain.
      let (path, query) = split_query (split_first (CHR ''#'') tail);
          path = (if path = [] then ''/'' else path)
      in if \<not> starts_with path (CHR ''/'') then Inl (bad_uri (trim s) ''path must be absolute'')
         else if MAX_PATH_LEN < length path then Inl (bad_uri (trim s) ''path too long'')
         else Inr \<lparr>fu_domain = domain, fu_path = path, fu_query = query\<rparr>)"
proof -
  let ?cs = "[CHR ''/'', CHR ''?'', CHR ''#'']"
  have sp: "strip_prefix ''fed://'' (trim s) = Some (authority @ tail)"
    unfolding assms(1) by (rule strip_prefix_append)
  have "takeWhile (\<lambda>x. x \<notin> set ?cs) (authority @ tail) = authority"
    "dropWhile (\<lambda>x. x \<notin> set ?cs) (authority @ tail) = tail"
    using assms(3,4) by (induction authority) (auto simp: takeWhile_eq_Nil_iff dropWhile_eq_self_iff)
  then have at: "split_at_any ?cs (authority @ tail) = (authority, tail)"
    by (simp add: split_at_any_def)
  have "\<not> contains_char authority (CHR ''@'')" "\<not> contains_char authority (CHR '':'')"
    using assms(3) by (auto simp: contains_char_def)
  with assms(2) show ?thesis
    unfolding federate_uri_parse_def Let_def sp by (simp add: at)
qed

lemma fqdn_chars_uri:
  assumes "federate_domain_ok d"
  shows "\<forall>c \<in> set (fqdn d). c \<notin> {CHR ''/'', CHR ''?'', CHR ''#'', CHR ''@'', CHR '':''}"
proof
  fix c assume "c \<in> set (fqdn d)"
  then have "label_char c \<or> c = CHR ''.''" using fqdn_chars [OF assms] by blast
  then show "c \<notin> {CHR ''/'', CHR ''?'', CHR ''#'', CHR ''@'', CHR '':''}"
    by (auto simp: label_char_def is_ascii_lowercase_def is_ascii_digit_def code_def)
qed

lemma fqdn_nonempty [simp]: "fqdn d \<noteq> []"
  by (simp add: fqdn_def)

lemma trim_start_fed [simp]: "trim_start (CHR ''f'' # s) = CHR ''f'' # s"
  by (rule trim_start_graphic) (simp add: graphic_def code_def)

lemma federate_uri_parse_display:
  assumes ok: "federate_uri_ok u" and ends: "trim_end (federate_uri_display u) = federate_uri_display u"
  shows "federate_uri_parse (federate_uri_display u) = Inr u"
proof -
  let ?p = "if fu_path u \<noteq> ''/'' then fu_path u else []"
  let ?q = "case fu_query u of Some q \<Rightarrow> ''?'' @ q | None \<Rightarrow> []"
  have dom: "federate_domain_ok (fu_domain u)" using ok by (simp add: federate_uri_ok_def)
  have trim: "trim (federate_uri_display u) = ''fed://'' @ fqdn (fu_domain u) @ (?p @ ?q)"
    using ends by (simp add: trim_def federate_uri_display_def)
  have nf: "CHR ''#'' \<notin> set (?p @ ?q)" and nq: "CHR ''?'' \<notin> set ?p" "fu_query u \<noteq> Some []"
    and hd: "?p @ ?q = [] \<or> hd (?p @ ?q) \<in> {CHR ''/'', CHR ''?'', CHR ''#''}"
    using ok by (auto simp: federate_uri_ok_def starts_with_def split: option.splits)
  from nf have frag: "split_first (CHR ''#'') (?p @ ?q) = ?p @ ?q" by (rule split_first_no_sep)
  have sq: "split_query (?p @ ?q) = (?p, fu_query u)"
    using nq by (rule split_query_join)
  show ?thesis
    unfolding federate_uri_parse_parts [OF trim fqdn_nonempty fqdn_chars_uri [OF dom] hd] frag sq
    using ok dom
    by (auto simp: federate_domain_parse_fqdn federate_uri_ok_def starts_with_def MAX_PATH_LEN_def)
qed

lemma federate_uri_from_http_display:
  assumes ok: "federate_uri_ok u" and host: "to_ascii_lowercase host = fqdn (fu_domain u)"
    and port: "port = [] \<or> starts_with port (CHR '':'')"
  shows "federate_uri_from_http (host @ port)
     (fu_path u @ (case fu_query u of Some q \<Rightarrow> ''?'' @ q | None \<Rightarrow> [])) = Inr u"
proof -
  have "CHR ''?'' \<notin> set (fu_path u)" "fu_query u \<noteq> Some []"
    using ok by (auto simp: federate_uri_ok_def)
  then have sq: "split_query (fu_path u @ (case fu_query u of Some q \<Rightarrow> ''?'' @ q | None \<Rightarrow> []))
      = (fu_path u, fu_query u)"
    by (rule split_query_join)
  have "federate_domain_parse (host @ port) = Inr (fu_domain u)"
    using ok host port by (intro federate_domain_parse_any_case) (auto simp: federate_uri_ok_def)
  with sq ok show ?thesis
    by (auto simp: federate_uri_from_http_def federate_uri_ok_def starts_with_def)
qed



text \<open>
  The proviso on trailing white space is needed: dropping a fragment can leave a path that ends
  in a space, and the canonical spelling of such an address parses to another address.
\<close>

lemma federate_uri_display_not_canonical:
  "\<exists>u. federate_uri_parse ''fed://joao.pagina/x #top'' = Inr u \<and>
       is_ok (federate_uri_parse (federate_uri_display u)) \<and>
       federate_uri_parse (federate_uri_display u) \<noteq> Inr u"
proof -
  let ?u = "\<lparr>fu_domain = \<lparr>fd_name = ''joao'', fd_tld = ''pagina''\<rparr>, fu_path = ''/x '', fu_query = None\<rparr>"
  have "federate_uri_parse ''fed://joao.pagina/x #top'' = Inr ?u" by code_simp
  moreover have "federate_uri_parse (federate_uri_display ?u)
      = Inr (?u\<lparr>fu_path := ''/x''\<rparr>)" by code_simp
  ultimately show ?thesis by (intro exI [of _ ?u]) simp
qed

end
