(* ===== verification/Manifest.thy ===== *)
theory Manifest
  imports Uri
begin

text \<open>
  \<open>crates/federate-manifest/src/lib.rs\<close>: the site manifest, signed by the domain owner; its
  verification against the domain record, and the mapping of request paths to files.
\<close>

record manifest =
  mf_domain :: string
  mf_version :: nat
  mf_entry :: string
  mf_files :: "(string, string) bmap"
  mf_owner_public_key :: string
  mf_created_at :: string
  mf_signature_algorithm :: string
  mf_signature :: "string option"

definition manifest_json :: "manifest \<Rightarrow> json" where
  "manifest_json m = json_obj (
     json_field ''domain'' (JString (mf_domain m)) @
     json_field ''version'' (json_nat (mf_version m)) @
     json_field ''entry'' (JString (mf_entry m)) @
     json_field ''files'' (json_map JString (mf_files m)) @
     json_field ''owner_public_key'' (JString (mf_owner_public_key m)) @
     json_field ''created_at'' (JString (mf_created_at m)) @
     json_field ''signature_algorithm'' (JString (mf_signature_algorithm m)) @
     json_field ''signature'' (json_nullable JString (mf_signature m)))"

definition manifest_signable_bytes :: "'x deps_scheme \<Rightarrow> manifest \<Rightarrow> bytes" where
  "manifest_signable_bytes E m = canonical_bytes E (manifest_json (m\<lparr>mf_signature := None\<rparr>))"

definition manifest_verify ::
  "'x deps_scheme \<Rightarrow> manifest \<Rightarrow> string \<Rightarrow> string \<Rightarrow> unit result" where
  "manifest_verify E m expected_domain owner_public_key =
     (let fail = (\<lambda>reason. Inl (VerificationFailed ''manifest'' (mf_domain m) reason))
      in if mf_domain m \<noteq> expected_domain
         then fail ''manifest domain does not match the requested domain''
         else if mf_owner_public_key m \<noteq> owner_public_key
         then fail ''manifest signer is not the domain owner key from the domain record''
         else (case mf_signature m of
             None \<Rightarrow> fail ''manifest is unsigned''
           | Some sig \<Rightarrow>
               if \<not> verify_signature E owner_public_key (manifest_signable_bytes E m) sig
               then fail ''manifest signature invalid (tampered or wrong key)''
               else Inr ()))"

definition manifest_validate :: "manifest \<Rightarrow> unit result" where
  "manifest_validate m =
     (if mf_domain m = [] \<or> mf_entry m = []
      then Inl (InvalidRoot (''invalid manifest for '' @ mf_domain m))
      else if \<not> bm_contains (mf_files m) (mf_entry m) then Inl (PathNotFound (mf_entry m))
      else Inr ())"

text \<open>\<open>find_map\<close>: the first element with a result.\<close>

fun find_map :: "('a \<Rightarrow> 'b option) \<Rightarrow> 'a list \<Rightarrow> 'b option" where
  "find_map f [] = None"
| "find_map f (x # xs) = (case f x of Some y \<Rightarrow> Some y | None \<Rightarrow> find_map f xs)"

definition manifest_resolve_path :: "manifest \<Rightarrow> string \<Rightarrow> (string \<times> string) option" where
  "manifest_resolve_path m path =
     (let trimmed = trim_start_matches (CHR ''/'') path;
          candidates =
            (if trimmed = [] then [mf_entry m]
             else if ends_with trimmed (CHR ''/'') then [trimmed @ ''index.html'']
             else [trimmed, trimmed @ ''/index.html''])
      in find_map (\<lambda>c. map_option (\<lambda>h. (c, h)) (bm_get (mf_files m) c)) candidates)"

subsection \<open>Signature\<close>

definition manifest_wf :: "manifest \<Rightarrow> bool" where
  "manifest_wf m \<longleftrightarrow> bm_sorted (mf_files m) \<and> mf_version m \<le> u64_max"

lemma manifest_json_wf: "manifest_wf m \<Longrightarrow> json_wf (manifest_json m)"
  unfolding manifest_json_def
  by (rule json_wf_obj)
     (simp only: json_wf_simps json_wf.simps, simp add: manifest_wf_def json_wf_map)

lemma manifest_json_inj:
  assumes eq: "manifest_json r = manifest_json s" and wf: "manifest_wf r" "manifest_wf s"
  shows "r = s"
proof -
  note get = json_obj_field [OF eq [unfolded manifest_json_def], unfolded json_get_simps]
  have "mf_domain r = mf_domain s" using get [of "''domain''"] by simp
  moreover have "mf_version r = mf_version s" using get [of "''version''"] by simp
  moreover have "mf_entry r = mf_entry s" using get [of "''entry''"] by simp
  moreover have "mf_files r = mf_files s"
    using get [of "''files''"] wf json_map_inj [of JString "mf_files r" "mf_files s"]
    by (simp add: manifest_wf_def inj_on_def)
  moreover have "mf_owner_public_key r = mf_owner_public_key s"
    using get [of "''owner_public_key''"] by simp
  moreover have "mf_created_at r = mf_created_at s" using get [of "''created_at''"] by simp
  moreover have "mf_signature_algorithm r = mf_signature_algorithm s"
    using get [of "''signature_algorithm''"] by simp
  moreover have "mf_signature r = mf_signature s"
    using get [of "''signature''"] by (auto dest: json_nullable_inj)
  ultimately show ?thesis by (intro manifest.equality) simp_all
qed

interpretation mf: binding_document E "manifest_signable_bytes E" mf_signature
    "\<lambda>s. mf_signature_update (\<lambda>_. s)" manifest_wf
  for E :: "'x deps_scheme"
proof unfold_locales
  fix s d d'
  show "manifest_signable_bytes E (d\<lparr>mf_signature := s\<rparr>) = manifest_signable_bytes E d"
    by (simp add: manifest_signable_bytes_def)
  show "mf_signature (d\<lparr>mf_signature := s\<rparr>) = s" by simp
  assume "json_scalar_ok E" "manifest_wf d" "manifest_wf d'"
    "manifest_signable_bytes E d = manifest_signable_bytes E d'"
  then show "d\<lparr>mf_signature := None\<rparr> = d'\<lparr>mf_signature := None\<rparr>"
    unfolding manifest_signable_bytes_def
    by (intro manifest_json_inj canonical_bytes_eqD manifest_json_wf)
       (simp_all add: manifest_wf_def)
qed

lemma manifest_verify_iff [result_simps]:
  "manifest_verify E m domain pk = Inr u \<longleftrightarrow>
     mf_domain m = domain \<and> mf_owner_public_key m = pk \<and>
     signature_check E pk (manifest_signable_bytes E m) (mf_signature m)"
  by (auto simp: manifest_verify_def signature_check_def split: option.splits)

lemma manifest_validate_iff [result_simps]:
  "manifest_validate m = Inr u \<longleftrightarrow>
     mf_domain m \<noteq> [] \<and> mf_entry m \<noteq> [] \<and> bm_contains (mf_files m) (mf_entry m)"
  by (auto simp: manifest_validate_def)

subsection \<open>Paths\<close>

lemma manifest_resolve_path_file:
  "manifest_resolve_path m path = Some (f, h) \<Longrightarrow> bm_get (mf_files m) f = Some h"
  by (auto simp: manifest_resolve_path_def Let_def split: if_splits option.splits)

text \<open>
  A request path only ever reaches a file of the signed manifest: the answer is one of its
  entries, under the key that equals the path without its leading slashes, that key followed by an
  index file, or the entry file. A validated manifest always answers the root path with its entry
  file, any number of leading slashes is the same path, and an exact file wins over a directory
  index.
\<close>

lemma manifest_resolve_path_sound:
  "(case manifest_resolve_path m path of
      None \<Rightarrow> True
    | Some (f, h) \<Rightarrow>
        bm_get (mf_files m) f = Some h \<and>
        (let t = trim_start_matches (CHR ''/'') path in
           f = (if t = [] then mf_entry m else if ends_with t (CHR ''/'') then t @ ''index.html''
                else if bm_contains (mf_files m) t then t else t @ ''/index.html''))) \<and>
   (manifest_validate m = Inr () \<longrightarrow>
      map_option fst (manifest_resolve_path m ''/'') = Some (mf_entry m)) \<and>
   manifest_resolve_path m (CHR ''/'' # path) = manifest_resolve_path m path"
proof (intro conjI impI)
  show "manifest_resolve_path m (CHR ''/'' # path) = manifest_resolve_path m path"
    by (simp add: manifest_resolve_path_def trim_start_matches_def)
  assume "manifest_validate m = Inr ()"
  then show "map_option fst (manifest_resolve_path m ''/'') = Some (mf_entry m)"
    by (auto simp: manifest_resolve_path_def trim_start_matches_def result_simps bm_contains_iff)
qed (auto simp: manifest_resolve_path_def Let_def bm_contains_iff split: option.splits if_splits)

definition sample_manifest :: manifest where
  "sample_manifest =
     \<lparr>mf_domain = ''joao.pagina'', mf_version = 1, mf_entry = ''index.html'',
      mf_files = [(''blog/index.html'', ''h2''), (''index.html'', ''h1'')],
      mf_owner_public_key = ''0a'', mf_created_at = ''1'', mf_signature_algorithm = ''ed25519'',
      mf_signature = None\<rparr>"

lemma manifest_resolve_path_sound_witness:
  "manifest_validate sample_manifest = Inr () \<and>
   map_option fst (manifest_resolve_path sample_manifest ''/'') = Some ''index.html'' \<and>
   manifest_resolve_path sample_manifest ''/blog'' = manifest_resolve_path sample_manifest ''blog''"
proof -
  have "manifest_validate sample_manifest = Inr ()" "mf_entry sample_manifest = ''index.html''"
    by code_simp+
  with manifest_resolve_path_sound [of sample_manifest "''blog''"] show ?thesis by simp
qed

end
