(* ===== verification/Root.thy ===== *)
theory Root
  imports Manifest
begin

text \<open>
  \<open>crates/federate-root/src/lib.rs\<close>: TLD records, the signed root zone, the blocklists a new TLD
  name is checked against, and the disk cache of the zone.
\<close>

definition SIGNATURE_ALGORITHM :: string where
  "SIGNATURE_ALGORITHM = ''ed25519''"

subsection \<open>TLD records\<close>

record tld_record =
  tr_tld :: string
  tr_status :: tld_status
  tr_mode :: tld_mode
  tr_owner_public_key :: string
  tr_operator_public_key :: string
  tr_operator_name :: string
  tr_registry_type :: registry_type
  tr_registry_endpoint :: "string option"
  tr_registry_manifest_hash :: "string option"
  tr_registry_providers :: "string list"
  tr_policy_hash :: "string option"
  tr_pricing :: "json option"
  tr_created_at :: string
  tr_updated_at :: string
  tr_expires_at :: "string option"
  tr_notes :: "string option"
  tr_signature_algorithm :: string
  tr_signature :: "string option"

definition tld_record_json :: "tld_record \<Rightarrow> json" where
  "tld_record_json r = json_obj (
     json_field ''tld'' (JString (tr_tld r)) @
     json_field ''status'' (JString (tld_status_as_str (tr_status r))) @
     json_field ''mode'' (JString (tld_mode_str (tr_mode r))) @
     json_field ''owner_public_key'' (JString (tr_owner_public_key r)) @
     json_field ''operator_public_key'' (JString (tr_operator_public_key r)) @
     json_field ''operator_name'' (JString (tr_operator_name r)) @
     json_field ''registry_type'' (JString (registry_type_str (tr_registry_type r))) @
     json_opt ''registry_endpoint'' JString (tr_registry_endpoint r) @
     json_opt ''registry_manifest_hash'' JString (tr_registry_manifest_hash r) @
     json_vec ''registry_providers'' (tr_registry_providers r) @
     json_opt ''policy_hash'' JString (tr_policy_hash r) @
     json_opt ''pricing'' id (tr_pricing r) @
     json_field ''created_at'' (JString (tr_created_at r)) @
     json_field ''updated_at'' (JString (tr_updated_at r)) @
     json_opt ''expires_at'' JString (tr_expires_at r) @
     json_opt ''notes'' JString (tr_notes r) @
     json_field ''signature_algorithm'' (JString (tr_signature_algorithm r)) @
     json_field ''signature'' (json_nullable JString (tr_signature r)))"

definition tld_record_is_expired :: "'x deps_scheme \<Rightarrow> int \<Rightarrow> tld_record \<Rightarrow> bool" where
  "tld_record_is_expired E clock r = expired E clock (tr_expires_at r)"

definition tld_record_signable_bytes :: "'x deps_scheme \<Rightarrow> tld_record \<Rightarrow> bytes" where
  "tld_record_signable_bytes E r = canonical_bytes E (tld_record_json (r\<lparr>tr_signature := None\<rparr>))"

definition tld_record_verify :: "'x deps_scheme \<Rightarrow> tld_record \<Rightarrow> string \<Rightarrow> unit result" where
  "tld_record_verify E r root_public_key =
     (let fail = (\<lambda>reason. Inl (VerificationFailed ''tld'' (''.'' @ tr_tld r) reason))
      in case tr_signature r of
           None \<Rightarrow> fail ''TLD record is unsigned''
         | Some sig \<Rightarrow>
             if \<not> verify_signature E root_public_key (tld_record_signable_bytes E r) sig
             then fail ''TLD record signature is not from the Federate Root Key''
             else Inr ())"

subsection \<open>The root zone\<close>

record audit_event =
  ae_at :: string
  ae_actor :: string
  ae_action :: string
  ae_subject :: string
  ae_detail :: "string option"

definition audit_event_json :: "audit_event \<Rightarrow> json" where
  "audit_event_json e = json_obj (
     json_field ''at'' (JString (ae_at e)) @
     json_field ''actor'' (JString (ae_actor e)) @
     json_field ''action'' (JString (ae_action e)) @
     json_field ''subject'' (JString (ae_subject e)) @
     json_opt ''detail'' JString (ae_detail e))"

record root_zone =
  rz_network :: string
  rz_root_version :: nat
  rz_generated_at :: string
  rz_root_public_key :: string
  rz_tlds :: "(string, tld_record) bmap"
  rz_domains :: "(string, domain_record) bmap"
  rz_audit :: "audit_event list"
  rz_signature_algorithm :: string
  rz_signature :: "string option"

definition root_zone_json :: "root_zone \<Rightarrow> json" where
  "root_zone_json z = json_obj (
     json_field ''network'' (JString (rz_network z)) @
     json_field ''root_version'' (json_nat (rz_root_version z)) @
     json_field ''generated_at'' (JString (rz_generated_at z)) @
     json_field ''root_public_key'' (JString (rz_root_public_key z)) @
     json_field ''tlds'' (json_map tld_record_json (rz_tlds z)) @
     json_field ''domains'' (json_map domain_record_json (rz_domains z)) @
     json_field ''audit'' (JArray (map audit_event_json (rz_audit z))) @
     json_field ''signature_algorithm'' (JString (rz_signature_algorithm z)) @
     json_field ''signature'' (json_nullable JString (rz_signature z)))"

definition root_zone_signable_bytes :: "'x deps_scheme \<Rightarrow> root_zone \<Rightarrow> bytes" where
  "root_zone_signable_bytes E z = canonical_bytes E (root_zone_json (z\<lparr>rz_signature := None\<rparr>))"

definition root_zone_verify :: "'x deps_scheme \<Rightarrow> root_zone \<Rightarrow> string \<Rightarrow> unit result" where
  "root_zone_verify E z trusted_root_key =
     (let fail = (\<lambda>reason. Inl (VerificationFailed ''root'' (rz_network z) reason))
      in if rz_root_public_key z \<noteq> trusted_root_key
         then fail ''root zone advertises a different root key than the trusted anchor''
         else (case rz_signature z of
             None \<Rightarrow> fail ''root zone is unsigned''
           | Some sig \<Rightarrow>
               if \<not> verify_signature E trusted_root_key (root_zone_signable_bytes E z) sig
               then fail ''root zone signature invalid (tampered or wrong key)''
               else try_for_each (\<lambda>r. tld_record_verify E r trusted_root_key) (bm_values (rz_tlds z))))"

definition root_zone_validate :: "root_zone \<Rightarrow> unit result" where
  "root_zone_validate z =
     (if rz_network z = [] then Inl (InvalidRoot ''empty network name'')
      else try_for_each (\<lambda>(fqdn, r).
        if \<not> bm_contains (rz_tlds z) (dr_tld r)
        then Inl (InvalidRoot (''domain '' @ fqdn @ '' references unknown TLD .'' @ dr_tld r))
        else Inr ()) (rz_domains z))"

definition root_zone_lookup_tld :: "root_zone \<Rightarrow> string \<Rightarrow> tld_record option" where
  "root_zone_lookup_tld z tld = bm_get (rz_tlds z) tld"

definition root_zone_lookup :: "root_zone \<Rightarrow> string \<Rightarrow> domain_record option" where
  "root_zone_lookup z name = bm_get (rz_domains z) name"

subsection \<open>Blocklists\<close>

datatype block_reason = PublicIana | ReservedName | Policy | BrandSafety

fun block_reason_describe :: "block_reason \<Rightarrow> string" where
  "block_reason_describe PublicIana =
     ''it is a public IANA/ICANN TLD (blocked_tlds.txt); Federate never collides with the normal internet''"
| "block_reason_describe ReservedName =
     ''it is reserved for Federate infrastructure, governance, safety, or future use''"
| "block_reason_describe Policy = ''it is blocked by Federate policy''"
| "block_reason_describe BrandSafety = ''it is blocked for brand/safety reasons''"

record blocklists =
  bl_iana :: "string set"
  bl_reserved :: "string set"
  bl_policy :: "string set"
  bl_brand_safety :: "string set"

text \<open>A file on disk: not there, not readable as UTF-8 text, or its text.\<close>

datatype text_file = Missing | Unreadable | Text string

text \<open>\<open>lines()\<close>; the carriage return of a line ending is removed by the \<open>trim\<close> that follows.\<close>

definition text_lines :: "string \<Rightarrow> string list" where
  "text_lines s =
     (let ls = split_char (CHR 10) s in if last ls = [] then butlast ls else ls)"

definition load_list :: "text_file \<Rightarrow> string set result" where
  "load_list file =
     (case file of
        Text content \<Rightarrow>
          Inr (set (filter (\<lambda>l. l \<noteq> [] \<and> \<not> starts_with l (CHR ''#''))
            (map (\<lambda>l. to_ascii_lowercase (trim_start_matches (CHR ''.'') (trim l)))
               (text_lines content))))
      | _ \<Rightarrow> Inl Io)"

text \<open>The closure \<open>ensure\<close>: a missing list is created with its default.\<close>

definition ensure_list :: "text_file \<Rightarrow> string \<Rightarrow> string set result" where
  "ensure_list file default_text =
     load_list (case file of Missing \<Rightarrow> Text default_text | _ \<Rightarrow> file)"

definition reserved_default :: string where
  "reserved_default = join [CHR 10]
     [''# Federate reserved TLD names (infrastructure, governance, safety, future use)'', ''fed'',
      ''root'', ''admin'', ''registry'', ''status'', ''nodes'', ''protocol'', ''system'', '''']"

definition blocklists_load ::
  "string \<Rightarrow> text_file \<Rightarrow> text_file \<Rightarrow> text_file \<Rightarrow> text_file \<Rightarrow> blocklists result" where
  "blocklists_load iana_path iana_file reserved_file policy_file brand_file =
     and_then (map_err (\<lambda>e. InvalidRoot
       (''cannot load IANA blocklist '' @ iana_path @ '': '' @ error_display e)) (load_list iana_file)) (\<lambda>iana.
     and_then (ensure_list reserved_file reserved_default) (\<lambda>reserved.
     and_then (ensure_list policy_file
       (''# Federate policy blocklist (placeholder for future governance)'' @ [CHR 10])) (\<lambda>policy.
     and_then (ensure_list brand_file
       (''# Federate brand/safety blocklist (placeholder for future governance)'' @ [CHR 10])) (\<lambda>brand_safety.
     Inr \<lparr>bl_iana = iana, bl_reserved = reserved, bl_policy = policy, bl_brand_safety = brand_safety\<rparr>))))"

definition blocklists_check :: "blocklists \<Rightarrow> string \<Rightarrow> block_reason option" where
  "blocklists_check b tld =
     (if tld \<in> bl_iana b then Some PublicIana
      else if tld \<in> bl_reserved b then Some ReservedName
      else if tld \<in> bl_policy b then Some Policy
      else if tld \<in> bl_brand_safety b then Some BrandSafety
      else None)"

definition validate_new_tld :: "blocklists \<Rightarrow> string \<Rightarrow> bool \<Rightarrow> string result" where
  "validate_new_tld b input allow_reserved =
     and_then (validate_tld_name input) (\<lambda>tld.
     case blocklists_check b tld of
       None \<Rightarrow> Inr tld
     | Some ReservedName \<Rightarrow>
         if allow_reserved then Inr tld
         else Inl (ReservedTld tld (block_reason_describe ReservedName))
     | Some reason \<Rightarrow> Inl (BlockedTld tld (block_reason_describe reason)))"

subsection \<open>The disk cache\<close>

text \<open>
  The files \<open>root-zone.json\<close> and \<open>root-zone.json.tmp\<close>. \<open>from_slice\<close> and \<open>to_pretty\<close> stand
  for \<open>serde_json\<close>'s reader and pretty printer of a root zone.
\<close>

record cache_disk =
  cd_zone :: "bytes option"
  cd_tmp :: "bytes option"

definition root_cache_load ::
  "(bytes \<Rightarrow> root_zone option) \<Rightarrow> cache_disk \<Rightarrow> root_zone result" where
  "root_cache_load from_slice d =
     and_then (ok_or (cd_zone d) Io) (\<lambda>bs.
     and_then (ok_or (from_slice bs) Serde) (\<lambda>zone.
     and_then (root_zone_validate zone) (\<lambda>_. Inr zone)))"

text \<open>
  The disk after each system call of \<open>store\<close>; the first write may have been interrupted after
  \<open>n\<close> bytes. A crash leaves one of these.
\<close>

definition root_cache_store_trace ::
  "(root_zone \<Rightarrow> bytes) \<Rightarrow> root_zone \<Rightarrow> nat \<Rightarrow> cache_disk \<Rightarrow> cache_disk list" where
  "root_cache_store_trace to_pretty zone n d =
     (let bs = to_pretty zone in
      [d, d\<lparr>cd_tmp := Some (take n bs)\<rparr>, d\<lparr>cd_tmp := Some bs\<rparr>,
       \<lparr>cd_zone = Some bs, cd_tmp = None\<rparr>])"

subsection \<open>Signatures\<close>

definition tld_record_wf :: "tld_record \<Rightarrow> bool" where
  "tld_record_wf r \<longleftrightarrow> pred_option json_wf (tr_pricing r)"

definition root_zone_wf :: "root_zone \<Rightarrow> bool" where
  "root_zone_wf z \<longleftrightarrow>
     rz_root_version z \<le> u64_max \<and> bm_sorted (rz_tlds z) \<and> bm_sorted (rz_domains z) \<and>
     list_all tld_record_wf (bm_values (rz_tlds z)) \<and>
     list_all domain_record_wf (bm_values (rz_domains z))"

lemma tld_record_json_wf: "tld_record_wf r \<Longrightarrow> json_wf (tld_record_json r)"
  unfolding tld_record_json_def
  by (rule json_wf_obj)
     (simp only: json_wf_simps json_wf.simps, simp add: tld_record_wf_def option.pred_set)

lemma tld_record_json_inj:
  assumes "tld_record_json r = tld_record_json s"
  shows "r = s"
proof -
  note get = json_obj_field [OF assms [unfolded tld_record_json_def], unfolded json_get_simps]
  have "tr_tld r = tr_tld s" using get [of "''tld''"] by simp
  moreover have "tr_status r = tr_status s" using get [of "''status''"] by (simp add: serde_name_inj)
  moreover have "tr_mode r = tr_mode s" using get [of "''mode''"] by (simp add: serde_name_inj)
  moreover have "tr_owner_public_key r = tr_owner_public_key s"
    using get [of "''owner_public_key''"] by simp
  moreover have "tr_operator_public_key r = tr_operator_public_key s"
    using get [of "''operator_public_key''"] by simp
  moreover have "tr_operator_name r = tr_operator_name s" using get [of "''operator_name''"] by simp
  moreover have "tr_registry_type r = tr_registry_type s"
    using get [of "''registry_type''"] by (simp add: serde_name_inj)
  moreover have "tr_registry_endpoint r = tr_registry_endpoint s" using get [of "''registry_endpoint''"]
    by (cases "tr_registry_endpoint r"; cases "tr_registry_endpoint s") simp_all
  moreover have "tr_registry_manifest_hash r = tr_registry_manifest_hash s"
    using get [of "''registry_manifest_hash''"]
    by (cases "tr_registry_manifest_hash r"; cases "tr_registry_manifest_hash s") simp_all
  moreover have "tr_registry_providers r = tr_registry_providers s"
    using get [of "''registry_providers''"] by (auto simp: inj_on_def inj_map_eq_map split: if_splits)
  moreover have "tr_policy_hash r = tr_policy_hash s" using get [of "''policy_hash''"]
    by (cases "tr_policy_hash r"; cases "tr_policy_hash s") simp_all
  moreover have "tr_pricing r = tr_pricing s" using get [of "''pricing''"]
    by (cases "tr_pricing r"; cases "tr_pricing s") simp_all
  moreover have "tr_created_at r = tr_created_at s" using get [of "''created_at''"] by simp
  moreover have "tr_updated_at r = tr_updated_at s" using get [of "''updated_at''"] by simp
  moreover have "tr_expires_at r = tr_expires_at s" using get [of "''expires_at''"]
    by (cases "tr_expires_at r"; cases "tr_expires_at s") simp_all
  moreover have "tr_notes r = tr_notes s" using get [of "''notes''"]
    by (cases "tr_notes r"; cases "tr_notes s") simp_all
  moreover have "tr_signature_algorithm r = tr_signature_algorithm s"
    using get [of "''signature_algorithm''"] by simp
  moreover have "tr_signature r = tr_signature s"
    using get [of "''signature''"] by (auto dest: json_nullable_inj)
  ultimately show ?thesis by (intro tld_record.equality) simp_all
qed

lemma audit_event_json_inj: "audit_event_json e = audit_event_json f \<Longrightarrow> e = f"
proof -
  assume eq: "audit_event_json e = audit_event_json f"
  note get = json_obj_field [OF eq [unfolded audit_event_json_def], unfolded json_get_simps]
  show ?thesis
    using get [of "''at''"] get [of "''actor''"] get [of "''action''"] get [of "''subject''"]
      get [of "''detail''"]
    by (intro audit_event.equality) (cases "ae_detail e"; cases "ae_detail f"; simp)+
qed

lemma audit_event_json_wf: "json_wf (audit_event_json e)"
  unfolding audit_event_json_def
  by (rule json_wf_obj) (simp only: json_wf_simps json_wf.simps, simp)

lemma root_zone_json_wf: "root_zone_wf z \<Longrightarrow> json_wf (root_zone_json z)"
  unfolding root_zone_json_def
  by (rule json_wf_obj)
     (simp only: json_wf_simps json_wf.simps,
      auto simp: root_zone_wf_def list_all_iff
         intro!: json_wf_map audit_event_json_wf tld_record_json_wf domain_record_json_wf)

lemma root_zone_json_inj:
  assumes eq: "root_zone_json y = root_zone_json z" and wf: "root_zone_wf y" "root_zone_wf z"
  shows "y = z"
proof -
  note get = json_obj_field [OF eq [unfolded root_zone_json_def], unfolded json_get_simps]
  have "rz_network y = rz_network z" using get [of "''network''"] by simp
  moreover have "rz_root_version y = rz_root_version z" using get [of "''root_version''"] by simp
  moreover have "rz_generated_at y = rz_generated_at z" using get [of "''generated_at''"] by simp
  moreover have "rz_root_public_key y = rz_root_public_key z"
    using get [of "''root_public_key''"] by simp
  moreover have "json_map tld_record_json (rz_tlds y) = json_map tld_record_json (rz_tlds z)"
    using get [of "''tlds''"] by simp
  then have "rz_tlds y = rz_tlds z"
    by (rule json_map_inj) (use wf in \<open>auto simp: root_zone_wf_def inj_on_def dest: tld_record_json_inj\<close>)
  moreover have "json_map domain_record_json (rz_domains y) = json_map domain_record_json (rz_domains z)"
    using get [of "''domains''"] by simp
  then have "rz_domains y = rz_domains z"
    by (rule json_map_inj) (use wf in \<open>auto simp: root_zone_wf_def inj_on_def dest: domain_record_json_inj\<close>)
  moreover have "map audit_event_json (rz_audit y) = map audit_event_json (rz_audit z)"
    using get [of "''audit''"] by simp
  then have "rz_audit y = rz_audit z"
    by (rule map_injective) (auto simp: inj_def dest: audit_event_json_inj)
  moreover have "rz_signature_algorithm y = rz_signature_algorithm z"
    using get [of "''signature_algorithm''"] by simp
  moreover have "rz_signature y = rz_signature z"
    using get [of "''signature''"] by (auto dest: json_nullable_inj)
  ultimately show ?thesis by (intro root_zone.equality) simp_all
qed

interpretation tr: binding_document E "tld_record_signable_bytes E" tr_signature
    "\<lambda>s. tr_signature_update (\<lambda>_. s)" tld_record_wf
  for E :: "'x deps_scheme"
proof unfold_locales
  fix s d d'
  show "tld_record_signable_bytes E (d\<lparr>tr_signature := s\<rparr>) = tld_record_signable_bytes E d"
    by (simp add: tld_record_signable_bytes_def)
  show "tr_signature (d\<lparr>tr_signature := s\<rparr>) = s" by simp
  assume "json_scalar_ok E" "tld_record_wf d" "tld_record_wf d'"
    "tld_record_signable_bytes E d = tld_record_signable_bytes E d'"
  then show "d\<lparr>tr_signature := None\<rparr> = d'\<lparr>tr_signature := None\<rparr>"
    unfolding tld_record_signable_bytes_def
    by (intro tld_record_json_inj canonical_bytes_eqD tld_record_json_wf)
       (simp_all add: tld_record_wf_def)
qed

interpretation rz: binding_document E "root_zone_signable_bytes E" rz_signature
    "\<lambda>s. rz_signature_update (\<lambda>_. s)" root_zone_wf
  for E :: "'x deps_scheme"
proof unfold_locales
  fix s d d'
  show "root_zone_signable_bytes E (d\<lparr>rz_signature := s\<rparr>) = root_zone_signable_bytes E d"
    by (simp add: root_zone_signable_bytes_def)
  show "rz_signature (d\<lparr>rz_signature := s\<rparr>) = s" by simp
  assume "json_scalar_ok E" "root_zone_wf d" "root_zone_wf d'"
    "root_zone_signable_bytes E d = root_zone_signable_bytes E d'"
  then show "d\<lparr>rz_signature := None\<rparr> = d'\<lparr>rz_signature := None\<rparr>"
    unfolding root_zone_signable_bytes_def
    by (intro root_zone_json_inj canonical_bytes_eqD root_zone_json_wf)
       (simp_all add: root_zone_wf_def)
qed

lemma tld_record_verify_iff [result_simps]:
  "tld_record_verify E r pk = Inr u \<longleftrightarrow>
     signature_check E pk (tld_record_signable_bytes E r) (tr_signature r)"
  by (auto simp: tld_record_verify_def signature_check_def split: option.splits)

lemma root_zone_verify_iff [result_simps]:
  "root_zone_verify E z pk = Inr u \<longleftrightarrow>
     rz_root_public_key z = pk \<and>
     signature_check E pk (root_zone_signable_bytes E z) (rz_signature z) \<and>
     (\<forall>r \<in> set (bm_values (rz_tlds z)). tld_record_verify E r pk = Inr ())"
  by (auto simp: root_zone_verify_def signature_check_def try_for_each_unit split: option.splits)

lemma root_zone_validate_iff [result_simps]:
  "root_zone_validate z = Inr u \<longleftrightarrow>
     rz_network z \<noteq> [] \<and> (\<forall>r \<in> set (bm_values (rz_domains z)). bm_contains (rz_tlds z) (dr_tld r))"
  by (fastforce simp: root_zone_validate_def try_for_each_unit bm_values_def split: if_splits)

definition sample_tld_record :: tld_record where
  "sample_tld_record =
     \<lparr>tr_tld = ''pagina'', tr_status = TldOfficial, tr_mode = ModeOfficial,
      tr_owner_public_key = ''0a'', tr_operator_public_key = ''0a'', tr_operator_name = ''op'',
      tr_registry_type = RootManaged, tr_registry_endpoint = None, tr_registry_manifest_hash = None,
      tr_registry_providers = [], tr_policy_hash = None, tr_pricing = None, tr_created_at = ''1'',
      tr_updated_at = ''1'', tr_expires_at = None, tr_notes = None,
      tr_signature_algorithm = ''ed25519'', tr_signature = None\<rparr>"

definition sample_root_zone :: root_zone where
  "sample_root_zone =
     \<lparr>rz_network = ''n'', rz_root_version = 1, rz_generated_at = ''1'', rz_root_public_key = ''0a'',
      rz_tlds = [(''pagina'', sample_tld_record)], rz_domains = [(''joao.pagina'', sample_domain_record)],
      rz_audit = [], rz_signature_algorithm = ''ed25519'', rz_signature = None\<rparr>"

text \<open>
  C21: A root zone that verifies under the trusted key carries that key and a signature by it over
  its canonical bytes, and every TLD record in it is signed by the same key; and the signed bytes
  fix the whole zone: every other well-formed zone with the same signed bytes has the same version,
  TLD records, domain records, their signatures and the audit trail.
\<close>

theorem root_zone_verify_sound:
  assumes "root_zone_verify E z pk = Inr ()" and "json_scalar_ok E" and "root_zone_wf z" "root_zone_wf z'"
  shows "rz_root_public_key z = pk \<and>
    signature_check E pk (root_zone_signable_bytes E z) (rz_signature z) \<and>
    (bm_get (rz_tlds z) t = Some r \<longrightarrow>
       signature_check E pk (tld_record_signable_bytes E r) (tr_signature r)) \<and>
    (root_zone_signable_bytes E z' = root_zone_signable_bytes E z \<longrightarrow>
       z'\<lparr>rz_signature := None\<rparr> = z\<lparr>rz_signature := None\<rparr>)"
  using assms rz.payload_binds [of E z' z]
  by (auto simp: result_simps dest: bm_get_value)

text \<open>
  No TLD is created over a blocked name: a name accepted by \<open>validate_new_tld\<close> obeys the naming
  rules, is on no IANA list, and is on another list only when the caller may use reserved names and
  it is on the reserved list. With the default files in place, no infrastructure name is accepted
  from a caller who may not.
\<close>

lemma validate_new_tld_sound:
  "(case validate_new_tld b input allow_reserved of
      Inl e \<Rightarrow> True
    | Inr t \<Rightarrow> tld_ok t \<and> t \<notin> bl_iana b \<and>
        (t \<notin> bl_reserved b \<union> bl_policy b \<union> bl_brand_safety b \<or> (allow_reserved \<and> t \<in> bl_reserved b))) \<and>
   (blocklists_load path iana Missing policy brand = Inr b \<longrightarrow>
      \<not> is_ok (validate_new_tld b ''fed'' False) \<and> \<not> is_ok (validate_new_tld b ''registry'' False))"
proof
  show "case validate_new_tld b input allow_reserved of
      Inl e \<Rightarrow> True
    | Inr t \<Rightarrow> tld_ok t \<and> t \<notin> bl_iana b \<and>
        (t \<notin> bl_reserved b \<union> bl_policy b \<union> bl_brand_safety b \<or> (allow_reserved \<and> t \<in> bl_reserved b))"
    by (auto simp: validate_new_tld_def blocklists_check_def result_simps
          dest: validate_tld_name_ok split: sum.split option.splits if_splits block_reason.splits)
next
  have "load_list (Text reserved_default)
      = Inr (set [''fed'', ''root'', ''admin'', ''registry'', ''status'', ''nodes'', ''protocol'', ''system''])"
    by code_simp
  moreover have "validate_tld_name ''fed'' = Inr ''fed''" "validate_tld_name ''registry'' = Inr ''registry''"
    by code_simp+
  ultimately show "blocklists_load path iana Missing policy brand = Inr b \<longrightarrow>
      \<not> is_ok (validate_new_tld b ''fed'' False) \<and> \<not> is_ok (validate_new_tld b ''registry'' False)"
    by (auto simp: blocklists_load_def ensure_list_def result_simps validate_new_tld_def
          blocklists_check_def)
qed

text \<open>
  One list hides the others: with \<open>allow_reserved\<close>, a reserved name is accepted although it is
  on the policy list too, since only the first list that holds a name is consulted.
\<close>

lemma validate_new_tld_reserved_hides_policy:
  "validate_new_tld \<lparr>bl_iana = {}, bl_reserved = {''admin''}, bl_policy = {''admin''},
      bl_brand_safety = {''admin''}\<rparr> ''admin'' True = Inr ''admin'' \<and>
   \<not> is_ok (validate_new_tld \<lparr>bl_iana = {}, bl_reserved = {}, bl_policy = {''admin''},
      bl_brand_safety = {''admin''}\<rparr> ''admin'' True)"
  by code_simp

text \<open>
  Storing the zone is crash-safe: after every system call of \<open>store\<close>, and after a first write
  cut off anywhere, \<open>load\<close> answers as before the store or as after it; and after the store it
  answers the stored zone whenever that is structurally valid.
\<close>

lemma root_cache_crash_safe:
  assumes "from_slice (to_pretty zone) = Some zone"
  shows "list_all (\<lambda>d'. root_cache_load from_slice d' = root_cache_load from_slice d \<or>
        root_cache_load from_slice d' = and_then (root_zone_validate zone) (\<lambda>_. Inr zone))
      (root_cache_store_trace to_pretty zone n d) \<and>
    (root_zone_validate zone = Inr () \<longrightarrow>
       root_cache_load from_slice (last (root_cache_store_trace to_pretty zone n d)) = Inr zone)"
  using assms by (simp add: root_cache_store_trace_def root_cache_load_def Let_def)

subsection \<open>The properties at concrete inputs\<close>

definition sample_operated_tld :: tld_record where
  "sample_operated_tld =
     sample_tld_record\<lparr>tr_operator_public_key := node_id sample_deps sample_identity\<rparr>"

definition sample_signed_tld :: tld_record where
  "sample_signed_tld = sample_operated_tld
     \<lparr>tr_signature := Some (sign sample_deps sample_identity
        (tld_record_signable_bytes sample_deps sample_operated_tld))\<rparr>"

lemma sample_signed_tld_fields [simp]:
  "tr_tld sample_signed_tld = ''pagina''" "tr_status sample_signed_tld = TldOfficial"
  "tr_operator_public_key sample_signed_tld = node_id sample_deps sample_identity"
  "tr_registry_type sample_signed_tld = RootManaged" "tr_expires_at sample_signed_tld = None"
  "tld_record_wf sample_signed_tld"
  by (simp_all add: sample_signed_tld_def sample_operated_tld_def sample_tld_record_def
      tld_record_wf_def)

definition sample_unsigned_zone :: root_zone where
  "sample_unsigned_zone = sample_root_zone
     \<lparr>rz_root_public_key := node_id sample_deps sample_identity,
      rz_tlds := [(''pagina'', sample_signed_tld)],
      rz_domains := [(''joao.pagina'', sample_signed_domain)]\<rparr>"

definition sample_signed_zone :: root_zone where
  "sample_signed_zone = sample_unsigned_zone
     \<lparr>rz_signature := Some (sign sample_deps sample_identity
        (root_zone_signable_bytes sample_deps sample_unsigned_zone))\<rparr>"

lemma sample_signed_tld_verifies:
  "tld_record_verify sample_deps sample_signed_tld (node_id sample_deps sample_identity) = Inr ()"
  unfolding tld_record_verify_iff
  by (rule tr.sealed_checks [OF sample_hex_ok sample_ed25519_ok length_sample_identity
        sample_signed_tld_def])

lemma sample_signed_zone_verifies:
  "root_zone_verify sample_deps sample_signed_zone (node_id sample_deps sample_identity) = Inr ()"
  using sample_signed_tld_verifies
    rz.sealed_checks [OF sample_hex_ok sample_ed25519_ok length_sample_identity sample_signed_zone_def]
  by (simp add: result_simps sample_signed_zone_def sample_unsigned_zone_def bm_values_def)

lemma sample_signed_zone_wf: "root_zone_wf sample_signed_zone"
  by (simp add: root_zone_wf_def sample_signed_zone_def sample_unsigned_zone_def sample_root_zone_def
      bm_values_def bm_sorted_def)

theorem root_zone_verify_sound_witness:
  "root_zone_verify sample_deps sample_signed_zone (node_id sample_deps sample_identity) = Inr () \<and>
   signature_check sample_deps (node_id sample_deps sample_identity)
     (tld_record_signable_bytes sample_deps sample_signed_tld) (tr_signature sample_signed_tld) \<and>
   root_zone_signable_bytes sample_deps (sample_signed_zone\<lparr>rz_root_version := 0\<rparr>)
     \<noteq> root_zone_signable_bytes sample_deps sample_signed_zone"
proof -
  have "root_zone_wf (sample_signed_zone\<lparr>rz_root_version := 0\<rparr>)"
    using sample_signed_zone_wf by (simp add: root_zone_wf_def)
  moreover have "bm_get (rz_tlds sample_signed_zone) ''pagina'' = Some sample_signed_tld"
    by (simp add: sample_signed_zone_def sample_unsigned_zone_def bm_get_def)
  moreover have "rz_root_version sample_signed_zone = 1"
    by (simp add: sample_signed_zone_def sample_unsigned_zone_def sample_root_zone_def)
  then have "(sample_signed_zone\<lparr>rz_root_version := 0\<rparr>)\<lparr>rz_signature := None\<rparr>
      \<noteq> sample_signed_zone\<lparr>rz_signature := None\<rparr>"
    by (metis root_zone.select_convs(2) root_zone.simps(2,9) root_zone.surjective
        root_zone.update_convs(2,9) zero_neq_one)
  ultimately show ?thesis
    using root_zone_verify_sound [OF sample_signed_zone_verifies sample_deps_scalar_ok
        sample_signed_zone_wf, of "sample_signed_zone\<lparr>rz_root_version := 0\<rparr>" "''pagina''" sample_signed_tld]
      sample_signed_zone_verifies by blast
qed

lemma validate_new_tld_sound_witness:
  "\<exists>b. blocklists_load ''p'' (Text ''COM'') Missing Missing Missing = Inr b \<and>
     validate_new_tld b ''Pagina'' False = Inr ''pagina'' \<and> ''pagina'' \<notin> bl_iana b \<and>
     \<not> is_ok (validate_new_tld b ''fed'' False)"
proof -
  obtain b where b: "blocklists_load ''p'' (Text ''COM'') Missing Missing Missing = Inr b"
    and v: "validate_new_tld b ''Pagina'' False = Inr ''pagina''"
  proof
    let ?b = "\<lparr>bl_iana = {''com''}, bl_reserved = set [''fed'', ''root'', ''admin'', ''registry'', ''status'',
      ''nodes'', ''protocol'', ''system''], bl_policy = {}, bl_brand_safety = {}\<rparr>"
    show "blocklists_load ''p'' (Text ''COM'') Missing Missing Missing = Inr ?b" by code_simp
    show "validate_new_tld ?b ''Pagina'' False = Inr ''pagina''" by code_simp
  qed
  from validate_new_tld_sound [where b = b and input = "''Pagina''" and allow_reserved = False
      and path = "''p''" and iana = "Text ''COM''" and policy = Missing and brand = Missing] b v
  show ?thesis by (intro exI [of _ b]) simp
qed

lemma root_cache_crash_safe_witness:
  "root_cache_load (\<lambda>_. Some sample_root_zone)
     (last (root_cache_store_trace (\<lambda>_. [1]) sample_root_zone 0 \<lparr>cd_zone = None, cd_tmp = None\<rparr>))
   = Inr sample_root_zone"
proof -
  have "root_zone_validate sample_root_zone = Inr ()" by code_simp
  with root_cache_crash_safe [of "\<lambda>_. Some sample_root_zone" "\<lambda>_. [1]" sample_root_zone
      "\<lparr>cd_zone = None, cd_tmp = None\<rparr>" 0]
  show ?thesis by simp
qed

end
