(* ===== verification/Registry.thy ===== *)
theory Registry
  imports Root
begin

text \<open>
  \<open>crates/federate-registry/src/lib.rs\<close>: the operator-signed registry of a delegated TLD, and the
  routing of a domain lookup through the signed root zone.
\<close>

definition MAX_REGISTRY_BYTES :: nat where
  "MAX_REGISTRY_BYTES = 16 * 1024 * 1024"

record tld_registry =
  rg_tld :: string
  rg_version :: nat
  rg_generated_at :: string
  rg_operator_public_key :: string
  rg_domains :: "(string, domain_record) bmap"
  rg_signature_algorithm :: string
  rg_signature :: "string option"

definition tld_registry_json :: "tld_registry \<Rightarrow> json" where
  "tld_registry_json r = json_obj (
     json_field ''tld'' (JString (rg_tld r)) @
     json_field ''version'' (json_nat (rg_version r)) @
     json_field ''generated_at'' (JString (rg_generated_at r)) @
     json_field ''operator_public_key'' (JString (rg_operator_public_key r)) @
     json_field ''domains'' (json_map domain_record_json (rg_domains r)) @
     json_field ''signature_algorithm'' (JString (rg_signature_algorithm r)) @
     json_field ''signature'' (json_nullable JString (rg_signature r)))"

definition tld_registry_signable_bytes :: "'x deps_scheme \<Rightarrow> tld_registry \<Rightarrow> bytes" where
  "tld_registry_signable_bytes E r = canonical_bytes E (tld_registry_json (r\<lparr>rg_signature := None\<rparr>))"

definition tld_registry_verify ::
  "'x deps_scheme \<Rightarrow> tld_registry \<Rightarrow> string \<Rightarrow> string \<Rightarrow> unit result" where
  "tld_registry_verify E r expected_tld operator_public_key =
     (let fail = (\<lambda>reason. Inl (VerificationFailed ''tld-registry'' (''.'' @ rg_tld r) reason))
      in if rg_tld r \<noteq> expected_tld
         then fail (''registry is for .'' @ rg_tld r @ '', expected .'' @ expected_tld)
         else if rg_operator_public_key r \<noteq> operator_public_key
         then fail ''registry signer is not the operator key from the root-signed TLD record''
         else (case rg_signature r of
             None \<Rightarrow> fail ''registry is unsigned''
           | Some sig \<Rightarrow>
               if \<not> verify_signature E operator_public_key (tld_registry_signable_bytes E r) sig
               then fail ''registry signature invalid (tampered or wrong key)''
               else try_for_each (\<lambda>(name, rec).
                 if dr_tld rec \<noteq> rg_tld r \<or> dr_domain rec \<noteq> name
                 then fail (''registry entry '' @ name @ '' is inconsistent (record domain '' @
                   dr_domain rec @ '', tld .'' @ dr_tld rec @ '')'')
                 else Inr ()) (rg_domains r)))"

definition tld_registry_signed ::
  "'x deps_scheme \<Rightarrow> node_identity \<Rightarrow> string \<Rightarrow> nat \<Rightarrow> string \<Rightarrow> (string, domain_record) bmap
     \<Rightarrow> tld_registry" where
  "tld_registry_signed E i tld version generated_at domains =
     (let registry =
        \<lparr>rg_tld = tld, rg_version = version, rg_generated_at = generated_at,
         rg_operator_public_key = node_id E i, rg_domains = domains,
         rg_signature_algorithm = SIGNATURE_ALGORITHM, rg_signature = None\<rparr>
      in registry\<lparr>rg_signature := Some (sign E i (tld_registry_signable_bytes E registry))\<rparr>)"

definition tld_registry_lookup :: "tld_registry \<Rightarrow> string \<Rightarrow> domain_record option" where
  "tld_registry_lookup r name = bm_get (rg_domains r) name"

text \<open>
  \<open>load_registry_file\<close>: the file's bytes if it can be read; \<open>from_slice\<close> is \<open>serde_json\<close>'s
  reader, whose message is not kept.
\<close>

definition load_registry_file ::
  "(bytes \<Rightarrow> tld_registry option) \<Rightarrow> string \<Rightarrow> bytes option \<Rightarrow> (bytes \<times> tld_registry) result" where
  "load_registry_file from_slice path file =
     and_then (ok_or file Io) (\<lambda>bs.
     and_then (ok_or (from_slice bs)
       (InvalidRoot (path @ '' is not a valid TLD registry document: ''))) (\<lambda>registry.
     Inr (bs, registry)))"

subsection \<open>Routing a lookup\<close>

datatype domain_source =
    SourceRootManaged domain_record
  | SourceDelegated (ds_tld: string) (ds_operator_public_key: string) (ds_registry_type: registry_type)
      (ds_registry_endpoint: "string option") (ds_registry_manifest_hash: "string option")
      (ds_registry_providers: "string list")

definition registry_view_tld :: "root_zone \<Rightarrow> string \<Rightarrow> tld_record result" where
  "registry_view_tld zone tld = ok_or (root_zone_lookup_tld zone tld) (TldNotFound tld)"

definition locate_domain ::
  "'x deps_scheme \<Rightarrow> int \<Rightarrow> root_zone \<Rightarrow> string \<Rightarrow> domain_source result" where
  "locate_domain E clock zone host =
     and_then (federate_domain_parse host) (\<lambda>domain.
     and_then (registry_view_tld zone (fd_tld domain)) (\<lambda>tld_rec.
     if \<not> tld_status_is_resolvable (tr_status tld_rec)
     then Inl (TldUnavailable (fd_tld domain) (tld_status_as_str (tr_status tld_rec)))
     else if tld_record_is_expired E clock tld_rec
     then Inl (TldUnavailable (fd_tld domain) ''expired'')
     else (case tr_registry_type tld_rec of
         RootManaged \<Rightarrow>
           and_then (ok_or (root_zone_lookup zone (fqdn domain)) (DomainNotFound (fqdn domain))) (\<lambda>rec.
           and_then (domain_record_verify E rec (tr_operator_public_key tld_rec)) (\<lambda>_.
           if domain_record_is_expired E clock rec
           then Inl (TldUnavailable (fd_tld domain) ''expired'')
           else Inr (SourceRootManaged rec)))
       | _ \<Rightarrow> Inr (SourceDelegated (fd_tld domain) (tr_operator_public_key tld_rec)
           (tr_registry_type tld_rec) (tr_registry_endpoint tld_rec)
           (tr_registry_manifest_hash tld_rec) (tr_registry_providers tld_rec)))))"

text \<open>
  The HTTP client of a delegated registry. \<open>get_json\<close> is the capped download of the client crate,
  followed by \<open>from_value\<close>.
\<close>

record delegated_registry_client =
  drc_endpoint :: string
  drc_operator_public_key :: string

definition delegated_registry_client_new :: "string \<Rightarrow> string \<Rightarrow> delegated_registry_client" where
  "delegated_registry_client_new endpoint operator_public_key =
     \<lparr>drc_endpoint = trim_end_matches (CHR ''/'') endpoint,
      drc_operator_public_key = operator_public_key\<rparr>"

definition fetch_registry ::
  "'x deps_scheme \<Rightarrow> (string \<Rightarrow> 'j result) \<Rightarrow> ('j \<Rightarrow> tld_registry option)
     \<Rightarrow> delegated_registry_client \<Rightarrow> string \<Rightarrow> tld_registry result" where
  "fetch_registry E get_json from_value c tld =
     and_then (get_json (drc_endpoint c @ ''/v1/tld-registry/'' @ tld)) (\<lambda>v.
     and_then (ok_or (from_value v) Serde) (\<lambda>registry.
     and_then (tld_registry_verify E registry tld (drc_operator_public_key c)) (\<lambda>_.
     Inr registry)))"

subsection \<open>Registries are signed documents\<close>

definition tld_registry_wf :: "tld_registry \<Rightarrow> bool" where
  "tld_registry_wf r \<longleftrightarrow>
     rg_version r \<le> u64_max \<and> bm_sorted (rg_domains r) \<and>
     list_all domain_record_wf (bm_values (rg_domains r))"

lemma tld_registry_json_wf: "tld_registry_wf r \<Longrightarrow> json_wf (tld_registry_json r)"
  unfolding tld_registry_json_def
  by (rule json_wf_obj)
     (simp only: json_wf_simps json_wf.simps,
      auto simp: tld_registry_wf_def list_all_iff intro!: json_wf_map domain_record_json_wf)

lemma tld_registry_json_inj:
  assumes eq: "tld_registry_json r = tld_registry_json s" and wf: "tld_registry_wf r" "tld_registry_wf s"
  shows "r = s"
proof -
  note get = json_obj_field [OF eq [unfolded tld_registry_json_def], unfolded json_get_simps]
  have "rg_tld r = rg_tld s" using get [of "''tld''"] by simp
  moreover have "rg_version r = rg_version s" using get [of "''version''"] by simp
  moreover have "rg_generated_at r = rg_generated_at s" using get [of "''generated_at''"] by simp
  moreover have "rg_operator_public_key r = rg_operator_public_key s"
    using get [of "''operator_public_key''"] by simp
  moreover have "json_map domain_record_json (rg_domains r) = json_map domain_record_json (rg_domains s)"
    using get [of "''domains''"] by simp
  then have "rg_domains r = rg_domains s"
    by (rule json_map_inj)
       (use wf in \<open>auto simp: tld_registry_wf_def inj_on_def dest: domain_record_json_inj\<close>)
  moreover have "rg_signature_algorithm r = rg_signature_algorithm s"
    using get [of "''signature_algorithm''"] by simp
  moreover have "rg_signature r = rg_signature s"
    using get [of "''signature''"] by (auto dest: json_nullable_inj)
  ultimately show ?thesis by (intro tld_registry.equality) simp_all
qed

interpretation rg: binding_document E "tld_registry_signable_bytes E" rg_signature
    "\<lambda>s. rg_signature_update (\<lambda>_. s)" tld_registry_wf
  for E :: "'x deps_scheme"
proof unfold_locales
  fix s d d'
  show "tld_registry_signable_bytes E (d\<lparr>rg_signature := s\<rparr>) = tld_registry_signable_bytes E d"
    by (simp add: tld_registry_signable_bytes_def)
  show "rg_signature (d\<lparr>rg_signature := s\<rparr>) = s" by simp
  assume "json_scalar_ok E" "tld_registry_wf d" "tld_registry_wf d'"
    "tld_registry_signable_bytes E d = tld_registry_signable_bytes E d'"
  then show "d\<lparr>rg_signature := None\<rparr> = d'\<lparr>rg_signature := None\<rparr>"
    unfolding tld_registry_signable_bytes_def
    by (intro tld_registry_json_inj canonical_bytes_eqD tld_registry_json_wf)
       (simp_all add: tld_registry_wf_def)
qed

lemma tld_registry_verify_iff [result_simps]:
  "tld_registry_verify E r tld pk = Inr u \<longleftrightarrow>
     rg_tld r = tld \<and> rg_operator_public_key r = pk \<and>
     signature_check E pk (tld_registry_signable_bytes E r) (rg_signature r) \<and>
     (\<forall>(name, rec) \<in> set (rg_domains r). dr_tld rec = tld \<and> dr_domain rec = name)"
  by (auto simp: tld_registry_verify_def signature_check_def try_for_each_unit
        split: option.splits if_splits)

lemma registry_type_case:
  "(case t of RootManaged \<Rightarrow> a | DelegatedManifest \<Rightarrow> b | DelegatedNative \<Rightarrow> b | DelegatedHttp \<Rightarrow> b
      | OfflineManual \<Rightarrow> b) = (if t = RootManaged then a else b)"
  by (cases t) simp_all

lemma locate_root_managed [result_simps]:
  "locate_domain E clock zone host = Inr (SourceRootManaged rec) \<longleftrightarrow>
     (\<exists>domain tld_rec. federate_domain_parse host = Inr domain \<and>
        bm_get (rz_tlds zone) (fd_tld domain) = Some tld_rec \<and>
        tld_status_is_resolvable (tr_status tld_rec) \<and> \<not> tld_record_is_expired E clock tld_rec \<and>
        tr_registry_type tld_rec = RootManaged \<and>
        bm_get (rz_domains zone) (fqdn domain) = Some rec \<and>
        domain_record_verify E rec (tr_operator_public_key tld_rec) = Inr () \<and>
        \<not> domain_record_is_expired E clock rec)"
  unfolding locate_domain_def registry_view_tld_def root_zone_lookup_tld_def root_zone_lookup_def
  by (auto simp: and_then_eq_Inr ok_or_eq_Inr registry_type_case split: if_splits)

lemma locate_delegated [result_simps]:
  "locate_domain E clock zone host = Inr (SourceDelegated tld pk rt ep mh ps) \<longleftrightarrow>
     (\<exists>domain tld_rec. federate_domain_parse host = Inr domain \<and> fd_tld domain = tld \<and>
        bm_get (rz_tlds zone) tld = Some tld_rec \<and>
        tld_status_is_resolvable (tr_status tld_rec) \<and> \<not> tld_record_is_expired E clock tld_rec \<and>
        tr_registry_type tld_rec \<noteq> RootManaged \<and>
        pk = tr_operator_public_key tld_rec \<and> rt = tr_registry_type tld_rec \<and>
        ep = tr_registry_endpoint tld_rec \<and> mh = tr_registry_manifest_hash tld_rec \<and>
        ps = tr_registry_providers tld_rec)"
  unfolding locate_domain_def registry_view_tld_def root_zone_lookup_tld_def root_zone_lookup_def
  by (auto simp: and_then_eq_Inr ok_or_eq_Inr registry_type_case split: if_splits)

lemma verified_tld_signed:
  "root_zone_verify E zone pk = Inr () \<Longrightarrow> bm_get (rz_tlds zone) tld = Some r \<Longrightarrow>
     signature_check E pk (tld_record_signable_bytes E r) (tr_signature r)"
  by (auto simp: root_zone_verify_iff tld_record_verify_iff dest!: bm_get_value)

lemma locate_not_later:
  assumes "locate_domain E t' zone host = Inr src" and "t \<le> t'"
  shows "locate_domain E t zone host = Inr src"
proof -
  have tld: "tld_record_is_expired E t r \<Longrightarrow> tld_record_is_expired E t' r" for r
    using assms(2) by (auto simp: tld_record_is_expired_def expired_def intro: expired_at_mono)
  have dom: "domain_record_is_expired E t r \<Longrightarrow> domain_record_is_expired E t' r" for r
    using assms(2) by (auto simp: domain_record_is_expired_def expired_def intro: expired_at_mono)
  show ?thesis
  proof (cases src)
    case (SourceRootManaged rec)
    with assms tld dom show ?thesis by (simp add: locate_root_managed) blast
  next
    case (SourceDelegated a b c d e f)
    with assms tld show ?thesis by (simp add: locate_delegated) blast
  qed
qed

text \<open>
  A registry verifies exactly as far as its operator vouches for it: the document that
  \<open>signed\<close> builds passes \<open>verify\<close> under the operator's key if every entry is filed under its own
  name and TLD, and a registry downloaded for a TLD never yields a record of another name or TLD.
\<close>

lemma tld_registry_no_smuggling:
  assumes "hex_ok E" "ed25519_ok E" "length (signing_key i) = 32"
  shows "(tld_registry_verify E (tld_registry_signed E i tld v ts domains) tld (node_id E i) = Inr () \<longleftrightarrow>
      list_all (\<lambda>(name, rec). dr_tld rec = tld \<and> dr_domain rec = name) domains) \<and>
    (fetch_registry E get_json from_value c tld = Inr r \<and> tld_registry_lookup r name = Some rec \<longrightarrow>
      dr_domain rec = name \<and> dr_tld rec = tld \<and>
      signature_check E (drc_operator_public_key c) (tld_registry_signable_bytes E r) (rg_signature r))"
proof
  let ?u = "\<lparr>rg_tld = tld, rg_version = v, rg_generated_at = ts, rg_operator_public_key = node_id E i,
    rg_domains = domains, rg_signature_algorithm = SIGNATURE_ALGORITHM, rg_signature = None\<rparr>"
  have s: "tld_registry_signed E i tld v ts domains
      = ?u\<lparr>rg_signature := Some (sign E i (tld_registry_signable_bytes E ?u))\<rparr>"
    by (simp add: tld_registry_signed_def Let_def)
  show "tld_registry_verify E (tld_registry_signed E i tld v ts domains) tld (node_id E i) = Inr () \<longleftrightarrow>
      list_all (\<lambda>(name, rec). dr_tld rec = tld \<and> dr_domain rec = name) domains"
    using rg.sealed_checks [OF assms s] s by (simp add: tld_registry_verify_iff list_all_iff)
next
  show "fetch_registry E get_json from_value c tld = Inr r \<and> tld_registry_lookup r name = Some rec \<longrightarrow>
      dr_domain rec = name \<and> dr_tld rec = tld \<and>
      signature_check E (drc_operator_public_key c) (tld_registry_signable_bytes E r) (rg_signature r)"
    by (auto simp: fetch_registry_def result_simps tld_registry_lookup_def dest: bm_get_in_set)
qed

text \<open>
  C7: The chain of trust of a lookup. In a zone that verifies under the root key, a located
  root-managed record is filed under the requested name, carries a signature by the operator key that
  the root key signed for that TLD, and neither the TLD nor the domain is expired or unresolvable; a
  delegation names the operator key of the root-signed TLD record. What is located at one time was
  located at every earlier time: an expiry never ends.
\<close>

theorem locate_domain_chain_of_trust:
  assumes "root_zone_verify E zone root_key = Inr ()" and "locate_domain E clock zone host = Inr src"
  shows "(\<exists>domain tld_rec. federate_domain_parse host = Inr domain \<and>
      root_zone_lookup_tld zone (fd_tld domain) = Some tld_rec \<and>
      signature_check E root_key (tld_record_signable_bytes E tld_rec) (tr_signature tld_rec) \<and>
      tld_status_is_resolvable (tr_status tld_rec) \<and> \<not> tld_record_is_expired E clock tld_rec \<and>
      (case src of
         SourceRootManaged rec \<Rightarrow>
           root_zone_lookup zone (fqdn domain) = Some rec \<and> dr_domain rec = dr_label rec @ ''.'' @ dr_tld rec \<and>
           signature_check E (tr_operator_public_key tld_rec) (domain_record_signable_bytes E rec)
             (dr_signature rec) \<and> \<not> domain_record_is_expired E clock rec
       | SourceDelegated tld pk rt ep mh ps \<Rightarrow>
           tld = fd_tld domain \<and> pk = tr_operator_public_key tld_rec \<and> rt \<noteq> RootManaged)) \<and>
    (clock' \<le> clock \<longrightarrow> locate_domain E clock' zone host = Inr src)"
proof (intro conjI impI)
  note signed = verified_tld_signed [OF assms(1)]
  show "clock' \<le> clock \<Longrightarrow> locate_domain E clock' zone host = Inr src"
    using assms(2) by (rule locate_not_later)
  from assms(2) show "\<exists>domain tld_rec. federate_domain_parse host = Inr domain \<and>
      root_zone_lookup_tld zone (fd_tld domain) = Some tld_rec \<and>
      signature_check E root_key (tld_record_signable_bytes E tld_rec) (tr_signature tld_rec) \<and>
      tld_status_is_resolvable (tr_status tld_rec) \<and> \<not> tld_record_is_expired E clock tld_rec \<and>
      (case src of
         SourceRootManaged rec \<Rightarrow>
           root_zone_lookup zone (fqdn domain) = Some rec \<and> dr_domain rec = dr_label rec @ ''.'' @ dr_tld rec \<and>
           signature_check E (tr_operator_public_key tld_rec) (domain_record_signable_bytes E rec)
             (dr_signature rec) \<and> \<not> domain_record_is_expired E clock rec
       | SourceDelegated tld pk rt ep mh ps \<Rightarrow>
           tld = fd_tld domain \<and> pk = tr_operator_public_key tld_rec \<and> rt \<noteq> RootManaged)"
    by (cases src)
       (auto simp: locate_root_managed locate_delegated domain_record_verify_iff
          root_zone_lookup_tld_def root_zone_lookup_def dest: signed)
qed

subsection \<open>The properties at concrete inputs\<close>

lemma tld_registry_no_smuggling_witness:
  "tld_registry_verify sample_deps
     (tld_registry_signed sample_deps sample_identity ''pagina'' 1 ''t'' [(''joao.pagina'', sample_signed_domain)])
     ''pagina'' (node_id sample_deps sample_identity) = Inr () \<and>
   (\<exists>r. fetch_registry sample_deps (\<lambda>_. Inr ())
        (\<lambda>_. Some (tld_registry_signed sample_deps sample_identity ''pagina'' 1 ''t''
           [(''joao.pagina'', sample_signed_domain)]))
        (delegated_registry_client_new ''http://h/'' (node_id sample_deps sample_identity)) ''pagina'' = Inr r \<and>
      tld_registry_lookup r ''joao.pagina'' = Some sample_signed_domain \<and>
      dr_domain sample_signed_domain = ''joao.pagina'')"
proof -
  let ?r = "tld_registry_signed sample_deps sample_identity ''pagina'' 1 ''t''
     [(''joao.pagina'', sample_signed_domain)]"
  let ?c = "delegated_registry_client_new ''http://h/'' (node_id sample_deps sample_identity)"
  let ?gj = "\<lambda>_ :: string. Inr () :: unit result"
  let ?fv = "\<lambda>_ :: unit. Some ?r"
  note base = tld_registry_no_smuggling [OF sample_hex_ok sample_ed25519_ok length_sample_identity]
  note inst = base [of "''pagina''" 1 "''t''" "[(''joao.pagina'', sample_signed_domain)]" "?gj" "?fv" "?c" "?r"
    "''joao.pagina''" "sample_signed_domain"]
  have v: "tld_registry_verify sample_deps ?r ''pagina'' (node_id sample_deps sample_identity) = Inr ()"
    using inst by simp
  moreover have f: "fetch_registry sample_deps (\<lambda>_. Inr ()) (\<lambda>_. Some ?r) ?c ''pagina'' = Inr ?r"
    using v by (simp add: fetch_registry_def delegated_registry_client_new_def)
  moreover have l: "tld_registry_lookup ?r ''joao.pagina'' = Some sample_signed_domain"
    by (simp add: tld_registry_lookup_def tld_registry_signed_def bm_get_def)
  moreover from inst f l have "dr_domain sample_signed_domain = ''joao.pagina''" by blast
  ultimately show ?thesis by blast
qed

lemma sample_zone_locates:
  "locate_domain sample_deps t sample_signed_zone ''joao.pagina'' = Inr (SourceRootManaged sample_signed_domain)"
proof -
  have "federate_domain_parse ''joao.pagina'' = Inr \<lparr>fd_name = ''joao'', fd_tld = ''pagina''\<rparr>"
    by code_simp
  then show ?thesis
    using sample_signed_domain_verifies
    by (simp add: locate_root_managed sample_signed_zone_def sample_unsigned_zone_def bm_get_def
        tld_record_is_expired_def domain_record_is_expired_def expired_def expired_at_def fqdn_def)
qed

theorem locate_domain_chain_of_trust_witness:
  "root_zone_verify sample_deps sample_signed_zone (node_id sample_deps sample_identity) = Inr () \<and>
   locate_domain sample_deps 10 sample_signed_zone ''joao.pagina''
     = Inr (SourceRootManaged sample_signed_domain) \<and>
   root_zone_lookup sample_signed_zone ''joao.pagina'' = Some sample_signed_domain \<and>
   locate_domain sample_deps 5 sample_signed_zone ''joao.pagina''
     = Inr (SourceRootManaged sample_signed_domain)"
proof -
  have p: "federate_domain_parse ''joao.pagina'' = Inr \<lparr>fd_name = ''joao'', fd_tld = ''pagina''\<rparr>"
    by code_simp
  show ?thesis
    using locate_domain_chain_of_trust [OF sample_signed_zone_verifies sample_zone_locates [of 10], of 5]
      sample_signed_zone_verifies sample_zone_locates [of 10] p
    by (auto simp: fqdn_def)
qed

end
