(* ===== verification/Mutation_Request.thy ===== *)
theory Mutation_Request
  imports Registry
begin

text \<open>
  \<open>crates/federate-mutation/src/request.rs\<close>: the signed envelope of a registry mutation, and the
  site package that carries a publication; \<open>audit.rs\<close>: the signed audit events.
\<close>

definition MUTATION_MAX_AGE_SECS :: int where
  "MUTATION_MAX_AGE_SECS = 300"

definition NONCE_TTL_SECS :: int where
  "NONCE_TTL_SECS = 300"

definition MAX_PACKAGE_BYTES :: nat where
  "MAX_PACKAGE_BYTES = 32 * 1024 * 1024"

definition MAX_PACKAGE_BLOCKS :: nat where
  "MAX_PACKAGE_BLOCKS = 2048"

datatype target_kind = KindTld | KindDomain

fun target_kind_as_str :: "target_kind \<Rightarrow> string" where
  "target_kind_as_str KindTld = ''tld''"
| "target_kind_as_str KindDomain = ''domain''"

datatype actor_role = RoleRoot | RoleTldOperator | RoleDomainOwner

fun actor_role_as_str :: "actor_role \<Rightarrow> string" where
  "actor_role_as_str RoleRoot = ''root''"
| "actor_role_as_str RoleTldOperator = ''tld-operator''"
| "actor_role_as_str RoleDomainOwner = ''domain-owner''"

subsection \<open>Actions\<close>

datatype mutation_action =
    PublishSite (ma_domain: string) (ma_manifest_hash: string)
  | UpdateDomainManifest (ma_domain: string) (ma_manifest_hash: string)
  | SetDomainStatus (ma_domain: string) (ma_domain_status: domain_status)
  | IssueDomain (ma_record: domain_record)
  | DelegateTld (ma_tld: string) (ma_owner_public_key: string) (ma_operator_public_key: string)
      (ma_operator_name: string) (ma_registry_type: registry_type)
      (ma_registry_endpoint: "string option") (ma_expires_at: "string option")
  | UpdateTld (ma_tld: string) (ma_registry_endpoint: "string option")
      (ma_expires_at: "string option") (ma_notes: "string option")
  | CreateTld (ma_tld: string) (ma_purpose: string)
  | ReserveTld (ma_tld: string) (ma_reason: string)
  | BlockTld (ma_tld: string) (ma_reason: string)
  | SetTldStatus (ma_tld: string) (ma_tld_status: tld_status)
  | UpdateRegistryPointer (ma_tld: string) (ma_registry_hex: string)

fun mutation_action_name :: "mutation_action \<Rightarrow> string" where
  "mutation_action_name (PublishSite _ _) = ''domain.publish''"
| "mutation_action_name (UpdateDomainManifest _ _) = ''domain.update_manifest''"
| "mutation_action_name (SetDomainStatus _ _) = ''domain.set_status''"
| "mutation_action_name (IssueDomain _) = ''domain.issue''"
| "mutation_action_name (DelegateTld _ _ _ _ _ _ _) = ''tld.delegate''"
| "mutation_action_name (CreateTld _ _) = ''tld.create''"
| "mutation_action_name (ReserveTld _ _) = ''tld.reserve''"
| "mutation_action_name (BlockTld _ _) = ''tld.block''"
| "mutation_action_name (UpdateTld _ _ _ _) = ''tld.update''"
| "mutation_action_name (SetTldStatus _ _) = ''tld.set_status''"
| "mutation_action_name (UpdateRegistryPointer _ _) = ''tld.update_registry_pointer''"

fun mutation_action_target :: "mutation_action \<Rightarrow> target_kind \<times> string" where
  "mutation_action_target (PublishSite domain _) = (KindDomain, to_ascii_lowercase domain)"
| "mutation_action_target (UpdateDomainManifest domain _) = (KindDomain, to_ascii_lowercase domain)"
| "mutation_action_target (SetDomainStatus domain _) = (KindDomain, to_ascii_lowercase domain)"
| "mutation_action_target (IssueDomain record) = (KindDomain, to_ascii_lowercase (dr_domain record))"
| "mutation_action_target (DelegateTld tld _ _ _ _ _ _) = (KindTld, to_ascii_lowercase tld)"
| "mutation_action_target (CreateTld tld _) = (KindTld, to_ascii_lowercase tld)"
| "mutation_action_target (ReserveTld tld _) = (KindTld, to_ascii_lowercase tld)"
| "mutation_action_target (BlockTld tld _) = (KindTld, to_ascii_lowercase tld)"
| "mutation_action_target (UpdateTld tld _ _ _) = (KindTld, to_ascii_lowercase tld)"
| "mutation_action_target (SetTldStatus tld _) = (KindTld, to_ascii_lowercase tld)"
| "mutation_action_target (UpdateRegistryPointer tld _) = (KindTld, to_ascii_lowercase tld)"

definition mutation_action_target_key :: "mutation_action \<Rightarrow> string" where
  "mutation_action_target_key a =
     (case mutation_action_target a of (kind, i) \<Rightarrow> target_kind_as_str kind @ '':'' @ i)"

text \<open>The derived \<open>Serialize\<close>: internally tagged by \<open>type\<close>, names in snake case.\<close>

fun mutation_action_tag :: "mutation_action \<Rightarrow> string" where
  "mutation_action_tag (PublishSite _ _) = ''publish_site''"
| "mutation_action_tag (UpdateDomainManifest _ _) = ''update_domain_manifest''"
| "mutation_action_tag (SetDomainStatus _ _) = ''set_domain_status''"
| "mutation_action_tag (IssueDomain _) = ''issue_domain''"
| "mutation_action_tag (DelegateTld _ _ _ _ _ _ _) = ''delegate_tld''"
| "mutation_action_tag (UpdateTld _ _ _ _) = ''update_tld''"
| "mutation_action_tag (CreateTld _ _) = ''create_tld''"
| "mutation_action_tag (ReserveTld _ _) = ''reserve_tld''"
| "mutation_action_tag (BlockTld _ _) = ''block_tld''"
| "mutation_action_tag (SetTldStatus _ _) = ''set_tld_status''"
| "mutation_action_tag (UpdateRegistryPointer _ _) = ''update_registry_pointer''"

fun mutation_action_fields :: "mutation_action \<Rightarrow> (string \<times> json) list" where
  "mutation_action_fields (PublishSite d h) =
     json_field ''domain'' (JString d) @
     json_field ''manifest_hash'' (JString h)"
| "mutation_action_fields (UpdateDomainManifest d h) =
     json_field ''domain'' (JString d) @
     json_field ''manifest_hash'' (JString h)"
| "mutation_action_fields (SetDomainStatus d s) =
     json_field ''domain'' (JString d) @
     json_field ''status'' (JString (domain_status_as_str s))"
| "mutation_action_fields (IssueDomain r) =
     json_field ''record'' (domain_record_json r)"
| "mutation_action_fields (DelegateTld t ow op nm rt ep ex) =
     json_field ''tld'' (JString t) @
     json_field ''owner_public_key'' (JString ow) @ json_field ''operator_public_key'' (JString op) @
     json_field ''operator_name'' (JString nm) @
     json_field ''registry_type'' (JString (registry_type_str rt)) @
     json_opt ''registry_endpoint'' JString ep @ json_opt ''expires_at'' JString ex"
| "mutation_action_fields (UpdateTld t ep ex n) =
     json_field ''tld'' (JString t) @
     json_opt ''registry_endpoint'' JString ep @ json_opt ''expires_at'' JString ex @
     json_opt ''notes'' JString n"
| "mutation_action_fields (CreateTld t p) =
     json_field ''tld'' (JString t) @
     json_field ''purpose'' (JString p)"
| "mutation_action_fields (ReserveTld t r) =
     json_field ''tld'' (JString t) @
     json_field ''reason'' (JString r)"
| "mutation_action_fields (BlockTld t r) =
     json_field ''tld'' (JString t) @
     json_field ''reason'' (JString r)"
| "mutation_action_fields (SetTldStatus t s) =
     json_field ''tld'' (JString t) @
     json_field ''status'' (JString (tld_status_as_str s))"
| "mutation_action_fields (UpdateRegistryPointer t h) =
     json_field ''tld'' (JString t) @
     json_field ''registry_hex'' (JString h)"

definition mutation_action_json :: "mutation_action \<Rightarrow> json" where
  "mutation_action_json a =
     json_obj (json_field ''type'' (JString (mutation_action_tag a)) @ mutation_action_fields a)"

subsection \<open>The envelope\<close>

record mutation_request =
  mr_mutation_id :: string
  mr_nonce :: string
  mr_issued_at :: string
  mr_actor_public_key :: string
  mr_target_version :: nat
  mr_action :: mutation_action
  mr_signature_algorithm :: string
  mr_signature :: "string option"

definition mutation_request_json :: "mutation_request \<Rightarrow> json" where
  "mutation_request_json r = json_obj (
     json_field ''mutation_id'' (JString (mr_mutation_id r)) @
     json_field ''nonce'' (JString (mr_nonce r)) @
     json_field ''issued_at'' (JString (mr_issued_at r)) @
     json_field ''actor_public_key'' (JString (mr_actor_public_key r)) @
     json_field ''target_version'' (json_nat (mr_target_version r)) @
     json_field ''action'' (mutation_action_json (mr_action r)) @
     json_field ''signature_algorithm'' (JString (mr_signature_algorithm r)) @
     json_field ''signature'' (json_nullable JString (mr_signature r)))"

definition mutation_signable_bytes :: "'x deps_scheme \<Rightarrow> mutation_request \<Rightarrow> bytes" where
  "mutation_signable_bytes E r =
     canonical_bytes E (mutation_request_json (r\<lparr>mr_signature := None\<rparr>))"

definition mutation_compute_id :: "'x deps_scheme \<Rightarrow> mutation_request \<Rightarrow> string" where
  "mutation_compute_id E r =
     hash_bytes E (canonical_bytes E
       (mutation_request_json (r\<lparr>mr_mutation_id := [], mr_signature := None\<rparr>)))"

definition mutation_signed ::
  "'x deps_scheme \<Rightarrow> node_identity \<Rightarrow> string \<Rightarrow> string \<Rightarrow> nat \<Rightarrow> mutation_action \<Rightarrow> mutation_request" where
  "mutation_signed E i nonce issued_at target_version action =
     (let req =
        \<lparr>mr_mutation_id = [], mr_nonce = nonce, mr_issued_at = issued_at,
         mr_actor_public_key = node_id E i, mr_target_version = target_version,
         mr_action = action, mr_signature_algorithm = SIGNATURE_ALGORITHM, mr_signature = None\<rparr>;
          req = req\<lparr>mr_mutation_id := mutation_compute_id E req\<rparr>
      in req\<lparr>mr_signature := Some (sign E i (mutation_signable_bytes E req))\<rparr>)"

definition mutation_verify :: "'x deps_scheme \<Rightarrow> mutation_request \<Rightarrow> unit result" where
  "mutation_verify E r =
     (if mr_signature_algorithm r \<noteq> SIGNATURE_ALGORITHM
      then Inl (MutationRejected (''unsupported signature algorithm '' @ [CHR 0x27] @
        mr_signature_algorithm r @ [CHR 0x27]))
      else if mr_mutation_id r \<noteq> mutation_compute_id E r
      then Inl (MutationRejected ''mutation_id does not match envelope content'')
      else (case mr_signature r of
          None \<Rightarrow> Inl (MutationRejected ''mutation is not signed'')
        | Some sig \<Rightarrow>
            if \<not> verify_signature E (mr_actor_public_key r) (mutation_signable_bytes E r) sig
            then Inl InvalidSignature else Inr ()))"

definition mutation_check_age :: "'x deps_scheme \<Rightarrow> mutation_request \<Rightarrow> int \<Rightarrow> unit result" where
  "mutation_check_age E r now =
     and_then (ok_or (x_parse_rfc3339 E (mr_issued_at r)) (Replay ''unparseable mutation timestamp''))
       (\<lambda>issued.
         let age = timestamp now - timestamp issued in
         if \<not> (-30 \<le> age \<and> age \<le> MUTATION_MAX_AGE_SECS)
         then Inl (Replay ''mutation timestamp outside the 300s acceptance window'')
         else Inr ())"

subsection \<open>Site packages\<close>

record package_block =
  pb_hash :: string
  pb_data_hex :: string

record site_package =
  sp_mutation :: mutation_request
  sp_manifest_hex :: string
  sp_blocks :: "package_block list"

text \<open>The loop over the blocks, with the running total.\<close>

fun decode_blocks ::
  "'x deps_scheme \<Rightarrow> nat \<Rightarrow> package_block list \<Rightarrow> (string \<times> bytes) list result" where
  "decode_blocks E tot [] = Inr []"
| "decode_blocks E tot (b # bs) =
     and_then (ok_or (x_hex_decode E (pb_data_hex b))
       (MutationRejected (''block '' @ pb_hash b @ '' is not hex''))) (\<lambda>raw.
     if MAX_PACKAGE_BYTES < tot + length raw
     then Inl (MutationRejected ''package exceeds 33554432 bytes'')
     else and_then (storage_verify E raw (pb_hash b)) (\<lambda>_.
          and_then (decode_blocks E (tot + length raw) bs) (\<lambda>rest.
          Inr ((pb_hash b, raw) # rest))))"

definition site_package_decode ::
  "'x deps_scheme \<Rightarrow> site_package \<Rightarrow> (bytes \<times> (string \<times> bytes) list) result" where
  "site_package_decode E p =
     (if MAX_PACKAGE_BLOCKS < length (sp_blocks p)
      then Inl (MutationRejected
        (''package has '' @ show_nat (length (sp_blocks p)) @ '' blocks (max 2048)''))
      else
        and_then (ok_or (x_hex_decode E (sp_manifest_hex p)) (MutationRejected ''manifest_hex is not hex''))
          (\<lambda>manifest_bytes.
        and_then (decode_blocks E (length manifest_bytes) (sp_blocks p)) (\<lambda>blocks.
        case mr_action (sp_mutation p) of
          PublishSite _ manifest_hash \<Rightarrow>
            and_then (storage_verify E manifest_bytes manifest_hash) (\<lambda>_.
            Inr (manifest_bytes, blocks))
        | _ \<Rightarrow> Inl (MutationRejected ''package mutation must be a publish_site action''))))"

subsection \<open>Audit events\<close>

record audit_record =
  au_event_id :: string
  au_mutation_id :: string
  au_actor_public_key :: string
  au_actor_role :: string
  au_action :: string
  au_target_type :: string
  au_target_id :: string
  au_previous_state_hash :: string
  au_new_state_hash :: string
  au_timestamp :: string
  au_signature_algorithm :: string
  au_signature :: "string option"

definition audit_record_json :: "audit_record \<Rightarrow> json" where
  "audit_record_json r = json_obj (
     json_field ''event_id'' (JString (au_event_id r)) @
     json_field ''mutation_id'' (JString (au_mutation_id r)) @
     json_field ''actor_public_key'' (JString (au_actor_public_key r)) @
     json_field ''actor_role'' (JString (au_actor_role r)) @
     json_field ''action'' (JString (au_action r)) @
     json_field ''target_type'' (JString (au_target_type r)) @
     json_field ''target_id'' (JString (au_target_id r)) @
     json_field ''previous_state_hash'' (JString (au_previous_state_hash r)) @
     json_field ''new_state_hash'' (JString (au_new_state_hash r)) @
     json_field ''timestamp'' (JString (au_timestamp r)) @
     json_field ''signature_algorithm'' (JString (au_signature_algorithm r)) @
     json_field ''signature'' (json_nullable JString (au_signature r)))"

definition audit_signable_bytes :: "'x deps_scheme \<Rightarrow> audit_record \<Rightarrow> bytes" where
  "audit_signable_bytes E r = canonical_bytes E (audit_record_json (r\<lparr>au_signature := None\<rparr>))"

definition audit_compute_id :: "'x deps_scheme \<Rightarrow> audit_record \<Rightarrow> string" where
  "audit_compute_id E r =
     hash_bytes E (canonical_bytes E (audit_record_json (r\<lparr>au_event_id := [], au_signature := None\<rparr>)))"

definition audit_finalize :: "'x deps_scheme \<Rightarrow> audit_record \<Rightarrow> node_identity \<Rightarrow> audit_record" where
  "audit_finalize E r root =
     (let r = r\<lparr>au_event_id := audit_compute_id E r\<rparr>
      in r\<lparr>au_signature := Some (sign E root (audit_signable_bytes E r))\<rparr>)"

definition audit_verify :: "'x deps_scheme \<Rightarrow> audit_record \<Rightarrow> string \<Rightarrow> unit result" where
  "audit_verify E r root_public_key =
     (let fail = (\<lambda>reason. Inl (VerificationFailed ''audit'' (au_event_id r) reason))
      in if au_event_id r \<noteq> audit_compute_id E r
         then fail ''event_id does not match event content''
         else (case au_signature r of
             None \<Rightarrow> fail ''audit event is not signed''
           | Some sig \<Rightarrow>
               if \<not> verify_signature E root_public_key (audit_signable_bytes E r) sig
               then fail ''audit signature is not from the root key''
               else Inr ()))"

subsection \<open>Envelopes and audit events are signed documents\<close>

definition mutation_action_wf :: "mutation_action \<Rightarrow> bool" where
  "mutation_action_wf a = (case a of IssueDomain r \<Rightarrow> domain_record_wf r | _ \<Rightarrow> True)"

definition mutation_request_wf :: "mutation_request \<Rightarrow> bool" where
  "mutation_request_wf r \<longleftrightarrow> mr_target_version r \<le> u64_max \<and> mutation_action_wf (mr_action r)"

lemma mutation_action_json_wf: "mutation_action_wf a \<Longrightarrow> json_wf (mutation_action_json a)"
  unfolding mutation_action_json_def
  by (rule json_wf_obj, cases a)
     (simp_all only: mutation_action_fields.simps json_wf_simps json_wf.simps,
      simp_all add: mutation_action_wf_def domain_record_json_wf)

lemma mutation_request_json_wf: "mutation_request_wf r \<Longrightarrow> json_wf (mutation_request_json r)"
  unfolding mutation_request_json_def
  by (rule json_wf_obj)
     (simp only: json_wf_simps json_wf.simps,
      simp add: mutation_request_wf_def mutation_action_json_wf)

lemma audit_record_json_wf: "json_wf (audit_record_json r)"
  unfolding audit_record_json_def
  by (rule json_wf_obj) (simp only: json_wf_simps json_wf.simps, simp)

lemma mutation_action_type_get:
  "map_of (rev (mutation_action_fields a) @ json_field ''type'' v) ''type'' = Some v"
  by (cases a) (simp_all only: mutation_action_fields.simps json_get_simps, simp_all add: json_get_simps)

lemma mutation_action_json_tag:
  assumes "mutation_action_json a = mutation_action_json b"
  shows "mutation_action_tag a = mutation_action_tag b"
  using json_obj_field [OF assms [unfolded mutation_action_json_def], of "''type''"]
  by (simp only: rev_append rev_json_field mutation_action_type_get) simp

lemma mutation_action_json_inj:
  assumes eq: "mutation_action_json a = mutation_action_json b"
  shows "a = b"
proof -
  note get = json_obj_field [OF eq [unfolded mutation_action_json_def]]
  note tag = mutation_action_json_tag [OF eq]
  show ?thesis
  proof (cases a)
    case (PublishSite d h)
    with tag obtain d' h' where "b = PublishSite d' h'" by (cases b) simp_all
    with PublishSite show ?thesis
      using get [of "''domain''"]
        get [of "''manifest_hash''"]
      by (simp_all only: mutation_action_fields.simps json_get_simps) simp_all
  next
    case (UpdateDomainManifest d h)
    with tag obtain d' h' where "b = UpdateDomainManifest d' h'" by (cases b) simp_all
    with UpdateDomainManifest show ?thesis
      using get [of "''domain''"]
        get [of "''manifest_hash''"]
      by (simp_all only: mutation_action_fields.simps json_get_simps) simp_all
  next
    case (SetDomainStatus d s)
    with tag obtain d' s' where "b = SetDomainStatus d' s'" by (cases b) simp_all
    with SetDomainStatus show ?thesis
      using get [of "''domain''"]
        get [of "''status''"]
      by (simp_all only: mutation_action_fields.simps json_get_simps) (simp_all add: serde_name_inj)
  next
    case (IssueDomain r)
    with tag obtain r' where "b = IssueDomain r'" by (cases b) simp_all
    with IssueDomain show ?thesis
      using get [of "''record''"]
      by (simp_all only: mutation_action_fields.simps json_get_simps) (auto dest: domain_record_json_inj)
  next
    case (DelegateTld t ow op nm rt ep ex)
    with tag obtain t' ow' op' nm' rt' ep' ex' where b: "b = DelegateTld t' ow' op' nm' rt' ep' ex'" by (cases b) simp_all
    note g = get [unfolded DelegateTld b mutation_action_fields.simps json_get_simps]
    have "t = t'" using g [of "''tld''"] by simp
    moreover have "ow = ow'" using g [of "''owner_public_key''"] by simp
    moreover have "op = op'" using g [of "''operator_public_key''"] by simp
    moreover have "nm = nm'" using g [of "''operator_name''"] by simp
    moreover have "rt = rt'" using g [of "''registry_type''"] by (simp add: serde_name_inj)
    moreover have "ep = ep'" using g [of "''registry_endpoint''"] by (cases ep; cases ep') simp_all
    moreover have "ex = ex'" using g [of "''expires_at''"] by (cases ex; cases ex') simp_all
    ultimately show ?thesis using DelegateTld b by simp
  next
    case (UpdateTld t ep ex n)
    with tag obtain t' ep' ex' n' where b: "b = UpdateTld t' ep' ex' n'" by (cases b) simp_all
    note g = get [unfolded UpdateTld b mutation_action_fields.simps json_get_simps]
    have "t = t'" using g [of "''tld''"] by simp
    moreover have "ep = ep'" using g [of "''registry_endpoint''"] by (cases ep; cases ep') simp_all
    moreover have "ex = ex'" using g [of "''expires_at''"] by (cases ex; cases ex') simp_all
    moreover have "n = n'" using g [of "''notes''"] by (cases n; cases n') simp_all
    ultimately show ?thesis using UpdateTld b by simp
  next
    case (CreateTld t p)
    with tag obtain t' p' where "b = CreateTld t' p'" by (cases b) simp_all
    with CreateTld show ?thesis
      using get [of "''tld''"]
        get [of "''purpose''"]
      by (simp_all only: mutation_action_fields.simps json_get_simps) simp_all
  next
    case (ReserveTld t r)
    with tag obtain t' r' where "b = ReserveTld t' r'" by (cases b) simp_all
    with ReserveTld show ?thesis
      using get [of "''tld''"]
        get [of "''reason''"]
      by (simp_all only: mutation_action_fields.simps json_get_simps) simp_all
  next
    case (BlockTld t r)
    with tag obtain t' r' where "b = BlockTld t' r'" by (cases b) simp_all
    with BlockTld show ?thesis
      using get [of "''tld''"]
        get [of "''reason''"]
      by (simp_all only: mutation_action_fields.simps json_get_simps) simp_all
  next
    case (SetTldStatus t s)
    with tag obtain t' s' where "b = SetTldStatus t' s'" by (cases b) simp_all
    with SetTldStatus show ?thesis
      using get [of "''tld''"]
        get [of "''status''"]
      by (simp_all only: mutation_action_fields.simps json_get_simps) (simp_all add: serde_name_inj)
  next
    case (UpdateRegistryPointer t h)
    with tag obtain t' h' where "b = UpdateRegistryPointer t' h'" by (cases b) simp_all
    with UpdateRegistryPointer show ?thesis
      using get [of "''tld''"]
        get [of "''registry_hex''"]
      by (simp_all only: mutation_action_fields.simps json_get_simps) simp_all
  qed
qed

lemma mutation_request_json_inj:
  assumes "mutation_request_json r = mutation_request_json s"
  shows "r = s"
proof -
  note get = json_obj_field [OF assms [unfolded mutation_request_json_def], unfolded json_get_simps]
  have "mr_mutation_id r = mr_mutation_id s" using get [of "''mutation_id''"] by simp
  moreover have "mr_nonce r = mr_nonce s" using get [of "''nonce''"] by simp
  moreover have "mr_issued_at r = mr_issued_at s" using get [of "''issued_at''"] by simp
  moreover have "mr_actor_public_key r = mr_actor_public_key s" using get [of "''actor_public_key''"] by simp
  moreover have "mr_target_version r = mr_target_version s" using get [of "''target_version''"] by simp
  moreover have "mr_action r = mr_action s" using get [of "''action''"] by (auto dest: mutation_action_json_inj)
  moreover have "mr_signature_algorithm r = mr_signature_algorithm s" using get [of "''signature_algorithm''"] by simp
  moreover have "mr_signature r = mr_signature s" using get [of "''signature''"] by (auto dest: json_nullable_inj)
  ultimately show ?thesis by (intro mutation_request.equality) simp_all
qed

lemma audit_record_json_inj:
  assumes "audit_record_json r = audit_record_json s"
  shows "r = s"
proof -
  note get = json_obj_field [OF assms [unfolded audit_record_json_def], unfolded json_get_simps]
  have "au_event_id r = au_event_id s" using get [of "''event_id''"] by simp
  moreover have "au_mutation_id r = au_mutation_id s" using get [of "''mutation_id''"] by simp
  moreover have "au_actor_public_key r = au_actor_public_key s" using get [of "''actor_public_key''"] by simp
  moreover have "au_actor_role r = au_actor_role s" using get [of "''actor_role''"] by simp
  moreover have "au_action r = au_action s" using get [of "''action''"] by simp
  moreover have "au_target_type r = au_target_type s" using get [of "''target_type''"] by simp
  moreover have "au_target_id r = au_target_id s" using get [of "''target_id''"] by simp
  moreover have "au_previous_state_hash r = au_previous_state_hash s" using get [of "''previous_state_hash''"] by simp
  moreover have "au_new_state_hash r = au_new_state_hash s" using get [of "''new_state_hash''"] by simp
  moreover have "au_timestamp r = au_timestamp s" using get [of "''timestamp''"] by simp
  moreover have "au_signature_algorithm r = au_signature_algorithm s" using get [of "''signature_algorithm''"] by simp
  moreover have "au_signature r = au_signature s" using get [of "''signature''"] by (auto dest: json_nullable_inj)
  ultimately show ?thesis by (intro audit_record.equality) simp_all
qed

interpretation mr: binding_document E "mutation_signable_bytes E" mr_signature
    "\<lambda>s. mr_signature_update (\<lambda>_. s)" mutation_request_wf
  for E :: "'x deps_scheme"
proof unfold_locales
  fix s d d'
  show "mutation_signable_bytes E (d\<lparr>mr_signature := s\<rparr>) = mutation_signable_bytes E d"
    by (simp add: mutation_signable_bytes_def)
  show "mr_signature (d\<lparr>mr_signature := s\<rparr>) = s" by simp
  assume "json_scalar_ok E" "mutation_request_wf d" "mutation_request_wf d'" "mutation_signable_bytes E d = mutation_signable_bytes E d'"
  then show "d\<lparr>mr_signature := None\<rparr> = d'\<lparr>mr_signature := None\<rparr>"
    unfolding mutation_signable_bytes_def
    by (intro mutation_request_json_inj canonical_bytes_eqD mutation_request_json_wf) (simp_all add: mutation_request_wf_def)
qed

text \<open>An audit event holds strings only, so every one is well formed.\<close>

definition audit_record_wf :: "audit_record \<Rightarrow> bool" where
  "audit_record_wf r = True"

interpretation au: binding_document E "audit_signable_bytes E" au_signature
    "\<lambda>s. au_signature_update (\<lambda>_. s)" audit_record_wf
  for E :: "'x deps_scheme"
proof unfold_locales
  fix s d d'
  show "audit_signable_bytes E (d\<lparr>au_signature := s\<rparr>) = audit_signable_bytes E d"
    by (simp add: audit_signable_bytes_def)
  show "au_signature (d\<lparr>au_signature := s\<rparr>) = s" by simp
  assume "json_scalar_ok E" "audit_record_wf d" "audit_record_wf d'" "audit_signable_bytes E d = audit_signable_bytes E d'"
  then show "d\<lparr>au_signature := None\<rparr> = d'\<lparr>au_signature := None\<rparr>"
    unfolding audit_signable_bytes_def
    by (intro audit_record_json_inj canonical_bytes_eqD audit_record_json_wf) (simp_all add: audit_record_wf_def)
qed

lemma mutation_verify_iff [result_simps]:
  "mutation_verify E r = Inr u \<longleftrightarrow>
     mr_signature_algorithm r = SIGNATURE_ALGORITHM \<and> mr_mutation_id r = mutation_compute_id E r \<and>
     signature_check E (mr_actor_public_key r) (mutation_signable_bytes E r) (mr_signature r)"
  by (auto simp: mutation_verify_def signature_check_def split: option.splits)

lemma audit_verify_iff [result_simps]:
  "audit_verify E r pk = Inr u \<longleftrightarrow>
     au_event_id r = audit_compute_id E r \<and>
     signature_check E pk (audit_signable_bytes E r) (au_signature r)"
  by (auto simp: audit_verify_def signature_check_def split: option.splits)

lemma mutation_check_age_iff [result_simps]:
  "mutation_check_age E r now = Inr u \<longleftrightarrow>
     (\<exists>t. x_parse_rfc3339 E (mr_issued_at r) = Some t \<and>
        timestamp t \<le> timestamp now + 30 \<and> timestamp now \<le> timestamp t + MUTATION_MAX_AGE_SECS)"
  by (auto simp: mutation_check_age_def Let_def result_simps guard_simps)

lemma mutation_signed_verifies:
  assumes "hex_ok E" "ed25519_ok E" "length (signing_key i) = 32"
  shows "mutation_verify E (mutation_signed E i nonce issued_at v action) = Inr ()"
  unfolding mutation_verify_iff mutation_signed_def Let_def
  using assms by (simp add: mutation_compute_id_def mutation_signable_bytes_def verify_own_signature)

lemma audit_finalize_verifies:
  assumes "hex_ok E" "ed25519_ok E" "length (signing_key i) = 32"
  shows "audit_verify E (audit_finalize E r i) (node_id E i) = Inr ()"
  unfolding audit_verify_iff audit_finalize_def Let_def
  using assms by (simp add: audit_compute_id_def audit_signable_bytes_def verify_own_signature)

text \<open>
  C22: The envelope of a mutation commits its signer to everything in it: what \<open>signed\<close> builds passes
  \<open>verify\<close>; two well-formed envelopes with the same signed bytes have the same id, nonce, time,
  actor, target version and action; and an envelope is accepted as fresh in a window of exactly 30
  seconds before to 300 seconds after its time stamp, so that no envelope is accepted at two times
  more than 330 seconds apart.
\<close>

theorem mutation_envelope_binds:
  assumes "json_scalar_ok E" "hex_ok E" "ed25519_ok E" "length (signing_key i) = 32"
    and "mutation_request_wf r" "mutation_request_wf r'"
  shows "mutation_verify E (mutation_signed E i nonce issued_at v action) = Inr () \<and>
    (mutation_signable_bytes E r = mutation_signable_bytes E r' \<longrightarrow>
       r\<lparr>mr_signature := None\<rparr> = r'\<lparr>mr_signature := None\<rparr>) \<and>
    (mutation_check_age E r now = Inr () \<and> mutation_check_age E r now' = Inr () \<longrightarrow>
       timestamp now' - timestamp now \<le> 330)"
  using mutation_signed_verifies [OF assms(2-4)] mr.payload_binds [OF assms(1,5,6)]
  by (auto simp: mutation_check_age_iff MUTATION_MAX_AGE_SECS_def)

subsection \<open>Packages\<close>

lemma decode_blocks_iff:
  "decode_blocks E tot bs = Inr out \<longleftrightarrow>
     list_all2 (\<lambda>b (h, raw). h = pb_hash b \<and> x_hex_decode E (pb_data_hex b) = Some raw \<and>
        storage_verify E raw h = Inr ()) bs out \<and>
     (out = [] \<or> tot + sum_list (map (length \<circ> snd) out) \<le> MAX_PACKAGE_BYTES)"
proof (induction bs arbitrary: tot out)
  case Nil
  then show ?case by (cases out) auto
next
  case (Cons b bs)
  show ?case
  proof (cases out)
    case Nil
    then show ?thesis by (auto simp: and_then_eq_Inr guard_simps)
  next
    case (Cons p ps)
    obtain h raw where p: "p = (h, raw)" by (cases p)
    show ?thesis
      using Cons p
      by (auto simp: and_then_eq_Inr ok_or_eq_Inr guard_simps Cons.IH list_all2_Cons1)
  qed
qed

text \<open>
  A decoded package is what its mutation says: the mutation publishes a site, the manifest bytes
  hash to the address the mutation names, each block decodes to bytes that hash to its address, in
  order, there are at most 2048 blocks, and together with the manifest they take at most 32 MiB unless
  there is no block; and every package with these properties is decoded.
\<close>

lemma site_package_decode_exact:
  "site_package_decode E p = Inr (manifest_bytes, blocks) \<longleftrightarrow>
     length (sp_blocks p) \<le> MAX_PACKAGE_BLOCKS \<and>
     x_hex_decode E (sp_manifest_hex p) = Some manifest_bytes \<and>
     (case mr_action (sp_mutation p) of
        PublishSite domain manifest_hash \<Rightarrow>
          is_valid_hash manifest_hash \<and> hash_bytes E manifest_bytes = manifest_hash
      | _ \<Rightarrow> False) \<and>
     list_all2 (\<lambda>b (h, raw). h = pb_hash b \<and> x_hex_decode E (pb_data_hex b) = Some raw \<and>
        is_valid_hash h \<and> hash_bytes E raw = h) (sp_blocks p) blocks \<and>
     (blocks = [] \<or>
        length manifest_bytes + sum_list (map (length \<circ> snd) blocks) \<le> MAX_PACKAGE_BYTES)"
proof -
  have "decode_blocks E n (sp_blocks p) = Inr blocks \<longleftrightarrow>
     list_all2 (\<lambda>b (h, raw). h = pb_hash b \<and> x_hex_decode E (pb_data_hex b) = Some raw \<and>
        is_valid_hash h \<and> hash_bytes E raw = h) (sp_blocks p) blocks \<and>
     (blocks = [] \<or> n + sum_list (map (length \<circ> snd) blocks) \<le> MAX_PACKAGE_BYTES)" for n
    by (simp add: decode_blocks_iff storage_verify_ok_iff)
  then show ?thesis
    by (cases "mr_action (sp_mutation p)")
       (auto simp: site_package_decode_def and_then_eq_Inr ok_or_eq_Inr storage_verify_ok_iff)
qed

definition sample_request :: mutation_request where
  "sample_request = mutation_signed sample_deps sample_identity ''n1'' ''0'' 1
     (PublishSite ''joao.pagina'' ''ab'')"

theorem mutation_envelope_binds_witness:
  "mutation_verify sample_deps sample_request = Inr () \<and>
   mutation_signable_bytes sample_deps sample_request
     \<noteq> mutation_signable_bytes sample_deps (sample_request\<lparr>mr_target_version := 2\<rparr>)"
proof -
  have v: "mr_target_version sample_request = 1"
    by (simp add: sample_request_def mutation_signed_def Let_def)
  have wf: "mutation_request_wf sample_request" "mutation_request_wf (sample_request\<lparr>mr_target_version := 2\<rparr>)"
    by (simp_all add: sample_request_def mutation_signed_def Let_def mutation_request_wf_def
        mutation_action_wf_def)
  have "sample_request\<lparr>mr_signature := None\<rparr> \<noteq> (sample_request\<lparr>mr_target_version := 2\<rparr>)\<lparr>mr_signature := None\<rparr>"
  proof
    assume "sample_request\<lparr>mr_signature := None\<rparr> = (sample_request\<lparr>mr_target_version := 2\<rparr>)\<lparr>mr_signature := None\<rparr>"
    from arg_cong [OF this, of mr_target_version] v show False by simp
  qed
  with mutation_envelope_binds [OF sample_deps_scalar_ok sample_hex_ok sample_ed25519_ok
      length_sample_identity wf, of "''n1''" "''0''" 1 "PublishSite ''joao.pagina'' ''ab''"]
  show ?thesis by (simp add: sample_request_def)
qed

end
