(* ===== verification/Codec.thy ===== *)
theory Codec
  imports Fed_Core
begin

text \<open>
  Serialisation by \<open>serde_json\<close>, a parameter of the model: a codec is a pair of a writer and a
  reader. For witnesses, a writer that is injective on the values of interest has a codec.
\<close>

record 'a codec =
  to_vec :: "'a \<Rightarrow> bytes"
  from_slice :: "bytes \<Rightarrow> 'a option"

definition decode_as :: "'a codec \<Rightarrow> bytes \<Rightarrow> 'a result" where
  "decode_as c bs = ok_or (from_slice c bs) Serde"

text \<open>\<open>serde_json\<close> reads back what it writes, for values it can hold.\<close>

definition codec_ok :: "('a \<Rightarrow> bool) \<Rightarrow> 'a codec \<Rightarrow> bool" where
  "codec_ok P c \<longleftrightarrow> (\<forall>x. P x \<longrightarrow> from_slice c (to_vec c x) = Some x)"

definition inverse_codec :: "('a \<Rightarrow> bytes) \<Rightarrow> ('a \<Rightarrow> bool) \<Rightarrow> 'a codec" where
  "inverse_codec f P =
     \<lparr>to_vec = f, from_slice = (\<lambda>b. if b \<in> f ` {x. P x} then Some (inv_into {x. P x} f b) else None)\<rparr>"

lemma codec_ok_inverse:
  assumes "\<And>x y. P x \<Longrightarrow> P y \<Longrightarrow> f x = f y \<Longrightarrow> x = y"
  shows "codec_ok P (inverse_codec f P)"
proof -
  have "inj_on f {x. P x}" using assms by (auto simp: inj_on_def)
  then show ?thesis by (auto simp: codec_ok_def inverse_codec_def)
qed

end
