(* ===== verification/Mutation_Backend.thy ===== *)
theory Mutation_Backend
  imports Mutation_Request Codec
begin

text \<open>
  \<open>crates/federate-mutation/src/backend.rs\<close> and \<open>redb_backend.rs\<close>: the tables of the embedded
  database and the transactions over them. A transaction computes the tables it would leave;
  \<open>db_commit\<close> either installs all of them or, when the engine reports an error, none. Rows hold
  the bytes \<open>serde_json\<close> writes; its readers and writers are the codecs of \<open>store_deps\<close>. An error
  of the engine while only reading is not modelled.
\<close>

subsection \<open>Serialised records\<close>

record applied_mutation =
  am_mutation :: mutation_request
  am_audit_event_id :: string
  am_applied_at :: string
  am_root_version :: nat

definition applied_json :: "applied_mutation \<Rightarrow> json" where
  "applied_json a = json_obj (
     json_field ''mutation'' (mutation_request_json (am_mutation a)) @
     json_field ''audit_event_id'' (JString (am_audit_event_id a)) @
     json_field ''applied_at'' (JString (am_applied_at a)) @
     json_field ''root_version'' (json_nat (am_root_version a)))"

record snapshot_meta =
  sm_root_version :: nat
  sm_created_at :: string
  sm_state_hash :: string

record store_deps = deps +
  x_zone :: "root_zone codec"
  x_tld :: "tld_record codec"
  x_domain :: "domain_record codec"
  x_applied :: "applied_mutation codec"
  x_audit :: "audit_record codec"
  x_snapshot :: "snapshot_meta codec"
  x_registry :: "tld_registry codec"
  x_manifest :: "manifest codec"

subsection \<open>Tables\<close>

record redb =
  t_tld_records :: "(string, bytes) bmap"
  t_domain_records :: "(string, bytes) bmap"
  t_root_zone_versions :: "(nat, bytes) bmap"
  t_mutations :: "(string, bytes) bmap"
  t_audit_events :: "(nat, bytes) bmap"
  t_snapshots :: "(nat, bytes) bmap"
  t_nonces :: "(string, int) bmap"
  t_registry_metadata :: "(string, string) bmap"
  t_delegated_registries :: "(string, bytes) bmap"
  t_target_versions :: "(string, nat) bmap"

definition redb_create :: redb where
  "redb_create =
     \<lparr>t_tld_records = [], t_domain_records = [], t_root_zone_versions = [], t_mutations = [],
      t_audit_events = [], t_snapshots = [], t_nonces = [], t_registry_metadata = [],
      t_delegated_registries = [], t_target_versions = []\<rparr>"

text \<open>\<open>txn.commit()\<close>: \<open>err\<close> is the engine's error message, if it fails.\<close>

definition db_commit :: "string option \<Rightarrow> redb \<Rightarrow> redb \<Rightarrow> unit result \<times> redb" where
  "db_commit err t t' = (case err of None \<Rightarrow> (Inr (), t') | Some e \<Rightarrow> (Inl (StorageError e), t))"

text \<open>\<open>list_json\<close>: every row in key order, up to the first that does not parse.\<close>

fun list_json :: "'a codec \<Rightarrow> bytes list \<Rightarrow> 'a list result" where
  "list_json c [] = Inr []"
| "list_json c (b # bs) =
     and_then (decode_as c b) (\<lambda>x. and_then (list_json c bs) (\<lambda>xs. Inr (x # xs)))"

definition get_json :: "'a codec \<Rightarrow> (string, bytes) bmap \<Rightarrow> string \<Rightarrow> 'a option result" where
  "get_json c table k =
     (case bm_get table k of None \<Rightarrow> Inr None | Some v \<Rightarrow> and_then (decode_as c v) (\<lambda>x. Inr (Some x)))"

definition write_record_tables ::
  "'x store_deps_scheme \<Rightarrow> tld_record list \<Rightarrow> domain_record list \<Rightarrow> redb \<Rightarrow> redb" where
  "write_record_tables E tlds domains t =
     t\<lparr>t_tld_records := bm_extend (map (\<lambda>r. (tr_tld r, to_vec (x_tld E) r)) tlds) [],
       t_domain_records := bm_extend (map (\<lambda>r. (dr_domain r, to_vec (x_domain E) r)) domains) []\<rparr>"

definition write_zone_pointer :: "nat \<Rightarrow> bytes \<Rightarrow> string \<Rightarrow> redb \<Rightarrow> redb" where
  "write_zone_pointer version zone_json hash t =
     t\<lparr>t_root_zone_versions := bm_insert version zone_json (t_root_zone_versions t),
       t_registry_metadata := bm_insert ''state_hash'' hash
         (bm_insert ''current_version'' (show_nat version) (t_registry_metadata t))\<rparr>"

definition write_snapshot_meta :: "'x store_deps_scheme \<Rightarrow> snapshot_meta \<Rightarrow> redb \<Rightarrow> redb" where
  "write_snapshot_meta E meta t =
     t\<lparr>t_snapshots := bm_insert (sm_root_version meta) (to_vec (x_snapshot E) meta) (t_snapshots t)\<rparr>"

definition next_audit_seq :: "redb \<Rightarrow> nat" where
  "next_audit_seq t = (case bm_last (t_audit_events t) of None \<Rightarrow> 0 | Some (k, _) \<Rightarrow> k + 1)"

subsection \<open>The backend's operations\<close>

definition list_tlds :: "'x store_deps_scheme \<Rightarrow> redb \<Rightarrow> tld_record list result" where
  "list_tlds E t = list_json (x_tld E) (bm_values (t_tld_records t))"

definition list_domains :: "'x store_deps_scheme \<Rightarrow> redb \<Rightarrow> domain_record list result" where
  "list_domains E t = list_json (x_domain E) (bm_values (t_domain_records t))"

definition get_tld :: "'x store_deps_scheme \<Rightarrow> redb \<Rightarrow> string \<Rightarrow> tld_record option result" where
  "get_tld E t tld = get_json (x_tld E) (t_tld_records t) tld"

definition put_tld ::
  "'x store_deps_scheme \<Rightarrow> string option \<Rightarrow> redb \<Rightarrow> tld_record \<Rightarrow> unit result \<times> redb" where
  "put_tld E err t record = db_commit err t
     (t\<lparr>t_tld_records := bm_insert (tr_tld record) (to_vec (x_tld E) record) (t_tld_records t)\<rparr>)"

definition get_domain :: "'x store_deps_scheme \<Rightarrow> redb \<Rightarrow> string \<Rightarrow> domain_record option result" where
  "get_domain E t name = get_json (x_domain E) (t_domain_records t) name"

definition put_domain ::
  "'x store_deps_scheme \<Rightarrow> string option \<Rightarrow> redb \<Rightarrow> domain_record \<Rightarrow> unit result \<times> redb" where
  "put_domain E err t record = db_commit err t
     (t\<lparr>t_domain_records := bm_insert (dr_domain record) (to_vec (x_domain E) record) (t_domain_records t)\<rparr>)"

definition get_root_zone_version :: "redb \<Rightarrow> nat \<Rightarrow> bytes option" where
  "get_root_zone_version t version = bm_get (t_root_zone_versions t) version"

definition put_root_zone_version ::
  "string option \<Rightarrow> redb \<Rightarrow> nat \<Rightarrow> bytes \<Rightarrow> unit result \<times> redb" where
  "put_root_zone_version err t version zone_json = db_commit err t
     (t\<lparr>t_root_zone_versions := bm_insert version zone_json (t_root_zone_versions t)\<rparr>)"

definition get_meta :: "redb \<Rightarrow> string \<Rightarrow> string option" where
  "get_meta t key = bm_get (t_registry_metadata t) key"

definition put_meta :: "string option \<Rightarrow> redb \<Rightarrow> string \<Rightarrow> string \<Rightarrow> unit result \<times> redb" where
  "put_meta err t key v = db_commit err t
     (t\<lparr>t_registry_metadata := bm_insert key v (t_registry_metadata t)\<rparr>)"

definition current_root_zone :: "redb \<Rightarrow> (nat \<times> bytes) option result" where
  "current_root_zone t =
     (case get_meta t ''current_version'' of
        None \<Rightarrow> Inr None
      | Some v \<Rightarrow>
          and_then (ok_or (parse_u64 v) (StorageError ''corrupt current_version metadata'')) (\<lambda>version.
          Inr (map_option (\<lambda>bs. (version, bs)) (get_root_zone_version t version))))"

definition append_mutation ::
  "'x store_deps_scheme \<Rightarrow> string option \<Rightarrow> redb \<Rightarrow> applied_mutation \<Rightarrow> unit result \<times> redb" where
  "append_mutation E err t applied = db_commit err t
     (t\<lparr>t_mutations := bm_insert (mr_mutation_id (am_mutation applied)) (to_vec (x_applied E) applied)
          (t_mutations t)\<rparr>)"

definition get_mutation :: "'x store_deps_scheme \<Rightarrow> redb \<Rightarrow> string \<Rightarrow> applied_mutation option result" where
  "get_mutation E t mutation_id = get_json (x_applied E) (t_mutations t) mutation_id"

definition list_mutations :: "'x store_deps_scheme \<Rightarrow> redb \<Rightarrow> applied_mutation list result" where
  "list_mutations E t = list_json (x_applied E) (bm_values (t_mutations t))"

definition append_audit_event ::
  "'x store_deps_scheme \<Rightarrow> string option \<Rightarrow> redb \<Rightarrow> audit_record \<Rightarrow> unit result \<times> redb" where
  "append_audit_event E err t event = db_commit err t
     (t\<lparr>t_audit_events := bm_insert (next_audit_seq t) (to_vec (x_audit E) event) (t_audit_events t)\<rparr>)"

definition list_audit_events :: "'x store_deps_scheme \<Rightarrow> redb \<Rightarrow> audit_record list result" where
  "list_audit_events E t = list_json (x_audit E) (bm_values (t_audit_events t))"

definition reserve_nonce :: "string option \<Rightarrow> redb \<Rightarrow> string \<Rightarrow> int \<Rightarrow> unit result \<times> redb" where
  "reserve_nonce err t nonce expires_at = db_commit err t
     (let kept = filter (\<lambda>(k, e). \<not> e < expires_at - 2 * NONCE_TTL_SECS) (t_nonces t)
      in t\<lparr>t_nonces := bm_insert nonce expires_at kept\<rparr>)"

definition consume_nonce :: "string option \<Rightarrow> redb \<Rightarrow> string \<Rightarrow> int \<Rightarrow> bool result \<times> redb" where
  "consume_nonce err t nonce now =
     (let valid = (case bm_get (t_nonces t) nonce of Some e \<Rightarrow> now < e | None \<Rightarrow> False);
          (r, t') = db_commit err t (t\<lparr>t_nonces := bm_remove nonce (t_nonces t)\<rparr>)
      in (and_then r (\<lambda>_. Inr valid), t'))"

definition get_target_version :: "redb \<Rightarrow> string \<Rightarrow> nat" where
  "get_target_version t target_key =
     (case bm_get (t_target_versions t) target_key of None \<Rightarrow> 0 | Some v \<Rightarrow> v)"

definition put_target_version :: "string option \<Rightarrow> redb \<Rightarrow> string \<Rightarrow> nat \<Rightarrow> unit result \<times> redb" where
  "put_target_version err t target_key version = db_commit err t
     (t\<lparr>t_target_versions := bm_insert target_key version (t_target_versions t)\<rparr>)"

definition list_target_versions :: "redb \<Rightarrow> (string \<times> nat) list" where
  "list_target_versions t = t_target_versions t"

definition get_delegated_registry :: "redb \<Rightarrow> string \<Rightarrow> bytes option" where
  "get_delegated_registry t tld = bm_get (t_delegated_registries t) tld"

definition list_delegated_registries :: "redb \<Rightarrow> (string \<times> bytes) list" where
  "list_delegated_registries t = t_delegated_registries t"

definition create_snapshot ::
  "'x store_deps_scheme \<Rightarrow> string option \<Rightarrow> redb \<Rightarrow> snapshot_meta \<Rightarrow> unit result \<times> redb" where
  "create_snapshot E err t meta = db_commit err t (write_snapshot_meta E meta t)"

definition list_snapshots :: "'x store_deps_scheme \<Rightarrow> redb \<Rightarrow> snapshot_meta list result" where
  "list_snapshots E t = list_json (x_snapshot E) (bm_values (t_snapshots t))"

subsection \<open>The two transactions\<close>

record initial_state =
  is_zone_json :: bytes
  is_root_version :: nat
  is_state_hash :: string
  is_tlds :: "tld_record list"
  is_domains :: "domain_record list"
  is_delegated_registries :: "(string \<times> bytes) list"
  is_snapshot :: snapshot_meta

definition commit_initial ::
  "'x store_deps_scheme \<Rightarrow> string option \<Rightarrow> redb \<Rightarrow> initial_state \<Rightarrow> unit result \<times> redb" where
  "commit_initial E err t s =
     (let t1 = write_record_tables E (is_tlds s) (is_domains s) t;
          t2 = write_zone_pointer (is_root_version s) (is_zone_json s) (is_state_hash s) t1;
          t3 = t2\<lparr>t_delegated_registries :=
            bm_extend (is_delegated_registries s) (t_delegated_registries t2)\<rparr>;
          t4 = write_snapshot_meta E (is_snapshot s) t3
      in db_commit err t t4)"

record commit_batch =
  cb_zone_json :: bytes
  cb_root_version :: nat
  cb_state_hash :: string
  cb_tlds :: "tld_record list"
  cb_domains :: "domain_record list"
  cb_target_key :: string
  cb_target_version :: nat
  cb_applied :: applied_mutation
  cb_audit :: audit_record
  cb_delegated_registry :: "(string \<times> bytes) option"
  cb_snapshot :: snapshot_meta

definition commit_mutation ::
  "'x store_deps_scheme \<Rightarrow> string option \<Rightarrow> redb \<Rightarrow> commit_batch \<Rightarrow> unit result \<times> redb" where
  "commit_mutation E err t b =
     (let t1 = write_record_tables E (cb_tlds b) (cb_domains b) t;
          t2 = write_zone_pointer (cb_root_version b) (cb_zone_json b) (cb_state_hash b) t1;
          t3 = t2\<lparr>t_target_versions :=
            bm_insert (cb_target_key b) (cb_target_version b) (t_target_versions t2)\<rparr>;
          t4 = t3\<lparr>t_mutations := bm_insert (mr_mutation_id (am_mutation (cb_applied b)))
            (to_vec (x_applied E) (cb_applied b)) (t_mutations t3)\<rparr>;
          t5 = t4\<lparr>t_audit_events := bm_insert (next_audit_seq t4)
            (to_vec (x_audit E) (cb_audit b)) (t_audit_events t4)\<rparr>;
          t6 = (case cb_delegated_registry b of
              None \<Rightarrow> t5
            | Some (tld, bs) \<Rightarrow>
                t5\<lparr>t_delegated_registries := bm_insert tld bs (t_delegated_registries t5)\<rparr>);
          t7 = write_snapshot_meta E (cb_snapshot b) t6
      in db_commit err t t7)"

subsection \<open>Statistics\<close>

text \<open>\<open>stats\<close>: the number of rows of each table, in the order of the report.\<close>

definition redb_stats :: "redb \<Rightarrow> (string \<times> nat) list" where
  "redb_stats t =
     [(''tld_records'', length (t_tld_records t)),
      (''domain_records'', length (t_domain_records t)),
      (''root_zone_versions'', length (t_root_zone_versions t)),
      (''mutations'', length (t_mutations t)),
      (''audit_events'', length (t_audit_events t)),
      (''snapshots'', length (t_snapshots t)),
      (''nonces'', length (t_nonces t)),
      (''registry_metadata'', length (t_registry_metadata t)),
      (''delegated_registries'', length (t_delegated_registries t)),
      (''target_versions'', length (t_target_versions t))]"

end
