(* ===== verification/Mutation_Store.thy ===== *)
theory Mutation_Store
  imports Mutation_Backend
begin

text \<open>
  \<open>crates/federate-mutation/src/store.rs\<close>: the registry store in memory and on disk, and the one
  path that changes it. \<open>clock\<close> is the wall clock (\<open>is_expired\<close> reads it), \<open>mc_now\<close> the time
  the caller passes; the record \<open>io\<close> says which writes the disk and the database accept.
\<close>

definition ZONE_AUDIT_TAIL :: nat where
  "ZONE_AUDIT_TAIL = 200"

definition NETWORK_NAME :: string where
  "NETWORK_NAME = ''federate''"

record mutation_context =
  mc_root :: node_identity
  mc_official_operator :: node_identity
  mc_blocklists :: blocklists
  mc_now :: int

record registry_store =
  rs_db :: redb
  rs_zone :: root_zone
  rs_registries :: "(string, bytes \<times> tld_registry) bmap"
  rs_manifests :: "(string, bytes) bmap"
  rs_blocks :: block_store
  rs_target_versions :: "(string, nat) bmap"
  rs_applied :: "(string, applied_mutation) bmap"
  rs_audit :: "audit_record list"
  rs_manifest_dir :: "(string, bytes) bmap"
  rs_snapshot_dir :: "(string, bytes) bmap"

record io =
  io_write :: "string \<Rightarrow> bool"
  io_commit :: "string option"
  io_snapshot :: "string option"

definition io_ok :: io where
  "io_ok = \<lparr>io_write = (\<lambda>_. True), io_commit = None, io_snapshot = None\<rparr>"

definition state_hash :: "'x deps_scheme \<Rightarrow> root_zone \<Rightarrow> string" where
  "state_hash E zone = hash_bytes E (canonical_bytes E (root_zone_json zone))"

definition target_version :: "registry_store \<Rightarrow> string \<Rightarrow> nat" where
  "target_version s target_key =
     (case bm_get (rs_target_versions s) target_key of None \<Rightarrow> 0 | Some v \<Rightarrow> v)"

definition allowed_domain_transition :: "domain_status \<Rightarrow> domain_status \<Rightarrow> bool \<Rightarrow> bool" where
  "allowed_domain_transition from_st to_st actor_is_root =
     (if from_st = to_st then False
      else case to_st of
        Suspended \<Rightarrow> from_st = Active
      | Active \<Rightarrow> (from_st = Suspended \<or> from_st = Pending) \<or> (actor_is_root \<and> from_st = Revoked)
      | Revoked \<Rightarrow> True
      | _ \<Rightarrow> False)"

subsection \<open>Manifests and snapshots\<close>

definition write_manifest ::
  "io \<Rightarrow> registry_store \<Rightarrow> string \<Rightarrow> bytes \<Rightarrow> unit result \<times> registry_store" where
  "write_manifest io s hash bs =
     (if \<not> io_write io (''manifests/'' @ hash) then (Inl Io, s)
      else (Inr (), s\<lparr>rs_manifest_dir := bm_insert hash bs (rs_manifest_dir s),
                      rs_manifests := bm_insert hash bs (rs_manifests s)\<rparr>))"

definition store_manifest ::
  "'x deps_scheme \<Rightarrow> io \<Rightarrow> registry_store \<Rightarrow> string \<Rightarrow> bytes \<Rightarrow> unit result \<times> registry_store" where
  "store_manifest E io s hash bs =
     (case storage_verify E bs hash of
        Inl e \<Rightarrow> (Inl e, s)
      | Inr _ \<Rightarrow> write_manifest io s hash bs)"

text \<open>\<open>store_blocks\<close>: the blocks stored before an error stay stored.\<close>

fun store_blocks ::
  "'x deps_scheme \<Rightarrow> io \<Rightarrow> registry_store \<Rightarrow> (string \<times> bytes) list \<Rightarrow> unit result \<times> registry_store" where
  "store_blocks E io s [] = (Inr (), s)"
| "store_blocks E io s ((hash, bs) # rest) =
     (case block_store_put E (io_write io) (rs_blocks s) hash bs of
        Inl e \<Rightarrow> (Inl e, s)
      | Inr st \<Rightarrow> store_blocks E io (s\<lparr>rs_blocks := st\<rparr>) rest)"

definition write_snapshot ::
  "'x store_deps_scheme \<Rightarrow> (root_zone \<Rightarrow> bytes) \<Rightarrow> io \<Rightarrow> registry_store \<Rightarrow> unit result \<times> registry_store" where
  "write_snapshot E to_pretty io s =
     (let name = ''root-zone-v'' @ show_nat (rz_root_version (rs_zone s)) @ ''.json''
      in if \<not> io_write io (''snapshots/'' @ name) then (Inl Io, s)
         else
           let s = s\<lparr>rs_snapshot_dir := bm_insert name (to_pretty (rs_zone s)) (rs_snapshot_dir s)\<rparr>;
               (r, db) = create_snapshot E (io_snapshot io) (rs_db s)
                 \<lparr>sm_root_version = rz_root_version (rs_zone s),
                  sm_created_at = rz_generated_at (rs_zone s),
                  sm_state_hash = state_hash E (rs_zone s)\<rparr>
           in (r, s\<lparr>rs_db := db\<rparr>))"

subsection \<open>Nonces\<close>

text \<open>\<open>issue_nonce\<close>: \<open>nonce\<close> is the hex of 32 fresh random bytes.\<close>

definition issue_nonce ::
  "string option \<Rightarrow> registry_store \<Rightarrow> string \<Rightarrow> int \<Rightarrow> (string \<times> int) result \<times> registry_store" where
  "issue_nonce err s nonce now =
     (let expires = now + NONCE_TTL_SECS;
          (r, db) = reserve_nonce err (rs_db s) nonce expires
      in (and_then r (\<lambda>_. Inr (nonce, expires)), s\<lparr>rs_db := db\<rparr>))"

definition store_consume_nonce ::
  "string option \<Rightarrow> registry_store \<Rightarrow> string \<Rightarrow> int \<Rightarrow> bool result \<times> registry_store" where
  "store_consume_nonce err s nonce now =
     (let (r, db) = consume_nonce err (rs_db s) nonce now in (r, s\<lparr>rs_db := db\<rparr>))"

subsection \<open>Actions\<close>

text \<open>
  One definition per arm of \<open>apply_action\<close>. Each gets the zone before the mutation and returns the
  authorising role and the new zone. \<open>sign_tld\<close> is the tail the TLD arms share.
\<close>

definition sign_tld :: "'x deps_scheme \<Rightarrow> node_identity \<Rightarrow> tld_record \<Rightarrow> tld_record" where
  "sign_tld E root r =
     (let r = r\<lparr>tr_signature := None\<rparr>
      in r\<lparr>tr_signature := Some (sign E root (tld_record_signable_bytes E r))\<rparr>)"

definition sign_domain :: "'x deps_scheme \<Rightarrow> node_identity \<Rightarrow> domain_record \<Rightarrow> domain_record" where
  "sign_domain E operator r =
     (let r = r\<lparr>dr_signature := None\<rparr>
      in r\<lparr>dr_signature := Some (sign E operator (domain_record_signable_bytes E r))\<rparr>)"

definition insert_tld :: "string \<Rightarrow> tld_record \<Rightarrow> root_zone \<Rightarrow> root_zone" where
  "insert_tld name r zone = zone\<lparr>rz_tlds := bm_insert name r (rz_tlds zone)\<rparr>"

definition insert_domain :: "string \<Rightarrow> domain_record \<Rightarrow> root_zone \<Rightarrow> root_zone" where
  "insert_domain name r zone = zone\<lparr>rz_domains := bm_insert name r (rz_domains zone)\<rparr>"

text \<open>The record a publication writes, before it is signed.\<close>

definition publish_record ::
  "federate_domain \<Rightarrow> string \<Rightarrow> string \<Rightarrow> domain_record option \<Rightarrow> string \<Rightarrow> domain_record" where
  "publish_record parsed actor manifest_hash existing now =
     \<lparr>dr_domain = fqdn parsed, dr_tld = fd_tld parsed, dr_label = fd_name parsed,
      dr_owner_public_key = actor, dr_target_type = TargetManifest,
      dr_manifest_hash = manifest_hash, dr_service_id = None, dr_node_id = None,
      dr_status = Active,
      dr_created_at = (case existing of Some r \<Rightarrow> dr_created_at r | None \<Rightarrow> now),
      dr_updated_at = now,
      dr_expires_at = (case existing of Some r \<Rightarrow> dr_expires_at r | None \<Rightarrow> None),
      dr_renewal = None, dr_pricing = None,
      dr_signature_algorithm = SIGNATURE_ALGORITHM, dr_signature = None\<rparr>"

definition apply_publish ::
  "'x store_deps_scheme \<Rightarrow> int \<Rightarrow> registry_store \<Rightarrow> mutation_context \<Rightarrow> root_zone \<Rightarrow> string \<Rightarrow> bool
     \<Rightarrow> string \<Rightarrow> string \<Rightarrow> (actor_role \<times> root_zone) result" where
  "apply_publish E clock s ctx zone actor is_update domain manifest_hash =
     and_then (map_err (\<lambda>e. MutationRejected (''invalid domain: '' @ error_display e))
       (federate_domain_parse domain)) (\<lambda>parsed.
     let name = fqdn parsed; now = x_to_rfc3339 E (mc_now ctx) in
     and_then (ok_or (root_zone_lookup_tld zone (fd_tld parsed)) (TldNotFound (fd_tld parsed))) (\<lambda>tld_rec.
     if tr_registry_type tld_rec \<noteq> RootManaged
     then Inl (MutationRejected (''.'' @ fd_tld parsed @
       '' is delegated; publish through its operator registry''))
     else if \<not> tld_status_is_resolvable (tr_status tld_rec) \<or> tld_record_is_expired E clock tld_rec
     then Inl (TldUnavailable (fd_tld parsed) (tld_status_as_str (tr_status tld_rec)))
     else if tr_operator_public_key tld_rec \<noteq> node_id E (mc_official_operator ctx)
     then Inl (MutationRejected (''this node does not hold the operator key for .'' @ fd_tld parsed))
     else
       let existing = bm_get (rz_domains zone) name in
       and_then (case existing of
           Some r \<Rightarrow>
             if dr_owner_public_key r \<noteq> actor
             then Inl (Unauthorized (name @ '' is owned by a different key''))
             else if dr_status r \<noteq> Active \<and> dr_status r \<noteq> Pending
             then Inl (MutationRejected (name @ '' status '' @ [CHR 0x27] @
               domain_status_as_str (dr_status r) @ [CHR 0x27] @ '' does not allow updates''))
             else Inr ()
         | None \<Rightarrow> if is_update then Inl (DomainNotFound name) else Inr ()) (\<lambda>_.
       and_then (ok_or (bm_get (rs_manifests s) manifest_hash)
         (ManifestNotFound (manifest_hash @ '' (submit the site package first)''))) (\<lambda>manifest_bytes.
       and_then (decode_as (x_manifest E) manifest_bytes) (\<lambda>manifest.
       and_then (manifest_validate manifest) (\<lambda>_.
       and_then (manifest_verify E manifest name actor) (\<lambda>_.
       Inr (RoleDomainOwner, insert_domain name (sign_domain E (mc_official_operator ctx)
         (publish_record parsed actor manifest_hash existing now)) zone))))))))"

definition apply_set_domain_status ::
  "'x deps_scheme \<Rightarrow> mutation_context \<Rightarrow> root_zone \<Rightarrow> string \<Rightarrow> string \<Rightarrow> domain_status
     \<Rightarrow> (actor_role \<times> root_zone) result" where
  "apply_set_domain_status E ctx zone actor domain status =
     (let name = to_ascii_lowercase domain; is_root = (actor = rz_root_public_key zone) in
      and_then (ok_or (bm_get (rz_domains zone) name) (DomainNotFound name)) (\<lambda>rec.
      and_then (ok_or (root_zone_lookup_tld zone (dr_tld rec)) (TldNotFound (dr_tld rec))) (\<lambda>tld_rec.
      and_then
        (if is_root then Inr RoleRoot
         else if actor = tr_operator_public_key tld_rec then Inr RoleTldOperator
         else Inl (Unauthorized (''only the root key or the .'' @ dr_tld rec @ '' operator can change '' @
           name @ '' status''))) (\<lambda>role.
      if \<not> allowed_domain_transition (dr_status rec) status is_root
      then Inl (MutationRejected (name @ '': transition '' @ domain_status_as_str (dr_status rec) @
        '' -> '' @ domain_status_as_str status @ '' is not allowed''))
      else if tr_operator_public_key tld_rec \<noteq> node_id E (mc_official_operator ctx)
      then Inl (MutationRejected (''this node does not hold the operator key for .'' @ dr_tld rec))
      else
        let updated = rec\<lparr>dr_status := status, dr_updated_at := x_to_rfc3339 E (mc_now ctx)\<rparr>
        in Inr (role, insert_domain name (sign_domain E (mc_official_operator ctx) updated) zone)))))"

definition apply_issue_domain ::
  "'x deps_scheme \<Rightarrow> int \<Rightarrow> root_zone \<Rightarrow> string \<Rightarrow> domain_record \<Rightarrow> (actor_role \<times> root_zone) result" where
  "apply_issue_domain E clock zone actor record =
     (let is_root = (actor = rz_root_public_key zone) in
      and_then (ok_or (root_zone_lookup_tld zone (dr_tld record)) (TldNotFound (dr_tld record))) (\<lambda>tld_rec.
      if tr_registry_type tld_rec \<noteq> RootManaged
      then Inl (MutationRejected (''.'' @ dr_tld record @
        '' is delegated; its registry is operator-published, not root-zone''))
      else if actor \<noteq> tr_operator_public_key tld_rec
      then Inl (Unauthorized (''actor is not the operator of .'' @ dr_tld record))
      else
        and_then (map_err (\<lambda>e. MutationRejected (''invalid label: '' @ error_display e))
          (validate_label (dr_label record))) (\<lambda>_.
        and_then (domain_record_verify E record actor) (\<lambda>_.
        if domain_record_is_expired E clock record
        then Inl (MutationRejected (dr_domain record @ '' record is already expired''))
        else
          and_then (case bm_get (rz_domains zone) (dr_domain record) of
              Some existing \<Rightarrow>
                if dr_status existing = Revoked \<and> \<not> is_root
                then Inl (MutationRejected (dr_domain record @ '' is revoked; only root can reissue it''))
                else Inr ()
            | None \<Rightarrow> Inr ()) (\<lambda>_.
          Inr (RoleTldOperator, insert_domain (dr_domain record) record zone))))))"

definition hex_key_ok :: "string \<Rightarrow> bool" where
  "hex_key_ok key \<longleftrightarrow> length key = 64 \<and> list_all is_ascii_hexdigit key"

text \<open>The record a new TLD starts with, before it is signed; the arms differ in its first fields.\<close>

definition new_tld_record ::
  "string \<Rightarrow> tld_status \<Rightarrow> tld_mode \<Rightarrow> string \<Rightarrow> string \<Rightarrow> string \<Rightarrow> registry_type \<Rightarrow> string option
     \<Rightarrow> string option \<Rightarrow> string option \<Rightarrow> string \<Rightarrow> tld_record" where
  "new_tld_record name status mode owner operator operator_name registry_type endpoint expires_at notes now =
     \<lparr>tr_tld = name, tr_status = status, tr_mode = mode, tr_owner_public_key = owner,
      tr_operator_public_key = operator, tr_operator_name = operator_name,
      tr_registry_type = registry_type, tr_registry_endpoint = endpoint,
      tr_registry_manifest_hash = None, tr_registry_providers = [], tr_policy_hash = None,
      tr_pricing = None, tr_created_at = now, tr_updated_at = now, tr_expires_at = expires_at,
      tr_notes = notes, tr_signature_algorithm = SIGNATURE_ALGORITHM, tr_signature = None\<rparr>"

definition apply_delegate_tld ::
  "'x deps_scheme \<Rightarrow> mutation_context \<Rightarrow> root_zone \<Rightarrow> string \<Rightarrow> string \<Rightarrow> string \<Rightarrow> string \<Rightarrow> string
     \<Rightarrow> registry_type \<Rightarrow> string option \<Rightarrow> string option \<Rightarrow> (actor_role \<times> root_zone) result" where
  "apply_delegate_tld E ctx zone actor tld owner operator operator_name registry_type endpoint expires_at =
     (let now = x_to_rfc3339 E (mc_now ctx) in
      if actor \<noteq> rz_root_public_key zone
      then Inl (Unauthorized ''only the Federate Root Key can delegate TLDs'')
      else and_then (validate_new_tld (mc_blocklists ctx) tld False) (\<lambda>name.
      if bm_contains (rz_tlds zone) name
      then Inl (MutationRejected (''.'' @ name @ '' already exists; use tld.update''))
      else if registry_type = RootManaged
      then Inl (MutationRejected ''a delegated TLD needs a delegated registry type'')
      else and_then (try_for_each (\<lambda>(which, key).
          if \<not> hex_key_ok key
          then Inl (MutationRejected (which @ '' key must be a 64-char hex public key''))
          else Inr ()) [(''owner'', owner), (''operator'', operator)]) (\<lambda>_.
        Inr (RoleRoot, insert_tld name (sign_tld E (mc_root ctx)
          (new_tld_record name TldDelegated ModeDelegated owner operator operator_name registry_type
            endpoint expires_at None now)) zone))))"

definition apply_create_tld ::
  "'x deps_scheme \<Rightarrow> mutation_context \<Rightarrow> root_zone \<Rightarrow> string \<Rightarrow> string \<Rightarrow> string
     \<Rightarrow> (actor_role \<times> root_zone) result" where
  "apply_create_tld E ctx zone actor tld purpose =
     (let now = x_to_rfc3339 E (mc_now ctx) in
      if actor \<noteq> rz_root_public_key zone
      then Inl (Unauthorized ''only the Federate Root Key can create official TLDs'')
      else and_then (validate_new_tld (mc_blocklists ctx) tld True) (\<lambda>name.
      if bm_contains (rz_tlds zone) name
      then Inl (MutationRejected (''.'' @ name @ '' already exists in the registry''))
      else
        Inr (RoleRoot, insert_tld name (sign_tld E (mc_root ctx)
          (new_tld_record name TldOfficial ModeOfficial (node_id E (mc_root ctx))
            (node_id E (mc_official_operator ctx)) ''Federate Network (root-managed)'' RootManaged
            None None (Some purpose) now)) zone)))"

definition apply_reserve_or_block ::
  "'x deps_scheme \<Rightarrow> mutation_context \<Rightarrow> root_zone \<Rightarrow> string \<Rightarrow> bool \<Rightarrow> string \<Rightarrow> string
     \<Rightarrow> (actor_role \<times> root_zone) result" where
  "apply_reserve_or_block E ctx zone actor is_reserve tld reason =
     (let now = x_to_rfc3339 E (mc_now ctx) in
      if actor \<noteq> rz_root_public_key zone
      then Inl (Unauthorized ''only the Federate Root Key can reserve or block TLDs'')
      else and_then (validate_tld_name tld) (\<lambda>name.
      if bm_contains (rz_tlds zone) name
      then Inl (MutationRejected (''.'' @ name @ '' already exists in the registry; use tld.set_status''))
      else
        Inr (RoleRoot, insert_tld name (sign_tld E (mc_root ctx)
          (new_tld_record name (if is_reserve then TldReserved else TldBlocked)
            (if is_reserve then ModeReserved else ModeBlocked) (node_id E (mc_root ctx))
            (node_id E (mc_root ctx)) ''Federate Network (root)'' RootManaged None None (Some reason)
            now)) zone)))"

text \<open>Set if present: an omitted field keeps its value.\<close>

definition update_tld_record ::
  "tld_record \<Rightarrow> string option \<Rightarrow> string option \<Rightarrow> string option \<Rightarrow> string \<Rightarrow> tld_record" where
  "update_tld_record rec endpoint expires_at notes now =
     (let rec = (case endpoint of Some x \<Rightarrow> rec\<lparr>tr_registry_endpoint := Some x\<rparr> | None \<Rightarrow> rec);
          rec = (case expires_at of Some x \<Rightarrow> rec\<lparr>tr_expires_at := Some x\<rparr> | None \<Rightarrow> rec);
          rec = (case notes of Some x \<Rightarrow> rec\<lparr>tr_notes := Some x\<rparr> | None \<Rightarrow> rec)
      in rec\<lparr>tr_updated_at := now\<rparr>)"

definition apply_update_tld ::
  "'x deps_scheme \<Rightarrow> mutation_context \<Rightarrow> root_zone \<Rightarrow> string \<Rightarrow> string \<Rightarrow> string option \<Rightarrow> string option
     \<Rightarrow> string option \<Rightarrow> (actor_role \<times> root_zone) result" where
  "apply_update_tld E ctx zone actor tld endpoint expires_at notes =
     (if actor \<noteq> rz_root_public_key zone
      then Inl (Unauthorized ''only the Federate Root Key can update TLD records'')
      else
        let name = to_ascii_lowercase tld in
        and_then (ok_or (bm_get (rz_tlds zone) name) (TldNotFound name)) (\<lambda>rec.
        Inr (RoleRoot, insert_tld name (sign_tld E (mc_root ctx)
          (update_tld_record rec endpoint expires_at notes (x_to_rfc3339 E (mc_now ctx)))) zone)))"

definition apply_set_tld_status ::
  "'x deps_scheme \<Rightarrow> mutation_context \<Rightarrow> root_zone \<Rightarrow> string \<Rightarrow> string \<Rightarrow> tld_status
     \<Rightarrow> (actor_role \<times> root_zone) result" where
  "apply_set_tld_status E ctx zone actor tld status =
     (if actor \<noteq> rz_root_public_key zone
      then Inl (Unauthorized ''only the Federate Root Key can change TLD status'')
      else
        let name = to_ascii_lowercase tld in
        and_then (ok_or (bm_get (rz_tlds zone) name) (TldNotFound name)) (\<lambda>rec.
        if tr_status rec = status
        then Inl (MutationRejected (''.'' @ name @ '' already has status '' @ [CHR 0x27] @
          tld_status_as_str status @ [CHR 0x27]))
        else
          let rec = rec\<lparr>tr_status := status, tr_updated_at := x_to_rfc3339 E (mc_now ctx)\<rparr>
          in Inr (RoleRoot, insert_tld name (sign_tld E (mc_root ctx) rec) zone)))"

definition apply_update_registry_pointer ::
  "'x store_deps_scheme \<Rightarrow> registry_store \<Rightarrow> mutation_context \<Rightarrow> root_zone \<Rightarrow> string \<Rightarrow> string \<Rightarrow> string
     \<Rightarrow> (actor_role \<times> root_zone \<times> (string \<times> bytes \<times> tld_registry)) result" where
  "apply_update_registry_pointer E s ctx zone actor tld registry_hex =
     (let name = to_ascii_lowercase tld in
      and_then (ok_or (bm_get (rz_tlds zone) name) (TldNotFound name)) (\<lambda>rec.
      if actor \<noteq> tr_operator_public_key rec
      then Inl (Unauthorized (''actor is not the operator of .'' @ name))
      else if tr_registry_type rec \<noteq> DelegatedManifest
      then Inl (MutationRejected (''.'' @ name @ '' registry type is '' @
        registry_type_debug (tr_registry_type rec) @
        ''; only delegated_manifest pins a hash through the root''))
      else and_then (ok_or (x_hex_decode E registry_hex) (MutationRejected ''registry_hex is not hex'')) (\<lambda>bs.
        and_then (decode_as (x_registry E) bs) (\<lambda>registry.
        and_then (tld_registry_verify E registry name actor) (\<lambda>_.
        let current_version =
          (case bm_get (rs_registries s) name of Some (_, r) \<Rightarrow> rg_version r | None \<Rightarrow> 0) in
        if rg_version registry \<le> current_version
        then Inl (Replay (''.'' @ name @ '' registry v'' @ show_nat (rg_version registry) @
          '' does not advance v'' @ show_nat current_version))
        else
          let rec = rec\<lparr>tr_registry_manifest_hash := Some (hash_bytes E bs),
                        tr_updated_at := x_to_rfc3339 E (mc_now ctx)\<rparr>
          in Inr (RoleTldOperator, insert_tld name (sign_tld E (mc_root ctx) rec) zone,
                  (name, bs, registry)))))))"

text \<open>\<open>apply_action\<close>: the role, the new zone, and the new registry if there is one.\<close>

definition no_registry ::
  "(actor_role \<times> root_zone) result
     \<Rightarrow> (actor_role \<times> root_zone \<times> (string \<times> bytes \<times> tld_registry) option) result" where
  "no_registry r = and_then r (\<lambda>(role, zone). Inr (role, zone, None))"

fun apply_action ::
  "'x store_deps_scheme \<Rightarrow> int \<Rightarrow> registry_store \<Rightarrow> mutation_context \<Rightarrow> string \<Rightarrow> mutation_action \<Rightarrow> root_zone
     \<Rightarrow> (actor_role \<times> root_zone \<times> (string \<times> bytes \<times> tld_registry) option) result" where
  "apply_action E clock s ctx actor (PublishSite domain mh) zone =
     no_registry (apply_publish E clock s ctx zone actor False domain mh)"
| "apply_action E clock s ctx actor (UpdateDomainManifest domain mh) zone =
     no_registry (apply_publish E clock s ctx zone actor True domain mh)"
| "apply_action E clock s ctx actor (SetDomainStatus domain status) zone =
     no_registry (apply_set_domain_status E ctx zone actor domain status)"
| "apply_action E clock s ctx actor (IssueDomain record) zone =
     no_registry (apply_issue_domain E clock zone actor record)"
| "apply_action E clock s ctx actor (DelegateTld tld ow op nm rt ep ex) zone =
     no_registry (apply_delegate_tld E ctx zone actor tld ow op nm rt ep ex)"
| "apply_action E clock s ctx actor (CreateTld tld purpose) zone =
     no_registry (apply_create_tld E ctx zone actor tld purpose)"
| "apply_action E clock s ctx actor (ReserveTld tld reason) zone =
     no_registry (apply_reserve_or_block E ctx zone actor True tld reason)"
| "apply_action E clock s ctx actor (BlockTld tld reason) zone =
     no_registry (apply_reserve_or_block E ctx zone actor False tld reason)"
| "apply_action E clock s ctx actor (UpdateTld tld ep ex notes) zone =
     no_registry (apply_update_tld E ctx zone actor tld ep ex notes)"
| "apply_action E clock s ctx actor (SetTldStatus tld status) zone =
     no_registry (apply_set_tld_status E ctx zone actor tld status)"
| "apply_action E clock s ctx actor (UpdateRegistryPointer tld hex) zone =
     and_then (apply_update_registry_pointer E s ctx zone actor tld hex) (\<lambda>(role, zone, reg).
     Inr (role, zone, Some reg))"

end
