(* ===== verification/Mutation_Apply.thy ===== *)
theory Mutation_Apply
  imports Mutation_Store
begin

text \<open>
  \<open>crates/federate-mutation/src/store.rs\<close> and \<open>seed.rs\<close>: \<open>apply\<close>, the creation and reopening of
  a registry, its self-checks, and the seeding of an empty registry. \<open>to_pretty\<close> is the pretty
  printer of the snapshot files.
\<close>

subsection \<open>Applying a mutation\<close>

definition next_root_version :: "nat \<Rightarrow> int \<Rightarrow> nat" where
  "next_root_version v now = max (min (v + 1) u64_max) (nat (max (timestamp now) 0))"

text \<open>The tail of the audit trail a zone carries.\<close>

definition keep_tail :: "nat \<Rightarrow> 'a list \<Rightarrow> 'a list" where
  "keep_tail n xs = (if n < length xs then drop (length xs - n) xs else xs)"

definition resign_zone ::
  "'x deps_scheme \<Rightarrow> mutation_context \<Rightarrow> mutation_request \<Rightarrow> actor_role \<Rightarrow> root_zone \<Rightarrow> root_zone" where
  "resign_zone E ctx req role zone =
     (let now = x_to_rfc3339 E (mc_now ctx);
          (kind, target) = mutation_action_target (mr_action req);
          zone = zone\<lparr>rz_root_version := next_root_version (rz_root_version zone) (mc_now ctx),
                      rz_generated_at := now,
                      rz_audit := keep_tail ZONE_AUDIT_TAIL (rz_audit zone @
                        [\<lparr>ae_at = now, ae_actor = actor_role_as_str role,
                          ae_action = mutation_action_name (mr_action req), ae_subject = target,
                          ae_detail = Some (mr_mutation_id req)\<rparr>])\<rparr>;
          unsigned = zone\<lparr>rz_signature := None\<rparr>
      in zone\<lparr>rz_signature := Some (sign E (mc_root ctx) (root_zone_signable_bytes E unsigned))\<rparr>)"

definition audit_event_of ::
  "'x deps_scheme \<Rightarrow> mutation_context \<Rightarrow> mutation_request \<Rightarrow> actor_role \<Rightarrow> root_zone \<Rightarrow> root_zone
     \<Rightarrow> audit_record" where
  "audit_event_of E ctx req role old_zone new_zone =
     (let (kind, target) = mutation_action_target (mr_action req) in
      audit_finalize E
        \<lparr>au_event_id = [], au_mutation_id = mr_mutation_id req,
         au_actor_public_key = mr_actor_public_key req, au_actor_role = actor_role_as_str role,
         au_action = mutation_action_name (mr_action req), au_target_type = target_kind_as_str kind,
         au_target_id = target, au_previous_state_hash = state_hash E old_zone,
         au_new_state_hash = state_hash E new_zone, au_timestamp = x_to_rfc3339 E (mc_now ctx),
         au_signature_algorithm = SIGNATURE_ALGORITHM, au_signature = None\<rparr> (mc_root ctx))"

text \<open>Everything \<open>apply\<close> checks and computes before it touches its state.\<close>

definition prepare_mutation ::
  "'x store_deps_scheme \<Rightarrow> int \<Rightarrow> registry_store \<Rightarrow> mutation_request \<Rightarrow> mutation_context
     \<Rightarrow> (root_zone \<times> (string \<times> bytes \<times> tld_registry) option \<times> audit_record) result" where
  "prepare_mutation E clock s req ctx =
     and_then (mutation_verify E req) (\<lambda>_.
     and_then (mutation_check_age E req (mc_now ctx)) (\<lambda>_.
     if bm_contains (rs_applied s) (mr_mutation_id req)
     then Inl (Replay (''mutation '' @ mr_mutation_id req @ '' was already applied''))
     else
       let target_key = mutation_action_target_key (mr_action req);
           current = target_version s target_key in
       if mr_target_version req \<le> current
       then Inl (Replay (''target version '' @ show_nat (mr_target_version req) @ '' does not advance '' @
         target_key @ '' (current '' @ show_nat current @ '')''))
       else
         and_then (apply_action E clock s ctx (mr_actor_public_key req) (mr_action req) (rs_zone s))
           (\<lambda>(role, zone, new_registry).
         let zone = resign_zone E ctx req role zone in
         and_then (root_zone_verify E zone (node_id E (mc_root ctx))) (\<lambda>_.
         Inr (zone, new_registry, audit_event_of E ctx req role (rs_zone s) zone)))))"

definition batch_of ::
  "'x store_deps_scheme \<Rightarrow> mutation_request \<Rightarrow> root_zone \<Rightarrow> (string \<times> bytes \<times> tld_registry) option
     \<Rightarrow> applied_mutation \<Rightarrow> audit_record \<Rightarrow> commit_batch" where
  "batch_of E req zone new_registry applied event =
     \<lparr>cb_zone_json = to_vec (x_zone E) zone, cb_root_version = rz_root_version zone,
      cb_state_hash = state_hash E zone, cb_tlds = bm_values (rz_tlds zone),
      cb_domains = bm_values (rz_domains zone),
      cb_target_key = mutation_action_target_key (mr_action req),
      cb_target_version = mr_target_version req, cb_applied = applied, cb_audit = event,
      cb_delegated_registry = map_option (\<lambda>(tld, bs, _). (tld, bs)) new_registry,
      cb_snapshot = \<lparr>sm_root_version = rz_root_version zone, sm_created_at = rz_generated_at zone,
                     sm_state_hash = state_hash E zone\<rparr>\<rparr>"

text \<open>The part that changes the store: memory first, then the database, then the snapshot.\<close>

definition install_registry ::
  "'x deps_scheme \<Rightarrow> io \<Rightarrow> registry_store \<Rightarrow> (string \<times> bytes \<times> tld_registry) option
     \<Rightarrow> unit result \<times> registry_store" where
  "install_registry E io s new_registry =
     (case new_registry of
        None \<Rightarrow> (Inr (), s)
      | Some (tld, bs, parsed) \<Rightarrow>
          (case write_manifest io s (hash_bytes E bs) bs of
             (Inl e, s) \<Rightarrow> (Inl e, s)
           | (Inr _, s) \<Rightarrow> (Inr (), s\<lparr>rs_registries := bm_insert tld (bs, parsed) (rs_registries s)\<rparr>)))"

definition record_mutation ::
  "'x deps_scheme \<Rightarrow> mutation_request \<Rightarrow> applied_mutation \<Rightarrow> audit_record \<Rightarrow> registry_store
     \<Rightarrow> registry_store" where
  "record_mutation E req applied event s =
     s\<lparr>rs_target_versions := bm_insert (mutation_action_target_key (mr_action req))
         (mr_target_version req) (rs_target_versions s),
       rs_applied := bm_insert (mr_mutation_id req) applied (rs_applied s),
       rs_audit := rs_audit s @ [event]\<rparr>"

definition commit_applied ::
  "'x store_deps_scheme \<Rightarrow> (root_zone \<Rightarrow> bytes) \<Rightarrow> io \<Rightarrow> registry_store \<Rightarrow> mutation_request
     \<Rightarrow> mutation_context \<Rightarrow> root_zone \<Rightarrow> (string \<times> bytes \<times> tld_registry) option \<Rightarrow> audit_record
     \<Rightarrow> audit_record result \<times> registry_store" where
  "commit_applied E to_pretty io s req ctx zone new_registry event =
     (case install_registry E io (s\<lparr>rs_zone := zone\<rparr>) new_registry of
        (Inl e, s) \<Rightarrow> (Inl e, s)
      | (Inr _, s) \<Rightarrow>
          let applied = \<lparr>am_mutation = req, am_audit_event_id = au_event_id event,
                am_applied_at = x_to_rfc3339 E (mc_now ctx), am_root_version = rz_root_version zone\<rparr>;
              s = record_mutation E req applied event s;
              (r, db) = commit_mutation E (io_commit io) (rs_db s)
                (batch_of E req zone new_registry applied event);
              s = s\<lparr>rs_db := db\<rparr>
          in (case r of
                Inl e \<Rightarrow> (Inl e, s)
              | Inr _ \<Rightarrow>
                  (case write_snapshot E to_pretty io s of
                     (Inl e, s) \<Rightarrow> (Inl e, s)
                   | (Inr _, s) \<Rightarrow> (Inr event, s))))"

definition apply_mutation ::
  "'x store_deps_scheme \<Rightarrow> int \<Rightarrow> (root_zone \<Rightarrow> bytes) \<Rightarrow> io \<Rightarrow> registry_store \<Rightarrow> mutation_request
     \<Rightarrow> mutation_context \<Rightarrow> audit_record result \<times> registry_store" where
  "apply_mutation E clock to_pretty io s req ctx =
     (case prepare_mutation E clock s req ctx of
        Inl e \<Rightarrow> (Inl e, s)
      | Inr (zone, new_registry, event) \<Rightarrow>
          commit_applied E to_pretty io s req ctx zone new_registry event)"

subsection \<open>Creating and opening\<close>

record disk =
  dk_db :: "redb option"
  dk_legacy :: bool
  dk_manifest_dir :: "(string, bytes) bmap"
  dk_snapshot_dir :: "(string, bytes) bmap"
  dk_blocks :: block_store

definition db_path :: "string \<Rightarrow> string" where
  "db_path dir = dir @ ''/registry.redb''"

definition disk_of :: "registry_store \<Rightarrow> disk" where
  "disk_of s =
     \<lparr>dk_db = Some (rs_db s), dk_legacy = False, dk_manifest_dir = rs_manifest_dir s,
      dk_snapshot_dir = rs_snapshot_dir s, dk_blocks = rs_blocks s\<rparr>"

definition registry_exists :: "disk \<Rightarrow> bool" where
  "registry_exists d \<longleftrightarrow> dk_db d \<noteq> None \<or> dk_legacy d"

text \<open>The loop over the persisted registries, each parsed and verified under its TLD record.\<close>

fun load_registries ::
  "'x store_deps_scheme \<Rightarrow> root_zone \<Rightarrow> (string \<times> bytes) list
     \<Rightarrow> (string, bytes \<times> tld_registry) bmap result" where
  "load_registries E zone [] = Inr []"
| "load_registries E zone ((tld, raw) # rest) =
     and_then (decode_as (x_registry E) raw) (\<lambda>parsed.
     and_then (ok_or (root_zone_lookup_tld zone tld) (InvalidRoot
       (''persisted registry for .'' @ tld @ '' has no TLD record in the zone''))) (\<lambda>record.
     and_then (tld_registry_verify E parsed tld (tr_operator_public_key record)) (\<lambda>_.
     and_then (load_registries E zone rest) (\<lambda>m.
     Inr (bm_insert tld (raw, parsed) m)))))"

definition load_manifests :: "'x deps_scheme \<Rightarrow> (string, bytes) bmap \<Rightarrow> (string, bytes) bmap" where
  "load_manifests E dir = bm_extend (filter (\<lambda>(name, bs). hash_bytes E bs = name) dir) []"

definition registry_open ::
  "'x store_deps_scheme \<Rightarrow> string \<Rightarrow> disk \<Rightarrow> string \<Rightarrow> registry_store result" where
  "registry_open E dir d expected_root_key =
     (case dk_db d of
        None \<Rightarrow>
          if dk_legacy d
          then Inl (StorageError (''legacy JSON registry found at '' @ dir @ ''; migrate it with: '' @
            ''federate registry migrate-json-to-redb --data-dir <node data dir>''))
          else Inl (StorageError (''no registry database at '' @ db_path dir))
      | Some db \<Rightarrow>
          and_then (current_root_zone db) (\<lambda>current.
          and_then (ok_or current (StorageError ''database has no current root zone'')) (\<lambda>(version, zone_json).
          and_then (decode_as (x_zone E) zone_json) (\<lambda>zone.
          and_then (root_zone_validate zone) (\<lambda>_.
          and_then (root_zone_verify E zone expected_root_key) (\<lambda>_.
          if rz_root_version zone \<noteq> version
          then Inl (InvalidRoot (''current zone claims v'' @ show_nat (rz_root_version zone) @
            '' but metadata points at v'' @ show_nat version))
          else if (case get_meta db ''state_hash'' of Some h \<Rightarrow> h \<noteq> state_hash E zone | None \<Rightarrow> False)
          then Inl (InvalidRoot ''stored state hash does not match the current zone'')
          else
            and_then (load_registries E zone (list_delegated_registries db)) (\<lambda>registries.
            and_then (list_mutations E db) (\<lambda>mutations.
            and_then (list_audit_events E db) (\<lambda>audit.
            Inr \<lparr>rs_db = db, rs_zone = zone, rs_registries = registries,
                 rs_manifests = load_manifests E (dk_manifest_dir d), rs_blocks = dk_blocks d,
                 rs_target_versions = bm_extend (list_target_versions db) [],
                 rs_applied = bm_extend (map (\<lambda>m. (mr_mutation_id (am_mutation m), m)) mutations) [],
                 rs_audit = audit, rs_manifest_dir = dk_manifest_dir d,
                 rs_snapshot_dir = dk_snapshot_dir d\<rparr>)))))))))"

definition put_blocks ::
  "'x deps_scheme \<Rightarrow> io \<Rightarrow> block_store \<Rightarrow> (string \<times> bytes) list \<Rightarrow> block_store result" where
  "put_blocks E io st blocks =
     foldl (\<lambda>r (hash, bs). and_then r (\<lambda>st. block_store_put E (io_write io) st hash bs)) (Inr st) blocks"

fun write_manifests ::
  "io \<Rightarrow> registry_store \<Rightarrow> (string \<times> bytes) list \<Rightarrow> registry_store result" where
  "write_manifests io s [] = Inr s"
| "write_manifests io s ((hash, bs) # rest) =
     (case write_manifest io s hash bs of
        (Inl e, _) \<Rightarrow> Inl e
      | (Inr _, s) \<Rightarrow> write_manifests io s rest)"

text \<open>\<open>init\<close>; after an error the directory may hold blocks, a database or manifests already.\<close>

definition registry_init ::
  "'x store_deps_scheme \<Rightarrow> (root_zone \<Rightarrow> bytes) \<Rightarrow> io \<Rightarrow> string \<Rightarrow> disk \<Rightarrow> root_zone
     \<Rightarrow> (string, bytes \<times> tld_registry) bmap \<Rightarrow> (string, bytes) bmap \<Rightarrow> (string \<times> bytes) list
     \<Rightarrow> registry_store result" where
  "registry_init E to_pretty io dir d zone registries manifests blocks =
     and_then (put_blocks E io (dk_blocks d) blocks) (\<lambda>block_store.
     if dk_db d \<noteq> None then Inl (StorageError (''database already exists at '' @ db_path dir))
     else
       let hash = state_hash E zone;
           (r, db) = commit_initial E (io_commit io) redb_create
             \<lparr>is_zone_json = to_vec (x_zone E) zone, is_root_version = rz_root_version zone,
              is_state_hash = hash, is_tlds = bm_values (rz_tlds zone),
              is_domains = bm_values (rz_domains zone),
              is_delegated_registries = map (\<lambda>(tld, bs, _). (tld, bs)) registries,
              is_snapshot = \<lparr>sm_root_version = rz_root_version zone,
                sm_created_at = rz_generated_at zone, sm_state_hash = hash\<rparr>\<rparr>;
           s = \<lparr>rs_db = db, rs_zone = zone, rs_registries = registries, rs_manifests = [],
                rs_blocks = block_store, rs_target_versions = [], rs_applied = [], rs_audit = [],
                rs_manifest_dir = dk_manifest_dir d, rs_snapshot_dir = dk_snapshot_dir d\<rparr>
       in and_then r (\<lambda>_.
          and_then (write_manifests io s manifests) (\<lambda>s.
          case write_snapshot E to_pretty io s of
            (Inl e, _) \<Rightarrow> Inl e
          | (Inr _, s) \<Rightarrow> Inr s)))"

definition init_empty_registry ::
  "'x store_deps_scheme \<Rightarrow> int \<Rightarrow> (root_zone \<Rightarrow> bytes) \<Rightarrow> io \<Rightarrow> string \<Rightarrow> disk \<Rightarrow> node_identity
     \<Rightarrow> registry_store result" where
  "init_empty_registry E clock to_pretty io dir d root =
     (if registry_exists d
      then Inl (MutationRejected (''registry already initialized at '' @ dir))
      else
        let now = x_to_rfc3339 E clock;
            zone = \<lparr>rz_network = NETWORK_NAME, rz_root_version = nat (max (timestamp clock) 0),
              rz_generated_at = now, rz_root_public_key = node_id E root, rz_tlds = [],
              rz_domains = [],
              rz_audit = [\<lparr>ae_at = now, ae_actor = ''root'', ae_action = ''root.init'',
                ae_subject = ''root-zone'',
                ae_detail = Some ''empty registry initialized; TLDs arrive via seed/mutations''\<rparr>],
              rz_signature_algorithm = SIGNATURE_ALGORITHM, rz_signature = None\<rparr>;
            zone = zone\<lparr>rz_signature := Some (sign E root (root_zone_signable_bytes E zone))\<rparr>
        in and_then (root_zone_verify E zone (node_id E root)) (\<lambda>_.
           registry_init E to_pretty io dir d zone [] [] []))"

subsection \<open>Reading and self-checks\<close>

definition store_registry :: "registry_store \<Rightarrow> string \<Rightarrow> (bytes \<times> tld_registry) option" where
  "store_registry s tld = bm_get (rs_registries s) tld"

definition store_get_manifest :: "registry_store \<Rightarrow> string \<Rightarrow> bytes option" where
  "store_get_manifest s hash = bm_get (rs_manifests s) hash"

definition store_block :: "'x deps_scheme \<Rightarrow> registry_store \<Rightarrow> string \<Rightarrow> bytes option" where
  "store_block E s hash = ok_option (block_store_get E (rs_blocks s) hash)"

definition lookup_domain :: "registry_store \<Rightarrow> string \<Rightarrow> domain_record option" where
  "lookup_domain s name =
     (case root_zone_lookup (rs_zone s) name of
        Some r \<Rightarrow> Some r
      | None \<Rightarrow> find_map (\<lambda>(_, registry). tld_registry_lookup registry name) (bm_values (rs_registries s)))"

definition audit_tail :: "registry_store \<Rightarrow> nat \<Rightarrow> audit_record list" where
  "audit_tail s limit = drop (length (rs_audit s) - limit) (rs_audit s)"

definition verify_tables :: "'x store_deps_scheme \<Rightarrow> registry_store \<Rightarrow> unit result" where
  "verify_tables E s =
     and_then (list_tlds E (rs_db s)) (\<lambda>tlds.
     if length tlds \<noteq> length (rz_tlds (rs_zone s)) \<or>
        list_ex (\<lambda>rec. case root_zone_lookup_tld (rs_zone s) (tr_tld rec) of
            Some z \<Rightarrow> tr_signature z \<noteq> tr_signature rec | None \<Rightarrow> True) tlds
     then Inl (InvalidRoot ''tld_records table does not mirror the signed zone'')
     else and_then (list_domains E (rs_db s)) (\<lambda>domains.
       if length domains \<noteq> length (rz_domains (rs_zone s)) \<or>
          list_ex (\<lambda>rec. case root_zone_lookup (rs_zone s) (dr_domain rec) of
              Some z \<Rightarrow> dr_signature z \<noteq> dr_signature rec | None \<Rightarrow> True) domains
       then Inl (InvalidRoot ''domain_records table does not mirror the signed zone'')
       else Inr ()))"

definition verify_all :: "'x store_deps_scheme \<Rightarrow> registry_store \<Rightarrow> string \<Rightarrow> unit result" where
  "verify_all E s expected_root_key =
     and_then (root_zone_validate (rs_zone s)) (\<lambda>_.
     and_then (root_zone_verify E (rs_zone s) expected_root_key) (\<lambda>_.
     and_then (try_for_each (\<lambda>(tld, _, registry).
         and_then (ok_or (root_zone_lookup_tld (rs_zone s) tld)
           (InvalidRoot (''.'' @ tld @ '' registry has no TLD record''))) (\<lambda>record.
         tld_registry_verify E registry tld (tr_operator_public_key record))) (rs_registries s)) (\<lambda>_.
     and_then (try_for_each (\<lambda>(hash, bs). storage_verify E bs hash) (rs_manifests s)) (\<lambda>_.
     and_then (try_for_each (\<lambda>(hash, _). and_then (block_store_get E (rs_blocks s) hash) (\<lambda>_. Inr ()))
         (block_store_list (rs_blocks s))) (\<lambda>_.
     and_then (try_for_each (\<lambda>event. audit_verify E event expected_root_key) (rs_audit s)) (\<lambda>_.
     verify_tables E s))))))"

subsection \<open>Seeding\<close>

record seed_tld =
  sd_name :: string
  sd_mode :: string
  sd_purpose :: "string option"
  sd_reason :: "string option"

record seed_outcome =
  so_created :: "string list"
  so_skipped_existing :: "string list"

text \<open>\<open>toml_tlds\<close> is what the TOML parser reads, or nothing.\<close>

definition seed_file_parse :: "(string \<Rightarrow> seed_tld list option) \<Rightarrow> string \<Rightarrow> seed_tld list result" where
  "seed_file_parse toml_tlds content =
     and_then (ok_or (toml_tlds content) (MutationRejected ''invalid seed file: '')) (\<lambda>tlds.
     if tlds = [] then Inl (MutationRejected ''seed file defines no TLDs'') else Inr tlds)"

definition seed_action :: "string \<Rightarrow> seed_tld \<Rightarrow> mutation_action result" where
  "seed_action name entry =
     (let or_else = (\<lambda>a b. case a of Some x \<Rightarrow> Some x | None \<Rightarrow> b);
          get_or = (\<lambda>a d. case a of Some x \<Rightarrow> x | None \<Rightarrow> d) in
      if sd_mode entry = ''official''
      then Inr (CreateTld name (get_or (sd_purpose entry) ''official Federate TLD''))
      else if sd_mode entry = ''reserved''
      then Inr (ReserveTld name (get_or (or_else (sd_reason entry) (sd_purpose entry)) ''reserved by seed file''))
      else if sd_mode entry = ''blocked''
      then Inr (BlockTld name (get_or (or_else (sd_reason entry) (sd_purpose entry)) ''blocked by seed file''))
      else Inl (MutationRejected (''seed entry .'' @ name @ '': unknown mode '' @ [CHR 0x27] @
        sd_mode entry @ [CHR 0x27] @ '' (official | reserved | blocked)'')))"

fun seed_entries ::
  "'x store_deps_scheme \<Rightarrow> int \<Rightarrow> (root_zone \<Rightarrow> bytes) \<Rightarrow> io \<Rightarrow> mutation_context \<Rightarrow> seed_tld list
     \<Rightarrow> seed_outcome \<Rightarrow> registry_store \<Rightarrow> seed_outcome result \<times> registry_store" where
  "seed_entries E clock to_pretty io ctx [] out s = (Inr out, s)"
| "seed_entries E clock to_pretty io ctx (entry # rest) out s =
     (case validate_tld_name (sd_name entry) of
        Inl e \<Rightarrow> (Inl e, s)
      | Inr name \<Rightarrow>
          if bm_contains (rz_tlds (rs_zone s)) name
          then seed_entries E clock to_pretty io ctx rest
            (out\<lparr>so_skipped_existing := so_skipped_existing out @ [name]\<rparr>) s
          else (case seed_action name entry of
              Inl e \<Rightarrow> (Inl e, s)
            | Inr action \<Rightarrow>
                let version = target_version s (mutation_action_target_key action) + 1;
                    req = mutation_signed E (mc_root ctx) (''seed:'' @ name)
                      (x_to_rfc3339 E (mc_now ctx)) version action
                in (case apply_mutation E clock to_pretty io s req ctx of
                      (Inl e, s) \<Rightarrow> (Inl e, s)
                    | (Inr _, s) \<Rightarrow> seed_entries E clock to_pretty io ctx rest
                        (out\<lparr>so_created := so_created out @ [name]\<rparr>) s)))"

definition apply_seed ::
  "'x store_deps_scheme \<Rightarrow> int \<Rightarrow> (root_zone \<Rightarrow> bytes) \<Rightarrow> io \<Rightarrow> registry_store \<Rightarrow> seed_tld list
     \<Rightarrow> mutation_context \<Rightarrow> bool \<Rightarrow> seed_outcome result \<times> registry_store" where
  "apply_seed E clock to_pretty io s seed ctx force =
     (if rz_tlds (rs_zone s) \<noteq> [] \<and> \<not> force
      then (Inl (MutationRejected (''registry already holds '' @ show_nat (length (rz_tlds (rs_zone s))) @
        '' TLD record(s); refusing to re-seed (use --force to add missing entries only)'')), s)
      else seed_entries E clock to_pretty io ctx seed \<lparr>so_created = [], so_skipped_existing = []\<rparr> s)"

end
