(* ===== verification/Zone_Invariant.thy ===== *)
theory Zone_Invariant
  imports Mutation_Apply
begin

text \<open>
  What every zone the registry serves satisfies, and that every arm of \<open>apply_action\<close> keeps it; who
  may request which change; and what a change leaves alone.
\<close>

subsection \<open>The invariant\<close>

definition tld_entry_ok :: "'x deps_scheme \<Rightarrow> string \<Rightarrow> string \<times> tld_record \<Rightarrow> bool" where
  "tld_entry_ok E k p \<longleftrightarrow>
     tr_tld (snd p) = fst p \<and> tld_record_wf (snd p) \<and> tld_record_verify E (snd p) k = Inr ()"

definition domain_entry_ok ::
  "'x deps_scheme \<Rightarrow> (string, tld_record) bmap \<Rightarrow> string \<times> domain_record \<Rightarrow> bool" where
  "domain_entry_ok E tlds p \<longleftrightarrow>
     dr_domain (snd p) = fst p \<and> domain_record_wf (snd p) \<and>
     (\<exists>tr. bm_get tlds (dr_tld (snd p)) = Some tr \<and>
        domain_record_verify E (snd p) (tr_operator_public_key tr) = Inr ())"

definition entries_ok :: "'x deps_scheme \<Rightarrow> string \<Rightarrow> root_zone \<Rightarrow> bool" where
  "entries_ok E k z \<longleftrightarrow>
     rz_network z \<noteq> [] \<and> rz_root_public_key z = k \<and>
     bm_sorted (rz_tlds z) \<and> bm_sorted (rz_domains z) \<and>
     (\<forall>p \<in> set (rz_tlds z). tld_entry_ok E k p) \<and>
     (\<forall>p \<in> set (rz_domains z). domain_entry_ok E (rz_tlds z) p)"

definition zone_ok :: "'x deps_scheme \<Rightarrow> string \<Rightarrow> root_zone \<Rightarrow> bool" where
  "zone_ok E k z \<longleftrightarrow>
     entries_ok E k z \<and> rz_root_version z \<le> u64_max \<and>
     signature_check E k (root_zone_signable_bytes E z) (rz_signature z)"

lemma zone_ok_wf: "zone_ok E k z \<Longrightarrow> root_zone_wf z"
  by (fastforce simp: zone_ok_def entries_ok_def root_zone_wf_def list_all_iff bm_values_def
      tld_entry_ok_def domain_entry_ok_def)

lemma zone_ok_verify: "zone_ok E k z \<Longrightarrow> root_zone_verify E z k = Inr ()"
  by (fastforce simp: zone_ok_def entries_ok_def root_zone_verify_iff bm_values_def tld_entry_ok_def)

lemma zone_ok_validate: "zone_ok E k z \<Longrightarrow> root_zone_validate z = Inr ()"
  by (fastforce simp: zone_ok_def entries_ok_def root_zone_validate_iff bm_values_def domain_entry_ok_def
      bm_contains_iff)

subsection \<open>Signed records\<close>

lemma sign_tld_fields [simp]:
  "tr_tld (sign_tld E i r) = tr_tld r" "tr_status (sign_tld E i r) = tr_status r"
  "tr_mode (sign_tld E i r) = tr_mode r"
  "tr_operator_public_key (sign_tld E i r) = tr_operator_public_key r"
  "tr_owner_public_key (sign_tld E i r) = tr_owner_public_key r"
  "tr_registry_type (sign_tld E i r) = tr_registry_type r"
  "tr_registry_manifest_hash (sign_tld E i r) = tr_registry_manifest_hash r"
  "tr_created_at (sign_tld E i r) = tr_created_at r"
  "tr_expires_at (sign_tld E i r) = tr_expires_at r"
  "tld_record_wf (sign_tld E i r) = tld_record_wf r"
  by (simp_all add: sign_tld_def Let_def tld_record_wf_def)

lemma sign_domain_fields [simp]:
  "dr_domain (sign_domain E i r) = dr_domain r" "dr_tld (sign_domain E i r) = dr_tld r"
  "dr_label (sign_domain E i r) = dr_label r" "dr_status (sign_domain E i r) = dr_status r"
  "dr_owner_public_key (sign_domain E i r) = dr_owner_public_key r"
  "dr_manifest_hash (sign_domain E i r) = dr_manifest_hash r"
  "dr_created_at (sign_domain E i r) = dr_created_at r"
  "dr_expires_at (sign_domain E i r) = dr_expires_at r"
  "domain_record_wf (sign_domain E i r) = domain_record_wf r"
  by (simp_all add: sign_domain_def Let_def domain_record_wf_def)

text \<open>Keys that work: the root's, the operator's, and the libraries as documented.\<close>

definition keys_ok :: "'x deps_scheme \<Rightarrow> mutation_context \<Rightarrow> bool" where
  "keys_ok E ctx \<longleftrightarrow>
     hex_ok E \<and> ed25519_ok E \<and> length (signing_key (mc_root ctx)) = 32 \<and>
     length (signing_key (mc_official_operator ctx)) = 32"

lemma sign_tld_verifies:
  "keys_ok E ctx \<Longrightarrow>
     tld_record_verify E (sign_tld E (mc_root ctx) r) (node_id E (mc_root ctx)) = Inr ()"
  by (auto simp: keys_ok_def sign_tld_def Let_def tld_record_verify_iff tld_record_signable_bytes_def
      verify_own_signature)

lemma sign_domain_verifies:
  "keys_ok E ctx \<Longrightarrow> dr_domain r = dr_label r @ ''.'' @ dr_tld r \<Longrightarrow>
     domain_record_verify E (sign_domain E (mc_official_operator ctx) r)
       (node_id E (mc_official_operator ctx)) = Inr ()"
  by (auto simp: keys_ok_def sign_domain_def Let_def domain_record_verify_iff
      domain_record_signable_bytes_def verify_own_signature)

subsection \<open>Inserting a record keeps the entries in order\<close>

lemma entries_ok_tld:
  assumes ok: "entries_ok E k z" and r: "tld_entry_ok E k (name, r)"
    and op: "\<And>old. bm_get (rz_tlds z) name = Some old \<Longrightarrow>
      tr_operator_public_key r = tr_operator_public_key old"
  shows "entries_ok E k (insert_tld name r z)"
proof -
  have "domain_entry_ok E (bm_insert name r (rz_tlds z)) p" if p: "domain_entry_ok E (rz_tlds z) p" for p
  proof -
    from p obtain tr where tr: "bm_get (rz_tlds z) (dr_tld (snd p)) = Some tr"
      and v: "domain_record_verify E (snd p) (tr_operator_public_key tr) = Inr ()"
      by (auto simp: domain_entry_ok_def)
    show ?thesis
    proof (cases "dr_tld (snd p) = name")
      case True
      with op tr have "tr_operator_public_key r = tr_operator_public_key tr" by simp
      with p v True show ?thesis by (auto simp: domain_entry_ok_def map_simps)
    next
      case False
      with p tr v show ?thesis by (auto simp: domain_entry_ok_def map_simps)
    qed
  qed
  with ok r show ?thesis
    by (auto simp: entries_ok_def insert_tld_def set_bm_insert)
qed

lemma entries_ok_domain:
  assumes "entries_ok E k z" and "domain_entry_ok E (rz_tlds z) (name, r)"
  shows "entries_ok E k (insert_domain name r z)"
  using assms by (auto simp: entries_ok_def insert_domain_def set_bm_insert)

lemma entries_ok_tld_entry:
  "entries_ok E k z \<Longrightarrow> bm_get (rz_tlds z) t = Some r \<Longrightarrow> tld_entry_ok E k (t, r)"
  by (auto simp: entries_ok_def dest: bm_get_in_set)

lemma entries_ok_domain_entry:
  "entries_ok E k z \<Longrightarrow> bm_get (rz_domains z) n = Some r \<Longrightarrow> domain_entry_ok E (rz_tlds z) (n, r)"
  by (auto simp: entries_ok_def dest: bm_get_in_set)

subsection \<open>What each arm does\<close>

text \<open>
  One lemma per arm: when it succeeds, who asked, and which record of the zone it replaces. The
  guards that do not matter later are dropped.
\<close>

lemma publish_record_fields [simp]:
  "dr_domain (publish_record d a h x t) = fqdn d" "dr_tld (publish_record d a h x t) = fd_tld d"
  "dr_label (publish_record d a h x t) = fd_name d"
  "dr_owner_public_key (publish_record d a h x t) = a"
  "dr_status (publish_record d a h x t) = Active"
  "dr_manifest_hash (publish_record d a h x t) = h"
  "domain_record_wf (publish_record d a h x t)"
  by (simp_all add: publish_record_def domain_record_wf_def)

lemma apply_publish_ok:
  assumes "apply_publish E clock s ctx zone actor is_update domain mh = Inr (role, zone')"
  shows "\<exists>d tr bs m. federate_domain_parse domain = Inr d \<and> role = RoleDomainOwner \<and>
    bm_get (rz_tlds zone) (fd_tld d) = Some tr \<and> tr_registry_type tr = RootManaged \<and>
    tld_status_is_resolvable (tr_status tr) \<and> \<not> tld_record_is_expired E clock tr \<and>
    tr_operator_public_key tr = node_id E (mc_official_operator ctx) \<and>
    (case bm_get (rz_domains zone) (fqdn d) of
       None \<Rightarrow> \<not> is_update
     | Some old \<Rightarrow> dr_owner_public_key old = actor \<and> (dr_status old = Active \<or> dr_status old = Pending)) \<and>
    bm_get (rs_manifests s) mh = Some bs \<and> from_slice (x_manifest E) bs = Some m \<and>
    manifest_validate m = Inr () \<and> manifest_verify E m (fqdn d) actor = Inr () \<and>
    zone' = insert_domain (fqdn d) (sign_domain E (mc_official_operator ctx)
      (publish_record d actor mh (bm_get (rz_domains zone) (fqdn d)) (x_to_rfc3339 E (mc_now ctx)))) zone"
proof -
  note mono = assms [unfolded apply_publish_def Let_def decode_as_def and_then_eq_Inr ok_or_eq_Inr
    map_err_eq_Inr guard_eq_Inr root_zone_lookup_tld_def sum.inject prod.inject]
  then obtain d tr u bs m where
    "federate_domain_parse domain = Inr d" "bm_get (rz_tlds zone) (fd_tld d) = Some tr"
    "\<not> tr_registry_type tr \<noteq> RootManaged"
    "\<not> (\<not> tld_status_is_resolvable (tr_status tr) \<or> tld_record_is_expired E clock tr)"
    "\<not> tr_operator_public_key tr \<noteq> node_id E (mc_official_operator ctx)"
    and guard: "(case bm_get (rz_domains zone) (fqdn d) of
         None \<Rightarrow> if is_update then Inl (DomainNotFound (fqdn d)) else Inr ()
       | Some r \<Rightarrow>
           if dr_owner_public_key r \<noteq> actor
           then Inl (Unauthorized (fqdn d @ '' is owned by a different key''))
           else if dr_status r \<noteq> Active \<and> dr_status r \<noteq> Pending
           then Inl (MutationRejected (fqdn d @ '' status '' @ [CHR 0x27] @
             domain_status_as_str (dr_status r) @ [CHR 0x27] @ '' does not allow updates''))
           else Inr ()) = Inr u"
    and "bm_get (rs_manifests s) mh = Some bs" "from_slice (x_manifest E) bs = Some m"
    "manifest_validate m = Inr ()" "manifest_verify E m (fqdn d) actor = Inr ()"
    "RoleDomainOwner = role"
    "insert_domain (fqdn d) (sign_domain E (mc_official_operator ctx)
      (publish_record d actor mh (bm_get (rz_domains zone) (fqdn d)) (x_to_rfc3339 E (mc_now ctx)))) zone = zone'"
    by auto
  moreover from guard have "case bm_get (rz_domains zone) (fqdn d) of
       None \<Rightarrow> \<not> is_update
     | Some old \<Rightarrow> dr_owner_public_key old = actor \<and> (dr_status old = Active \<or> dr_status old = Pending)"
    by (auto split: option.splits if_splits)
  ultimately show ?thesis by blast
qed

lemma apply_set_domain_status_ok:
  assumes "apply_set_domain_status E ctx zone actor domain status = Inr (role, zone')"
  shows "\<exists>r tr. bm_get (rz_domains zone) (to_ascii_lowercase domain) = Some r \<and>
    bm_get (rz_tlds zone) (dr_tld r) = Some tr \<and>
    (if actor = rz_root_public_key zone then role = RoleRoot
     else actor = tr_operator_public_key tr \<and> role = RoleTldOperator) \<and>
    allowed_domain_transition (dr_status r) status (actor = rz_root_public_key zone) \<and>
    tr_operator_public_key tr = node_id E (mc_official_operator ctx) \<and>
    zone' = insert_domain (to_ascii_lowercase domain) (sign_domain E (mc_official_operator ctx)
      (r\<lparr>dr_status := status, dr_updated_at := x_to_rfc3339 E (mc_now ctx)\<rparr>)) zone"
  using assms unfolding apply_set_domain_status_def Let_def
  by (auto simp: and_then_eq_Inr ok_or_eq_Inr guard_eq_Inr root_zone_lookup_tld_def split: if_splits)

lemma apply_issue_domain_ok:
  assumes "apply_issue_domain E clock zone actor record = Inr (role, zone')"
  shows "\<exists>tr l. bm_get (rz_tlds zone) (dr_tld record) = Some tr \<and> role = RoleTldOperator \<and>
    tr_registry_type tr = RootManaged \<and> actor = tr_operator_public_key tr \<and>
    validate_label (dr_label record) = Inr l \<and>
    domain_record_verify E record actor = Inr () \<and> \<not> domain_record_is_expired E clock record \<and>
    (case bm_get (rz_domains zone) (dr_domain record) of
       None \<Rightarrow> True
     | Some old \<Rightarrow> dr_status old = Revoked \<longrightarrow> actor = rz_root_public_key zone) \<and>
    zone' = insert_domain (dr_domain record) record zone"
  using assms unfolding apply_issue_domain_def Let_def
  by (auto simp: and_then_eq_Inr ok_or_eq_Inr map_err_eq_Inr guard_eq_Inr root_zone_lookup_tld_def
      split: option.splits if_splits)

text \<open>The three arms that create a TLD record: only the root, only a fresh name, signed by the root.\<close>

definition creates_tld ::
  "'x deps_scheme \<Rightarrow> mutation_context \<Rightarrow> root_zone \<Rightarrow> string \<Rightarrow> actor_role \<Rightarrow> root_zone \<Rightarrow> string \<Rightarrow> tld_record
     \<Rightarrow> bool" where
  "creates_tld E ctx zone actor role zone' name r \<longleftrightarrow>
     actor = rz_root_public_key zone \<and> role = RoleRoot \<and> tld_ok name \<and>
     bm_get (rz_tlds zone) name = None \<and> tr_tld r = name \<and> tld_record_wf r \<and>
     zone' = insert_tld name (sign_tld E (mc_root ctx) r) zone"

lemma validate_new_tld_ok:
  assumes "validate_new_tld b input allow = Inr t"
  shows "validate_tld_name input = Inr t \<and> tld_ok t"
proof -
  obtain x where x: "validate_tld_name input = Inr x"
    and eq: "(case blocklists_check b x of
       None \<Rightarrow> Inr x
     | Some ReservedName \<Rightarrow>
         if allow then Inr x else Inl (ReservedTld x (block_reason_describe ReservedName))
     | Some reason \<Rightarrow> Inl (BlockedTld x (block_reason_describe reason))) = Inr t"
    using assms unfolding validate_new_tld_def and_then_eq_Inr by blast
  have "x = t"
  proof (cases "blocklists_check b x")
    case (Some r)
    with eq show ?thesis by (cases r; cases allow) simp_all
  qed (use eq in simp)
  with x show ?thesis by (simp add: validate_tld_name_ok)
qed

lemma new_tld_record_fields [simp]:
  "tr_tld (new_tld_record n st md ow op nm rt ep ex nt t) = n"
  "tr_status (new_tld_record n st md ow op nm rt ep ex nt t) = st"
  "tr_owner_public_key (new_tld_record n st md ow op nm rt ep ex nt t) = ow"
  "tr_operator_public_key (new_tld_record n st md ow op nm rt ep ex nt t) = op"
  "tr_registry_type (new_tld_record n st md ow op nm rt ep ex nt t) = rt"
  "tld_record_wf (new_tld_record n st md ow op nm rt ep ex nt t)"
  by (simp_all add: new_tld_record_def tld_record_wf_def)

lemma apply_delegate_tld_ok:
  assumes "apply_delegate_tld E ctx zone actor tld ow op nm rt ep ex = Inr (role, zone')"
  shows "\<exists>name. creates_tld E ctx zone actor role zone' name
      (new_tld_record name TldDelegated ModeDelegated ow op nm rt ep ex None (x_to_rfc3339 E (mc_now ctx))) \<and>
    validate_new_tld (mc_blocklists ctx) tld False = Inr name \<and> rt \<noteq> RootManaged \<and>
    hex_key_ok ow \<and> hex_key_ok op"
  using assms unfolding apply_delegate_tld_def Let_def creates_tld_def
  by (auto simp: and_then_eq_Inr guard_eq_Inr bm_contains_iff dest: validate_new_tld_ok)

lemma apply_create_tld_ok:
  assumes "apply_create_tld E ctx zone actor tld purpose = Inr (role, zone')"
  shows "\<exists>name. creates_tld E ctx zone actor role zone' name
      (new_tld_record name TldOfficial ModeOfficial (node_id E (mc_root ctx))
        (node_id E (mc_official_operator ctx)) ''Federate Network (root-managed)'' RootManaged None None
        (Some purpose) (x_to_rfc3339 E (mc_now ctx))) \<and>
    validate_new_tld (mc_blocklists ctx) tld True = Inr name"
  using assms unfolding apply_create_tld_def Let_def creates_tld_def
  by (auto simp: and_then_eq_Inr guard_eq_Inr bm_contains_iff dest: validate_new_tld_ok)

lemma apply_reserve_or_block_ok:
  assumes "apply_reserve_or_block E ctx zone actor is_reserve tld reason = Inr (role, zone')"
  shows "\<exists>name. creates_tld E ctx zone actor role zone' name
      (new_tld_record name (if is_reserve then TldReserved else TldBlocked)
        (if is_reserve then ModeReserved else ModeBlocked) (node_id E (mc_root ctx)) (node_id E (mc_root ctx))
        ''Federate Network (root)'' RootManaged None None (Some reason) (x_to_rfc3339 E (mc_now ctx))) \<and>
    validate_tld_name tld = Inr name"
  using assms unfolding apply_reserve_or_block_def Let_def creates_tld_def
  by (auto simp: and_then_eq_Inr guard_eq_Inr bm_contains_iff dest: validate_tld_name_ok)

text \<open>The arms that replace one TLD record: same name, same operator, signed by the root.\<close>

definition replaces_tld ::
  "'x deps_scheme \<Rightarrow> mutation_context \<Rightarrow> root_zone \<Rightarrow> root_zone \<Rightarrow> string \<Rightarrow> tld_record \<Rightarrow> tld_record \<Rightarrow> bool" where
  "replaces_tld E ctx zone zone' name old r \<longleftrightarrow>
     bm_get (rz_tlds zone) name = Some old \<and> tr_tld r = tr_tld old \<and>
     tr_operator_public_key r = tr_operator_public_key old \<and>
     tr_owner_public_key r = tr_owner_public_key old \<and>
     tr_registry_type r = tr_registry_type old \<and>
     tld_record_wf r = tld_record_wf old \<and>
     zone' = insert_tld name (sign_tld E (mc_root ctx) r) zone"

lemma update_tld_record_fields [simp]:
  "tr_tld (update_tld_record r ep ex nt t) = tr_tld r"
  "tr_status (update_tld_record r ep ex nt t) = tr_status r"
  "tr_owner_public_key (update_tld_record r ep ex nt t) = tr_owner_public_key r"
  "tr_operator_public_key (update_tld_record r ep ex nt t) = tr_operator_public_key r"
  "tr_registry_type (update_tld_record r ep ex nt t) = tr_registry_type r"
  "tr_registry_manifest_hash (update_tld_record r ep ex nt t) = tr_registry_manifest_hash r"
  "tld_record_wf (update_tld_record r ep ex nt t) = tld_record_wf r"
  by (simp_all add: update_tld_record_def tld_record_wf_def Let_def split: option.splits)

lemma apply_update_tld_ok:
  assumes "apply_update_tld E ctx zone actor tld ep ex notes = Inr (role, zone')"
  shows "\<exists>old. replaces_tld E ctx zone zone' (to_ascii_lowercase tld) old
      (update_tld_record old ep ex notes (x_to_rfc3339 E (mc_now ctx))) \<and>
    actor = rz_root_public_key zone \<and> role = RoleRoot"
  using assms unfolding apply_update_tld_def Let_def replaces_tld_def
  by (auto simp: and_then_eq_Inr ok_or_eq_Inr guard_eq_Inr)

lemma apply_set_tld_status_ok:
  assumes "apply_set_tld_status E ctx zone actor tld status = Inr (role, zone')"
  shows "\<exists>old. replaces_tld E ctx zone zone' (to_ascii_lowercase tld) old
      (old\<lparr>tr_status := status, tr_updated_at := x_to_rfc3339 E (mc_now ctx)\<rparr>) \<and>
    actor = rz_root_public_key zone \<and> role = RoleRoot \<and> tr_status old \<noteq> status"
  using assms unfolding apply_set_tld_status_def Let_def replaces_tld_def
  by (auto simp: and_then_eq_Inr ok_or_eq_Inr guard_eq_Inr tld_record_wf_def)

lemma apply_update_registry_pointer_ok:
  assumes "apply_update_registry_pointer E s ctx zone actor tld hex = Inr (role, zone', reg)"
  shows "\<exists>old bs g. replaces_tld E ctx zone zone' (to_ascii_lowercase tld) old
      (old\<lparr>tr_registry_manifest_hash := Some (hash_bytes E bs), tr_updated_at := x_to_rfc3339 E (mc_now ctx)\<rparr>) \<and>
    reg = (to_ascii_lowercase tld, bs, g) \<and> actor = tr_operator_public_key old \<and> role = RoleTldOperator \<and>
    tr_registry_type old = DelegatedManifest \<and>
    x_hex_decode E hex = Some bs \<and> from_slice (x_registry E) bs = Some g \<and>
    tld_registry_verify E g (to_ascii_lowercase tld) actor = Inr () \<and>
    (case bm_get (rs_registries s) (to_ascii_lowercase tld) of
       None \<Rightarrow> 0 | Some (_, g') \<Rightarrow> rg_version g') < rg_version g"
  using assms unfolding apply_update_registry_pointer_def Let_def decode_as_def replaces_tld_def
  by (auto simp: and_then_eq_Inr ok_or_eq_Inr guard_eq_Inr tld_record_wf_def)

subsection \<open>Every arm keeps the entries in order\<close>

lemma creates_tld_entries:
  assumes "creates_tld E ctx zone actor role zone' name r" and "keys_ok E ctx"
    and "entries_ok E (node_id E (mc_root ctx)) zone"
  shows "entries_ok E (node_id E (mc_root ctx)) zone'"
  using assms sign_tld_verifies [OF assms(2)]
  by (auto simp: creates_tld_def tld_entry_ok_def intro!: entries_ok_tld)

lemma replaces_tld_entries:
  assumes "replaces_tld E ctx zone zone' name old r" and "keys_ok E ctx"
    and "entries_ok E (node_id E (mc_root ctx)) zone"
  shows "entries_ok E (node_id E (mc_root ctx)) zone'"
proof -
  have "tld_entry_ok E (node_id E (mc_root ctx)) (name, old)"
    using assms(1,3) by (auto simp: replaces_tld_def intro: entries_ok_tld_entry)
  with assms sign_tld_verifies [OF assms(2)] show ?thesis
    by (auto simp: replaces_tld_def tld_entry_ok_def intro!: entries_ok_tld)
qed

lemma apply_publish_entries:
  assumes "apply_publish E clock s ctx zone actor is_update domain mh = Inr (role, zone')"
    and "keys_ok E ctx" and "entries_ok E k zone"
  shows "entries_ok E k zone'"
proof -
  obtain d tr where tr: "bm_get (rz_tlds zone) (fd_tld d) = Some tr"
      "tr_operator_public_key tr = node_id E (mc_official_operator ctx)"
    and zone': "zone' = insert_domain (fqdn d) (sign_domain E (mc_official_operator ctx)
      (publish_record d actor mh (bm_get (rz_domains zone) (fqdn d)) (x_to_rfc3339 E (mc_now ctx)))) zone"
    using apply_publish_ok [OF assms(1)] by blast
  show ?thesis
    unfolding zone'
    using assms(3) tr sign_domain_verifies [OF assms(2)]
    by (intro entries_ok_domain) (auto simp: domain_entry_ok_def fqdn_def)
qed

lemma domain_record_wf_status [simp]:
  "domain_record_wf (r\<lparr>dr_status := st, dr_updated_at := t\<rparr>) = domain_record_wf r"
  by (simp add: domain_record_wf_def)

lemma apply_set_domain_status_entries:
  assumes "apply_set_domain_status E ctx zone actor domain status = Inr (role, zone')"
    and "keys_ok E ctx" and "entries_ok E k zone"
  shows "entries_ok E k zone'"
proof -
  let ?name = "to_ascii_lowercase domain"
  obtain r tr where r: "bm_get (rz_domains zone) ?name = Some r" "bm_get (rz_tlds zone) (dr_tld r) = Some tr"
      "tr_operator_public_key tr = node_id E (mc_official_operator ctx)"
    and zone': "zone' = insert_domain ?name (sign_domain E (mc_official_operator ctx)
      (r\<lparr>dr_status := status, dr_updated_at := x_to_rfc3339 E (mc_now ctx)\<rparr>)) zone"
    using apply_set_domain_status_ok [OF assms(1)] by blast
  from entries_ok_domain_entry [OF assms(3) r(1)]
  have "dr_domain r = ?name" "domain_record_wf r" "dr_domain r = dr_label r @ ''.'' @ dr_tld r"
    by (auto simp: domain_entry_ok_def domain_record_verify_iff)
  with zone' show ?thesis
    using assms(3) r sign_domain_verifies [OF assms(2)]
    by (auto simp: domain_entry_ok_def intro!: entries_ok_domain)
qed

lemma apply_issue_domain_entries:
  assumes "apply_issue_domain E clock zone actor record = Inr (role, zone')"
    and "domain_record_wf record" and "entries_ok E k zone"
  shows "entries_ok E k zone'"
proof -
  obtain tr where "bm_get (rz_tlds zone) (dr_tld record) = Some tr" "actor = tr_operator_public_key tr"
    "domain_record_verify E record actor = Inr ()" "zone' = insert_domain (dr_domain record) record zone"
    using apply_issue_domain_ok [OF assms(1)] by blast
  with assms(2,3) show ?thesis
    by (auto simp: domain_entry_ok_def intro!: entries_ok_domain)
qed

lemma no_registry_Inr:
  "no_registry r = Inr (role, zone', reg) \<longleftrightarrow> r = Inr (role, zone') \<and> reg = None"
  by (auto simp: no_registry_def and_then_eq_Inr)

lemma update_pointer_Inr:
  "and_then r (\<lambda>(role, zone, reg). Inr (role, zone, Some reg)) = Inr (role, zone', reg') \<longleftrightarrow>
     (\<exists>reg. r = Inr (role, zone', reg) \<and> reg' = Some reg)"
  by (auto simp: and_then_eq_Inr)

lemmas apply_action_Inr = apply_action.simps no_registry_Inr update_pointer_Inr

lemma apply_action_entries:
  assumes "apply_action E clock s ctx actor action zone = Inr (role, zone', reg)"
    and "keys_ok E ctx" and "mutation_action_wf action"
    and "entries_ok E (node_id E (mc_root ctx)) zone"
  shows "entries_ok E (node_id E (mc_root ctx)) zone'"
proof (cases action)
  case (PublishSite d h)
  with assms show ?thesis by (auto simp: apply_action_Inr intro: apply_publish_entries)
next
  case (UpdateDomainManifest d h)
  with assms show ?thesis by (auto simp: apply_action_Inr intro: apply_publish_entries)
next
  case (SetDomainStatus d st)
  with assms show ?thesis by (auto simp: apply_action_Inr intro: apply_set_domain_status_entries)
next
  case (IssueDomain r)
  with assms show ?thesis
    by (auto simp: apply_action_Inr mutation_action_wf_def intro: apply_issue_domain_entries)
next
  case (DelegateTld t ow op nm rt ep ex)
  with assms show ?thesis
    by (auto simp: apply_action_Inr dest!: apply_delegate_tld_ok intro: creates_tld_entries)
next
  case (UpdateTld t ep ex n)
  with assms show ?thesis
    by (auto simp: apply_action_Inr dest!: apply_update_tld_ok intro: replaces_tld_entries)
next
  case (CreateTld t p)
  with assms show ?thesis
    by (auto simp: apply_action_Inr dest!: apply_create_tld_ok intro: creates_tld_entries)
next
  case (ReserveTld t r)
  with assms show ?thesis
    by (auto simp: apply_action_Inr dest!: apply_reserve_or_block_ok intro: creates_tld_entries)
next
  case (BlockTld t r)
  with assms show ?thesis
    by (auto simp: apply_action_Inr dest!: apply_reserve_or_block_ok intro: creates_tld_entries)
next
  case (SetTldStatus t st)
  with assms show ?thesis
    by (auto simp: apply_action_Inr dest!: apply_set_tld_status_ok intro: replaces_tld_entries)
next
  case (UpdateRegistryPointer t h)
  with assms show ?thesis
    by (auto simp: apply_action_Inr dest!: apply_update_registry_pointer_ok intro: replaces_tld_entries)
qed

subsection \<open>Who changes what\<close>

text \<open>
  The change an actor may make to a zone, as a specification that does not mention the arms: the root
  adds or changes TLD records; a TLD's operator pins its registry; the operator of a root-managed TLD
  issues its records; root and operator change a domain's status and nothing else of substance; and
  an owner publishes its own domain, or one that nobody holds yet. Every other record stays as it is.
\<close>

definition frame_domain :: "string \<Rightarrow> root_zone \<Rightarrow> root_zone \<Rightarrow> bool" where
  "frame_domain name z z' \<longleftrightarrow>
     z' = z\<lparr>rz_domains := rz_domains z'\<rparr> \<and>
     (\<forall>n. n \<noteq> name \<longrightarrow> bm_get (rz_domains z') n = bm_get (rz_domains z) n)"

definition frame_tld :: "string \<Rightarrow> root_zone \<Rightarrow> root_zone \<Rightarrow> bool" where
  "frame_tld name z z' \<longleftrightarrow>
     z' = z\<lparr>rz_tlds := rz_tlds z'\<rparr> \<and>
     (\<forall>n. n \<noteq> name \<longrightarrow> bm_get (rz_tlds z') n = bm_get (rz_tlds z) n)"

definition owner_may_publish :: "string \<Rightarrow> root_zone \<Rightarrow> root_zone \<Rightarrow> string \<Rightarrow> bool" where
  "owner_may_publish actor z z' name \<longleftrightarrow>
     frame_domain name z z' \<and>
     (case bm_get (rz_domains z) name of None \<Rightarrow> True | Some old \<Rightarrow> dr_owner_public_key old = actor) \<and>
     (\<exists>r. bm_get (rz_domains z') name = Some r \<and> dr_owner_public_key r = actor \<and> dr_status r = Active)"

definition controller_may_set_status :: "string \<Rightarrow> root_zone \<Rightarrow> root_zone \<Rightarrow> string \<Rightarrow> bool" where
  "controller_may_set_status actor z z' name \<longleftrightarrow>
     frame_domain name z z' \<and>
     (\<exists>old tr r. bm_get (rz_domains z) name = Some old \<and> bm_get (rz_tlds z) (dr_tld old) = Some tr \<and>
        (actor = rz_root_public_key z \<or> actor = tr_operator_public_key tr) \<and>
        (dr_status old = Revoked \<longrightarrow> actor = rz_root_public_key z) \<and>
        bm_get (rz_domains z') name = Some r \<and>
        r\<lparr>dr_status := dr_status old, dr_updated_at := dr_updated_at old, dr_signature := dr_signature old\<rparr> = old)"

definition operator_may_issue :: "string \<Rightarrow> root_zone \<Rightarrow> root_zone \<Rightarrow> string \<Rightarrow> bool" where
  "operator_may_issue actor z z' name \<longleftrightarrow>
     frame_domain name z z' \<and>
     (\<exists>r tr. bm_get (rz_domains z') name = Some r \<and> bm_get (rz_tlds z) (dr_tld r) = Some tr \<and>
        tr_registry_type tr = RootManaged \<and> actor = tr_operator_public_key tr \<and>
        (\<forall>old. bm_get (rz_domains z) name = Some old \<longrightarrow> dr_status old = Revoked \<longrightarrow>
           actor = rz_root_public_key z))"

definition root_may_change_tld :: "string \<Rightarrow> root_zone \<Rightarrow> root_zone \<Rightarrow> string \<Rightarrow> bool" where
  "root_may_change_tld actor z z' name \<longleftrightarrow>
     frame_tld name z z' \<and> actor = rz_root_public_key z \<and>
     (\<forall>old. bm_get (rz_tlds z) name = Some old \<longrightarrow>
        (\<exists>r. bm_get (rz_tlds z') name = Some r \<and> tr_operator_public_key r = tr_operator_public_key old \<and>
           tr_owner_public_key r = tr_owner_public_key old \<and> tr_registry_type r = tr_registry_type old))"

definition root_may_create_tld :: "string \<Rightarrow> root_zone \<Rightarrow> root_zone \<Rightarrow> string \<Rightarrow> bool" where
  "root_may_create_tld actor z z' t \<longleftrightarrow>
     (\<exists>name. validate_tld_name t = Inr name \<and> bm_get (rz_tlds z) name = None \<and>
        root_may_change_tld actor z z' name)"

definition operator_may_pin :: "string \<Rightarrow> root_zone \<Rightarrow> root_zone \<Rightarrow> string \<Rightarrow> bool" where
  "operator_may_pin actor z z' name \<longleftrightarrow>
     frame_tld name z z' \<and>
     (\<exists>old r. bm_get (rz_tlds z) name = Some old \<and> actor = tr_operator_public_key old \<and>
        tr_registry_type old = DelegatedManifest \<and> bm_get (rz_tlds z') name = Some r \<and>
        r\<lparr>tr_registry_manifest_hash := tr_registry_manifest_hash old, tr_updated_at := tr_updated_at old,
          tr_signature := tr_signature old\<rparr> = old)"

definition authorized_change :: "mutation_action \<Rightarrow> string \<Rightarrow> root_zone \<Rightarrow> root_zone \<Rightarrow> bool" where
  "authorized_change action actor z z' =
     (case action of
        PublishSite d _ \<Rightarrow>
          (\<exists>p. federate_domain_parse d = Inr p \<and> owner_may_publish actor z z' (fqdn p))
      | UpdateDomainManifest d _ \<Rightarrow>
          (\<exists>p. federate_domain_parse d = Inr p \<and> bm_get (rz_domains z) (fqdn p) \<noteq> None \<and>
             owner_may_publish actor z z' (fqdn p))
      | SetDomainStatus d _ \<Rightarrow> controller_may_set_status actor z z' (to_ascii_lowercase d)
      | IssueDomain r \<Rightarrow> operator_may_issue actor z z' (dr_domain r)
      | UpdateRegistryPointer t _ \<Rightarrow> operator_may_pin actor z z' (to_ascii_lowercase t)
      | UpdateTld t _ _ _ \<Rightarrow> root_may_change_tld actor z z' (to_ascii_lowercase t)
      | SetTldStatus t _ \<Rightarrow> root_may_change_tld actor z z' (to_ascii_lowercase t)
      | DelegateTld t _ _ _ _ _ _ \<Rightarrow> root_may_create_tld actor z z' t
      | CreateTld t _ \<Rightarrow> root_may_create_tld actor z z' t
      | ReserveTld t _ \<Rightarrow> root_may_create_tld actor z z' t
      | BlockTld t _ \<Rightarrow> root_may_create_tld actor z z' t)"

lemma frame_insert_domain: "frame_domain name z (insert_domain name r z)"
  by (simp add: frame_domain_def insert_domain_def map_simps)

lemma frame_insert_tld: "frame_tld name z (insert_tld name r z)"
  by (simp add: frame_tld_def insert_tld_def map_simps)

lemma get_insert_domain [simp]: "bm_get (rz_domains (insert_domain name r z)) name = Some r"
  by (simp add: insert_domain_def map_simps)

lemma get_insert_tld [simp]: "bm_get (rz_tlds (insert_tld name r z)) name = Some r"
  by (simp add: insert_tld_def map_simps)

lemma publish_authorized:
  assumes "apply_publish E clock s ctx zone actor is_update domain mh = Inr (role, zone')"
  shows "\<exists>p. federate_domain_parse domain = Inr p \<and> owner_may_publish actor zone zone' (fqdn p) \<and>
     (is_update \<longrightarrow> bm_get (rz_domains zone) (fqdn p) \<noteq> None)"
proof -
  obtain d where d: "federate_domain_parse domain = Inr d"
    and old: "case bm_get (rz_domains zone) (fqdn d) of
       None \<Rightarrow> \<not> is_update
     | Some old \<Rightarrow> dr_owner_public_key old = actor \<and> (dr_status old = Active \<or> dr_status old = Pending)"
    and zone': "zone' = insert_domain (fqdn d) (sign_domain E (mc_official_operator ctx)
      (publish_record d actor mh (bm_get (rz_domains zone) (fqdn d)) (x_to_rfc3339 E (mc_now ctx)))) zone"
    using apply_publish_ok [OF assms] by blast
  have "owner_may_publish actor zone zone' (fqdn d)"
    unfolding owner_may_publish_def zone'
    using old by (intro conjI frame_insert_domain exI [where x = "sign_domain _ _ _"]) (auto split: option.splits)
  with d old show ?thesis by (auto split: option.splits)
qed

lemma creates_tld_authorized:
  "creates_tld E ctx zone actor role zone' name r \<Longrightarrow> validate_tld_name t = Inr name \<Longrightarrow>
     root_may_create_tld actor zone zone' t"
  by (auto simp: creates_tld_def root_may_create_tld_def root_may_change_tld_def frame_insert_tld)

lemma replaces_tld_authorized:
  "replaces_tld E ctx zone zone' name old r \<Longrightarrow> actor = rz_root_public_key zone \<Longrightarrow>
     root_may_change_tld actor zone zone' name"
  by (auto simp: replaces_tld_def root_may_change_tld_def frame_insert_tld)

lemma revoked_needs_root [simp]: "\<not> allowed_domain_transition Revoked st False"
  by (cases st) (simp_all add: allowed_domain_transition_def)

lemma set_status_authorized:
  assumes "apply_set_domain_status E ctx zone actor domain status = Inr (role, zone')"
  shows "controller_may_set_status actor zone zone' (to_ascii_lowercase domain)"
  using apply_set_domain_status_ok [OF assms]
  by (auto simp: controller_may_set_status_def frame_insert_domain sign_domain_def Let_def
      split: if_splits)

lemma apply_action_authorized:
  assumes "apply_action E clock s ctx actor action zone = Inr (role, zone', reg)"
  shows "authorized_change action actor zone zone'"
proof (cases action)
  case (PublishSite d h)
  with assms show ?thesis by (auto simp: apply_action_Inr authorized_change_def dest!: publish_authorized)
next
  case (UpdateDomainManifest d h)
  with assms show ?thesis by (auto simp: apply_action_Inr authorized_change_def dest!: publish_authorized)
next
  case (SetDomainStatus d st)
  with assms show ?thesis by (auto simp: apply_action_Inr authorized_change_def intro: set_status_authorized)
next
  case (IssueDomain r)
  with assms show ?thesis
    by (auto simp: apply_action_Inr authorized_change_def operator_may_issue_def frame_insert_domain
        dest!: apply_issue_domain_ok split: option.splits)
next
  case (DelegateTld t ow op nm rt ep ex)
  with assms show ?thesis
    by (auto simp: apply_action_Inr authorized_change_def dest!: apply_delegate_tld_ok validate_new_tld_ok
        intro: creates_tld_authorized)
next
  case (UpdateTld t ep ex n)
  with assms show ?thesis
    by (auto simp: apply_action_Inr authorized_change_def dest!: apply_update_tld_ok replaces_tld_authorized)
next
  case (CreateTld t p)
  with assms show ?thesis
    by (auto simp: apply_action_Inr authorized_change_def dest!: apply_create_tld_ok validate_new_tld_ok
        intro: creates_tld_authorized)
next
  case (ReserveTld t r)
  with assms show ?thesis
    by (auto simp: apply_action_Inr authorized_change_def dest!: apply_reserve_or_block_ok
        intro: creates_tld_authorized)
next
  case (BlockTld t r)
  with assms show ?thesis
    by (auto simp: apply_action_Inr authorized_change_def dest!: apply_reserve_or_block_ok
        intro: creates_tld_authorized)
next
  case (SetTldStatus t st)
  with assms show ?thesis
    by (auto simp: apply_action_Inr authorized_change_def dest!: apply_set_tld_status_ok replaces_tld_authorized)
next
  case (UpdateRegistryPointer t h)
  with assms show ?thesis
    by (auto simp: apply_action_Inr authorized_change_def operator_may_pin_def replaces_tld_def
        frame_insert_tld sign_tld_def Let_def dest!: apply_update_registry_pointer_ok)
qed

end
