(* ===== verification/Store_Invariant.thy ===== *)
theory Store_Invariant
  imports Zone_Invariant
begin

text \<open>
  The store invariant: the memory of the registry store is well formed, and the database mirrors it.
  Every accepted mutation keeps it, and reopening the database of such a store gives the store back.
\<close>

subsection \<open>Serialisation\<close>

definition applied_wf :: "applied_mutation \<Rightarrow> bool" where
  "applied_wf a \<longleftrightarrow> mutation_request_wf (am_mutation a) \<and> am_root_version a \<le> u64_max"

definition serde_ok :: "'x store_deps_scheme \<Rightarrow> bool" where
  "serde_ok E \<longleftrightarrow>
     codec_ok root_zone_wf (x_zone E) \<and> codec_ok tld_record_wf (x_tld E) \<and>
     codec_ok domain_record_wf (x_domain E) \<and> codec_ok applied_wf (x_applied E) \<and>
     codec_ok audit_record_wf (x_audit E)"

lemma list_json_encoded:
  "codec_ok P c \<Longrightarrow> \<forall>x \<in> set xs. P x \<Longrightarrow> list_json c (map (to_vec c) xs) = Inr xs"
  by (induction xs) (auto simp: codec_ok_def decode_as_def)

subsection \<open>The invariant\<close>

definition registries_ok ::
  "'x store_deps_scheme \<Rightarrow> (string, tld_record) bmap \<Rightarrow> (string, bytes \<times> tld_registry) bmap \<Rightarrow> bool" where
  "registries_ok E tlds regs \<longleftrightarrow>
     bm_sorted regs \<and>
     (\<forall>(t, b, g) \<in> set regs. from_slice (x_registry E) b = Some g \<and>
        (\<exists>tr. bm_get tlds t = Some tr \<and> tld_registry_verify E g t (tr_operator_public_key tr) = Inr ()))"

definition applied_ok :: "(string, applied_mutation) bmap \<Rightarrow> bool" where
  "applied_ok applied \<longleftrightarrow>
     bm_sorted applied \<and>
     (\<forall>(i, a) \<in> set applied. mr_mutation_id (am_mutation a) = i \<and> applied_wf a)"

definition memory_ok :: "'x store_deps_scheme \<Rightarrow> string \<Rightarrow> registry_store \<Rightarrow> bool" where
  "memory_ok E k s \<longleftrightarrow>
     zone_ok E k (rs_zone s) \<and> registries_ok E (rz_tlds (rs_zone s)) (rs_registries s) \<and>
     applied_ok (rs_applied s) \<and> bm_sorted (rs_target_versions s) \<and>
     (\<forall>e \<in> set (rs_audit s). audit_verify E e k = Inr ())"

definition db_mirrors :: "'x store_deps_scheme \<Rightarrow> registry_store \<Rightarrow> redb \<Rightarrow> bool" where
  "db_mirrors E s db \<longleftrightarrow>
     get_meta db ''current_version'' = Some (show_nat (rz_root_version (rs_zone s))) \<and>
     get_root_zone_version db (rz_root_version (rs_zone s)) = Some (to_vec (x_zone E) (rs_zone s)) \<and>
     get_meta db ''state_hash'' = Some (state_hash E (rs_zone s)) \<and>
     t_tld_records db = bm_map (to_vec (x_tld E)) (rz_tlds (rs_zone s)) \<and>
     t_domain_records db = bm_map (to_vec (x_domain E)) (rz_domains (rs_zone s)) \<and>
     t_mutations db = bm_map (to_vec (x_applied E)) (rs_applied s) \<and>
     t_audit_events db = bm_log (map (to_vec (x_audit E)) (rs_audit s)) \<and>
     t_target_versions db = rs_target_versions s \<and>
     t_delegated_registries db = bm_map fst (rs_registries s)"

definition manifests_ok :: "'x deps_scheme \<Rightarrow> registry_store \<Rightarrow> bool" where
  "manifests_ok E s \<longleftrightarrow>
     bm_sorted (rs_manifest_dir s) \<and> rs_manifests s = load_manifests E (rs_manifest_dir s)"

definition store_ok :: "'x store_deps_scheme \<Rightarrow> string \<Rightarrow> registry_store \<Rightarrow> bool" where
  "store_ok E k s \<longleftrightarrow> memory_ok E k s \<and> db_mirrors E s (rs_db s) \<and> manifests_ok E s"

subsection \<open>Reopening\<close>

lemma load_registries_mirrored:
  assumes "registries_ok E (rz_tlds zone) regs"
  shows "load_registries E zone (bm_map fst regs) = Inr regs"
  using assms
proof (induction regs)
  case (Cons p regs)
  obtain t b g where p: "p = (t, b, g)" by (cases p)
  from Cons.prems have rest: "registries_ok E (rz_tlds zone) regs"
    and less: "\<forall>k \<in> set (map fst regs). t < k"
    and g: "from_slice (x_registry E) b = Some g"
    and tr: "\<exists>tr. bm_get (rz_tlds zone) t = Some tr \<and> tld_registry_verify E g t (tr_operator_public_key tr) = Inr ()"
    by (auto simp: registries_ok_def p bm_sorted_Cons)
  have "bm_insert t (b, g) regs = p # regs"
    using less p by (cases regs) auto
  with Cons.IH [OF rest] g tr show ?case
    by (auto simp: bm_map_def p decode_as_def root_zone_lookup_tld_def)
qed (simp add: bm_map_def)

lemma open_mirrored:
  assumes E: "serde_ok E" and mem: "memory_ok E k s" and db: "db_mirrors E s db" and d: "dk_db d = Some db"
  shows "registry_open E dir d k = Inr (s\<lparr>rs_db := db,
    rs_manifests := load_manifests E (dk_manifest_dir d), rs_blocks := dk_blocks d,
    rs_manifest_dir := dk_manifest_dir d, rs_snapshot_dir := dk_snapshot_dir d\<rparr>)"
proof -
  let ?z = "rs_zone s"
  have z: "zone_ok E k ?z" using mem by (simp add: memory_ok_def)
  have version: "current_root_zone db = Inr (Some (rz_root_version ?z, to_vec (x_zone E) ?z))"
    using db z parse_show_u64 [of "rz_root_version ?z"]
    by (simp add: current_root_zone_def db_mirrors_def zone_ok_def)
  have zone: "decode_as (x_zone E) (to_vec (x_zone E) ?z) = Inr ?z"
    using E zone_ok_wf [OF z] by (simp add: serde_ok_def codec_ok_def decode_as_def)
  have regs: "load_registries E ?z (list_delegated_registries db) = Inr (rs_registries s)"
    using mem db load_registries_mirrored [of E ?z "rs_registries s"]
    by (simp add: memory_ok_def db_mirrors_def list_delegated_registries_def)
  have ok: "applied_ok (rs_applied s)" using mem by (simp add: memory_ok_def)
  then have "\<forall>a \<in> set (bm_values (rs_applied s)). applied_wf a"
    by (auto simp: applied_ok_def bm_values_def)
  then have muts: "list_mutations E db = Inr (bm_values (rs_applied s))"
    using E db list_json_encoded [of applied_wf "x_applied E" "bm_values (rs_applied s)"]
    by (simp add: list_mutations_def db_mirrors_def serde_ok_def)
  have applied: "bm_extend (map (\<lambda>m. (mr_mutation_id (am_mutation m), m)) (bm_values (rs_applied s))) []
      = rs_applied s"
    using ok by (intro bm_extend_values) (auto simp: applied_ok_def)
  have audit: "list_audit_events E db = Inr (rs_audit s)"
    using E db list_json_encoded [of audit_record_wf "x_audit E" "rs_audit s"]
    by (simp add: list_audit_events_def db_mirrors_def serde_ok_def audit_record_wf_def)
  have tvs: "bm_extend (list_target_versions db) [] = rs_target_versions s"
    using mem db by (simp add: memory_ok_def db_mirrors_def list_target_versions_def bm_extend_self)
  have hash: "get_meta db ''state_hash'' = Some (state_hash E ?z)"
    using db by (simp add: db_mirrors_def)
  show ?thesis
    unfolding registry_open_def d
    by (simp add: version zone zone_ok_validate [OF z] zone_ok_verify [OF z] hash regs muts audit
        applied tvs del: show_nat.simps)
qed

lemma open_store_ok:
  assumes "serde_ok E" and "store_ok E k s"
  shows "registry_open E dir (disk_of s) k = Inr s"
  using open_mirrored [OF assms(1), of k s "rs_db s" "disk_of s" dir] assms(2)
  by (simp add: store_ok_def disk_of_def manifests_ok_def)

subsection \<open>Tables and signatures\<close>

lemma store_ok_verify_tables:
  assumes E: "serde_ok E" and ok: "store_ok E k s"
  shows "verify_tables E s = Inr ()"
proof -
  let ?z = "rs_zone s"
  have z: "zone_ok E k ?z" and db: "db_mirrors E s (rs_db s)"
    using ok by (simp_all add: store_ok_def memory_ok_def)
  have tld: "\<forall>r \<in> set (bm_values (rz_tlds ?z)). tld_record_wf r \<and> bm_get (rz_tlds ?z) (tr_tld r) = Some r"
    using z by (auto simp: zone_ok_def entries_ok_def tld_entry_ok_def bm_values_def bm_in_set)
  have dom: "\<forall>r \<in> set (bm_values (rz_domains ?z)). domain_record_wf r \<and>
      bm_get (rz_domains ?z) (dr_domain r) = Some r"
    using z by (auto simp: zone_ok_def entries_ok_def domain_entry_ok_def bm_values_def bm_in_set)
  have "list_tlds E (rs_db s) = Inr (bm_values (rz_tlds ?z))"
    using E db tld list_json_encoded [of tld_record_wf "x_tld E" "bm_values (rz_tlds ?z)"]
    by (simp add: list_tlds_def db_mirrors_def serde_ok_def)
  moreover have "list_domains E (rs_db s) = Inr (bm_values (rz_domains ?z))"
    using E db dom list_json_encoded [of domain_record_wf "x_domain E" "bm_values (rz_domains ?z)"]
    by (simp add: list_domains_def db_mirrors_def serde_ok_def)
  moreover have "\<not> list_ex (\<lambda>rec. case root_zone_lookup_tld ?z (tr_tld rec) of
      Some x \<Rightarrow> tr_signature x \<noteq> tr_signature rec | None \<Rightarrow> True) (bm_values (rz_tlds ?z))"
    using tld by (auto simp: list_ex_iff root_zone_lookup_tld_def)
  moreover have "\<not> list_ex (\<lambda>rec. case root_zone_lookup ?z (dr_domain rec) of
      Some x \<Rightarrow> dr_signature x \<noteq> dr_signature rec | None \<Rightarrow> True) (bm_values (rz_domains ?z))"
    using dom by (auto simp: list_ex_iff root_zone_lookup_def)
  ultimately show ?thesis
    by (simp add: verify_tables_def) (simp add: bm_values_def)
qed

subsection \<open>What a prepared mutation is\<close>

lemma prepare_ok:
  assumes "prepare_mutation E clock s req ctx = Inr (zone, reg, event)"
  shows "\<exists>role z1. mutation_verify E req = Inr () \<and> mutation_check_age E req (mc_now ctx) = Inr () \<and>
    bm_get (rs_applied s) (mr_mutation_id req) = None \<and>
    target_version s (mutation_action_target_key (mr_action req)) < mr_target_version req \<and>
    apply_action E clock s ctx (mr_actor_public_key req) (mr_action req) (rs_zone s) = Inr (role, z1, reg) \<and>
    zone = resign_zone E ctx req role z1 \<and>
    root_zone_verify E zone (node_id E (mc_root ctx)) = Inr () \<and>
    event = audit_event_of E ctx req role (rs_zone s) zone"
  using assms unfolding prepare_mutation_def Let_def
  by (auto simp: and_then_eq_Inr guard_eq_Inr bm_contains_iff)

lemma resign_zone_fields [simp]:
  "rz_network (resign_zone E ctx req role z) = rz_network z"
  "rz_root_public_key (resign_zone E ctx req role z) = rz_root_public_key z"
  "rz_tlds (resign_zone E ctx req role z) = rz_tlds z"
  "rz_domains (resign_zone E ctx req role z) = rz_domains z"
  "rz_root_version (resign_zone E ctx req role z) = next_root_version (rz_root_version z) (mc_now ctx)"
  by (simp_all add: resign_zone_def Let_def case_prod_unfold)

lemma entries_ok_resign [simp]:
  "entries_ok E k (resign_zone E ctx req role z) = entries_ok E k z"
  by (simp add: entries_ok_def)

text \<open>\<open>DateTime::timestamp\<close> is a 64-bit signed integer.\<close>

definition clock_ok :: "int \<Rightarrow> bool" where
  "clock_ok now \<longleftrightarrow> timestamp now < 9223372036854775808"

lemma next_root_version_bound: "clock_ok now \<Longrightarrow> next_root_version v now \<le> u64_max"
  by (auto simp: next_root_version_def clock_ok_def)

lemma next_root_version_increases:
  "v < u64_max \<Longrightarrow> v < next_root_version v now"
  by (auto simp: next_root_version_def)

lemma prepared_zone_ok:
  assumes prep: "prepare_mutation E clock s req ctx = Inr (zone, reg, event)"
    and mem: "memory_ok E (node_id E (mc_root ctx)) s" and keys: "keys_ok E ctx"
    and wf: "mutation_request_wf req" and now: "clock_ok (mc_now ctx)"
  shows "zone_ok E (node_id E (mc_root ctx)) zone"
proof -
  obtain role z1 where act: "apply_action E clock s ctx (mr_actor_public_key req) (mr_action req) (rs_zone s)
        = Inr (role, z1, reg)"
    and zone: "zone = resign_zone E ctx req role z1"
    and ver: "root_zone_verify E zone (node_id E (mc_root ctx)) = Inr ()"
    using prepare_ok [OF prep] by blast
  have "entries_ok E (node_id E (mc_root ctx)) z1"
    using apply_action_entries [OF act keys] mem wf
    by (simp add: memory_ok_def zone_ok_def mutation_request_wf_def)
  with ver now show ?thesis
    by (simp add: zone_ok_def root_zone_verify_iff next_root_version_bound zone)
qed

subsection \<open>Operators stay\<close>

definition operators_stay :: "root_zone \<Rightarrow> root_zone \<Rightarrow> bool" where
  "operators_stay z z' \<longleftrightarrow>
     (\<forall>t tr. bm_get (rz_tlds z) t = Some tr \<longrightarrow>
        (\<exists>tr'. bm_get (rz_tlds z') t = Some tr' \<and> tr_operator_public_key tr' = tr_operator_public_key tr))"

lemma frame_domain_operators: "frame_domain name z z' \<Longrightarrow> operators_stay z z'"
proof -
  assume "frame_domain name z z'"
  then have "z' = z\<lparr>rz_domains := rz_domains z'\<rparr>" by (simp add: frame_domain_def)
  then have "rz_tlds z' = rz_tlds z" by (metis root_zone.select_convs(5) root_zone.surjective root_zone.update_convs(6))
  then show ?thesis by (simp add: operators_stay_def)
qed

lemma root_may_change_operators: "root_may_change_tld actor z z' name \<Longrightarrow> operators_stay z z'"
  unfolding root_may_change_tld_def frame_tld_def operators_stay_def by metis

lemma operator_may_pin_operators: "operator_may_pin actor z z' name \<Longrightarrow> operators_stay z z'"
proof -
  assume pin: "operator_may_pin actor z z' name"
  then obtain old r where r: "bm_get (rz_tlds z) name = Some old" "bm_get (rz_tlds z') name = Some r"
    and eq: "r\<lparr>tr_registry_manifest_hash := tr_registry_manifest_hash old, tr_updated_at := tr_updated_at old,
      tr_signature := tr_signature old\<rparr> = old" and frame: "frame_tld name z z'"
    unfolding operator_may_pin_def by blast
  from arg_cong [OF eq, of tr_operator_public_key] r frame show ?thesis
    unfolding operators_stay_def frame_tld_def by (metis option.inject tld_record.select_convs(5)
        tld_record.surjective tld_record.update_convs(9,14,18))
qed

lemma authorized_operators: "authorized_change action actor z z' \<Longrightarrow> operators_stay z z'"
  by (cases action)
     (auto simp: authorized_change_def owner_may_publish_def controller_may_set_status_def
        operator_may_issue_def root_may_create_tld_def
        intro: frame_domain_operators root_may_change_operators operator_may_pin_operators)

lemma registries_ok_stay:
  "registries_ok E (rz_tlds z) regs \<Longrightarrow> operators_stay z z' \<Longrightarrow> registries_ok E (rz_tlds z') regs"
  unfolding registries_ok_def operators_stay_def by (fastforce split: prod.splits)

definition with_registry ::
  "(string \<times> bytes \<times> tld_registry) option \<Rightarrow> (string, bytes \<times> tld_registry) bmap
     \<Rightarrow> (string, bytes \<times> tld_registry) bmap" where
  "with_registry reg regs = (case reg of None \<Rightarrow> regs | Some (t, b, g) \<Rightarrow> bm_insert t (b, g) regs)"

lemma apply_action_registry:
  assumes "apply_action E clock s ctx actor action zone = Inr (role, z1, Some (t, b, g))"
  shows "\<exists>tr. bm_get (rz_tlds zone) t = Some tr \<and> from_slice (x_registry E) b = Some g \<and>
    tld_registry_verify E g t (tr_operator_public_key tr) = Inr ()"
  using assms
  by (cases action)
     (auto simp: apply_action_Inr replaces_tld_def dest!: apply_update_registry_pointer_ok)

lemma prepared_registries_ok:
  assumes prep: "prepare_mutation E clock s req ctx = Inr (zone, reg, event)"
    and mem: "memory_ok E k s"
  shows "registries_ok E (rz_tlds zone) (with_registry reg (rs_registries s))"
proof -
  obtain role z1 where act: "apply_action E clock s ctx (mr_actor_public_key req) (mr_action req) (rs_zone s)
        = Inr (role, z1, reg)"
    and zone: "zone = resign_zone E ctx req role z1"
    using prepare_ok [OF prep] by blast
  have stay: "operators_stay (rs_zone s) z1"
    by (rule authorized_operators [OF apply_action_authorized [OF act]])
  have old: "registries_ok E (rz_tlds z1) (rs_registries s)"
    using mem stay by (auto simp: memory_ok_def intro: registries_ok_stay)
  show ?thesis
  proof (cases reg)
    case None
    with old zone show ?thesis by (simp add: with_registry_def)
  next
    case (Some p)
    obtain t b g where p: "p = (t, b, g)" by (cases p)
    obtain tr where tr: "bm_get (rz_tlds (rs_zone s)) t = Some tr" "from_slice (x_registry E) b = Some g"
      "tld_registry_verify E g t (tr_operator_public_key tr) = Inr ()"
      using apply_action_registry [of E clock s ctx _ _ _ role z1 t b g] act Some p by blast
    with stay obtain tr' where "bm_get (rz_tlds z1) t = Some tr'"
      "tr_operator_public_key tr' = tr_operator_public_key tr"
      unfolding operators_stay_def by blast
    with tr old Some p zone show ?thesis
      by (auto simp: with_registry_def registries_ok_def set_bm_insert)
  qed
qed

subsection \<open>Committing\<close>

definition applied_of :: "'x deps_scheme \<Rightarrow> mutation_context \<Rightarrow> mutation_request \<Rightarrow> root_zone \<Rightarrow> audit_record
     \<Rightarrow> applied_mutation" where
  "applied_of E ctx req zone event =
     \<lparr>am_mutation = req, am_audit_event_id = au_event_id event,
      am_applied_at = x_to_rfc3339 E (mc_now ctx), am_root_version = rz_root_version zone\<rparr>"

text \<open>The memory after an accepted mutation, but for the content stores and the database.\<close>

definition advanced ::
  "'x deps_scheme \<Rightarrow> mutation_request \<Rightarrow> mutation_context \<Rightarrow> root_zone
     \<Rightarrow> (string \<times> bytes \<times> tld_registry) option \<Rightarrow> audit_record \<Rightarrow> registry_store \<Rightarrow> registry_store" where
  "advanced E req ctx zone reg event s =
     record_mutation E req (applied_of E ctx req zone event) event
       (s\<lparr>rs_zone := zone, rs_registries := with_registry reg (rs_registries s)\<rparr>)"

lemma advanced_fields [simp]:
  "rs_zone (advanced E req ctx zone reg event s) = zone"
  "rs_registries (advanced E req ctx zone reg event s) = with_registry reg (rs_registries s)"
  "rs_target_versions (advanced E req ctx zone reg event s) =
     bm_insert (mutation_action_target_key (mr_action req)) (mr_target_version req) (rs_target_versions s)"
  "rs_applied (advanced E req ctx zone reg event s) =
     bm_insert (mr_mutation_id req) (applied_of E ctx req zone event) (rs_applied s)"
  "rs_audit (advanced E req ctx zone reg event s) = rs_audit s @ [event]"
  "rs_db (advanced E req ctx zone reg event s) = rs_db s"
  "rs_manifests (advanced E req ctx zone reg event s) = rs_manifests s"
  "rs_manifest_dir (advanced E req ctx zone reg event s) = rs_manifest_dir s"
  "rs_snapshot_dir (advanced E req ctx zone reg event s) = rs_snapshot_dir s"
  "rs_blocks (advanced E req ctx zone reg event s) = rs_blocks s"
  by (simp_all add: advanced_def record_mutation_def)

lemma advanced_memory_ok:
  assumes prep: "prepare_mutation E clock s req ctx = Inr (zone, reg, event)"
    and mem: "memory_ok E (node_id E (mc_root ctx)) s" and keys: "keys_ok E ctx"
    and wf: "mutation_request_wf req" and now: "clock_ok (mc_now ctx)"
  shows "memory_ok E (node_id E (mc_root ctx)) (advanced E req ctx zone reg event s)"
proof -
  obtain role where event: "event = audit_event_of E ctx req role (rs_zone s) zone"
    using prepare_ok [OF prep] by blast
  have zone: "zone_ok E (node_id E (mc_root ctx)) zone"
    by (rule prepared_zone_ok [OF assms])
  then have "applied_wf (applied_of E ctx req zone event)"
    using wf by (simp add: applied_wf_def applied_of_def zone_ok_def)
  moreover have "audit_verify E event (node_id E (mc_root ctx)) = Inr ()"
    using keys by (simp add: event audit_event_of_def case_prod_unfold Let_def keys_ok_def audit_finalize_verifies)
  ultimately show ?thesis
    using mem zone prepared_registries_ok [OF prep mem]
    by (auto simp: memory_ok_def applied_ok_def set_bm_insert applied_of_def)
qed

lemma next_audit_seq_log:
  "t_audit_events t = bm_log xs \<Longrightarrow> next_audit_seq t = length xs"
  by (cases "xs = []") (auto simp: next_audit_seq_def bm_last_log bm_last_def [of "[]"])

lemma commit_mutation_mirrors:
  assumes db: "db_mirrors E s db" and mem: "memory_ok E k (advanced E req ctx zone reg event s)"
  obtains db' where
    "commit_mutation E None db (batch_of E req zone reg (applied_of E ctx req zone event) event) = (Inr (), db')"
    "db_mirrors E (advanced E req ctx zone reg event s) db'"
proof
  let ?b = "batch_of E req zone reg (applied_of E ctx req zone event) event"
  let ?db' = "snd (commit_mutation E None db ?b)"
  show "commit_mutation E None db ?b = (Inr (), ?db')"
    by (simp add: commit_mutation_def db_commit_def Let_def)
  have z: "zone_ok E k zone" using mem by (simp add: memory_ok_def)
  then have tlds: "bm_extend (map (\<lambda>r. (tr_tld r, to_vec (x_tld E) r)) (bm_values (rz_tlds zone))) []
      = bm_map (to_vec (x_tld E)) (rz_tlds zone)"
    by (intro bm_extend_fields) (auto simp: zone_ok_def entries_ok_def tld_entry_ok_def)
  from z have doms: "bm_extend (map (\<lambda>r. (dr_domain r, to_vec (x_domain E) r)) (bm_values (rz_domains zone))) []
      = bm_map (to_vec (x_domain E)) (rz_domains zone)"
    by (intro bm_extend_fields) (auto simp: zone_ok_def entries_ok_def domain_entry_ok_def)
  have id: "mr_mutation_id (am_mutation (applied_of E ctx req zone event)) = mr_mutation_id req"
    by (simp add: applied_of_def)
  have log: "next_audit_seq t = length (rs_audit s)" if "t_audit_events t = t_audit_events db" for t
    using db that next_audit_seq_log [of t "map (to_vec (x_audit E)) (rs_audit s)"]
    by (simp add: db_mirrors_def)
  have app: "bm_insert (length (rs_audit s)) (to_vec (x_audit E) event)
        (bm_log (map (to_vec (x_audit E)) (rs_audit s)))
      = bm_log (map (to_vec (x_audit E)) (rs_audit s) @ [to_vec (x_audit E) event])"
    using bm_log_append [of "map (to_vec (x_audit E)) (rs_audit s)" "to_vec (x_audit E) event"] by simp
  have reg: "(case map_option (\<lambda>(t, b, _). (t, b)) reg of None \<Rightarrow> bm_map fst (rs_registries s)
       | Some (t, b) \<Rightarrow> bm_insert t b (bm_map fst (rs_registries s)))
      = bm_map fst (with_registry reg (rs_registries s))"
    by (auto simp: with_registry_def bm_map_insert [of _ fst, symmetric] split: option.splits)
  show "db_mirrors E (advanced E req ctx zone reg event s) ?db'"
    using db reg
    by (cases reg)
       (auto simp: db_mirrors_def commit_mutation_def batch_of_def db_commit_def write_record_tables_def
          write_zone_pointer_def write_snapshot_meta_def get_meta_def get_root_zone_version_def
          map_simps bm_map_insert tlds doms id log app case_prod_unfold)
qed

end
