(* ===== verification/Store_Safety.thy ===== *)
theory Store_Safety
  imports Store_Invariant
begin

text \<open>
  The registry store as a state machine: what \<open>apply\<close> leaves behind on every outcome, the steps a
  running node takes, and what holds over all of them.
\<close>

subsection \<open>Content stores and snapshots do not matter to the records\<close>

definition same_core :: "registry_store \<Rightarrow> registry_store \<Rightarrow> bool" where
  "same_core s s' \<longleftrightarrow>
     rs_zone s' = rs_zone s \<and> rs_registries s' = rs_registries s \<and> rs_applied s' = rs_applied s \<and>
     rs_target_versions s' = rs_target_versions s \<and> rs_audit s' = rs_audit s"

lemma same_core_refl [simp]: "same_core s s"
  by (simp add: same_core_def)

lemma same_core_trans: "same_core s s' \<Longrightarrow> same_core s' s'' \<Longrightarrow> same_core s s''"
  by (simp add: same_core_def)

lemma memory_ok_core: "same_core s s' \<Longrightarrow> memory_ok E k s' = memory_ok E k s"
  by (simp add: memory_ok_def same_core_def)

lemma db_mirrors_core: "same_core s s' \<Longrightarrow> db_mirrors E s' db = db_mirrors E s db"
  by (simp add: db_mirrors_def same_core_def)

lemma bm_get_filter:
  "distinct (map fst m) \<Longrightarrow> bm_get (filter P m) k = (case bm_get m k of
     None \<Rightarrow> None | Some v \<Rightarrow> if P (k, v) then Some v else None)"
proof (induction m)
  case (Cons p m)
  have "bm_get (filter P m) k = None" if "fst p = k"
    using Cons.prems that by (force simp: bm_get_def map_of_eq_None_iff)
  moreover have "bm_get m k = None" if "fst p = k"
    using Cons.prems that by (force simp: bm_get_def map_of_eq_None_iff)
  ultimately show ?case
    using Cons by (cases p) (auto simp: bm_get_def split: option.splits)
qed simp

lemma load_manifests_filter:
  assumes "bm_sorted dir"
  shows "load_manifests E dir = filter (\<lambda>(name, bs). hash_bytes E bs = name) dir"
  unfolding load_manifests_def
  by (rule bm_extend_self) (use assms in \<open>simp add: bm_sorted_def sorted_wrt_map sorted_wrt_filter\<close>)

lemma load_manifests_insert:
  assumes "bm_sorted dir" and "hash_bytes E b = h"
  shows "load_manifests E (bm_insert h b dir) = bm_insert h b (load_manifests E dir)"
proof (rule bm_ext)
  show "bm_get (load_manifests E (bm_insert h b dir)) k = bm_get (bm_insert h b (load_manifests E dir)) k" for k
    using assms
    by (simp add: load_manifests_filter bm_get_filter bm_sorted_distinct map_simps split: option.splits)
qed (use assms in \<open>simp_all add: load_manifests_filter bm_sorted_filter\<close>)

lemma write_manifest_ok:
  assumes "manifests_ok E s" and "hash_bytes E b = h" and "write_manifest io s h b = (r, s')"
  shows "manifests_ok E s' \<and> same_core s s' \<and> rs_db s' = rs_db s \<and> rs_blocks s' = rs_blocks s"
  using assms load_manifests_insert [of "rs_manifest_dir s" E b h]
  by (auto simp: write_manifest_def manifests_ok_def same_core_def split: if_splits)

lemma write_manifest_fails: "write_manifest io s h b = (Inl e, s') \<Longrightarrow> io \<noteq> io_ok"
  by (auto simp: write_manifest_def io_ok_def)

lemma install_registry_ok:
  assumes inst: "install_registry E io s reg = (r, s')" and mf: "manifests_ok E s"
  shows "manifests_ok E s' \<and> rs_db s' = rs_db s \<and> rs_blocks s' = rs_blocks s \<and>
    (case r of
       Inr _ \<Rightarrow> same_core (s\<lparr>rs_registries := with_registry reg (rs_registries s)\<rparr>) s'
     | Inl _ \<Rightarrow> io \<noteq> io_ok)"
proof (cases reg)
  case None
  with assms show ?thesis by (auto simp: install_registry_def with_registry_def)
next
  case (Some p)
  obtain t b g where p: "p = (t, b, g)" by (cases p)
  obtain r1 s1 where w: "write_manifest io s (hash_bytes E b) b = (r1, s1)"
    by (cases "write_manifest io s (hash_bytes E b) b")
  note s1 = write_manifest_ok [OF mf refl w]
  show ?thesis
  proof (cases r1)
    case (Inl e)
    with inst Some p w s1 write_manifest_fails show ?thesis by (auto simp: install_registry_def)
  next
    case (Inr u)
    with inst Some p w have "r = Inr ()" "s' = s1\<lparr>rs_registries := bm_insert t (b, g) (rs_registries s1)\<rparr>"
      by (simp_all add: install_registry_def)
    with s1 Some p show ?thesis
      by (simp add: manifests_ok_def same_core_def with_registry_def)
  qed
qed

lemma write_snapshot_ok:
  assumes "write_snapshot E to_pretty io s = (r, s')"
  shows "same_core s s' \<and> rs_manifest_dir s' = rs_manifest_dir s \<and> rs_manifests s' = rs_manifests s \<and>
    rs_blocks s' = rs_blocks s \<and> (db_mirrors E s (rs_db s) \<longrightarrow> db_mirrors E s (rs_db s'))"
  using assms
  by (auto simp: write_snapshot_def Let_def same_core_def create_snapshot_def db_commit_def
      write_snapshot_meta_def db_mirrors_def get_meta_def get_root_zone_version_def case_prod_unfold
      split: if_splits option.splits)

subsection \<open>Every outcome of \<open>apply\<close>\<close>

text \<open>
  Rejected: nothing changed. Otherwise the mutation was prepared, and either the durable state is the
  old one (the manifest write or the transaction failed), or memory and database hold the new one.
\<close>

lemma apply_outcomes:
  assumes app: "apply_mutation E clock to_pretty io s req ctx = (r, s')"
    and ok: "store_ok E (node_id E (mc_root ctx)) s" and keys: "keys_ok E ctx"
    and wf: "mutation_request_wf req" and now: "clock_ok (mc_now ctx)"
  obtains (rejected) e where "r = Inl e" "prepare_mutation E clock s req ctx = Inl e" "s' = s"
  | (failed) zone reg event e where "r = Inl e" "prepare_mutation E clock s req ctx = Inr (zone, reg, event)"
      "rs_db s' = rs_db s" "bm_sorted (rs_manifest_dir s')" "rs_blocks s' = rs_blocks s" "io \<noteq> io_ok"
  | (finished) zone reg event where "prepare_mutation E clock s req ctx = Inr (zone, reg, event)"
      "same_core (advanced E req ctx zone reg event s) s'" "store_ok E (node_id E (mc_root ctx)) s'"
      "r = Inr event \<or> (\<exists>e. r = Inl e \<and> io \<noteq> io_ok)" "rs_blocks s' = rs_blocks s"
proof (cases "prepare_mutation E clock s req ctx")
  case (Inl e)
  with app have "r = Inl e" "s' = s" by (simp_all add: apply_mutation_def)
  from this(1) Inl this(2) show ?thesis by (rule rejected)
next
  case (Inr p)
  obtain zone reg event where p: "p = (zone, reg, event)" by (cases p)
  note prep = Inr [unfolded p]
  let ?k = "node_id E (mc_root ctx)" and ?a = "advanced E req ctx zone reg event s"
  have app: "commit_applied E to_pretty io s req ctx zone reg event = (r, s')"
    using app prep by (simp add: apply_mutation_def)
  have mem: "memory_ok E ?k ?a"
    using advanced_memory_ok [OF prep _ keys wf now] ok by (simp add: store_ok_def)
  have mf: "manifests_ok E s" and db: "db_mirrors E s (rs_db s)" using ok by (simp_all add: store_ok_def)
  obtain r1 s1 where s1: "install_registry E io (s\<lparr>rs_zone := zone\<rparr>) reg = (r1, s1)"
    by (cases "install_registry E io (s\<lparr>rs_zone := zone\<rparr>) reg")
  have "manifests_ok E (s\<lparr>rs_zone := zone\<rparr>)" using mf by (simp add: manifests_ok_def)
  note inst = install_registry_ok [OF s1 this]
  have mf1: "manifests_ok E s1" and db1: "rs_db s1 = rs_db s" and bl1: "rs_blocks s1 = rs_blocks s"
    using inst by simp_all
  have core1: "r1 = Inr () \<Longrightarrow> same_core (s\<lparr>rs_zone := zone, rs_registries := with_registry reg (rs_registries s)\<rparr>) s1"
    using inst by simp
  have bad1: "r1 = Inl e \<Longrightarrow> io \<noteq> io_ok" for e using inst by simp
  show ?thesis
  proof (cases r1)
    case (Inl e)
    with app s1 have "r = Inl e" "s' = s1" by (simp_all add: commit_applied_def)
    moreover have "bm_sorted (rs_manifest_dir s1)" using mf1 by (simp add: manifests_ok_def)
    ultimately show ?thesis
      using failed [OF _ prep, of e] db1 bl1 bad1 [OF Inl] by simp
  next
    case (Inr u)
    let ?s2 = "record_mutation E req (applied_of E ctx req zone event) event s1"
    have core2: "same_core ?a ?s2"
      using core1 Inr by (auto simp: same_core_def advanced_def record_mutation_def)
    have s2: "rs_db ?s2 = rs_db s" "rs_blocks ?s2 = rs_blocks s" "manifests_ok E ?s2"
      using db1 bl1 mf1 by (simp_all add: record_mutation_def manifests_ok_def)
    let ?b = "batch_of E req zone reg (applied_of E ctx req zone event) event"
    show ?thesis
    proof (cases "io_commit io")
      case (Some msg)
      then have "commit_mutation E (io_commit io) (rs_db ?s2) ?b = (Inl (StorageError msg), rs_db s)"
        using s2 by (simp add: commit_mutation_def db_commit_def Let_def)
      with app s1 Inr have "r = Inl (StorageError msg)" "s' = ?s2\<lparr>rs_db := rs_db s\<rparr>"
        by (simp_all add: commit_applied_def applied_of_def [symmetric] Let_def)
      moreover have "bm_sorted (rs_manifest_dir s')" "rs_blocks s' = rs_blocks s" "rs_db s' = rs_db s"
        using s2 calculation(2) by (simp_all add: manifests_ok_def)
      moreover have "io \<noteq> io_ok" using Some by (auto simp: io_ok_def)
      ultimately show ?thesis by (intro failed [OF _ prep])
    next
      case None
      obtain db' where db': "commit_mutation E None (rs_db s) ?b = (Inr (), db')" "db_mirrors E ?a db'"
        by (rule commit_mutation_mirrors [OF db mem])
      obtain r3 s3 where s3: "write_snapshot E to_pretty io (?s2\<lparr>rs_db := db'\<rparr>) = (r3, s3)"
        by (cases "write_snapshot E to_pretty io (?s2\<lparr>rs_db := db'\<rparr>)")
      have r: "s' = s3" "r = (case r3 of Inl e \<Rightarrow> Inl e | Inr _ \<Rightarrow> Inr event)"
        using app s1 Inr None db' s2 s3
        by (auto simp: commit_applied_def applied_of_def [symmetric] Let_def split: sum.splits)
      have core3: "same_core (?s2\<lparr>rs_db := db'\<rparr>) s3" and mf3: "manifests_ok E s3" and bl3: "rs_blocks s3 = rs_blocks s"
        and db3: "db_mirrors E (?s2\<lparr>rs_db := db'\<rparr>) db' \<Longrightarrow> db_mirrors E (?s2\<lparr>rs_db := db'\<rparr>) (rs_db s3)"
        using write_snapshot_ok [OF s3] s2 by (auto simp: manifests_ok_def)
      have core2': "same_core ?a (?s2\<lparr>rs_db := db'\<rparr>)" using core2 by (simp add: same_core_def)
      then have core: "same_core ?a s3" using core3 by (rule same_core_trans)
      have "db_mirrors E s3 (rs_db s3)"
        using db3 db'(2) by (simp add: db_mirrors_core [OF core] db_mirrors_core [OF core2'])
      with mem mf3 have "store_ok E ?k s3" by (simp add: store_ok_def memory_ok_core [OF core])
      moreover have "r3 = Inl e \<Longrightarrow> io \<noteq> io_ok" for e
        using s3 by (auto simp: write_snapshot_def io_ok_def Let_def create_snapshot_def db_commit_def)
      ultimately show ?thesis
        using core r bl3 by (intro finished [OF prep]) (cases r3; auto)+
    qed
  qed
qed

subsection \<open>The steps of a running node\<close>

text \<open>
  A mutation with working disk and database, accepted or rejected; a mutation during which something
  failed or the node crashed, followed by a restart; issuing and consuming a nonce; ingesting content;
  a restart.
\<close>

inductive store_step ::
  "'x store_deps_scheme \<Rightarrow> (root_zone \<Rightarrow> bytes) \<Rightarrow> node_identity \<Rightarrow> registry_store \<Rightarrow> registry_store \<Rightarrow> bool"
  for E to_pretty root where
  step_apply: "apply_mutation E clock to_pretty io_ok s req ctx = (r, s') \<Longrightarrow> mc_root ctx = root \<Longrightarrow>
     keys_ok E ctx \<Longrightarrow> mutation_request_wf req \<Longrightarrow> clock_ok (mc_now ctx) \<Longrightarrow>
     store_step E to_pretty root s s'"
| step_crash: "apply_mutation E clock to_pretty io s req ctx = (r, s1) \<Longrightarrow> mc_root ctx = root \<Longrightarrow>
     keys_ok E ctx \<Longrightarrow> mutation_request_wf req \<Longrightarrow> clock_ok (mc_now ctx) \<Longrightarrow>
     registry_open E dir (disk_of s1) (node_id E root) = Inr s' \<Longrightarrow>
     store_step E to_pretty root s s'"
| step_issue: "issue_nonce err s nonce now = (n, s') \<Longrightarrow> store_step E to_pretty root s s'"
| step_consume: "store_consume_nonce err s nonce now = (b, s') \<Longrightarrow> store_step E to_pretty root s s'"
| step_manifest: "store_manifest E io s hash bs = (u, s') \<Longrightarrow> store_step E to_pretty root s s'"
| step_blocks: "store_blocks E io s blocks = (u, s') \<Longrightarrow> store_step E to_pretty root s s'"
| step_snapshot: "write_snapshot E to_pretty io s = (u, s') \<Longrightarrow> store_step E to_pretty root s s'"
| step_restart: "registry_open E dir (disk_of s) (node_id E root) = Inr s' \<Longrightarrow>
     store_step E to_pretty root s s'"

definition store_le :: "registry_store \<Rightarrow> registry_store \<Rightarrow> bool" where
  "store_le s s' \<longleftrightarrow>
     (\<forall>i a. bm_get (rs_applied s) i = Some a \<longrightarrow> bm_get (rs_applied s') i = Some a) \<and>
     (\<forall>key. target_version s key \<le> target_version s' key) \<and>
     rz_root_version (rs_zone s) \<le> rz_root_version (rs_zone s') \<and>
     (\<exists>more. rs_audit s' = rs_audit s @ more)"

lemma store_le_core: "same_core s s' \<Longrightarrow> store_le s s'"
  by (simp add: store_le_def same_core_def target_version_def)

lemma store_le_trans: "store_le s s' \<Longrightarrow> store_le s' s'' \<Longrightarrow> store_le s s''"
  unfolding store_le_def by (metis append.assoc order_trans)

lemma frame_domain_version: "frame_domain n z z' \<Longrightarrow> rz_root_version z' = rz_root_version z"
  unfolding frame_domain_def by (metis root_zone.select_convs(2) root_zone.surjective root_zone.update_convs(6))

lemma frame_tld_version: "frame_tld n z z' \<Longrightarrow> rz_root_version z' = rz_root_version z"
  unfolding frame_tld_def by (metis root_zone.select_convs(2) root_zone.surjective root_zone.update_convs(5))

lemma apply_action_version:
  assumes "apply_action E clock s ctx actor action zone = Inr (role, zone', reg)"
  shows "rz_root_version zone' = rz_root_version zone"
  using apply_action_authorized [OF assms]
  by (cases action)
     (auto simp: authorized_change_def owner_may_publish_def controller_may_set_status_def
        operator_may_issue_def root_may_create_tld_def root_may_change_tld_def operator_may_pin_def
        dest: frame_domain_version frame_tld_version)

lemma store_le_advanced:
  assumes prep: "prepare_mutation E clock s req ctx = Inr (zone, reg, event)"
    and mem: "memory_ok E k s"
  shows "store_le s (advanced E req ctx zone reg event s)"
proof -
  obtain role z1 where fresh: "bm_get (rs_applied s) (mr_mutation_id req) = None"
      "target_version s (mutation_action_target_key (mr_action req)) < mr_target_version req"
    and act: "apply_action E clock s ctx (mr_actor_public_key req) (mr_action req) (rs_zone s) = Inr (role, z1, reg)"
    and zone: "zone = resign_zone E ctx req role z1"
    using prepare_ok [OF prep] by blast
  have "rz_root_version z1 = rz_root_version (rs_zone s)"
    using apply_action_version [OF act] .
  moreover have "v \<le> next_root_version v (mc_now ctx)" if "v \<le> u64_max" for v
    using that by (auto simp: next_root_version_def)
  moreover have "rz_root_version (rs_zone s) \<le> u64_max" using mem by (simp add: memory_ok_def zone_ok_def)
  ultimately show ?thesis
    using fresh by (auto simp: store_le_def zone map_simps target_version_def)
qed

subsection \<open>The steps keep the invariant and move forward\<close>

lemma reopen_store_ok:
  assumes E: "serde_ok E" and mem: "memory_ok E k s" and db: "db_mirrors E s db"
    and d: "dk_db d = Some db" "bm_sorted (dk_manifest_dir d)"
    and op: "registry_open E dir d k = Inr s'"
  shows "store_ok E k s' \<and> same_core s s'"
proof -
  have s': "s' = s\<lparr>rs_db := db, rs_manifests := load_manifests E (dk_manifest_dir d),
      rs_blocks := dk_blocks d, rs_manifest_dir := dk_manifest_dir d, rs_snapshot_dir := dk_snapshot_dir d\<rparr>"
    using open_mirrored [OF E mem db d(1), of dir] op by simp
  then have core: "same_core s s'" by (simp add: same_core_def)
  moreover have "manifests_ok E s'" "rs_db s' = db" using d s' by (simp_all add: manifests_ok_def)
  ultimately show ?thesis
    using mem db by (simp add: store_ok_def memory_ok_core [OF core] db_mirrors_core [OF core])
qed

lemma same_db_ok:
  assumes "store_ok E k s" and "same_core s s'" and "manifests_ok E s'"
    and "db_mirrors E s (rs_db s) \<Longrightarrow> db_mirrors E s (rs_db s')"
  shows "store_ok E k s'"
  using assms by (simp add: store_ok_def memory_ok_core [OF assms(2)] db_mirrors_core [OF assms(2)])

lemma nonce_table_mirrors: "db_mirrors E s (db\<lparr>t_nonces := x\<rparr>) = db_mirrors E s db"
  by (simp add: db_mirrors_def get_meta_def get_root_zone_version_def)

lemma issue_nonce_ok:
  assumes "issue_nonce err s nonce now = (n, s')"
  shows "same_core s s' \<and> rs_manifest_dir s' = rs_manifest_dir s \<and> rs_manifests s' = rs_manifests s \<and>
    (\<exists>x. rs_db s' = (rs_db s)\<lparr>t_nonces := x\<rparr>)"
  using assms
  by (cases err)
     (auto simp: issue_nonce_def reserve_nonce_def db_commit_def same_core_def Let_def
        intro: exI [of _ "t_nonces (rs_db s)"])

lemma consume_nonce_ok:
  assumes "store_consume_nonce err s nonce now = (b, s')"
  shows "same_core s s' \<and> rs_manifest_dir s' = rs_manifest_dir s \<and> rs_manifests s' = rs_manifests s \<and>
    (\<exists>x. rs_db s' = (rs_db s)\<lparr>t_nonces := x\<rparr>)"
  using assms
  by (cases err)
     (auto simp: store_consume_nonce_def consume_nonce_def db_commit_def same_core_def Let_def
        intro: exI [of _ "t_nonces (rs_db s)"])

lemma store_blocks_ok:
  "store_blocks E io s blocks = (u, s') \<Longrightarrow>
     same_core s s' \<and> rs_manifest_dir s' = rs_manifest_dir s \<and> rs_manifests s' = rs_manifests s \<and>
     rs_db s' = rs_db s"
proof (induction E io s blocks rule: store_blocks.induct)
  case (2 E io s hash bs rest)
  then show ?case
    by (cases "block_store_put E (io_write io) (rs_blocks s) hash bs") (auto simp: same_core_def)
qed simp

lemma store_manifest_ok:
  assumes "store_manifest E io s hash bs = (u, s')" and "manifests_ok E s"
  shows "same_core s s' \<and> rs_db s' = rs_db s \<and> manifests_ok E s'"
proof (cases "storage_verify E bs hash")
  case (Inl e)
  with assms show ?thesis by (simp add: store_manifest_def)
next
  case (Inr x)
  then have "hash_bytes E bs = hash" by (simp add: storage_verify_ok_iff)
  with assms Inr write_manifest_ok [of E s bs hash io u s'] show ?thesis
    by (simp add: store_manifest_def)
qed

lemma store_step_ok:
  assumes E: "serde_ok E" and ok: "store_ok E (node_id E root) s" and step: "store_step E to_pretty root s s'"
  shows "store_ok E (node_id E root) s' \<and> store_le s s'"
  using step
proof cases
  case (step_apply clock req ctx r)
  have ok': "store_ok E (node_id E (mc_root ctx)) s" using ok step_apply by simp
  from step_apply(1) ok' step_apply(3-5) show ?thesis
  proof (cases rule: apply_outcomes)
    case rejected
    with ok show ?thesis by (simp add: store_le_core)
  next
    case failed
    then show ?thesis by simp
  next
    case (finished zone reg event)
    have "store_le s s'"
      using store_le_advanced [OF finished(1)] ok' store_le_core [OF finished(2)]
      by (auto simp: store_ok_def intro: store_le_trans)
    with finished step_apply show ?thesis by simp
  qed
next
  case (step_crash clock io req ctx r s1 dir)
  let ?k = "node_id E (mc_root ctx)"
  have ok': "store_ok E ?k s" using ok step_crash by simp
  have op: "registry_open E dir (disk_of s1) ?k = Inr s'" using step_crash by simp
  from step_crash(1) ok' step_crash(3-5) show ?thesis
  proof (cases rule: apply_outcomes)
    case rejected
    with op open_store_ok [OF E ok', of dir] ok show ?thesis by (simp add: store_le_core)
  next
    case (failed zone reg event e)
    have "store_ok E ?k s' \<and> same_core s s'"
      using ok' failed op
      by (intro reopen_store_ok [OF E, of _ _ "rs_db s" "disk_of s1" dir]) (simp_all add: store_ok_def disk_of_def)
    with step_crash show ?thesis by (simp add: store_le_core)
  next
    case (finished zone reg event)
    with op open_store_ok [OF E finished(3), of dir] have s': "s' = s1" by simp
    have "store_le s s1"
      using store_le_advanced [OF finished(1)] ok' store_le_core [OF finished(2)]
      by (auto simp: store_ok_def intro: store_le_trans)
    with finished s' step_crash show ?thesis by simp
  qed
next
  case (step_issue err nonce now n)
  note s' = issue_nonce_ok [OF step_issue]
  with ok have "store_ok E (node_id E root) s'"
    by (intro same_db_ok [OF ok]) (auto simp: manifests_ok_def store_ok_def nonce_table_mirrors)
  with s' show ?thesis by (simp add: store_le_core)
next
  case (step_consume err nonce now b)
  note s' = consume_nonce_ok [OF step_consume]
  with ok have "store_ok E (node_id E root) s'"
    by (intro same_db_ok [OF ok]) (auto simp: manifests_ok_def store_ok_def nonce_table_mirrors)
  with s' show ?thesis by (simp add: store_le_core)
next
  case (step_manifest io hash bs u)
  have "manifests_ok E s" using ok by (simp add: store_ok_def)
  note s' = store_manifest_ok [OF step_manifest this]
  with ok have "store_ok E (node_id E root) s'" by (intro same_db_ok [OF ok]) auto
  with s' show ?thesis by (simp add: store_le_core)
next
  case (step_blocks io blocks u)
  note s' = store_blocks_ok [OF step_blocks]
  with ok have "store_ok E (node_id E root) s'"
    by (intro same_db_ok [OF ok]) (auto simp: manifests_ok_def store_ok_def)
  with s' show ?thesis by (simp add: store_le_core)
next
  case (step_snapshot io u)
  note s' = write_snapshot_ok [OF step_snapshot]
  with ok have "store_ok E (node_id E root) s'"
    by (intro same_db_ok [OF ok]) (auto simp: manifests_ok_def store_ok_def)
  with s' show ?thesis by (simp add: store_le_core)
next
  case (step_restart dir)
  with open_store_ok [OF E ok, of dir] ok show ?thesis by (simp add: store_le_core)
qed

text \<open>The self-check of a sound store can only fail for a block that was damaged on disk.\<close>

lemma store_self_check:
  assumes "serde_ok E" "store_ok E k s" "blake3_ok E"
  shows "verify_all E s k = Inr () \<longleftrightarrow>
    (\<forall>(h, len) \<in> set (block_store_list (rs_blocks s)). is_ok (block_store_get E (rs_blocks s) h))"
proof -
  from assms(2) have mem: "memory_ok E k s" and mans_ok: "manifests_ok E s" and zone: "zone_ok E k (rs_zone s)"
    by (simp_all add: store_ok_def memory_ok_def)
  have regs: "\<forall>(tld, bs, g) \<in> set (rs_registries s). \<exists>tr. root_zone_lookup_tld (rs_zone s) tld = Some tr \<and>
      tld_registry_verify E g tld (tr_operator_public_key tr) = Inr ()"
    using mem by (fastforce simp: memory_ok_def registries_ok_def root_zone_lookup_tld_def)
  have mans: "\<forall>(h, bs) \<in> set (rs_manifests s). storage_verify E bs h = Inr ()"
    using mans_ok assms(3) by (auto simp: manifests_ok_def load_manifests_filter storage_verify_ok_iff blake3_ok_def
        hash_bytes_def)
  have audit: "\<forall>e \<in> set (rs_audit s). audit_verify E e k = Inr ()" using mem by (simp add: memory_ok_def)
  have "try_for_each (\<lambda>(tld, _, registry). and_then (ok_or (root_zone_lookup_tld (rs_zone s) tld)
      (InvalidRoot (''.'' @ tld @ '' registry has no TLD record''))) (\<lambda>record.
         tld_registry_verify E registry tld (tr_operator_public_key record))) (rs_registries s) = Inr ()"
    unfolding try_for_each_Inr using regs by fastforce
  moreover have "try_for_each (\<lambda>(hash, bs). storage_verify E bs hash) (rs_manifests s) = Inr ()"
    unfolding try_for_each_Inr using mans by fastforce
  moreover have "try_for_each (\<lambda>event. audit_verify E event k) (rs_audit s) = Inr ()"
    unfolding try_for_each_Inr using audit by simp
  moreover have "try_for_each (\<lambda>(hash, _). and_then (block_store_get E (rs_blocks s) hash) (\<lambda>_. Inr ()))
      (block_store_list (rs_blocks s)) = Inr () \<longleftrightarrow>
    (\<forall>(h, len) \<in> set (block_store_list (rs_blocks s)). is_ok (block_store_get E (rs_blocks s) h))"
    unfolding try_for_each_Inr by (rule ball_cong [OF refl]) (auto simp: result_simps is_ok_iff)
  ultimately show ?thesis
    using zone_ok_validate [OF zone] zone_ok_verify [OF zone] store_ok_verify_tables [OF assms(1,2)]
    by (simp add: verify_all_def and_then_eq_Inr)
qed


text \<open>The registry store is such a system, for libraries that behave as documented.\<close>

definition good_store :: "'x store_deps_scheme \<Rightarrow> node_identity \<Rightarrow> registry_store \<Rightarrow> bool" where
  "good_store E root s \<longleftrightarrow> serde_ok E \<and> store_ok E (node_id E root) s"

interpretation rs: forward_system "store_step E to_pretty root" "good_store E root" store_le
  for E :: "'x store_deps_scheme" and to_pretty and root
proof
  fix s s' s''
  show "good_store E root s \<Longrightarrow> store_step E to_pretty root s s' \<Longrightarrow> good_store E root s'"
    unfolding good_store_def by (blast dest: store_step_ok)
  show "good_store E root s \<Longrightarrow> store_step E to_pretty root s s' \<Longrightarrow> store_le s s'"
    unfolding good_store_def by (blast dest: store_step_ok)
  show "store_le s s" by (simp add: store_le_core)
  show "store_le s s' \<Longrightarrow> store_le s' s'' \<Longrightarrow> store_le s s''" by (rule store_le_trans)
qed

end
