(* ===== verification/Store_Sample.thy ===== *)
theory Store_Sample
  imports Store_Safety
begin

text \<open>
  The first store of a node: \<open>init_empty_registry\<close> establishes the invariant; and a concrete
  instance of the serialisers, for the witnesses: a record is written as its canonical JSON, and read
  back by inverting that on well-formed records.
\<close>

subsection \<open>Serialisers\<close>

lemma applied_json_inj:
  assumes "applied_json a = applied_json b"
  shows "a = b"
proof -
  note get = json_obj_field [OF assms [unfolded applied_json_def], unfolded json_get_simps]
  show ?thesis
    using get [of "''mutation''"] get [of "''audit_event_id''"] get [of "''applied_at''"]
      get [of "''root_version''"]
    by (intro applied_mutation.equality) (auto dest: mutation_request_json_inj)
qed

lemma applied_json_wf: "applied_wf a \<Longrightarrow> json_wf (applied_json a)"
  unfolding applied_json_def
  by (rule json_wf_obj)
     (simp only: json_wf_simps json_wf.simps, simp add: applied_wf_def mutation_request_json_wf)

abbreviation sample_bytes :: "json \<Rightarrow> bytes" where
  "sample_bytes v \<equiv> canonical_bytes sample_deps v"

definition sample_store_deps :: store_deps where
  "sample_store_deps = sample_ext (store_deps.fields
     (inverse_codec (\<lambda>z. sample_bytes (root_zone_json z)) root_zone_wf)
     (inverse_codec (\<lambda>r. sample_bytes (tld_record_json r)) tld_record_wf)
     (inverse_codec (\<lambda>r. sample_bytes (domain_record_json r)) domain_record_wf)
     (inverse_codec (\<lambda>a. sample_bytes (applied_json a)) applied_wf)
     (inverse_codec (\<lambda>r. sample_bytes (audit_record_json r)) audit_record_wf)
     \<lparr>to_vec = (\<lambda>m. bytes_of_str (sm_state_hash m)), from_slice = (\<lambda>_. None)\<rparr>
     (inverse_codec (\<lambda>r. sample_bytes (tld_registry_json r)) tld_registry_wf)
     (inverse_codec (\<lambda>m. sample_bytes (manifest_json m)) manifest_wf))"

lemma sample_store_codecs:
  "x_zone sample_store_deps = inverse_codec (\<lambda>z. sample_bytes (root_zone_json z)) root_zone_wf"
  "x_tld sample_store_deps = inverse_codec (\<lambda>r. sample_bytes (tld_record_json r)) tld_record_wf"
  "x_domain sample_store_deps = inverse_codec (\<lambda>r. sample_bytes (domain_record_json r)) domain_record_wf"
  "x_applied sample_store_deps = inverse_codec (\<lambda>a. sample_bytes (applied_json a)) applied_wf"
  "x_audit sample_store_deps = inverse_codec (\<lambda>r. sample_bytes (audit_record_json r)) audit_record_wf"
  "x_manifest sample_store_deps = inverse_codec (\<lambda>m. sample_bytes (manifest_json m)) manifest_wf"
  by (simp_all add: sample_store_deps_def sample_ext_def store_deps.defs)

lemma sample_serde_ok: "serde_ok sample_store_deps"
  unfolding serde_ok_def sample_store_codecs
  by (intro conjI codec_ok_inverse)
     (auto intro: root_zone_json_inj tld_record_json_inj domain_record_json_inj applied_json_inj
        audit_record_json_inj dest!: canonical_bytes_eqD [OF sample_deps_scalar_ok, rotated 2]
        simp: root_zone_json_wf tld_record_json_wf domain_record_json_wf applied_json_wf audit_record_json_wf)

lemma sample_store_libraries:
  "hex_ok sample_store_deps" "ed25519_ok sample_store_deps" "json_scalar_ok sample_store_deps"
  "blake3_ok sample_store_deps"
  by (simp_all add: sample_store_deps_def sample_ext_hex_ok sample_ext_ed25519_ok sample_ext_scalar_ok
      sample_blake3_ok)

subsection \<open>The first store\<close>

definition initial_zone :: "'x deps_scheme \<Rightarrow> int \<Rightarrow> node_identity \<Rightarrow> root_zone" where
  "initial_zone E clock root =
     (let now = x_to_rfc3339 E clock in
      \<lparr>rz_network = NETWORK_NAME, rz_root_version = nat (max (timestamp clock) 0),
       rz_generated_at = now, rz_root_public_key = node_id E root, rz_tlds = [], rz_domains = [],
       rz_audit = [\<lparr>ae_at = now, ae_actor = ''root'', ae_action = ''root.init'', ae_subject = ''root-zone'',
         ae_detail = Some ''empty registry initialized; TLDs arrive via seed/mutations''\<rparr>],
       rz_signature_algorithm = SIGNATURE_ALGORITHM, rz_signature = None\<rparr>)"

definition initial_signed_zone :: "'x deps_scheme \<Rightarrow> int \<Rightarrow> node_identity \<Rightarrow> root_zone" where
  "initial_signed_zone E clock root = (initial_zone E clock root)
     \<lparr>rz_signature := Some (sign E root (root_zone_signable_bytes E (initial_zone E clock root)))\<rparr>"

lemma initial_zone_ok:
  assumes "hex_ok E" "ed25519_ok E" "length (signing_key root) = 32" "clock_ok clock"
  shows "zone_ok E (node_id E root) (initial_signed_zone E clock root)"
  using rz.sealed_checks [OF assms(1-3) initial_signed_zone_def] assms(4)
  by (simp add: zone_ok_def entries_ok_def)
     (auto simp: initial_signed_zone_def initial_zone_def Let_def NETWORK_NAME_def clock_ok_def)

lemma delegated_rows: "bm_sorted regs \<Longrightarrow> bm_extend (map (\<lambda>(tld, bs, _). (tld, bs)) regs) [] = bm_map fst regs"
proof -
  assume "bm_sorted regs"
  then have "bm_sorted (bm_map fst regs)" by simp
  moreover have "map (\<lambda>(tld, bs, _). (tld, bs)) regs = bm_map fst regs" by (auto simp: bm_map_def)
  ultimately show ?thesis by (simp add: bm_extend_self)
qed

lemma commit_initial_mirrors:
  assumes z: "zone_ok E k (rs_zone s)" and regs: "bm_sorted (rs_registries s)"
    and s: "rs_applied s = []" "rs_audit s = []" "rs_target_versions s = []"
    and c: "commit_initial E None redb_create
      \<lparr>is_zone_json = to_vec (x_zone E) (rs_zone s), is_root_version = rz_root_version (rs_zone s),
       is_state_hash = state_hash E (rs_zone s), is_tlds = bm_values (rz_tlds (rs_zone s)),
       is_domains = bm_values (rz_domains (rs_zone s)),
       is_delegated_registries = map (\<lambda>(tld, bs, _). (tld, bs)) (rs_registries s), is_snapshot = m\<rparr> = (r, db)"
  shows "r = Inr () \<and> db_mirrors E s db"
proof -
  have "bm_extend (map (\<lambda>r. (tr_tld r, to_vec (x_tld E) r)) (bm_values (rz_tlds (rs_zone s)))) []
      = bm_map (to_vec (x_tld E)) (rz_tlds (rs_zone s))"
    using z by (intro bm_extend_fields) (auto simp: zone_ok_def entries_ok_def tld_entry_ok_def)
  moreover have "bm_extend (map (\<lambda>r. (dr_domain r, to_vec (x_domain E) r)) (bm_values (rz_domains (rs_zone s)))) []
      = bm_map (to_vec (x_domain E)) (rz_domains (rs_zone s))"
    using z by (intro bm_extend_fields) (auto simp: zone_ok_def entries_ok_def domain_entry_ok_def)
  ultimately show ?thesis
    using s c delegated_rows [OF regs]
    by (auto simp: commit_initial_def redb_create_def db_commit_def Let_def write_record_tables_def
        write_zone_pointer_def write_snapshot_meta_def db_mirrors_def get_meta_def get_root_zone_version_def
        bm_get_def)
qed

lemma init_empty_ok:
  assumes init: "init_empty_registry E clock to_pretty io dir d root = Inr s"
    and lib: "hex_ok E" "ed25519_ok E" and key: "length (signing_key root) = 32" and now: "clock_ok clock"
    and empty: "dk_manifest_dir d = []"
  shows "store_ok E (node_id E root) s \<and> rs_zone s = initial_signed_zone E clock root \<and>
    rs_applied s = [] \<and> rs_target_versions s = [] \<and> rs_audit s = []"
proof -
  let ?z = "initial_signed_zone E clock root"
  have z: "zone_ok E (node_id E root) ?z" by (rule initial_zone_ok [OF lib key now])
  have ri: "registry_init E to_pretty io dir d ?z [] [] [] = Inr s"
    using init zone_ok_verify [OF z]
    by (auto simp: init_empty_registry_def Let_def initial_signed_zone_def initial_zone_def split: if_splits)
  obtain r db where c: "commit_initial E (io_commit io) redb_create
      \<lparr>is_zone_json = to_vec (x_zone E) ?z, is_root_version = rz_root_version ?z,
       is_state_hash = state_hash E ?z, is_tlds = bm_values (rz_tlds ?z),
       is_domains = bm_values (rz_domains ?z), is_delegated_registries = [],
       is_snapshot = \<lparr>sm_root_version = rz_root_version ?z, sm_created_at = rz_generated_at ?z,
         sm_state_hash = state_hash E ?z\<rparr>\<rparr> = (r, db)" (is "commit_initial E _ _ ?i = _")
    by (cases "commit_initial E (io_commit io) redb_create ?i")
  let ?s0 = "\<lparr>rs_db = db, rs_zone = ?z, rs_registries = [], rs_manifests = [], rs_blocks = dk_blocks d,
    rs_target_versions = [], rs_applied = [], rs_audit = [], rs_manifest_dir = dk_manifest_dir d,
    rs_snapshot_dir = dk_snapshot_dir d\<rparr>"
  have "\<exists>s1 u. r = Inr () \<and> write_snapshot E to_pretty io ?s0 = (Inr u, s1) \<and> s = s1"
    using ri c by (auto simp: registry_init_def put_blocks_def Let_def and_then_eq_Inr
        split: if_splits prod.splits sum.splits)
  then obtain u where r: "r = Inr ()" and snap: "write_snapshot E to_pretty io ?s0 = (Inr u, s)" by blast
  have "io_commit io = None"
    using c r by (auto simp: commit_initial_def db_commit_def Let_def split: option.splits)
  with c have db: "db_mirrors E ?s0 db"
    using commit_initial_mirrors [of E "node_id E root" ?s0 _ r db] z by simp
  have "memory_ok E (node_id E root) ?s0"
    using z by (simp add: memory_ok_def registries_ok_def applied_ok_def)
  moreover have "manifests_ok E ?s0" using empty by (simp add: manifests_ok_def load_manifests_def bm_extend_def)
  ultimately have "store_ok E (node_id E root) ?s0" using db by (simp add: store_ok_def)
  have mf: "manifests_ok E ?s0" using \<open>store_ok E (node_id E root) ?s0\<close> by (simp add: store_ok_def)
  have core: "same_core ?s0 s" using write_snapshot_ok [OF snap] by simp
  moreover have "manifests_ok E s"
    using write_snapshot_ok [OF snap] mf by (simp add: manifests_ok_def)
  moreover have "db_mirrors E ?s0 (rs_db ?s0) \<Longrightarrow> db_mirrors E ?s0 (rs_db s)"
    using write_snapshot_ok [OF snap] by blast
  ultimately have "store_ok E (node_id E root) s"
    by (rule same_db_ok [OF \<open>store_ok E (node_id E root) ?s0\<close>])
  moreover have "rs_zone s = ?z" "rs_applied s = []" "rs_target_versions s = []" "rs_audit s = []"
    using core by (simp_all add: same_core_def)
  ultimately show ?thesis by simp
qed

end
