(* ===== verification/Store_Accept.thy ===== *)
theory Store_Accept
  imports Store_Sample
begin

text \<open>
  The other direction of \<open>apply\<close>: a well-formed request that passes the checks is accepted, and the
  store then holds the change. With it, a concrete store with one TLD, for the witnesses.
\<close>

subsection \<open>Acceptance\<close>

lemma resign_zone_checks:
  assumes "keys_ok E ctx"
  shows "signature_check E (node_id E (mc_root ctx))
    (root_zone_signable_bytes E (resign_zone E ctx req role z)) (rz_signature (resign_zone E ctx req role z))"
proof -
  define z0 where "z0 = z\<lparr>rz_root_version := next_root_version (rz_root_version z) (mc_now ctx),
    rz_generated_at := x_to_rfc3339 E (mc_now ctx),
    rz_audit := keep_tail ZONE_AUDIT_TAIL (rz_audit z @
      [\<lparr>ae_at = x_to_rfc3339 E (mc_now ctx), ae_actor = actor_role_as_str role,
        ae_action = mutation_action_name (mr_action req),
        ae_subject = snd (mutation_action_target (mr_action req)),
        ae_detail = Some (mr_mutation_id req)\<rparr>])\<rparr>"
  have same: "root_zone_signable_bytes E (z0\<lparr>rz_signature := None\<rparr>) = root_zone_signable_bytes E z0"
    by (rule rz.payload_set_sig)
  have "resign_zone E ctx req role z = z0\<lparr>rz_signature :=
      Some (sign E (mc_root ctx) (root_zone_signable_bytes E (z0\<lparr>rz_signature := None\<rparr>)))\<rparr>"
    by (simp add: resign_zone_def z0_def case_prod_unfold Let_def)
  then have "resign_zone E ctx req role z
      = z0\<lparr>rz_signature := Some (sign E (mc_root ctx) (root_zone_signable_bytes E z0))\<rparr>"
    by (simp only: same)
  with assms show ?thesis by (intro rz.sealed_checks) (simp_all add: keys_ok_def)
qed

lemma prepare_accepts:
  assumes mem: "memory_ok E (node_id E (mc_root ctx)) s" and keys: "keys_ok E ctx"
    and wf: "mutation_request_wf req"
    and req: "mutation_verify E req = Inr ()" "mutation_check_age E req (mc_now ctx) = Inr ()"
      "bm_get (rs_applied s) (mr_mutation_id req) = None"
      "target_version s (mutation_action_target_key (mr_action req)) < mr_target_version req"
    and act: "apply_action E clock s ctx (mr_actor_public_key req) (mr_action req) (rs_zone s)
      = Inr (role, z1, reg)"
  shows "prepare_mutation E clock s req ctx = Inr (resign_zone E ctx req role z1, reg,
    audit_event_of E ctx req role (rs_zone s) (resign_zone E ctx req role z1))"
proof -
  have "entries_ok E (node_id E (mc_root ctx)) z1"
    using apply_action_entries [OF act keys] mem wf
    by (simp add: memory_ok_def zone_ok_def mutation_request_wf_def)
  then have "root_zone_verify E (resign_zone E ctx req role z1) (node_id E (mc_root ctx)) = Inr ()"
    using resign_zone_checks [OF keys]
    by (fastforce simp: root_zone_verify_iff entries_ok_def tld_entry_ok_def bm_values_def)
  with req act show ?thesis
    by (simp add: prepare_mutation_def bm_contains_iff Let_def)
qed

lemma io_ok_fields [simp]: "io_write io_ok p" "io_commit io_ok = None" "io_snapshot io_ok = None"
  by (simp_all add: io_ok_def)

lemma apply_io_ok:
  assumes app: "apply_mutation E clock to_pretty io_ok s req ctx = (r, s')"
    and ok: "store_ok E (node_id E (mc_root ctx)) s" and keys: "keys_ok E ctx"
    and wf: "mutation_request_wf req" and now: "clock_ok (mc_now ctx)"
    and prep: "prepare_mutation E clock s req ctx = Inr (zone, reg, event)"
  shows "r = Inr event \<and> same_core (advanced E req ctx zone reg event s) s' \<and>
    store_ok E (node_id E (mc_root ctx)) s'"
  using app ok keys wf now
  by (cases rule: apply_outcomes) (use prep in auto)

lemma apply_accepts:
  assumes ok: "store_ok E (node_id E (mc_root ctx)) s" and keys: "keys_ok E ctx"
    and wf: "mutation_request_wf req" and now: "clock_ok (mc_now ctx)"
    and req: "mutation_verify E req = Inr ()" "mutation_check_age E req (mc_now ctx) = Inr ()"
      "bm_get (rs_applied s) (mr_mutation_id req) = None"
      "target_version s (mutation_action_target_key (mr_action req)) < mr_target_version req"
    and act: "apply_action E clock s ctx (mr_actor_public_key req) (mr_action req) (rs_zone s)
      = Inr (role, z1, reg)"
  obtains event s' where "apply_mutation E clock to_pretty io_ok s req ctx = (Inr event, s')"
    "rs_zone s' = resign_zone E ctx req role z1" "store_ok E (node_id E (mc_root ctx)) s'"
    "rs_applied s' = bm_insert (mr_mutation_id req)
       (applied_of E ctx req (resign_zone E ctx req role z1) event) (rs_applied s)"
    "rs_target_versions s' = bm_insert (mutation_action_target_key (mr_action req))
       (mr_target_version req) (rs_target_versions s)"
proof -
  have mem: "memory_ok E (node_id E (mc_root ctx)) s" using ok by (simp add: store_ok_def)
  note prep = prepare_accepts [OF mem keys wf req act]
  obtain r s' where app: "apply_mutation E clock to_pretty io_ok s req ctx = (r, s')"
    by (cases "apply_mutation E clock to_pretty io_ok s req ctx")
  from apply_io_ok [OF app ok keys wf now prep] app show ?thesis
    by (intro that) (auto simp: same_core_def)
qed

lemma apply_leaves_old_or_new:
  assumes app: "apply_mutation E clock to_pretty io s req ctx = (r, s1)"
    and E: "serde_ok E" and ok: "store_ok E (node_id E (mc_root ctx)) s" and keys: "keys_ok E ctx"
    and wf: "mutation_request_wf req" and now: "clock_ok (mc_now ctx)"
  obtains (old) e s2 where "r = Inl e" "registry_open E dir (disk_of s1) (node_id E (mc_root ctx)) = Inr s2"
      "store_ok E (node_id E (mc_root ctx)) s2" "same_core s s2"
  | (new) zone reg event s2 where "registry_open E dir (disk_of s1) (node_id E (mc_root ctx)) = Inr s2"
      "store_ok E (node_id E (mc_root ctx)) s2" "prepare_mutation E clock s req ctx = Inr (zone, reg, event)"
      "same_core (advanced E req ctx zone reg event s) s2"
proof -
  let ?k = "node_id E (mc_root ctx)"
  from app ok keys wf now show ?thesis
  proof (cases rule: apply_outcomes)
    case (rejected e)
    with old open_store_ok [OF E ok, of dir] ok show ?thesis by simp
  next
    case (failed zone reg event e)
    obtain s2 where s2: "registry_open E dir (disk_of s1) ?k = Inr s2"
      using open_mirrored [OF E, of ?k s "rs_db s" "disk_of s1" dir] ok failed
      by (simp add: store_ok_def disk_of_def)
    have "store_ok E ?k s2 \<and> same_core s s2"
      using ok failed s2
      by (intro reopen_store_ok [OF E, of _ _ "rs_db s" "disk_of s1" dir]) (simp_all add: store_ok_def disk_of_def)
    with old failed s2 show ?thesis by blast
  next
    case (finished zone reg event)
    with new open_store_ok [OF E finished(3), of dir] show ?thesis by blast
  qed
qed

lemma create_tld_action:
  assumes "actor = rz_root_public_key zone"
    and "validate_new_tld (mc_blocklists ctx) tld True = Inr name" and "bm_get (rz_tlds zone) name = None"
  shows "apply_action E clock s ctx actor (CreateTld tld purpose) zone =
    Inr (RoleRoot, insert_tld name (sign_tld E (mc_root ctx)
      (new_tld_record name TldOfficial ModeOfficial (node_id E (mc_root ctx))
        (node_id E (mc_official_operator ctx)) ''Federate Network (root-managed)'' RootManaged None None
        (Some purpose) (x_to_rfc3339 E (mc_now ctx)))) zone, None)"
  using assms by (simp add: no_registry_def apply_create_tld_def bm_contains_iff)

lemma init_empty_returns:
  assumes lib: "hex_ok E" "ed25519_ok E" and key: "length (signing_key root) = 32" and now: "clock_ok clock"
    and d: "\<not> registry_exists d"
  obtains s where "init_empty_registry E clock to_pretty io_ok dir d root = Inr s"
proof -
  let ?z = "initial_signed_zone E clock root"
  have z: "root_zone_verify E ?z (node_id E root) = Inr ()"
    by (rule zone_ok_verify [OF initial_zone_ok [OF lib key now]])
  have eq: "init_empty_registry E clock to_pretty io_ok dir d root =
      registry_init E to_pretty io_ok dir d ?z [] [] []"
    using d z by (simp add: init_empty_registry_def initial_signed_zone_def initial_zone_def Let_def)
  have "\<exists>s. registry_init E to_pretty io_ok dir d ?z [] [] [] = Inr s"
    using d
    by (simp add: registry_init_def registry_exists_def put_blocks_def Let_def commit_initial_def db_commit_def
        write_snapshot_def create_snapshot_def)
  with eq that show ?thesis by auto
qed

subsection \<open>A concrete store\<close>

definition sample_disk :: disk where
  "sample_disk = \<lparr>dk_db = None, dk_legacy = False, dk_manifest_dir = [], dk_snapshot_dir = [],
     dk_blocks = []\<rparr>"

definition sample_pretty :: "root_zone \<Rightarrow> bytes" where
  "sample_pretty z = sample_bytes (root_zone_json z)"

definition sample_store :: registry_store where
  "sample_store =
     (case init_empty_registry sample_store_deps 5000000000 sample_pretty io_ok ''data'' sample_disk
        sample_identity of Inr s \<Rightarrow> s | Inl _ \<Rightarrow> undefined)"

definition sample_context :: mutation_context where
  "sample_context =
     \<lparr>mc_root = sample_identity, mc_official_operator = sample_identity,
      mc_blocklists = \<lparr>bl_iana = {}, bl_reserved = {}, bl_policy = {}, bl_brand_safety = {}\<rparr>,
      mc_now = 7000000000\<rparr>"

abbreviation sample_root :: string where
  "sample_root \<equiv> node_id sample_store_deps sample_identity"

lemma sample_keys_ok: "keys_ok sample_store_deps sample_context"
  by (simp add: keys_ok_def sample_store_libraries sample_context_def length_sample_identity)

lemma sample_context_fields [simp]:
  "mc_root sample_context = sample_identity" "mc_now sample_context = 7000000000"
  "mc_official_operator sample_context = sample_identity"
  by (simp_all add: sample_context_def)

lemma sample_clock_ok: "clock_ok 5000000000" "clock_ok 7000000000"
  by (simp_all add: clock_ok_def timestamp_def)

lemma sample_store_init:
  "init_empty_registry sample_store_deps 5000000000 sample_pretty io_ok ''data'' sample_disk
     sample_identity = Inr sample_store"
proof -
  have "\<not> registry_exists sample_disk" by (simp add: registry_exists_def sample_disk_def)
  from init_empty_returns [OF sample_store_libraries(1,2) length_sample_identity sample_clock_ok(1) this]
  obtain s where "init_empty_registry sample_store_deps 5000000000 sample_pretty io_ok ''data'' sample_disk
     sample_identity = Inr s" .
  then show ?thesis by (simp add: sample_store_def)
qed

lemma sample_store_ok:
  "store_ok sample_store_deps sample_root sample_store"
  "rs_zone sample_store = initial_signed_zone sample_store_deps 5000000000 sample_identity"
  "rs_applied sample_store = []" "rs_target_versions sample_store = []"
  using init_empty_ok [OF sample_store_init sample_store_libraries(1,2) length_sample_identity
      sample_clock_ok(1)]
  by (simp_all add: sample_disk_def)

definition sample_create :: mutation_request where
  "sample_create =
     mutation_signed sample_store_deps sample_identity ''n1'' ''6'' 1 (CreateTld ''pagina'' ''pages'')"

lemma mutation_signed_fields [simp]:
  "mr_actor_public_key (mutation_signed E i nonce issued v a) = node_id E i"
  "mr_action (mutation_signed E i nonce issued v a) = a"
  "mr_target_version (mutation_signed E i nonce issued v a) = v"
  "mr_issued_at (mutation_signed E i nonce issued v a) = issued"
  by (simp_all add: mutation_signed_def Let_def)

lemma sample_create_request:
  "mutation_request_wf sample_create" "mutation_verify sample_store_deps sample_create = Inr ()"
  "mutation_check_age sample_store_deps sample_create (mc_now sample_context) = Inr ()"
proof -
  show "mutation_request_wf sample_create"
    by (simp add: sample_create_def mutation_request_wf_def mutation_action_wf_def)
  show "mutation_verify sample_store_deps sample_create = Inr ()"
    unfolding sample_create_def
    by (rule mutation_signed_verifies [OF sample_store_libraries(1,2) length_sample_identity])
  have "sample_parse_time ''6'' = Some 6000000000" by code_simp
  then have "x_parse_rfc3339 sample_store_deps ''6'' = Some 6000000000"
    by (simp add: sample_store_deps_def sample_ext_def)
  then show "mutation_check_age sample_store_deps sample_create (mc_now sample_context) = Inr ()"
    by (simp add: mutation_check_age_iff sample_create_def MUTATION_MAX_AGE_SECS_def timestamp_def)
qed

lemma sample_validates:
  "validate_new_tld (mc_blocklists sample_context) ''pagina'' True = Inr ''pagina''"
  by code_simp

lemma sample_zone_fields [simp]:
  "rz_root_public_key (initial_signed_zone E clock root) = node_id E root"
  "rz_tlds (initial_signed_zone E clock root) = []" "rz_domains (initial_signed_zone E clock root) = []"
  "rz_root_version (initial_signed_zone E clock root) = nat (max (timestamp clock) 0)"
  by (simp_all add: initial_signed_zone_def initial_zone_def Let_def)

end
