(* ===== verification/Audit_Chain.thy ===== *)
theory Audit_Chain
  imports Store_Accept
begin

text \<open>
  The audit log as a hash chain: each event names the state it started from and the state it made,
  so the log accounts for every state between the first zone and the one being served.
\<close>

fun audit_chained :: "string \<Rightarrow> audit_record list \<Rightarrow> string \<Rightarrow> bool" where
  "audit_chained h [] h' \<longleftrightarrow> h = h'"
| "audit_chained h (e # es) h' \<longleftrightarrow>
     au_previous_state_hash e = h \<and> audit_chained (au_new_state_hash e) es h'"

lemma audit_chained_append:
  "audit_chained h (es @ [e]) h' \<longleftrightarrow>
     audit_chained h es (au_previous_state_hash e) \<and> au_new_state_hash e = h'"
  by (induction es arbitrary: h) auto

definition chain_ok :: "'x store_deps_scheme \<Rightarrow> node_identity \<Rightarrow> string \<Rightarrow> registry_store \<Rightarrow> bool" where
  "chain_ok E root h s \<longleftrightarrow>
     good_store E root s \<and> audit_chained h (rs_audit s) (state_hash E (rs_zone s))"

text \<open>Every step leaves the records alone, or applies one prepared mutation.\<close>

lemma step_cores:
  assumes good: "good_store E root s" and step: "store_step E to_pretty root s s'"
  obtains (same) "same_core s s'"
  | (applied) clock req ctx zone reg event where "mc_root ctx = root"
      "prepare_mutation E clock s req ctx = Inr (zone, reg, event)"
      "same_core (advanced E req ctx zone reg event s) s'"
proof -
  have E: "serde_ok E" and ok: "store_ok E (node_id E root) s" using good by (simp_all add: good_store_def)
  from step show ?thesis
  proof cases
    case (step_apply clock req ctx r)
    have "store_ok E (node_id E (mc_root ctx)) s" using ok step_apply by simp
    from step_apply(1) this step_apply(3-5) show ?thesis
      by (cases rule: apply_outcomes) (use same applied step_apply in auto)
  next
    case (step_crash clock io req ctx r s1 dir)
    have "store_ok E (node_id E (mc_root ctx)) s" using ok step_crash by simp
    from step_crash(1) E this step_crash(3-5) show ?thesis
      by (cases rule: apply_leaves_old_or_new [where dir = dir]) (use same applied step_crash in auto)
  next
    case (step_issue err nonce now n)
    with same issue_nonce_ok [OF step_issue] show ?thesis by blast
  next
    case (step_consume err nonce now b)
    with same consume_nonce_ok [OF step_consume] show ?thesis by blast
  next
    case (step_manifest io hash bs u)
    with same store_manifest_ok [OF step_manifest] ok show ?thesis by (simp add: store_ok_def)
  next
    case (step_blocks io blocks u)
    with same store_blocks_ok [OF step_blocks] show ?thesis by blast
  next
    case (step_snapshot io u)
    with same write_snapshot_ok [OF step_snapshot] show ?thesis by blast
  next
    case (step_restart dir)
    with same open_store_ok [OF E ok, of dir] show ?thesis by simp
  qed
qed

lemma prepared_event_hashes:
  assumes "prepare_mutation E clock s req ctx = Inr (zone, reg, event)"
  shows "au_previous_state_hash event = state_hash E (rs_zone s) \<and> au_new_state_hash event = state_hash E zone \<and>
    au_mutation_id event = mr_mutation_id req \<and> au_actor_public_key event = mr_actor_public_key req"
  using prepare_ok [OF assms]
  by (auto simp: audit_event_of_def audit_finalize_def Let_def case_prod_unfold)

lemma step_chain_ok:
  assumes "chain_ok E root h s" and step: "store_step E to_pretty root s s'"
  shows "chain_ok E root h s'"
proof -
  have good: "good_store E root s" and chain: "audit_chained h (rs_audit s) (state_hash E (rs_zone s))"
    using assms(1) by (simp_all add: chain_ok_def)
  have "audit_chained h (rs_audit s') (state_hash E (rs_zone s'))"
    using good step
  proof (cases rule: step_cores)
    case same
    with chain show ?thesis by (simp add: same_core_def)
  next
    case (applied clock req ctx zone reg event)
    with chain prepared_event_hashes [OF applied(2)] show ?thesis
      by (simp add: same_core_def audit_chained_append)
  qed
  with rs.step_inv [OF good step] show ?thesis by (simp add: chain_ok_def)
qed

interpretation ac: forward_system "store_step E to_pretty root" "chain_ok E root h" store_le
  for E :: "'x store_deps_scheme" and to_pretty and root and h
proof
  fix s s' s''
  show "chain_ok E root h s \<Longrightarrow> store_step E to_pretty root s s' \<Longrightarrow> chain_ok E root h s'"
    by (rule step_chain_ok)
  show "chain_ok E root h s \<Longrightarrow> store_step E to_pretty root s s' \<Longrightarrow> store_le s s'"
    unfolding chain_ok_def by (blast dest: rs.step_le)
  show "store_le s s" by (rule rs.le_refl)
  show "store_le s s' \<Longrightarrow> store_le s' s'' \<Longrightarrow> store_le s s''" by (rule rs.le_trans)
qed

end
