(* ===== verification/Store_Properties.thy ===== *)
theory Store_Properties
  imports Audit_Chain
begin

text \<open>
  The properties of the registry store: what an accepted mutation may have changed, what a rejected
  or interrupted one leaves behind, and what holds of every store a node can reach.
\<close>

subsection \<open>The sample request is accepted\<close>

lemma sample_create_fresh:
  "bm_get (rs_applied sample_store) (mr_mutation_id sample_create) = None"
  "target_version sample_store (mutation_action_target_key (mr_action sample_create))
     < mr_target_version sample_create"
  by (simp_all add: sample_store_ok target_version_def sample_create_def)

lemma sample_create_action:
  "\<exists>z1. apply_action sample_store_deps 7000000000 sample_store sample_context
     (mr_actor_public_key sample_create) (mr_action sample_create) (rs_zone sample_store)
     = Inr (RoleRoot, z1, None) \<and> bm_get (rz_tlds z1) ''pagina'' \<noteq> None"
  using create_tld_action [OF _ sample_validates, of sample_root "rs_zone sample_store" sample_store_deps
      7000000000 sample_store "''pages''"]
  by (auto simp: sample_store_ok sample_create_def simp del: apply_action.simps)

definition sample_created :: registry_store where
  "sample_created = snd (apply_mutation sample_store_deps 7000000000 sample_pretty io_ok sample_store
     sample_create sample_context)"

lemma sample_created_ok:
  "\<exists>event. apply_mutation sample_store_deps 7000000000 sample_pretty io_ok sample_store sample_create
     sample_context = (Inr event, sample_created)"
  "store_ok sample_store_deps sample_root sample_created"
  "bm_get (rz_tlds (rs_zone sample_created)) ''pagina'' \<noteq> None"
proof -
  obtain z1 where act: "apply_action sample_store_deps 7000000000 sample_store sample_context
     (mr_actor_public_key sample_create) (mr_action sample_create) (rs_zone sample_store)
     = Inr (RoleRoot, z1, None)" and z1: "bm_get (rz_tlds z1) ''pagina'' \<noteq> None"
    using sample_create_action by blast
  have "store_ok sample_store_deps (node_id sample_store_deps (mc_root sample_context)) sample_store"
    by (simp add: sample_store_ok)
  moreover have "clock_ok (mc_now sample_context)" by (simp add: sample_clock_ok)
  ultimately obtain event s' where "apply_mutation sample_store_deps 7000000000 sample_pretty io_ok sample_store
      sample_create sample_context = (Inr event, s')" "store_ok sample_store_deps sample_root s'"
      "rs_zone s' = resign_zone sample_store_deps sample_context sample_create RoleRoot z1"
    using apply_accepts [OF _ sample_keys_ok sample_create_request(1) _ sample_create_request(2,3)
      sample_create_fresh act] by (metis sample_context_fields(1))
  with z1 show "\<exists>event. apply_mutation sample_store_deps 7000000000 sample_pretty io_ok sample_store
      sample_create sample_context = (Inr event, sample_created)"
    "store_ok sample_store_deps sample_root sample_created"
    "bm_get (rz_tlds (rs_zone sample_created)) ''pagina'' \<noteq> None"
    by (auto simp: sample_created_def)
qed

subsection \<open>What an accepted mutation may change\<close>

text \<open>
  C2: A mutation that \<open>apply\<close> accepts was signed by its actor over exactly its content, is fresh, and
  the change to the zone is one its actor may make: a domain owner its own domain (or a name nobody
  holds), a TLD operator its own TLD's records or registry pin, the root key TLD records, and nobody
  but the root reissues or reactivates a revoked domain; every record the action does not name stays as
  it was. The new zone is that change with a new version, one more audit entry, and the root's signature.
\<close>

theorem accepted_mutation_authorized:
  assumes "apply_mutation E clock to_pretty io s req ctx = (Inr event, s')"
  shows "signature_check E (mr_actor_public_key req) (mutation_signable_bytes E req) (mr_signature req) \<and>
    mr_mutation_id req = mutation_compute_id E req \<and>
    mutation_check_age E req (mc_now ctx) = Inr () \<and>
    (\<exists>role zone. authorized_change (mr_action req) (mr_actor_public_key req) (rs_zone s) zone \<and>
       rs_zone s' = resign_zone E ctx req role zone) \<and>
    root_zone_verify E (rs_zone s') (node_id E (mc_root ctx)) = Inr ()"
proof -
  obtain zone reg event' where prep: "prepare_mutation E clock s req ctx = Inr (zone, reg, event')"
    and com: "commit_applied E to_pretty io s req ctx zone reg event' = (Inr event, s')"
    using assms by (auto simp: apply_mutation_def split: sum.splits)
  have "rs_zone s' = zone"
    using com
    by (auto simp: commit_applied_def install_registry_def write_manifest_def write_snapshot_def
        record_mutation_def Let_def case_prod_unfold split: option.splits sum.splits if_splits prod.splits)
  with prepare_ok [OF prep] show ?thesis
    by (auto simp: mutation_verify_iff dest: apply_action_authorized)
qed

theorem accepted_mutation_authorized_witness:
  "root_zone_verify sample_store_deps (rs_zone sample_created) sample_root = Inr () \<and>
   (\<exists>role zone. authorized_change (CreateTld ''pagina'' ''pages'') sample_root (rs_zone sample_store) zone \<and>
      rs_zone sample_created = resign_zone sample_store_deps sample_context sample_create role zone)"
proof -
  obtain event where "apply_mutation sample_store_deps 7000000000 sample_pretty io_ok sample_store
     sample_create sample_context = (Inr event, sample_created)"
    using sample_created_ok(1) by blast
  from accepted_mutation_authorized [OF this] show ?thesis by (simp add: sample_create_def)
qed

lemma apply_refused:
  assumes "apply_mutation E clock to_pretty io_ok s req ctx = (Inl e, s')"
  shows "s' = s"
proof (cases "prepare_mutation E clock s req ctx")
  case (Inr p)
  obtain zone reg event where "p = (zone, reg, event)" by (cases p)
  with assms Inr have "commit_applied E to_pretty io_ok s req ctx zone reg event = (Inl e, s')"
    by (simp add: apply_mutation_def)
  then show ?thesis
    by (auto simp: commit_applied_def install_registry_def write_manifest_def write_snapshot_def Let_def
        create_snapshot_def commit_mutation_def db_commit_def split: option.splits)
qed (use assms in \<open>simp add: apply_mutation_def\<close>)

text \<open>
  C10: When the disk and the database work, a mutation that \<open>apply\<close> refuses changes nothing: memory,
  database and files are as before.
\<close>

theorem refused_mutation_changes_nothing:
  assumes "apply_mutation E clock to_pretty io_ok s req ctx = (Inl e, s')"
  shows "s' = s"
  using assms by (rule apply_refused)

text \<open>A request whose identifier is already recorded is refused.\<close>

lemma recorded_is_replay:
  assumes "mutation_verify E req = Inr ()" and "mutation_check_age E req (mc_now ctx) = Inr ()"
    and "bm_get (rs_applied s) (mr_mutation_id req) = Some a"
  shows "apply_mutation E clock to_pretty io s req ctx =
    (Inl (Replay (''mutation '' @ mr_mutation_id req @ '' was already applied'')), s)"
  using assms by (simp add: apply_mutation_def prepare_mutation_def bm_contains_iff)

theorem refused_mutation_changes_nothing_witness:
  "\<exists>msg. apply_mutation sample_store_deps 0 sample_pretty io_ok sample_store
     (sample_create\<lparr>mr_signature_algorithm := ''rsa''\<rparr>) sample_context
   = (Inl (MutationRejected msg), sample_store)"
proof -
  let ?apply = "apply_mutation sample_store_deps 0 sample_pretty io_ok sample_store
     (sample_create\<lparr>mr_signature_algorithm := ''rsa''\<rparr>) sample_context"
  obtain msg where "fst ?apply = Inl (MutationRejected msg)"
    by (simp add: apply_mutation_def prepare_mutation_def mutation_verify_def SIGNATURE_ALGORITHM_def)
  then obtain s' where app: "?apply = (Inl (MutationRejected msg), s')" by (metis prod.collapse)
  then show ?thesis using refused_mutation_changes_nothing [OF app] by auto
qed

subsection \<open>Crashes and failures\<close>

text \<open>
  C5: Whatever write or transaction fails while a mutation is applied, reopening the data directory
  succeeds and yields a well-formed store in one of two states: the one before the mutation, and then
  the caller got an error, or the complete one after it (zone, registries, versions, applied mutations and
  audit log). A mutation reported as accepted is never lost.
\<close>

theorem crash_leaves_old_or_new:
  assumes "apply_mutation E clock to_pretty io s req ctx = (r, s1)"
    and "serde_ok E" and "store_ok E (node_id E (mc_root ctx)) s" and "keys_ok E ctx"
    and "mutation_request_wf req" and "clock_ok (mc_now ctx)"
  shows "\<exists>s2. registry_open E dir (disk_of s1) (node_id E (mc_root ctx)) = Inr s2 \<and>
    store_ok E (node_id E (mc_root ctx)) s2 \<and>
    (same_core s s2 \<and> (\<exists>e. r = Inl e) \<or>
     (\<exists>zone reg event. prepare_mutation E clock s req ctx = Inr (zone, reg, event) \<and>
        same_core (advanced E req ctx zone reg event s) s2))"
  using assms by (cases rule: apply_leaves_old_or_new) blast+

theorem crash_leaves_old_or_new_witness:
  "\<exists>s2 zone reg event. registry_open sample_store_deps ''data'' (disk_of sample_created) sample_root = Inr s2 \<and>
    prepare_mutation sample_store_deps 7000000000 sample_store sample_create sample_context
      = Inr (zone, reg, event) \<and>
    same_core (advanced sample_store_deps sample_create sample_context zone reg event sample_store) s2"
proof -
  obtain event where app: "apply_mutation sample_store_deps 7000000000 sample_pretty io_ok sample_store
      sample_create sample_context = (Inr event, sample_created)"
    using sample_created_ok(1) by blast
  have "store_ok sample_store_deps (node_id sample_store_deps (mc_root sample_context)) sample_store"
    by (simp add: sample_store_ok)
  moreover have "clock_ok (mc_now sample_context)" by (simp add: sample_clock_ok)
  ultimately show ?thesis
    using crash_leaves_old_or_new [OF app sample_serde_ok _ sample_keys_ok sample_create_request(1),
        of "''data''"]
    by (auto simp del: sample_context_fields simp: sample_context_fields(1))
qed

lemma install_registry_writes:
  assumes "\<And>p. io_write io p"
  obtains s1 where "install_registry E io s reg = (Inr (), s1)" "rs_zone s1 = rs_zone s" "rs_db s1 = rs_db s"
  using assms by (cases reg) (auto simp: install_registry_def write_manifest_def split: prod.splits)

text \<open>
  C11: When the transaction of an otherwise acceptable mutation fails, \<open>apply\<close> reports an error, and
  yet the running node goes on with the new zone in memory while the database holds the old state; a
  retry of the same request is refused as a replay, although no restart would remember it.
\<close>

theorem failed_commit_leaves_memory_ahead:
  assumes "prepare_mutation E clock s req ctx = Inr (zone, reg, event)"
    and "\<And>p. io_write io p" and "io_commit io = Some msg"
  shows "\<exists>s'. apply_mutation E clock to_pretty io s req ctx = (Inl (StorageError msg), s') \<and>
    rs_zone s' = zone \<and> rs_db s' = rs_db s \<and>
    apply_mutation E clock' to_pretty io_ok s' req ctx =
      (Inl (Replay (''mutation '' @ mr_mutation_id req @ '' was already applied'')), s')"
proof -
  obtain s1 where s1: "install_registry E io (s\<lparr>rs_zone := zone\<rparr>) reg = (Inr (), s1)"
    "rs_zone s1 = zone" "rs_db s1 = rs_db s"
    by (rule install_registry_writes [OF assms(2), where s = "s\<lparr>rs_zone := zone\<rparr>" and E = E and reg = reg])
       (auto intro: that)
  let ?app = "\<lparr>am_mutation = req, am_audit_event_id = au_event_id event,
    am_applied_at = x_to_rfc3339 E (mc_now ctx), am_root_version = rz_root_version zone\<rparr>"
  let ?s' = "record_mutation E req ?app event s1"
  have "apply_mutation E clock to_pretty io s req ctx = (Inl (StorageError msg), ?s'\<lparr>rs_db := rs_db s\<rparr>)"
    using assms s1 by (simp add: apply_mutation_def commit_applied_def Let_def commit_mutation_def
        db_commit_def record_mutation_def)
  moreover have "bm_get (rs_applied (?s'\<lparr>rs_db := rs_db s\<rparr>)) (mr_mutation_id req) = Some ?app"
    by (simp add: record_mutation_def map_simps)
  moreover have "rs_zone (?s'\<lparr>rs_db := rs_db s\<rparr>) = zone" by (simp add: record_mutation_def s1)
  ultimately show ?thesis
    using prepare_ok [OF assms(1)] recorded_is_replay [of E req ctx "?s'\<lparr>rs_db := rs_db s\<rparr>"]
    by (intro exI [of _ "?s'\<lparr>rs_db := rs_db s\<rparr>"]) auto
qed

theorem failed_commit_leaves_memory_ahead_witness:
  "\<exists>zone s'. apply_mutation sample_store_deps 7000000000 sample_pretty (io_ok\<lparr>io_commit := Some ''disk full''\<rparr>)
      sample_store sample_create sample_context = (Inl (StorageError ''disk full''), s') \<and>
    rs_zone s' = zone \<and> rs_db s' = rs_db sample_store \<and> bm_get (rz_tlds zone) ''pagina'' \<noteq> None"
proof -
  obtain zone reg event where prep: "prepare_mutation sample_store_deps 7000000000 sample_store sample_create
      sample_context = Inr (zone, reg, event)"
    using sample_created_ok(1) by (auto simp: apply_mutation_def split: sum.splits)
  obtain role z1 where "apply_action sample_store_deps 7000000000 sample_store sample_context
     (mr_actor_public_key sample_create) (mr_action sample_create) (rs_zone sample_store) = Inr (role, z1, reg)"
    and "zone = resign_zone sample_store_deps sample_context sample_create role z1"
    using prepare_ok [OF prep] by blast
  then have "bm_get (rz_tlds zone) ''pagina'' \<noteq> None" using sample_create_action by auto
  moreover have "io_write (io_ok\<lparr>io_commit := Some ''disk full''\<rparr>) p" for p by simp
  note failed_commit_leaves_memory_ahead [OF prep this, where msg = "''disk full''" and to_pretty = sample_pretty]
  ultimately show ?thesis by fastforce
qed

subsection \<open>Every reachable store\<close>


lemma sample_created_step: "store_step sample_store_deps sample_pretty sample_identity sample_store sample_created"
proof -
  obtain event where "apply_mutation sample_store_deps 7000000000 sample_pretty io_ok sample_store
      sample_create sample_context = (Inr event, sample_created)"
    using sample_created_ok(1) by blast
  from step_apply [OF this] show ?thesis
    by (simp add: sample_keys_ok sample_create_request sample_clock_ok)
qed


text \<open>
  C6: Replay protection over a node's life: once a mutation is recorded as applied, no later store of
  the node accepts it again, whatever happens in between, restarts and crashes included; and neither
  is any other request for the same target whose version does not exceed the recorded one.
\<close>

theorem applied_mutation_never_replayed:
  assumes "good_store E root s" and "(store_step E to_pretty root)\<^sup>*\<^sup>* s s'"
    and "bm_get (rs_applied s) (mr_mutation_id req) \<noteq> None \<or>
      mr_target_version req \<le> target_version s (mutation_action_target_key (mr_action req))"
  shows "\<exists>e. apply_mutation E clock to_pretty' io s' req ctx = (Inl e, s')"
proof -
  have "store_le s s'" by (rule rs.run_le [OF assms(2,1)])
  with assms(3) have "bm_get (rs_applied s') (mr_mutation_id req) \<noteq> None \<or>
      mr_target_version req \<le> target_version s' (mutation_action_target_key (mr_action req))"
    unfolding store_le_def by (metis le_trans not_Some_eq)
  moreover have "prepare_mutation E clock s' req ctx \<noteq> Inr (zone, reg, event)"
    if "bm_get (rs_applied s') (mr_mutation_id req) \<noteq> None \<or>
      mr_target_version req \<le> target_version s' (mutation_action_target_key (mr_action req))"
    for zone reg event
    using that prepare_ok [of E clock s' req ctx zone reg event] by auto
  ultimately show ?thesis
    by (cases "prepare_mutation E clock s' req ctx") (auto simp: apply_mutation_def)
qed

lemma sample_created_target:
  "target_version sample_created (mutation_action_target_key (mr_action sample_create)) = 1"
proof -
  obtain zone reg event where prep: "prepare_mutation sample_store_deps 7000000000 sample_store sample_create
      sample_context = Inr (zone, reg, event)"
    using sample_created_ok(1) by (auto simp: apply_mutation_def split: sum.splits)
  obtain ev where app: "apply_mutation sample_store_deps 7000000000 sample_pretty io_ok sample_store
      sample_create sample_context = (Inr ev, sample_created)"
    using sample_created_ok(1) by blast
  have "same_core (advanced sample_store_deps sample_create sample_context zone reg event sample_store)
      sample_created"
    using apply_io_ok [OF app _ sample_keys_ok sample_create_request(1) _ prep] sample_store_ok(1) sample_clock_ok
    by simp
  then have "rs_target_versions sample_created =
      bm_insert (mutation_action_target_key (mr_action sample_create)) 1 (rs_target_versions sample_store)"
    by (simp add: same_core_def) (simp add: sample_create_def)
  then show ?thesis by (simp add: target_version_def map_simps)
qed

theorem applied_mutation_never_replayed_witness:
  "\<exists>e. apply_mutation sample_store_deps 7000000000 sample_pretty io_ok sample_created sample_create
     sample_context = (Inl e, sample_created)"
  using applied_mutation_never_replayed [of sample_store_deps sample_identity sample_created sample_pretty
      sample_created sample_create] sample_created_ok(2) sample_created_target sample_serde_ok
  by (simp add: good_store_def sample_create_def)



text \<open>
  C9: Accepting a mutation moves the store forward: the root version grows (until it saturates at the
  largest 64-bit number), the target's version becomes the request's and was smaller, no other target's
  version changes, exactly this mutation is added to the applied ones, one event recording its actor
  and the two state hashes is added to the audit log, and the zone's own audit tail stays within 200
  entries.
\<close>

theorem accepted_mutation_advances:
  assumes "apply_mutation E clock to_pretty io_ok s req ctx = (Inr event, s')"
    and "store_ok E (node_id E (mc_root ctx)) s" and "keys_ok E ctx"
    and "mutation_request_wf req" and "clock_ok (mc_now ctx)"
  shows "(rz_root_version (rs_zone s) < u64_max \<longrightarrow>
       rz_root_version (rs_zone s) < rz_root_version (rs_zone s')) \<and>
    target_version s (mutation_action_target_key (mr_action req)) < mr_target_version req \<and>
    (\<forall>key. target_version s' key =
       (if key = mutation_action_target_key (mr_action req) then mr_target_version req
        else target_version s key)) \<and>
    (\<forall>i. bm_get (rs_applied s') i \<noteq> None \<longleftrightarrow> i = mr_mutation_id req \<or> bm_get (rs_applied s) i \<noteq> None) \<and>
    rs_audit s' = rs_audit s @ [event] \<and>
    au_previous_state_hash event = state_hash E (rs_zone s) \<and>
    au_new_state_hash event = state_hash E (rs_zone s') \<and>
    au_actor_public_key event = mr_actor_public_key req \<and>
    length (rz_audit (rs_zone s')) \<le> ZONE_AUDIT_TAIL"
proof -
  obtain zone reg event' where prep: "prepare_mutation E clock s req ctx = Inr (zone, reg, event')"
    using assms(1) by (auto simp: apply_mutation_def split: sum.splits)
  obtain role z1 where act: "apply_action E clock s ctx (mr_actor_public_key req) (mr_action req) (rs_zone s)
        = Inr (role, z1, reg)" and zone: "zone = resign_zone E ctx req role z1"
      and less: "target_version s (mutation_action_target_key (mr_action req)) < mr_target_version req"
    using prepare_ok [OF prep] by blast
  have core: "event = event'" "same_core (advanced E req ctx zone reg event s) s'"
    using apply_io_ok [OF assms prep] by auto
  have tail: "length (rz_audit zone) \<le> ZONE_AUDIT_TAIL"
    by (simp add: zone resign_zone_def Let_def case_prod_unfold keep_tail_def ZONE_AUDIT_TAIL_def)
  have "rz_root_version zone = next_root_version (rz_root_version (rs_zone s)) (mc_now ctx)"
    using apply_action_version [OF act] by (simp add: zone)
  then show ?thesis
    using core less tail prepared_event_hashes [OF prep] next_root_version_increases
    by (auto simp: same_core_def target_version_def map_simps)
qed

theorem accepted_mutation_advances_witness:
  "rz_root_version (rs_zone sample_store) < rz_root_version (rs_zone sample_created) \<and>
   target_version sample_created ''tld:pagina'' = 1 \<and> length (rs_audit sample_created) = 1"
proof -
  obtain event where app: "apply_mutation sample_store_deps 7000000000 sample_pretty io_ok sample_store
      sample_create sample_context = (Inr event, sample_created)"
    using sample_created_ok(1) by blast
  have key: "mutation_action_target_key (mr_action sample_create) = ''tld:pagina''"
    "mr_target_version sample_create = 1"
    by (simp_all add: sample_create_def) code_simp
  have "rs_audit sample_store = []"
    using init_empty_ok [OF sample_store_init sample_store_libraries(1,2) length_sample_identity
        sample_clock_ok(1)] by (simp add: sample_disk_def)
  moreover have "rz_root_version (rs_zone sample_store) < u64_max"
    by (simp add: sample_store_ok timestamp_def)
  ultimately show ?thesis
    using accepted_mutation_advances [OF app _ sample_keys_ok sample_create_request(1)]
    by (simp add: sample_store_ok(1) sample_clock_ok key)
qed

end
