(* ===== verification/Publish_Properties.thy ===== *)
theory Publish_Properties
  imports Store_Properties
begin

text \<open>
  From a publication to a lookup, challenge nonces, seeding, and what the spelling of a name does to
  the guards of the store.
\<close>

subsection \<open>A published site is located\<close>

definition publishes :: "mutation_action \<Rightarrow> string \<Rightarrow> string \<Rightarrow> bool" where
  "publishes a domain mh \<longleftrightarrow> a = PublishSite domain mh \<or> a = UpdateDomainManifest domain mh"

lemma committed_fields:
  assumes "commit_applied E to_pretty io s req ctx zone reg event = (r, s')"
  shows "rs_zone s' = zone \<and> (r = Inr event' \<longrightarrow> rs_target_versions s' =
    bm_insert (mutation_action_target_key (mr_action req)) (mr_target_version req) (rs_target_versions s))"
  using assms
  by (auto simp: commit_applied_def install_registry_def write_manifest_def write_snapshot_def
      record_mutation_def Let_def case_prod_unfold split: option.splits sum.splits if_splits prod.splits)

lemma accepted_zone:
  assumes "apply_mutation E clock to_pretty io s req ctx = (Inr event, s')"
  obtains role z1 reg where
    "apply_action E clock s ctx (mr_actor_public_key req) (mr_action req) (rs_zone s) = Inr (role, z1, reg)"
    "rs_zone s' = resign_zone E ctx req role z1"
    "rs_target_versions s' =
       bm_insert (mutation_action_target_key (mr_action req)) (mr_target_version req) (rs_target_versions s)"
proof -
  obtain zone reg event' where prep: "prepare_mutation E clock s req ctx = Inr (zone, reg, event')"
    and com: "commit_applied E to_pretty io s req ctx zone reg event' = (Inr event, s')"
    using assms by (auto simp: apply_mutation_def split: sum.splits)
  from committed_fields [OF com] prepare_ok [OF prep] that show ?thesis by blast
qed

lemma publishes_action:
  assumes "publishes a domain mh"
    and "apply_action E clock s ctx actor a zone = Inr (role, z1, reg)"
  obtains is_update where "apply_publish E clock s ctx zone actor is_update domain mh = Inr (role, z1)"
  using assms by (auto simp: publishes_def apply_action_Inr)

lemma lookup_resigned [simp]:
  "registry_view_tld (resign_zone E ctx req role z) t = registry_view_tld z t"
  "root_zone_lookup (resign_zone E ctx req role z) n = root_zone_lookup z n"
  by (simp_all add: registry_view_tld_def root_zone_lookup_tld_def root_zone_lookup_def)

lemma locate_resigned [simp]:
  "locate_domain E clock (resign_zone E ctx req role z) host = locate_domain E clock z host"
  unfolding locate_domain_def lookup_resigned by (rule refl)

lemma publish_located:
  assumes "apply_publish E clock s ctx zone actor is_update domain mh = Inr (role, z1)" and "keys_ok E ctx"
    and "\<And>d old. federate_domain_parse domain = Inr d \<Longrightarrow> bm_get (rz_domains zone) (fqdn d) = Some old \<Longrightarrow>
      \<not> domain_record_is_expired E clock old"
  shows "\<exists>rec d bs m. locate_domain E clock z1 domain = Inr (SourceRootManaged rec) \<and>
    federate_domain_parse domain = Inr d \<and> dr_domain rec = fqdn d \<and>
    dr_owner_public_key rec = actor \<and> dr_manifest_hash rec = mh \<and>
    bm_get (rs_manifests s) mh = Some bs \<and> from_slice (x_manifest E) bs = Some m \<and>
    manifest_validate m = Inr () \<and> manifest_verify E m (fqdn d) actor = Inr ()"
proof -
  from apply_publish_ok [OF assms(1)] obtain d tr bs m where
    d: "federate_domain_parse domain = Inr d" "bm_get (rz_tlds zone) (fd_tld d) = Some tr"
      "tr_registry_type tr = RootManaged" "tld_status_is_resolvable (tr_status tr)"
      "\<not> tld_record_is_expired E clock tr" "tr_operator_public_key tr = node_id E (mc_official_operator ctx)"
    and m: "bm_get (rs_manifests s) mh = Some bs" "from_slice (x_manifest E) bs = Some m"
      "manifest_validate m = Inr ()" "manifest_verify E m (fqdn d) actor = Inr ()"
    and z1: "z1 = insert_domain (fqdn d) (sign_domain E (mc_official_operator ctx)
      (publish_record d actor mh (bm_get (rz_domains zone) (fqdn d)) (x_to_rfc3339 E (mc_now ctx)))) zone"
    by blast
  let ?r = "publish_record d actor mh (bm_get (rz_domains zone) (fqdn d)) (x_to_rfc3339 E (mc_now ctx))"
  let ?rec = "sign_domain E (mc_official_operator ctx) ?r"
  have "\<not> domain_record_is_expired E clock ?rec"
    using assms(3) [OF d(1)]
    by (auto simp: domain_record_is_expired_def publish_record_def expired_def expired_at_def split: option.splits)
  moreover have "domain_record_verify E ?rec (tr_operator_public_key tr) = Inr ()"
    unfolding d(6) using assms(2) by (intro sign_domain_verifies) (simp_all add: fqdn_def)
  moreover have "bm_get (rz_domains z1) (fqdn d) = Some ?rec" "rz_tlds z1 = rz_tlds zone"
    by (simp_all add: z1 insert_domain_def map_simps)
  ultimately have "locate_domain E clock z1 domain = Inr (SourceRootManaged ?rec)"
    using d by (simp add: locate_root_managed)
  moreover have "dr_domain ?rec = fqdn d" "dr_owner_public_key ?rec = actor" "dr_manifest_hash ?rec = mh"
    by simp_all
  ultimately show ?thesis using d(1) m by blast
qed

text \<open>
  C26: What is published is what visitors get: after a publication or an update of a domain is accepted,
  looking the domain up in the new zone finds a record that is signed by the TLD's operator, belongs to
  the actor and points at the published manifest; and the store holds bytes for that address which parse
  to a valid manifest signed by the actor for exactly this domain. Only a record whose copied expiry
  date has already passed is not served.
\<close>

theorem published_site_is_located:
  assumes "apply_mutation E clock to_pretty io s req ctx = (Inr event, s')"
    and "publishes (mr_action req) domain mh" and "keys_ok E ctx"
    and "\<And>d old. federate_domain_parse domain = Inr d \<Longrightarrow> bm_get (rz_domains (rs_zone s)) (fqdn d) = Some old \<Longrightarrow>
      \<not> domain_record_is_expired E clock old"
  shows "\<exists>rec d bs m. locate_domain E clock (rs_zone s') domain = Inr (SourceRootManaged rec) \<and>
    federate_domain_parse domain = Inr d \<and> dr_domain rec = fqdn d \<and>
    dr_owner_public_key rec = mr_actor_public_key req \<and> dr_manifest_hash rec = mh \<and>
    bm_get (rs_manifests s) mh = Some bs \<and> from_slice (x_manifest E) bs = Some m \<and>
    manifest_validate m = Inr () \<and> manifest_verify E m (fqdn d) (mr_actor_public_key req) = Inr ()"
proof -
  let ?actor = "mr_actor_public_key req" and ?zone = "rs_zone s"
  obtain role z1 reg where act: "apply_action E clock s ctx ?actor (mr_action req) ?zone = Inr (role, z1, reg)"
    and s': "rs_zone s' = resign_zone E ctx req role z1"
    using assms(1) by (rule accepted_zone)
  obtain is_update where "apply_publish E clock s ctx ?zone ?actor is_update domain mh = Inr (role, z1)"
    using assms(2) act by (rule publishes_action)
  from publish_located [OF this assms(3,4)] show ?thesis unfolding s' locate_resigned .
qed

subsection \<open>A published sample\<close>

definition published_manifest :: manifest where
  "published_manifest =
     (let m = \<lparr>mf_domain = ''joao.pagina'', mf_version = 1, mf_entry = ''index.html'',
        mf_files = [(''index.html'', ''h1'')], mf_owner_public_key = sample_root,
        mf_created_at = ''1'', mf_signature_algorithm = ''ed25519'', mf_signature = None\<rparr>
      in m\<lparr>mf_signature := Some (sign sample_store_deps sample_identity (manifest_signable_bytes sample_store_deps m))\<rparr>)"

definition published_bytes :: bytes where
  "published_bytes = to_vec (x_manifest sample_store_deps) published_manifest"

definition published_hash :: string where
  "published_hash = hash_bytes sample_store_deps published_bytes"

definition sample_uploaded :: registry_store where
  "sample_uploaded = sample_created\<lparr>rs_applied := [], rs_manifests := [(published_hash, published_bytes)]\<rparr>"

definition sample_publish :: mutation_request where
  "sample_publish = mutation_signed sample_store_deps sample_identity ''n2'' ''6'' 1
     (PublishSite ''joao.pagina'' published_hash)"

lemma published_manifest_ok:
  "manifest_validate published_manifest = Inr ()"
  "manifest_verify sample_store_deps published_manifest ''joao.pagina'' sample_root = Inr ()"
  "from_slice (x_manifest sample_store_deps) published_bytes = Some published_manifest"
proof -
  show "manifest_validate published_manifest = Inr ()"
    by (simp add: published_manifest_def Let_def manifest_validate_def bm_contains_def)
  show "manifest_verify sample_store_deps published_manifest ''joao.pagina'' sample_root = Inr ()"
    by (simp add: published_manifest_def Let_def manifest_verify_def manifest_signable_bytes_def
        verify_own_signature sample_store_libraries length_sample_identity)
  have "manifest_wf published_manifest" by (simp add: published_manifest_def Let_def manifest_wf_def bm_sorted_def)
  moreover have "codec_ok manifest_wf (x_manifest sample_store_deps)"
    unfolding sample_store_codecs
    by (rule codec_ok_inverse)
       (auto intro: manifest_json_inj simp: manifest_json_wf
          dest!: canonical_bytes_eqD [OF sample_deps_scalar_ok, rotated 2])
  ultimately show "from_slice (x_manifest sample_store_deps) published_bytes = Some published_manifest"
    by (simp add: published_bytes_def codec_ok_def)
qed

text \<open>The sample store after the creation of \<open>.pagina\<close>, exactly.\<close>

definition sample_tld :: tld_record where
  "sample_tld = sign_tld sample_store_deps sample_identity
     (new_tld_record ''pagina'' TldOfficial ModeOfficial sample_root sample_root
        ''Federate Network (root-managed)'' RootManaged None None (Some ''pages'')
        (x_to_rfc3339 sample_store_deps 7000000000))"

lemma sample_created_exact:
  "rz_tlds (rs_zone sample_created) = [(''pagina'', sample_tld)]"
  "rz_domains (rs_zone sample_created) = []"
  "rs_applied sample_created = [(mr_mutation_id sample_create, applied_of sample_store_deps sample_context
     sample_create (rs_zone sample_created) (hd (rs_audit sample_created)))]"
  "rs_target_versions sample_created = [(''tld:pagina'', 1)]"
proof -
  let ?z = "insert_tld ''pagina'' sample_tld (rs_zone sample_store)"
  have "apply_action sample_store_deps 7000000000 sample_store sample_context
     (mr_actor_public_key sample_create) (mr_action sample_create) (rs_zone sample_store) = Inr (RoleRoot, ?z, None)"
    using create_tld_action [OF _ sample_validates, of sample_root "rs_zone sample_store" sample_store_deps
      7000000000 sample_store "''pages''"]
    by (simp add: sample_store_ok sample_create_def sample_tld_def del: apply_action.simps)
  then have prep: "prepare_mutation sample_store_deps 7000000000 sample_store sample_create sample_context
      = Inr (resign_zone sample_store_deps sample_context sample_create RoleRoot ?z, None,
         audit_event_of sample_store_deps sample_context sample_create RoleRoot (rs_zone sample_store)
           (resign_zone sample_store_deps sample_context sample_create RoleRoot ?z))"
    using sample_store_ok(1)
    by (intro prepare_accepts sample_keys_ok sample_create_request sample_create_fresh) (simp_all add: store_ok_def)
  obtain ev where app: "apply_mutation sample_store_deps 7000000000 sample_pretty io_ok sample_store
      sample_create sample_context = (Inr ev, sample_created)"
    using sample_created_ok(1) by blast
  note core = apply_io_ok [OF app _ sample_keys_ok sample_create_request(1) _ prep]
  have core: "same_core (advanced sample_store_deps sample_create sample_context
      (resign_zone sample_store_deps sample_context sample_create RoleRoot ?z) None
      (audit_event_of sample_store_deps sample_context sample_create RoleRoot (rs_zone sample_store)
           (resign_zone sample_store_deps sample_context sample_create RoleRoot ?z)) sample_store) sample_created"
    using core sample_store_ok(1) sample_clock_ok by simp
  have audit: "rs_audit sample_store = []"
    using init_empty_ok [OF sample_store_init sample_store_libraries(1,2) length_sample_identity
        sample_clock_ok(1)] by (simp add: sample_disk_def)
  have key: "mutation_action_target_key (mr_action sample_create) = ''tld:pagina''"
    "mr_target_version sample_create = 1"
    by (simp_all add: sample_create_def) code_simp
  show "rz_tlds (rs_zone sample_created) = [(''pagina'', sample_tld)]"
    "rz_domains (rs_zone sample_created) = []"
    "rs_target_versions sample_created = [(''tld:pagina'', 1)]"
    "rs_applied sample_created = [(mr_mutation_id sample_create, applied_of sample_store_deps sample_context
       sample_create (rs_zone sample_created) (hd (rs_audit sample_created)))]"
    using core by (simp_all add: same_core_def sample_store_ok insert_tld_def key audit)
qed

lemma prepared_returns:
  assumes "prepare_mutation E clock s req ctx = Inr (zone, reg, event)"
  obtains s' where "apply_mutation E clock to_pretty io_ok s req ctx = (Inr event, s')"
proof -
  obtain s1 where "install_registry E io_ok (s\<lparr>rs_zone := zone\<rparr>) reg = (Inr (), s1)"
    by (rule install_registry_writes [of io_ok E "s\<lparr>rs_zone := zone\<rparr>" reg]) auto
  with assms show ?thesis
    by (intro that) (auto simp: apply_mutation_def commit_applied_def Let_def commit_mutation_def db_commit_def
      write_snapshot_def create_snapshot_def)
qed

lemma sample_domain_parses: "federate_domain_parse ''joao.pagina'' = Inr \<lparr>fd_name = ''joao'', fd_tld = ''pagina''\<rparr>"
  by code_simp

lemma sample_publish_accepted:
  obtains event s' where "apply_mutation sample_store_deps 7000000000 sample_pretty io_ok sample_uploaded
    sample_publish sample_context = (Inr event, s')"
proof -
  let ?E = sample_store_deps and ?zone = "rs_zone sample_created"
  let ?d = "\<lparr>fd_name = ''joao'', fd_tld = ''pagina''\<rparr>"
  have pub: "\<exists>z1. apply_publish ?E 7000000000 sample_uploaded sample_context ?zone sample_root False
      ''joao.pagina'' published_hash = Inr (RoleDomainOwner, z1)"
    unfolding apply_publish_def Let_def
    by (simp add: sample_domain_parses root_zone_lookup_tld_def sample_created_exact bm_get_def sample_tld_def
        fqdn_def sample_uploaded_def published_manifest_ok decode_as_def tld_record_is_expired_def
        new_tld_record_def expired_def expired_at_def)
  then obtain z1 where act: "apply_action ?E 7000000000 sample_uploaded sample_context
      (mr_actor_public_key sample_publish) (mr_action sample_publish) (rs_zone sample_uploaded)
      = Inr (RoleDomainOwner, z1, None)"
    by (auto simp: sample_publish_def no_registry_def sample_uploaded_def)
  have mem: "memory_ok ?E (node_id ?E (mc_root sample_context)) sample_uploaded"
    using sample_created_ok(2)
    by (simp add: store_ok_def memory_ok_def sample_uploaded_def applied_ok_def)
  have req: "mutation_request_wf sample_publish" "mutation_verify ?E sample_publish = Inr ()"
    by (simp_all add: sample_publish_def mutation_request_wf_def mutation_action_wf_def
        mutation_signed_verifies [OF sample_store_libraries(1,2) length_sample_identity])
  have "mr_issued_at sample_publish = mr_issued_at sample_create"
    by (simp add: sample_publish_def sample_create_def)
  then have age: "mutation_check_age ?E sample_publish (mc_now sample_context) = Inr ()"
    using sample_create_request(3) by (simp add: mutation_check_age_iff)
  have fresh: "bm_get (rs_applied sample_uploaded) (mr_mutation_id sample_publish) = None"
    by (simp add: sample_uploaded_def)
  have key: "mutation_action_target_key (mr_action sample_publish) = ''domain:joao.pagina''"
    by (simp add: sample_publish_def mutation_action_target_key_def) code_simp
  have version: "target_version sample_uploaded (mutation_action_target_key (mr_action sample_publish))
      < mr_target_version sample_publish"
    unfolding key by (simp add: sample_uploaded_def target_version_def sample_created_exact bm_get_def sample_publish_def)
  from prepared_returns [OF prepare_accepts [OF mem sample_keys_ok req(1,2) age fresh version act]] that
  show ?thesis by blast
qed

theorem published_site_is_located_witness:
  "\<exists>s' event rec. apply_mutation sample_store_deps 7000000000 sample_pretty io_ok sample_uploaded
      sample_publish sample_context = (Inr event, s') \<and>
    locate_domain sample_store_deps 7000000000 (rs_zone s') ''joao.pagina'' = Inr (SourceRootManaged rec) \<and>
    dr_manifest_hash rec = published_hash"
proof -
  obtain event s' where app: "apply_mutation sample_store_deps 7000000000 sample_pretty io_ok sample_uploaded
    sample_publish sample_context = (Inr event, s')"
    by (rule sample_publish_accepted)
  have "publishes (mr_action sample_publish) ''joao.pagina'' published_hash"
    by (simp add: publishes_def sample_publish_def)
  from published_site_is_located [OF app this sample_keys_ok] app show ?thesis
    by (auto simp: sample_uploaded_def sample_created_exact)
qed

subsection \<open>Spelling\<close>

text \<open>
  The version counter of a domain is kept per spelling, not per domain: with a port, the name parses
  to the same domain and publishes the same record, but accepting a publication under the plain spelling
  leaves the counter of the other spelling where it was, so an older target version is still accepted
  there.
\<close>

lemma target_version_follows_spelling:
  assumes "apply_mutation E clock to_pretty io s req ctx = (Inr event, s')"
    and "mr_action req = PublishSite ''joao.pagina'' mh"
  shows "federate_domain_parse ''joao.pagina:80'' = federate_domain_parse ''joao.pagina'' \<and>
    target_version s' ''domain:joao.pagina'' = mr_target_version req \<and>
    target_version s' (mutation_action_target_key (PublishSite ''joao.pagina:80'' mh')) =
      target_version s (mutation_action_target_key (PublishSite ''joao.pagina:80'' mh'))"
proof -
  have keys: "mutation_action_target_key (PublishSite ''joao.pagina'' mh) = ''domain:joao.pagina''"
    "mutation_action_target_key (PublishSite ''joao.pagina:80'' mh') = ''domain:joao.pagina:80''"
    by (simp add: mutation_action_target_key_def, code_simp)+
  have "federate_domain_parse ''joao.pagina:80'' = federate_domain_parse ''joao.pagina''" by code_simp
  moreover have "rs_target_versions s' =
       bm_insert (mutation_action_target_key (mr_action req)) (mr_target_version req) (rs_target_versions s)"
    using assms(1) by (rule accepted_zone)
  ultimately show ?thesis by (simp add: target_version_def assms(2) keys map_simps)
qed

lemma target_version_follows_spelling_witness:
  "\<exists>s' event. apply_mutation sample_store_deps 7000000000 sample_pretty io_ok sample_uploaded
      sample_publish sample_context = (Inr event, s') \<and>
    target_version s' ''domain:joao.pagina'' = 1 \<and> target_version s' ''domain:joao.pagina:80'' = 0"
proof -
  obtain event s' where app: "apply_mutation sample_store_deps 7000000000 sample_pretty io_ok sample_uploaded
    sample_publish sample_context = (Inr event, s')"
    by (rule sample_publish_accepted)
  have act: "mr_action sample_publish = PublishSite ''joao.pagina'' published_hash"
    "mr_target_version sample_publish = 1"
    by (simp_all add: sample_publish_def)
  have key: "mutation_action_target_key (PublishSite ''joao.pagina:80'' []) = ''domain:joao.pagina:80''" by code_simp
  have "target_version sample_uploaded ''domain:joao.pagina:80'' = 0"
    by (simp add: target_version_def sample_uploaded_def sample_created_exact bm_get_def)
  with target_version_follows_spelling [OF app act(1), where mh' = "[]"] app act(2) show ?thesis
    unfolding key by auto
qed

text \<open>
  A domain issued under a name with an upper-case letter is out of reach: the label check
  normalises, but the record is stored as it came, under a name that no request for a host
  ever leads to, and that no change of its status finds.
\<close>

lemma issued_uppercase_name_is_unreachable:
  assumes "apply_issue_domain E clock zone actor record = Inr (role, zone')"
    and "to_ascii_lowercase (dr_domain record) \<noteq> dr_domain record"
  shows "root_zone_lookup zone' (dr_domain record) = Some record \<and>
    (\<forall>host d. federate_domain_parse host = Inr d \<longrightarrow> fqdn d \<noteq> dr_domain record) \<and>
    (\<forall>domain. to_ascii_lowercase domain \<noteq> dr_domain record)"
proof (intro conjI allI impI)
  have "zone' = insert_domain (dr_domain record) record zone"
    using apply_issue_domain_ok [OF assms(1)] by blast
  then show "root_zone_lookup zone' (dr_domain record) = Some record"
    by (simp add: root_zone_lookup_def)
  fix host d
  assume "federate_domain_parse host = Inr d"
  then have "to_ascii_lowercase (fqdn d) = fqdn d"
    by (intro fqdn_lowercase federate_domain_parse_Inr)
  with assms(2) show "fqdn d \<noteq> dr_domain record" by metis
next
  fix domain
  show "to_ascii_lowercase domain \<noteq> dr_domain record"
    using assms(2) to_ascii_lowercase_idem by metis
qed

definition uppercase_record :: domain_record where
  "uppercase_record = sign_domain sample_store_deps sample_identity
     (sample_domain_record\<lparr>dr_domain := ''Joao.pagina'', dr_label := ''Joao'', dr_tld := ''pagina'',
        dr_expires_at := None\<rparr>)"

lemma uppercase_record_issued:
  "apply_issue_domain sample_store_deps 0 (rs_zone sample_created) sample_root uppercase_record
     = Inr (RoleTldOperator, insert_domain ''Joao.pagina'' uppercase_record (rs_zone sample_created))"
proof -
  have "domain_record_verify sample_store_deps uppercase_record sample_root = Inr ()"
    using sign_domain_verifies [OF sample_keys_ok] by (simp add: uppercase_record_def)
  moreover have "\<exists>l. validate_label ''Joao'' = Inr l" by (rule exI) code_simp
  ultimately show ?thesis
    unfolding apply_issue_domain_def
    by (auto simp: uppercase_record_def root_zone_lookup_tld_def sample_created_exact bm_get_def sample_tld_def
        domain_record_is_expired_def expired_def expired_at_def)
qed

lemma issued_uppercase_name_is_unreachable_witness:
  "root_zone_lookup (insert_domain ''Joao.pagina'' uppercase_record (rs_zone sample_created)) ''Joao.pagina''
     = Some uppercase_record \<and>
   (\<forall>domain. to_ascii_lowercase domain \<noteq> ''Joao.pagina'')"
proof -
  have "to_ascii_lowercase ''Joao.pagina'' \<noteq> ''Joao.pagina''" by code_simp
  moreover have "dr_domain uppercase_record = ''Joao.pagina''" by (simp add: uppercase_record_def)
  ultimately show ?thesis
    using issued_uppercase_name_is_unreachable [OF uppercase_record_issued] by simp
qed

subsection \<open>Nonces\<close>

text \<open>
  A challenge nonce works once and for 300 seconds: after it was issued, consuming it succeeds
  exactly before its expiry time, and consuming it again fails at every time; and issuing a nonce
  never takes back another one that is still valid.
\<close>

lemma nonce_is_single_use:
  assumes "issue_nonce None s nonce now = (r, s1)" and "bm_sorted (t_nonces (rs_db s))"
  shows "r = Inr (nonce, now + 300) \<and>
    fst (store_consume_nonce None s1 nonce t) = Inr (t < now + 300) \<and>
    fst (store_consume_nonce err' (snd (store_consume_nonce None s1 nonce t)) nonce t') \<noteq> Inr True \<and>
    (\<forall>n e. n \<noteq> nonce \<longrightarrow> bm_get (t_nonces (rs_db s)) n = Some e \<longrightarrow> now < e \<longrightarrow>
       bm_get (t_nonces (rs_db s1)) n = Some e)"
proof -
  have s1: "r = Inr (nonce, now + 300)" "t_nonces (rs_db s1) = bm_insert nonce (now + 300)
      (filter (\<lambda>(k, e). \<not> e < now + 300 - 600) (t_nonces (rs_db s)))"
    using assms(1) by (auto simp: issue_nonce_def reserve_nonce_def db_commit_def Let_def NONCE_TTL_SECS_def)
  have "bm_get (t_nonces (rs_db s1)) n = Some e"
    if "n \<noteq> nonce" "bm_get (t_nonces (rs_db s)) n = Some e" "now < e" for n e
    using that bm_sorted_distinct [OF assms(2)] by (simp add: s1(2) map_simps bm_get_filter)
  moreover have "fst (store_consume_nonce None s1 nonce t) = Inr (t < now + 300)"
    by (simp add: store_consume_nonce_def consume_nonce_def db_commit_def Let_def s1(2) map_simps)
  moreover have "bm_get (t_nonces (rs_db (snd (store_consume_nonce None s1 nonce t)))) nonce = None"
    by (simp add: store_consume_nonce_def consume_nonce_def db_commit_def Let_def map_simps)
  then have "fst (store_consume_nonce err' (snd (store_consume_nonce None s1 nonce t)) nonce t') \<noteq> Inr True"
    by (cases err') (auto simp: store_consume_nonce_def consume_nonce_def db_commit_def Let_def)
  ultimately show ?thesis using s1(1) by blast
qed

lemma nonce_is_single_use_witness:
  "\<exists>s1. issue_nonce None (sample_created\<lparr>rs_db := redb_create\<rparr>) ''ab'' 1000 = (Inr (''ab'', 1300), s1) \<and>
    fst (store_consume_nonce None s1 ''ab'' 1299) = Inr True \<and>
    fst (store_consume_nonce None (snd (store_consume_nonce None s1 ''ab'' 1299)) ''ab'' 1299) \<noteq> Inr True"
proof -
  let ?s = "sample_created\<lparr>rs_db := redb_create\<rparr>"
  obtain r s1 where issue: "issue_nonce None ?s ''ab'' 1000 = (r, s1)"
    by (cases "issue_nonce None ?s ''ab'' 1000")
  have "bm_sorted (t_nonces (rs_db ?s))" by (simp add: redb_create_def)
  from nonce_is_single_use [OF issue this, of 1299 None 1299] issue show ?thesis by auto
qed

subsection \<open>Seeding\<close>

definition zone_extends :: "root_zone \<Rightarrow> root_zone \<Rightarrow> bool" where
  "zone_extends z z' \<longleftrightarrow> rz_domains z' = rz_domains z \<and>
     (\<forall>t tr. bm_get (rz_tlds z) t = Some tr \<longrightarrow> bm_get (rz_tlds z') t = Some tr)"

lemma zone_extends_refl [simp]: "zone_extends z z"
  by (simp add: zone_extends_def)

lemma zone_extends_trans: "zone_extends z z' \<Longrightarrow> zone_extends z' z'' \<Longrightarrow> zone_extends z z''"
  by (simp add: zone_extends_def)

lemma creates_tld_extends:
  "creates_tld E ctx zone actor role zone' name r \<Longrightarrow> zone_extends zone zone' \<and> bm_get (rz_tlds zone') name \<noteq> None"
  by (auto simp: creates_tld_def zone_extends_def insert_tld_def map_simps)

lemma seed_action_adds:
  assumes "seed_action name entry = Inr a" and "validate_tld_name name = Inr name"
    and "apply_action E clock s ctx actor a zone = Inr (role, z1, reg)"
  shows "zone_extends zone z1 \<and> bm_get (rz_tlds z1) name \<noteq> None"
proof -
  have new: "validate_new_tld b name True = Inr n \<Longrightarrow> n = name" for b n
    using assms(2) by (auto dest: validate_new_tld_ok)
  have old: "validate_tld_name name = Inr n \<Longrightarrow> n = name" for n using assms(2) by simp
  from assms(1,3) show ?thesis
    by (auto simp: seed_action_def Let_def apply_action_Inr split: if_splits
        dest!: apply_create_tld_ok apply_reserve_or_block_ok new old creates_tld_extends)
qed

lemma apply_seeded:
  assumes "seed_action name entry = Inr (mr_action req)" and "validate_tld_name name = Inr name"
    and "apply_mutation E clock to_pretty io s req ctx = (r, s')"
  shows "zone_extends (rs_zone s) (rs_zone s') \<and> (\<forall>e. r = Inr e \<longrightarrow> bm_get (rz_tlds (rs_zone s')) name \<noteq> None)"
proof (cases "prepare_mutation E clock s req ctx")
  case (Inl e)
  with assms(3) show ?thesis by (auto simp: apply_mutation_def)
next
  case (Inr p)
  obtain zone reg event where p: "p = (zone, reg, event)" by (cases p)
  with Inr assms(3) have "rs_zone s' = zone"
    by (auto simp: apply_mutation_def dest: committed_fields)
  moreover obtain role z1 where act: "apply_action E clock s ctx (mr_actor_public_key req) (mr_action req) (rs_zone s)
      = Inr (role, z1, reg)" and "zone = resign_zone E ctx req role z1"
    using prepare_ok [OF Inr [unfolded p]] by blast
  moreover from act have "zone_extends (rs_zone s) z1 \<and> bm_get (rz_tlds z1) name \<noteq> None"
    by (rule seed_action_adds [OF assms(1,2)])
  ultimately show ?thesis by (simp add: zone_extends_def)
qed

lemma seed_entries_adds:
  "seed_entries E clock to_pretty io ctx seed out s = (r, s') \<Longrightarrow>
     zone_extends (rs_zone s) (rs_zone s') \<and>
     (\<forall>out'. r = Inr out' \<longrightarrow>
        (\<forall>e \<in> set seed. \<exists>n. validate_tld_name (sd_name e) = Inr n \<and> bm_get (rz_tlds (rs_zone s')) n \<noteq> None) \<and>
        (\<forall>n \<in> set (so_created out') - set (so_created out). bm_get (rz_tlds (rs_zone s)) n = None))"
proof (induction E clock to_pretty io ctx seed out s arbitrary: r s' rule: seed_entries.induct)
  case (1 E clock to_pretty io ctx out s)
  then show ?case by auto
next
  case (2 E clock to_pretty io ctx entry rest out s)
  show ?case
  proof (cases "validate_tld_name (sd_name entry)")
    case (Inl e)
    with 2 show ?thesis by auto
  next
    case name: (Inr name)
    have canon: "validate_tld_name name = Inr name"
      using name validate_tld_name_ok validate_tld_name_id by blast
    show ?thesis
    proof (cases "bm_contains (rz_tlds (rs_zone s)) name")
      case True
      with 2(3) name have "seed_entries E clock to_pretty io ctx rest
          (out\<lparr>so_skipped_existing := so_skipped_existing out @ [name]\<rparr>) s = (r, s')" by simp
      note IH = 2(1) [OF name True this]
      then have "bm_get (rz_tlds (rs_zone s')) name \<noteq> None"
        using True unfolding zone_extends_def bm_contains_iff by blast
      with IH name show ?thesis by simp
    next
      case False
      show ?thesis
      proof (cases "seed_action name entry")
        case (Inl e)
        with 2(3) name False show ?thesis by auto
      next
        case act: (Inr action)
        let ?v = "target_version s (mutation_action_target_key action) + 1"
        let ?req = "mutation_signed E (mc_root ctx) (''seed:'' @ name) (x_to_rfc3339 E (mc_now ctx)) ?v action"
        obtain r1 s1 where app: "apply_mutation E clock to_pretty io s ?req ctx = (r1, s1)"
          by (cases "apply_mutation E clock to_pretty io s ?req ctx")
        have s1: "zone_extends (rs_zone s) (rs_zone s1)"
          "r1 = Inr e \<Longrightarrow> bm_get (rz_tlds (rs_zone s1)) name \<noteq> None" for e
          using apply_seeded [OF _ canon app, of entry] act by simp_all
        show ?thesis
        proof (cases r1)
          case (Inl e)
          with 2(3) name False act app s1 show ?thesis by auto
        next
          case (Inr e)
          with 2(3) name False act app have rest: "seed_entries E clock to_pretty io ctx rest
              (out\<lparr>so_created := so_created out @ [name]\<rparr>) s1 = (r, s')" by (simp add: Let_def)
          note IH = 2(2) [OF name False act refl refl app [symmetric] Inr rest]
          from IH s1(1) have "zone_extends (rs_zone s) (rs_zone s')" by (blast intro: zone_extends_trans)
          moreover have "bm_get (rz_tlds (rs_zone s')) name \<noteq> None"
            using IH s1(2) [OF Inr] unfolding zone_extends_def by blast
          moreover have "bm_get (rz_tlds (rs_zone s)) n = None" if "bm_get (rz_tlds (rs_zone s1)) n = None" for n
            using that s1(1) unfolding zone_extends_def by (metis not_Some_eq)
          moreover have "bm_get (rz_tlds (rs_zone s)) name = None" using False by (simp add: bm_contains_iff)
          moreover have "r = Inr out' \<Longrightarrow> n \<in> set (so_created out') - set (so_created out) \<Longrightarrow>
              n = name \<or> bm_get (rz_tlds (rs_zone s1)) n = None" for out' n
            using IH by (cases "n = name") auto
          ultimately show ?thesis using IH name by (metis set_ConsD)
        qed
      qed
    qed
  qed
qed

text \<open>
  Seeding never touches what is there: whether it succeeds or stops at an error, every TLD record
  and every domain of the store is as before; when it succeeds, every entry of the seed file has a
  record, and each name it reports as created had none. Without \<open>force\<close>, a registry that holds any TLD
  is left alone altogether.
\<close>

lemma seeding_only_adds:
  assumes "apply_seed E clock to_pretty io s seed ctx force = (r, s')"
  shows "rz_domains (rs_zone s') = rz_domains (rs_zone s) \<and>
    (\<forall>t tr. bm_get (rz_tlds (rs_zone s)) t = Some tr \<longrightarrow> bm_get (rz_tlds (rs_zone s')) t = Some tr) \<and>
    (\<forall>out. r = Inr out \<longrightarrow>
       (\<forall>e \<in> set seed. \<exists>n. validate_tld_name (sd_name e) = Inr n \<and> bm_get (rz_tlds (rs_zone s')) n \<noteq> None) \<and>
       (\<forall>n \<in> set (so_created out). bm_get (rz_tlds (rs_zone s)) n = None)) \<and>
    (\<not> force \<and> rz_tlds (rs_zone s) \<noteq> [] \<longrightarrow> s' = s \<and> (\<exists>e. r = Inl e))"
proof (cases "rz_tlds (rs_zone s) \<noteq> [] \<and> \<not> force")
  case True
  with assms show ?thesis by (auto simp: apply_seed_def)
next
  case False
  with assms have "seed_entries E clock to_pretty io ctx seed \<lparr>so_created = [], so_skipped_existing = []\<rparr> s = (r, s')"
    by (auto simp: apply_seed_def)
  from seed_entries_adds [OF this] False show ?thesis by (auto simp: zone_extends_def)
qed

lemma seeding_only_adds_witness:
  "apply_seed sample_store_deps 7000000000 sample_pretty io_ok sample_created
     [\<lparr>sd_name = ''pagina'', sd_mode = ''official'', sd_purpose = None, sd_reason = None\<rparr>] sample_context True
   = (Inr \<lparr>so_created = [], so_skipped_existing = [''pagina'']\<rparr>, sample_created) \<and>
   bm_get (rz_tlds (rs_zone sample_created)) ''pagina'' \<noteq> None"
proof -
  have "validate_tld_name ''pagina'' = Inr ''pagina''" by code_simp
  moreover from this have seed: "apply_seed sample_store_deps 7000000000 sample_pretty io_ok sample_created
     [\<lparr>sd_name = ''pagina'', sd_mode = ''official'', sd_purpose = None, sd_reason = None\<rparr>] sample_context True
   = (Inr \<lparr>so_created = [], so_skipped_existing = [''pagina'']\<rparr>, sample_created)"
    by (simp add: apply_seed_def sample_created_exact bm_contains_def)
  ultimately show ?thesis using seeding_only_adds [OF seed] by simp
qed

subsection \<open>The last version\<close>

text \<open>
  Versions are 64-bit words and nothing bounds the step a request takes: an accepted request with the
  greatest version is the last one its target ever sees. An owner can close a domain that way against the
  root authority, whose SetDomainStatus counts versions of the same target.
\<close>

lemma last_version_closes_target:
  assumes acc: "apply_mutation E clock to_pretty io s req ctx = (Inr event, s')" "mr_target_version req = u64_max"
    and good: "good_store E root s'" and run: "(store_step E to_pretty root)\<^sup>*\<^sup>* s' s''"
    and later: "mutation_action_target_key (mr_action req') = mutation_action_target_key (mr_action req)"
      "mr_target_version req' \<le> u64_max"
  shows "\<exists>e. apply_mutation E clock' to_pretty' io' s'' req' ctx' = (Inl e, s'')"
proof -
  have "rs_target_versions s' =
       bm_insert (mutation_action_target_key (mr_action req)) (mr_target_version req) (rs_target_versions s)"
    using acc(1) by (rule accepted_zone)
  then have "target_version s' (mutation_action_target_key (mr_action req)) = u64_max"
    using acc(2) by (simp add: target_version_def map_simps)
  moreover have "store_le s' s''" by (rule rs.run_le [OF run good])
  ultimately have "mr_target_version req' \<le> target_version s'' (mutation_action_target_key (mr_action req'))"
    using later unfolding store_le_def by (metis le_trans)
  then have "prepare_mutation E clock' s'' req' ctx' \<noteq> Inr p" for p
    using prepare_ok [of E clock' s'' req' ctx'] by (cases p) fastforce
  then show ?thesis
    by (cases "prepare_mutation E clock' s'' req' ctx'") (auto simp: apply_mutation_def)
qed

end
