(* ===== verification/Utf8.thy ===== *)
theory Utf8
  imports Rust_Str
begin

text \<open>
  UTF-8 as the standard library reads it: \<open>String::from_utf8\<close> accepts well-formed input only, and
  \<open>String::from_utf8_lossy\<close> replaces each maximal ill-formed piece by U+FFFD.
\<close>

text \<open>The next piece of a non-empty input: is it well formed, and how many bytes does it take?\<close>

definition utf8_step :: "byte \<Rightarrow> bytes \<Rightarrow> bool \<times> nat" where
  "utf8_step b rest =
     (let n = unat b;
          get = (\<lambda>i. if i < length rest then unat (rest ! i) else 0);
          cont = (\<lambda>i. 128 \<le> get i \<and> get i < 192)
      in if n < 128 then (True, 1)
         else if 194 \<le> n \<and> n \<le> 223 then (if cont 0 then (True, 2) else (False, 1))
         else if 224 \<le> n \<and> n \<le> 239 then
           (let lo = (if n = 224 then 160 else 128); hi = (if n = 237 then 159 else 191)
            in if \<not> (lo \<le> get 0 \<and> get 0 \<le> hi) then (False, 1)
               else if cont 1 then (True, 3) else (False, 2))
         else if 240 \<le> n \<and> n \<le> 244 then
           (let lo = (if n = 240 then 144 else 128); hi = (if n = 244 then 143 else 191)
            in if \<not> (lo \<le> get 0 \<and> get 0 \<le> hi) then (False, 1)
               else if \<not> cont 1 then (False, 2)
               else if cont 2 then (True, 4) else (False, 3))
         else (False, 1))"

fun utf8_lossy :: "bytes \<Rightarrow> string" where
  "utf8_lossy [] = []"
| "utf8_lossy (b # rest) =
     (case utf8_step b rest of (ok, n) \<Rightarrow>
        (if ok then str_of_bytes (take n (b # rest)) else map char_of [239, 191, 189 :: nat]) @
        utf8_lossy (drop (n - 1) rest))"

fun utf8_valid :: "bytes \<Rightarrow> bool" where
  "utf8_valid [] = True"
| "utf8_valid (b # rest) =
     (case utf8_step b rest of (ok, n) \<Rightarrow> ok \<and> utf8_valid (drop (n - 1) rest))"

definition from_utf8 :: "bytes \<Rightarrow> string option" where
  "from_utf8 bs = (if utf8_valid bs then Some (str_of_bytes bs) else None)"

lemma utf8_step_pos: "utf8_step b rest = (ok, n) \<Longrightarrow> 0 < n"
  by (auto simp: utf8_step_def Let_def split: if_splits)

lemma utf8_lossy_valid: "utf8_valid bs \<Longrightarrow> utf8_lossy bs = str_of_bytes bs"
proof (induction bs rule: utf8_valid.induct)
  case (2 b rest)
  obtain ok n where n: "utf8_step b rest = (ok, n)" by (cases "utf8_step b rest")
  with 2 have ok: ok and rest: "utf8_lossy (drop (n - 1) rest) = str_of_bytes (drop (n - 1) rest)" by auto
  have "take n (b # rest) @ drop (n - 1) rest = b # rest"
    using utf8_step_pos [OF n] by (cases n) simp_all
  with n ok rest show ?case by (simp add: str_of_bytes_def flip: map_append)
qed (simp add: str_of_bytes_def)

lemma utf8_valid_ascii: "\<forall>b \<in> set bs. unat b < 128 \<Longrightarrow> utf8_valid bs"
  by (induction bs) (simp_all add: utf8_step_def)

lemma utf8_valid_ascii_append:
  "\<forall>b \<in> set bs. unat b < 128 \<Longrightarrow> utf8_valid (bs @ cs) = utf8_valid cs"
  by (induction bs) (simp_all add: utf8_step_def)

end
