(* ===== verification/Dns_Wire.thy ===== *)
theory Dns_Wire
  imports Utf8
begin

unbundle bit_operations_syntax

text \<open>
  \<open>crates/federate-dns/src/wire.rs\<close>: queries, answers and their wire format. An \<open>IpAddr\<close> is its
  octets; \<open>get_range\<close> is the slice method \<open>get\<close>, which answers \<open>None\<close> outside the packet.
\<close>

definition get_range :: "bytes \<Rightarrow> nat \<Rightarrow> nat \<Rightarrow> bytes option" where
  "get_range p a b = (if a \<le> b \<and> b \<le> length p then Some (take (b - a) (drop a p)) else None)"

datatype query_type = QueryA | QueryAaaa | QueryOther u16

definition query_type_from_u16 :: "u16 \<Rightarrow> query_type" where
  "query_type_from_u16 v = (if v = 1 then QueryA else if v = 28 then QueryAaaa else QueryOther v)"

record dns_query =
  dq_id :: u16
  dq_name :: string
  dq_qtype :: query_type
  dq_question_bytes :: bytes
  dq_recursion_desired :: bool

type_synonym 'a parsed = "string + 'a"

datatype ip_addr = IpV4 (ip_octets: bytes) | IpV6 (ip_octets: bytes)

fun is_ipv4 :: "ip_addr \<Rightarrow> bool" where
  "is_ipv4 (IpV4 _) = True"
| "is_ipv4 (IpV6 _) = False"

subsection \<open>Queries\<close>

text \<open>The loop over the labels of the first question, from position \<open>pos\<close>.\<close>

function parse_labels :: "bytes \<Rightarrow> nat \<Rightarrow> string list \<Rightarrow> (string list \<times> nat) parsed" where
  "parse_labels packet pos labels =
     (if length packet \<le> pos then Inl ''truncated name''
      else
        let b = packet ! pos; len = unat b; pos = pos + 1
        in if len = 0 then Inr (labels, pos)
           else if b AND 0xC0 \<noteq> 0 then Inl ''compressed question name''
           else (case get_range packet pos (pos + len) of
               None \<Rightarrow> Inl ''truncated label''
             | Some label \<Rightarrow> parse_labels packet (pos + len) (labels @ [utf8_lossy label])))"
  by auto
termination by (relation "measure (\<lambda>(packet, pos, _). length packet - pos)") auto

declare parse_labels.simps [simp del]

definition u16_at :: "bytes \<Rightarrow> nat \<Rightarrow> u16" where
  "u16_at p i = u16_from_be (p ! i) (p ! (i + 1))"

definition dns_query_parse :: "bytes \<Rightarrow> dns_query parsed" where
  "dns_query_parse packet =
     (if length packet < 12 then Inl ''packet too short''
      else
        let id = u16_at packet 0; flags = u16_at packet 2; qdcount = u16_at packet 4
        in if flags AND 0x8000 \<noteq> 0 then Inl ''not a query''
           else if qdcount = 0 then Inl ''no question''
           else and_then (parse_labels packet 12 []) (\<lambda>(labels, pos).
             case get_range packet pos (pos + 4) of
               None \<Rightarrow> Inl ''truncated qtype/qclass''
             | Some qtype_bytes \<Rightarrow>
                 Inr \<lparr>dq_id = id, dq_name = join ''.'' labels,
                      dq_qtype = query_type_from_u16 (u16_at qtype_bytes 0),
                      dq_question_bytes = take (pos + 4 - 12) (drop 12 packet),
                      dq_recursion_desired = (flags AND 0x0100 \<noteq> 0)\<rparr>))"

subsection \<open>Answers\<close>

definition dns_header :: "dns_query \<Rightarrow> byte \<Rightarrow> u16 \<Rightarrow> bytes" where
  "dns_header query rcode ancount =
     (let flags = (0x8000 :: u16);
          flags = flags OR 0x0400;
          flags = (if dq_recursion_desired query then flags OR 0x0100 else flags);
          flags = flags OR 0x0080;
          flags = flags OR (ucast rcode AND 0x000F)
      in u16_to_be (dq_id query) @ u16_to_be flags @ u16_to_be 1 @ u16_to_be ancount @
         u16_to_be 0 @ u16_to_be 0)"

fun answer_record :: "u32 \<Rightarrow> ip_addr \<Rightarrow> bytes" where
  "answer_record ttl (IpV4 o4) =
     [0xC0, 0x0C] @ u16_to_be 1 @ u16_to_be 1 @ u32_to_be ttl @ u16_to_be 4 @ o4"
| "answer_record ttl (IpV6 o6) =
     [0xC0, 0x0C] @ u16_to_be 28 @ u16_to_be 1 @ u32_to_be ttl @ u16_to_be 16 @ o6"

definition build_response :: "dns_query \<Rightarrow> ip_addr list \<Rightarrow> u32 \<Rightarrow> bytes" where
  "build_response query ips ttl =
     dns_header query 0 (of_nat (length ips)) @ dq_question_bytes query @
     concat (map (answer_record ttl) ips)"

definition build_servfail :: "dns_query \<Rightarrow> bytes" where
  "build_servfail query = dns_header query 2 0 @ dq_question_bytes query"

definition build_query :: "u16 \<Rightarrow> string \<Rightarrow> u16 \<Rightarrow> bytes" where
  "build_query query_id name qtype =
     u16_to_be query_id @ u16_to_be 0x0100 @ u16_to_be 1 @ replicate 6 0 @
     concat (map (\<lambda>label. of_nat (length label) # bytes_of_str label)
       (split_char (CHR ''.'') (trim_end_matches (CHR ''.'') name))) @
     [0] @ u16_to_be qtype @ u16_to_be 1"

subsection \<open>Reading answers\<close>

function skip_name :: "bytes \<Rightarrow> nat \<Rightarrow> nat parsed" where
  "skip_name packet pos =
     (if length packet \<le> pos then Inl ''truncated''
      else
        let b = packet ! pos
        in if b AND 0xC0 = 0xC0 then Inr (pos + 2)
           else if unat b = 0 then Inr (pos + 1)
           else skip_name packet (pos + 1 + unat b))"
  by auto
termination by (relation "measure (\<lambda>(packet, pos). length packet - pos)") auto

declare skip_name.simps [simp del]

fun skip_questions :: "bytes \<Rightarrow> nat \<Rightarrow> nat \<Rightarrow> nat parsed" where
  "skip_questions packet 0 pos = Inr pos"
| "skip_questions packet (Suc n) pos =
     and_then (skip_name packet pos) (\<lambda>pos. skip_questions packet n (pos + 4))"

fun read_answers ::
  "bytes \<Rightarrow> nat \<Rightarrow> nat \<Rightarrow> (ip_addr \<times> u32) list \<Rightarrow> (ip_addr \<times> u32) list parsed" where
  "read_answers packet 0 pos answers = Inr answers"
| "read_answers packet (Suc n) pos answers =
     and_then (skip_name packet pos) (\<lambda>pos.
     case get_range packet pos (pos + 10) of
       None \<Rightarrow> Inl ''truncated answer''
     | Some fixed \<Rightarrow>
         let rtype = u16_at fixed 0;
             ttl = u32_from_be (fixed ! 4) (fixed ! 5) (fixed ! 6) (fixed ! 7);
             rdlen = unat (u16_at fixed 8);
             pos = pos + 10
         in (case get_range packet pos (pos + rdlen) of
               None \<Rightarrow> Inl ''truncated rdata''
             | Some rdata \<Rightarrow>
                 let answers =
                   (if rtype = 1 \<and> rdlen = 4 then answers @ [(IpV4 rdata, ttl)]
                    else if rtype = 28 \<and> rdlen = 16 then answers @ [(IpV6 rdata, ttl)]
                    else answers)
                 in read_answers packet n (pos + rdlen) answers))"

definition parse_answers :: "bytes \<Rightarrow> (byte \<times> (ip_addr \<times> u32) list) parsed" where
  "parse_answers packet =
     (if length packet < 12 then Inl ''short response''
      else
        let flags = u16_at packet 2; rcode = ucast (flags AND 0x000F);
            qdcount = unat (u16_at packet 4); ancount = unat (u16_at packet 6)
        in and_then (skip_questions packet qdcount 12) (\<lambda>pos.
           and_then (read_answers packet ancount pos []) (\<lambda>answers. Inr (rcode, answers))))"

subsection \<open>Length bytes\<close>

lemma unat_and_C0: "unat (b AND 0xC0 :: byte) = unat b div 64 * 64"
proof -
  have high: "n AND push_bit 6 (mask 2) = push_bit 6 (take_bit 2 (drop_bit 6 n))" for n :: nat
    by (rule bit_eqI) (auto simp: bit_simps)
  have "push_bit 6 (mask 2) = (192 :: nat)" by (simp add: push_bit_eq_mult mask_eq_exp_minus_1)
  with high [of "unat b"] have "unat b AND 192 = unat b div 64 mod 4 * 64"
    by (simp add: push_bit_eq_mult take_bit_eq_mod drop_bit_eq_div)
  moreover have "unat b div 64 mod 4 = unat b div 64" using unat_byte_lt [of b] by simp
  ultimately show ?thesis by (simp add: unsigned_and_eq)
qed

lemma plain_length_byte: "b AND 0xC0 = 0 \<longleftrightarrow> unat (b :: byte) < 64"
proof -
  have "n div 64 = 0 \<longleftrightarrow> n < 64" for n :: nat by (simp add: div_eq_0_iff)
  then show ?thesis using unat_and_C0 [of b] by (simp add: unat_eq_0 [symmetric])
qed

lemma pointer_byte: "b AND 0xC0 = 0xC0 \<longleftrightarrow> 192 \<le> unat (b :: byte)"
proof -
  have "b AND 0xC0 = 0xC0 \<longleftrightarrow> unat (b AND 0xC0) = 192" by (simp add: word_unat_eq_iff)
  moreover have "unat b div 64 < 4" using unat_byte_lt [of b] by (simp add: div_less_iff_less_mult)
  moreover have "3 \<le> unat b div 64 \<longleftrightarrow> 192 \<le> unat b" by (simp add: less_eq_div_iff_mult_less_eq)
  ultimately show ?thesis by (simp add: unat_and_C0) linarith
qed

lemma get_range_append [simp]: "get_range (pre @ mid @ suf) (length pre) (length pre + length mid) = Some mid"
  by (simp add: get_range_def)

lemma u16_at_append [simp]: "u16_at (pre @ u16_to_be w @ suf) (length pre) = w"
proof -
  obtain a b where ab: "u16_to_be w = [a, b]" by (simp add: u16_to_be_def)
  with u16_be_roundtrip [of w] show ?thesis by (simp add: u16_at_def nth_append)
qed

subsection \<open>Encoded names\<close>

definition encode_labels :: "bytes list \<Rightarrow> bytes" where
  "encode_labels ls = concat (map (\<lambda>l. of_nat (length l) # l) ls) @ [0]"

definition labels_ok :: "bytes list \<Rightarrow> bool" where
  "labels_ok ls \<longleftrightarrow> (\<forall>l \<in> set ls. 0 < length l \<and> length l < 64)"

lemma encode_labels_simps [simp]:
  "encode_labels [] = [0]"
  "encode_labels (l # ls) = of_nat (length l) # l @ encode_labels ls"
  by (simp_all add: encode_labels_def)

lemma labels_ok_simps [simp]:
  "labels_ok []" "labels_ok (l # ls) \<longleftrightarrow> 0 < length l \<and> length l < 64 \<and> labels_ok ls"
  by (auto simp: labels_ok_def)

lemma unat_label_length: "length l < 64 \<Longrightarrow> unat (of_nat (length l) :: byte) = length l"
  by (simp add: unat_of_nat_byte)

lemma parse_labels_encoded:
  "labels_ok ls \<Longrightarrow> parse_labels (pre @ encode_labels ls @ suf) (length pre) acc =
     Inr (acc @ map utf8_lossy ls, length pre + length (encode_labels ls))"
proof (induction ls arbitrary: pre acc)
  case Nil
  show ?case by (subst parse_labels.simps) simp
next
  case (Cons l ls)
  let ?b = "of_nat (length l) :: byte"
  let ?rest = "encode_labels ls @ suf"
  have len: "unat ?b = length l" using Cons.prems by (simp add: unat_label_length)
  have plain: "?b AND 0xC0 = 0" using Cons.prems by (simp add: plain_length_byte len)
  have range: "get_range (pre @ ?b # l @ ?rest) (Suc (length pre)) (Suc (length pre + length l)) = Some l"
    using get_range_append [of "pre @ [?b]" l ?rest] by simp
  have IH: "parse_labels (pre @ ?b # l @ ?rest) (Suc (length pre + length l)) (acc @ [utf8_lossy l]) =
      Inr (acc @ utf8_lossy l # map utf8_lossy ls, Suc (length pre + (length l + length (encode_labels ls))))"
    using Cons.IH [of "pre @ ?b # l" "acc @ [utf8_lossy l]"] Cons.prems by simp
  show ?case
    using Cons.prems
    by (subst parse_labels.simps) (simp add: Let_def len plain range IH)
qed

lemma skip_name_encoded:
  "labels_ok ls \<Longrightarrow> skip_name (pre @ encode_labels ls @ suf) (length pre) =
     Inr (length pre + length (encode_labels ls))"
proof (induction ls arbitrary: pre)
  case Nil
  show ?case by (subst skip_name.simps) (simp add: pointer_byte)
next
  case (Cons l ls)
  let ?b = "of_nat (length l) :: byte"
  have len: "unat ?b = length l" using Cons.prems by (simp add: unat_label_length)
  then have "\<not> 192 \<le> unat ?b" using Cons.prems by simp
  then have plain: "?b AND 0xC0 \<noteq> 0xC0" by (simp add: pointer_byte)
  have IH: "skip_name (pre @ ?b # l @ encode_labels ls @ suf) (Suc (length pre + length l)) =
      Inr (Suc (length pre + length l + length (encode_labels ls)))"
    using Cons.IH [of "pre @ ?b # l"] Cons.prems by simp
  show ?case
    using Cons.prems by (subst skip_name.simps) (simp add: len plain IH)
qed

text \<open>Conversely, what \<open>parse_labels\<close> has read is such an encoding.\<close>

lemma parse_labels_shape:
  "parse_labels packet pos acc = Inr (labels, pos') \<Longrightarrow>
     \<exists>ls. labels_ok ls \<and> labels = acc @ map utf8_lossy ls \<and> pos' = pos + length (encode_labels ls) \<and>
       pos' \<le> length packet \<and> take (pos' - pos) (drop pos packet) = encode_labels ls"
proof (induction packet pos acc rule: parse_labels.induct)
  case (1 packet pos acc)
  let ?b = "packet ! pos"
  note eq = parse_labels.simps [of packet pos acc]
  have pos: "pos < length packet" using 1(2) unfolding eq by (auto split: if_splits)
  then have drop: "drop pos packet = ?b # drop (Suc pos) packet" by (rule Cons_nth_drop_Suc [symmetric])
  show ?case
  proof (cases "unat ?b = 0")
    case True
    with 1(2) pos have "labels = acc" "pos' = Suc pos"
      unfolding eq by (simp_all add: Let_def)
    with pos drop True show ?thesis by (intro exI [of _ "[]"]) (simp add: unat_eq_0)
  next
    case False
    with 1(2) pos have plain: "\<not> ?b AND 0xC0 \<noteq> 0"
      unfolding eq by (auto simp: Let_def split: if_splits)
    with 1(2) pos False obtain label where label: "get_range packet (pos + 1) (pos + 1 + unat ?b) = Some label"
      and rest: "parse_labels packet (pos + 1 + unat ?b) (acc @ [utf8_lossy label]) = Inr (labels, pos')"
      unfolding eq by (auto simp: Let_def split: option.splits)
    have "\<not> length packet \<le> pos" using pos by simp
    from 1(1) [OF this refl refl refl False plain label rest] obtain ls where
      ls: "labels_ok ls" "labels = acc @ [utf8_lossy label] @ map utf8_lossy ls"
        "pos' = pos + 1 + unat ?b + length (encode_labels ls)" "pos' \<le> length packet"
        "take (pos' - (pos + 1 + unat ?b)) (drop (pos + 1 + unat ?b) packet) = encode_labels ls"
      by auto
    have l: "label = take (unat ?b) (drop (Suc pos) packet)" "length label = unat ?b" "unat ?b < 64"
      using label plain by (auto simp: get_range_def plain_length_byte split: if_splits)
    have "drop (Suc pos) packet = label @ drop (pos + 1 + unat ?b) packet"
      using l(1) append_take_drop_id [of "unat ?b" "drop (Suc pos) packet"] by (simp add: add.commute)
    with drop have d: "drop pos packet = ?b # label @ drop (pos + 1 + unat ?b) packet" by simp
    have n: "pos' - pos = Suc (length label + length (encode_labels ls))" using ls(3) l(2) by simp
    have "take (length (encode_labels ls)) (drop (pos + 1 + unat ?b) packet) = encode_labels ls"
      using ls(3,5) by simp
    then have "take (pos' - pos) (drop pos packet) = encode_labels (label # ls)"
      unfolding n d by (simp add: l(2))
    with ls l False show ?thesis by (intro exI [of _ "label # ls"]) auto
  qed
qed

lemma dns_query_parse_ok:
  assumes "dns_query_parse packet = Inr q"
  shows "\<exists>ls t. labels_ok ls \<and> dq_name q = join ''.'' (map utf8_lossy ls) \<and>
    dq_question_bytes q = encode_labels ls @ t \<and> length t = 4 \<and>
    12 \<le> length packet \<and> dq_id q = u16_at packet 0 \<and> u16_at packet 2 AND 0x8000 = 0 \<and>
    12 + length (dq_question_bytes q) \<le> length packet"
proof -
  obtain labels pos bs where p: "12 \<le> length packet" "u16_at packet 2 AND 0x8000 = 0"
    "parse_labels packet 12 [] = Inr (labels, pos)" "get_range packet pos (pos + 4) = Some bs"
    and q: "dq_id q = u16_at packet 0" "dq_name q = join ''.'' labels"
    "dq_question_bytes q = take (pos + 4 - 12) (drop 12 packet)"
    using assms by (auto simp: dns_query_parse_def Let_def and_then_eq_Inr guard_eq_Inr split: option.splits)
  obtain ls where ls: "labels_ok ls" "labels = map utf8_lossy ls" "pos = 12 + length (encode_labels ls)"
    "take (pos - 12) (drop 12 packet) = encode_labels ls"
    using parse_labels_shape [OF p(3)] by auto
  have "take (pos + 4 - 12) (drop 12 packet) = encode_labels ls @ take 4 (drop pos packet)"
    using ls(3,4) by (simp add: take_add add.commute)
  moreover have "length (take 4 (drop pos packet)) = 4" "pos + 4 \<le> length packet"
    using p(4) by (auto simp: get_range_def split: if_splits)
  ultimately show ?thesis using ls p q by auto
qed

subsection \<open>Answer records\<close>

fun ip_ok :: "ip_addr \<Rightarrow> bool" where
  "ip_ok (IpV4 o4) = (length o4 = 4)"
| "ip_ok (IpV6 o6) = (length o6 = 16)"

text \<open>Every record is a pointer to the question name, ten fixed bytes, and the octets.\<close>

definition fixed_part :: "u16 \<Rightarrow> u32 \<Rightarrow> u16 \<Rightarrow> bytes" where
  "fixed_part rtype ttl rdlen = u16_to_be rtype @ u16_to_be 1 @ u32_to_be ttl @ u16_to_be rdlen"

lemma length_fixed_part [simp]: "length (fixed_part rtype ttl rdlen) = 10"
  by (simp add: fixed_part_def)

lemma fixed_part_fields:
  "u16_at (fixed_part rtype ttl rdlen) 0 = rtype" "u16_at (fixed_part rtype ttl rdlen) 8 = rdlen"
  "u32_from_be (fixed_part rtype ttl rdlen ! 4) (fixed_part rtype ttl rdlen ! 5)
     (fixed_part rtype ttl rdlen ! 6) (fixed_part rtype ttl rdlen ! 7) = ttl"
proof -
  show "u16_at (fixed_part rtype ttl rdlen) 0 = rtype"
    using u16_at_append [of "[]" rtype] by (simp add: fixed_part_def)
  show "u16_at (fixed_part rtype ttl rdlen) 8 = rdlen"
    using u16_at_append [of "u16_to_be rtype @ u16_to_be 1 @ u32_to_be ttl" rdlen "[]"]
    by (simp add: fixed_part_def)
  obtain a b c d where ttl: "u32_to_be ttl = [a, b, c, d]" by (simp add: u32_to_be_def)
  with u32_be_roundtrip [of ttl] have "u32_from_be a b c d = ttl" by simp
  moreover obtain e f g h where "u16_to_be rtype = [e, f]" "u16_to_be 1 = [g, h]" by (simp add: u16_to_be_def)
  ultimately show "u32_from_be (fixed_part rtype ttl rdlen ! 4) (fixed_part rtype ttl rdlen ! 5)
     (fixed_part rtype ttl rdlen ! 6) (fixed_part rtype ttl rdlen ! 7) = ttl"
    by (simp add: fixed_part_def ttl)
qed

lemma answer_record_parts:
  assumes "ip_ok ip"
  obtains rtype rdlen where
    "answer_record ttl ip = [0xC0, 0x0C] @ fixed_part rtype ttl rdlen @ ip_octets ip"
    "unat rdlen = length (ip_octets ip)"
    "(if rtype = 1 \<and> unat rdlen = 4 then acc @ [(IpV4 (ip_octets ip), ttl)]
      else if rtype = 28 \<and> unat rdlen = 16 then acc @ [(IpV6 (ip_octets ip), ttl)] else acc) = acc @ [(ip, ttl)]"
proof (cases ip)
  case (IpV4 o4)
  with assms show ?thesis by (intro that [of 1 4]) (simp_all add: fixed_part_def)
next
  case (IpV6 o6)
  with assms show ?thesis by (intro that [of 28 16]) (simp_all add: fixed_part_def)
qed

lemma read_answers_written:
  "\<forall>ip \<in> set ips. ip_ok ip \<Longrightarrow>
     read_answers (pre @ concat (map (answer_record ttl) ips) @ suf) (length ips) (length pre) acc =
       Inr (acc @ map (\<lambda>ip. (ip, ttl)) ips)"
proof (induction ips arbitrary: pre acc)
  case (Cons ip ips)
  let ?rest = "concat (map (answer_record ttl) ips) @ suf"
  have ok: "ip_ok ip" using Cons.prems by simp
  obtain rtype rdlen where r: "answer_record ttl ip = [0xC0, 0x0C] @ fixed_part rtype ttl rdlen @ ip_octets ip"
    and len: "unat rdlen = length (ip_octets ip)"
    and add: "(if rtype = 1 \<and> unat rdlen = 4 then acc @ [(IpV4 (ip_octets ip), ttl)]
      else if rtype = 28 \<and> unat rdlen = 16 then acc @ [(IpV6 (ip_octets ip), ttl)] else acc) = acc @ [(ip, ttl)]"
    by (rule answer_record_parts [OF ok, where ttl = ttl and acc = acc]) (rule that; assumption)
  let ?p = "pre @ concat (map (answer_record ttl) (ip # ips)) @ suf"
  have p: "?p = pre @ [0xC0, 0x0C] @ fixed_part rtype ttl rdlen @ ip_octets ip @ ?rest" by (simp add: r)
  have name: "skip_name ?p (length pre) = Inr (length pre + 2)"
    unfolding p by (subst skip_name.simps) (simp add: pointer_byte)
  have fixed: "get_range ?p (length pre + 2) (length pre + 2 + 10) = Some (fixed_part rtype ttl rdlen)"
    unfolding p using get_range_append [of "pre @ [0xC0, 0x0C]" "fixed_part rtype ttl rdlen" "ip_octets ip @ ?rest"]
    by simp
  have data: "get_range ?p (length pre + 2 + 10) (length pre + 2 + 10 + unat rdlen) = Some (ip_octets ip)"
    unfolding p len
    using get_range_append [of "pre @ [0xC0, 0x0C] @ fixed_part rtype ttl rdlen" "ip_octets ip" ?rest]
    by (simp add: add.assoc add.commute add.left_commute)
  have IH: "read_answers ?p (length ips) (length pre + 2 + 10 + unat rdlen) (acc @ [(ip, ttl)]) =
      Inr (acc @ (ip, ttl) # map (\<lambda>ip. (ip, ttl)) ips)"
    using Cons.IH [of "pre @ [0xC0, 0x0C] @ fixed_part rtype ttl rdlen @ ip_octets ip" "acc @ [(ip, ttl)]"]
      Cons.prems unfolding p len by (simp add: add.assoc add.commute add.left_commute)
  show ?case
    unfolding list.size(4) add_Suc_right add_0_right read_answers.simps name and_then.simps fixed option.case Let_def
      fixed_part_fields data add using IH by simp
qed simp

end
