(* ===== verification/Dns_Server.thy ===== *)
theory Dns_Server
  imports Root Dns_Wire
begin

unbundle bit_operations_syntax

text \<open>
  \<open>crates/federate-dns/src/lib.rs\<close>: which names the server answers itself, what it answers, and the
  framing on TCP. The verified root zone, the current gateway addresses and what arrives from the
  upstream server are arguments; sockets, tasks and time-outs are not modelled beyond that.
\<close>

definition DEFAULT_TTL_SECS :: u32 where
  "DEFAULT_TTL_SECS = 30"

definition MAX_ANSWERS :: nat where
  "MAX_ANSWERS = 8"

definition MAX_TCP_MESSAGE :: nat where
  "MAX_TCP_MESSAGE = 4096"

record dns_server =
  ds_ttl :: u32
  ds_gateways :: "ip_addr list"
  ds_fixed_answers :: "ip_addr list"

definition is_federate_name :: "'x deps_scheme \<Rightarrow> int \<Rightarrow> root_zone result \<Rightarrow> string \<Rightarrow> bool" where
  "is_federate_name E clock root name =
     (let t = rsplit_first (CHR ''.'') (trim_end_matches (CHR ''.'') name)
      in if t = [] then False
         else
           let tld = to_ascii_lowercase t
           in (case root of
                 Inl _ \<Rightarrow> False
               | Inr zone \<Rightarrow>
                   (case root_zone_lookup_tld zone tld of
                      None \<Rightarrow> False
                    | Some rec \<Rightarrow> tld_status_is_resolvable (tr_status rec) \<and> \<not> tld_record_is_expired E clock rec)))"

text \<open>
  The datagrams that arrive on the connected socket before the deadline, or \<open>None\<close> if the socket
  failed; each is cut at the buffer's 4096 bytes, and the first with the query's id is the answer.
\<close>

definition forward_upstream :: "bytes list option \<Rightarrow> u16 \<Rightarrow> bytes option" where
  "forward_upstream datagrams query_id =
     (case datagrams of
        None \<Rightarrow> None
      | Some ds \<Rightarrow> List.find (\<lambda>buf. 2 \<le> length buf \<and> u16_at buf 0 = query_id) (map (take 4096) ds))"

definition federate_answers :: "dns_server \<Rightarrow> query_type \<Rightarrow> ip_addr list" where
  "federate_answers server qtype =
     (let ips = (if ds_fixed_answers server = [] then ds_gateways server else ds_fixed_answers server);
          (v4, v6) = partition is_ipv4 ips;
          answers = (case qtype of QueryA \<Rightarrow> v4 | QueryAaaa \<Rightarrow> v6 | QueryOther _ \<Rightarrow> [])
      in take MAX_ANSWERS answers)"

definition handle_packet ::
  "'x deps_scheme \<Rightarrow> int \<Rightarrow> root_zone result \<Rightarrow> (bytes \<Rightarrow> bytes list option) \<Rightarrow> dns_server \<Rightarrow> bytes
     \<Rightarrow> bytes option" where
  "handle_packet E clock root upstream server packet =
     (case dns_query_parse packet of
        Inl _ \<Rightarrow> None
      | Inr query \<Rightarrow>
          if is_federate_name E clock root (dq_name query)
          then
            let answers = federate_answers server (dq_qtype query)
            in if answers = [] \<and> dq_qtype query = QueryA then Some (build_servfail query)
               else Some (build_response query answers (ds_ttl server))
          else (case forward_upstream (upstream packet) (dq_id query) of
              Some reply \<Rightarrow> Some reply
            | None \<Rightarrow> Some (build_servfail query)))"

text \<open>
  One TCP connection: \<open>input\<close> is what the client sends before it closes or goes idle, the result what
  it receives.
\<close>

function serve_tcp_conn :: "(bytes \<Rightarrow> bytes option) \<Rightarrow> bytes \<Rightarrow> bytes" where
  "serve_tcp_conn handler input =
     (if length input < 2 then []
      else
        let len = unat (u16_at input 0); rest = drop 2 input
        in if len = 0 \<or> MAX_TCP_MESSAGE < len then []
           else if length rest < len then []
           else (case handler (take len rest) of
               None \<Rightarrow> []
             | Some reply \<Rightarrow>
                 if 65535 < length reply then []
                 else u16_to_be (of_nat (length reply)) @ reply @ serve_tcp_conn handler (drop len rest)))"
  by auto
termination by (relation "measure (\<lambda>(_, input). length input)") auto

declare serve_tcp_conn.simps [simp del]

subsection \<open>Names\<close>

lemma split_char_snoc: "split_char c (s @ [c]) = split_char c s @ [[]]"
proof (induction s)
  case (Cons x s)
  obtain p ps where "split_char c s = p # ps" by (cases "split_char c s") auto
  with Cons show ?case by simp
qed simp

lemma trim_end_dots:
  assumes "[] \<notin> set (split_char c s)"
  shows "trim_end_matches c (s @ replicate n c) = s"
proof (cases s rule: rev_cases)
  case (snoc p x)
  have "x \<noteq> c"
  proof
    assume "x = c"
    with snoc assms show False by (simp add: split_char_snoc)
  qed
  moreover have "dropWhile (\<lambda>x. x = c) (replicate n c @ ys) = dropWhile (\<lambda>x. x = c) ys" for ys
    by (induction n) auto
  ultimately show ?thesis by (simp add: trim_end_matches_def snoc)
qed (use assms in simp)

lemma u16_flags: "u16_at (u16_to_be a @ u16_to_be b @ u16_to_be c @ u16_to_be d @ r) 0 = a"
  "u16_at (u16_to_be a @ u16_to_be b @ u16_to_be c @ u16_to_be d @ r) 2 = b"
  "u16_at (u16_to_be a @ u16_to_be b @ u16_to_be c @ u16_to_be d @ r) 4 = c"
  "u16_at (u16_to_be a @ u16_to_be b @ u16_to_be c @ u16_to_be d @ r) 6 = d"
  using u16_at_append [of "[]" a] u16_at_append [of "u16_to_be a" b]
    u16_at_append [of "u16_to_be a @ u16_to_be b" c] u16_at_append [of "u16_to_be a @ u16_to_be b @ u16_to_be c" d]
  by simp_all

lemma parse_built_query:
  assumes "\<forall>l \<in> set (split_char (CHR ''.'') name). 0 < length l \<and> length l < 64 \<and> utf8_valid (bytes_of_str l)"
  shows "\<exists>q. dns_query_parse (build_query query_id (name @ replicate n (CHR ''.'')) qtype) = Inr q \<and>
    dq_id q = query_id \<and> dq_name q = name \<and> dq_qtype q = query_type_from_u16 qtype \<and> dq_recursion_desired q"
proof -
  let ?ls = "map bytes_of_str (split_char (CHR ''.'') name)"
  let ?head = "u16_to_be query_id @ u16_to_be 0x0100 @ u16_to_be 1 @ u16_to_be 0 @ replicate 4 0"
  let ?tail = "u16_to_be qtype @ u16_to_be 1"
  have trim: "trim_end_matches (CHR ''.'') (name @ replicate n (CHR ''.'')) = name"
  proof (rule trim_end_dots)
    show "[] \<notin> set (split_char (CHR ''.'') name)"
    proof
      assume "[] \<in> set (split_char (CHR ''.'') name)"
      then have "0 < length ([] :: string)" using assms by blast
      then show False by simp
    qed
  qed
  have "u16_to_be 0 = replicate 2 0" by (simp add: u16_to_be_def numeral_2_eq_2)
  then have six: "replicate 6 (0 :: byte) = u16_to_be 0 @ replicate 4 0" by (simp flip: replicate_add)
  define p where "p = ?head @ encode_labels ?ls @ ?tail"
  have packet: "build_query query_id (name @ replicate n (CHR ''.'')) qtype = p"
    unfolding build_query_def trim six p_def by (simp add: encode_labels_def o_def)
  have head: "length ?head = 12" by simp
  have labels: "map utf8_lossy ?ls = split_char (CHR ''.'') name"
    using assms by (simp add: map_idI utf8_lossy_valid)
  have ok: "labels_ok ?ls" using assms by (simp add: labels_ok_def bytes_of_str_def)
  have parse: "parse_labels p 12 [] = Inr (split_char (CHR ''.'') name, 12 + length (encode_labels ?ls))"
    unfolding p_def using parse_labels_encoded [OF ok, of ?head ?tail "[]"] labels head by simp
  have range: "get_range p (12 + length (encode_labels ?ls)) (12 + length (encode_labels ?ls) + 4) = Some ?tail"
    unfolding p_def using get_range_append [of "?head @ encode_labels ?ls" ?tail "[]"] head by simp
  have tail: "u16_at ?tail 0 = qtype" using u16_at_append [of "[]" qtype] by simp
  have fields: "\<not> length p < 12" "u16_at p 0 = query_id" "u16_at p 2 = 0x0100" "u16_at p 4 = 1"
    by (simp_all add: p_def u16_flags)
  have "dns_query_parse p = Inr \<lparr>dq_id = query_id, dq_name = name, dq_qtype = query_type_from_u16 qtype,
      dq_question_bytes = take (12 + length (encode_labels ?ls) + 4 - 12) (drop 12 p),
      dq_recursion_desired = True\<rparr>"
    unfolding dns_query_parse_def Let_def fields parse
    by (simp add: fields(1) range [simplified] tail join_split_char)
  then show ?thesis unfolding packet by simp
qed

text \<open>
  A query packet built for a name is read back as that name: for a name of non-empty labels of at
  most 63 bytes of UTF-8, with any number of dots at its end, the parser answers the name without those
  dots, the query's id and type, and that recursion is desired.
\<close>

lemma dns_query_roundtrip:
  assumes "\<forall>l \<in> set (split_char (CHR ''.'') name). 0 < length l \<and> length l < 64 \<and> utf8_valid (bytes_of_str l)"
  shows "\<exists>q. dns_query_parse (build_query query_id (name @ replicate n (CHR ''.'')) qtype) = Inr q \<and>
    dq_id q = query_id \<and> dq_name q = name \<and> dq_qtype q = query_type_from_u16 qtype \<and> dq_recursion_desired q"
  using assms by (rule parse_built_query)

lemma sample_name_labels:
  "\<forall>l \<in> set (split_char (CHR ''.'') ''home.fed''). 0 < length l \<and> length l < 64 \<and> utf8_valid (bytes_of_str l)"
  by code_simp

lemma dns_query_roundtrip_witness:
  "\<exists>q. dns_query_parse (build_query 7 ''home.fed.'' 28) = Inr q \<and> dq_name q = ''home.fed'' \<and> dq_qtype q = QueryAaaa"
  using dns_query_roundtrip [OF sample_name_labels, of 7 1 28] by (auto simp: query_type_from_u16_def)

subsection \<open>Replies\<close>

definition reply_flags :: "dns_query \<Rightarrow> byte \<Rightarrow> u16" where
  "reply_flags query rcode =
     ((if dq_recursion_desired query then 0x8000 OR 0x0400 OR 0x0100 else 0x8000 OR 0x0400) OR 0x0080)
       OR (ucast rcode AND 0x000F)"

lemma dns_header_parts:
  "dns_header query rcode n = u16_to_be (dq_id query) @ u16_to_be (reply_flags query rcode) @ u16_to_be 1 @
     u16_to_be n @ u16_to_be 0 @ u16_to_be 0"
  by (simp add: dns_header_def reply_flags_def Let_def)

lemma reply_flags_bits:
  "ucast (reply_flags query 0 AND 0x000F) = (0 :: byte)" "ucast (reply_flags query 2 AND 0x000F) = (2 :: byte)"
  "reply_flags query 0 AND 0x8000 \<noteq> 0" "reply_flags query 2 AND 0x8000 \<noteq> 0"
  by (cases "dq_recursion_desired query"; simp add: reply_flags_def)+

lemma length_dns_header [simp]: "length (dns_header query rcode n) = 12"
  by (simp add: dns_header_parts)

lemma header_fields:
  "u16_at (dns_header query rcode n @ r) 0 = dq_id query"
  "u16_at (dns_header query rcode n @ r) 2 = reply_flags query rcode"
  "u16_at (dns_header query rcode n @ r) 4 = 1"
  "u16_at (dns_header query rcode n @ r) 6 = n"
  by (simp_all add: dns_header_parts u16_flags)

lemma reply_read_back:
  fixes ttl :: u32
  assumes q: "dns_query_parse packet = Inr q" and ips: "\<forall>ip \<in> set ips. ip_ok ip" "unat n = length ips"
    and rc: "ucast (reply_flags q rcode AND 0x000F) = rcode" "reply_flags q rcode AND 0x8000 \<noteq> 0"
  defines "reply \<equiv> dns_header q rcode n @ dq_question_bytes q @ concat (map (answer_record ttl) ips)"
  shows "parse_answers reply = Inr (rcode, map (\<lambda>ip. (ip, ttl)) ips) \<and>
    dns_query_parse reply = Inl ''not a query'' \<and> u16_at reply 0 = dq_id q"
proof -
  obtain ls t where ls: "labels_ok ls" "dq_question_bytes q = encode_labels ls @ t" "length t = 4"
    using dns_query_parse_ok [OF q] by blast
  let ?answers = "concat (map (answer_record ttl) ips)"
  have len: "\<not> length reply < 12" by (simp add: reply_def)
  have name: "skip_name reply 12 = Inr (12 + length (encode_labels ls))"
    using skip_name_encoded [OF ls(1), of "dns_header q rcode n" "t @ ?answers"] by (simp add: reply_def ls(2))
  have questions: "skip_questions reply (Suc 0) 12 = Inr (12 + length (encode_labels ls) + 4)"
    by (simp add: name)
  have answers: "read_answers reply (length ips) (12 + length (encode_labels ls) + 4) [] =
      Inr (map (\<lambda>ip. (ip, ttl)) ips)"
    using read_answers_written [OF ips(1), of "dns_header q rcode n @ encode_labels ls @ t" ttl "[]" "[]"] ls(2,3)
    by (simp add: reply_def add.assoc)
  have "parse_answers reply = Inr (rcode, map (\<lambda>ip. (ip, ttl)) ips)"
    using questions answers len rc(1) ips(2)
    by (simp add: parse_answers_def Let_def) (simp add: reply_def header_fields)
  moreover have "dns_query_parse reply = Inl ''not a query''"
    using rc(2) len by (simp add: dns_query_parse_def Let_def) (simp add: reply_def header_fields)
  ultimately show ?thesis by (simp add: reply_def header_fields)
qed

text \<open>
  C27: What the server writes a client reads: for every query that parses, the reply built from any list
  of fewer than 65536 addresses is read back as exactly these addresses with the given time to live and
  no error, and the failure reply as the failure code without addresses; both carry the query's id, and
  neither is ever taken for a query, so two servers cannot answer each other forever.
\<close>

theorem dns_reply_read_back:
  assumes "dns_query_parse packet = Inr q" and "\<forall>ip \<in> set ips. ip_ok ip" and "length ips < 65536"
  shows "parse_answers (build_response q ips ttl) = Inr (0, map (\<lambda>ip. (ip, ttl)) ips) \<and>
    parse_answers (build_servfail q) = Inr (2, []) \<and>
    dns_query_parse (build_response q ips ttl) = Inl ''not a query'' \<and>
    dns_query_parse (build_servfail q) = Inl ''not a query'' \<and>
    u16_at (build_response q ips ttl) 0 = u16_at packet 0 \<and> u16_at (build_servfail q) 0 = u16_at packet 0"
proof -
  have n: "unat (of_nat (length ips) :: u16) = length ips" using assms(3) by (simp add: unat_of_nat)
  have "dq_id q = u16_at packet 0" using dns_query_parse_ok [OF assms(1)] by blast
  then show ?thesis
    using reply_read_back [OF assms(1,2) n reply_flags_bits(1,3), of ttl]
      reply_read_back [OF assms(1), of "[]" 0 2 ttl] reply_flags_bits(2,4)
    by (simp add: build_response_def build_servfail_def)
qed

theorem dns_reply_read_back_witness:
  "\<exists>q. dns_query_parse (build_query 7 ''home.fed'' 1) = Inr q \<and>
     parse_answers (build_response q [IpV4 [45, 1, 1, 1]] 30) = Inr (0, [(IpV4 [45, 1, 1, 1], 30)])"
proof -
  obtain q where q: "dns_query_parse (build_query 7 ''home.fed'' 1) = Inr q"
    using parse_built_query [OF sample_name_labels, of 7 0 1] by auto
  with dns_reply_read_back [OF q, of "[IpV4 [45, 1, 1, 1]]" 30] show ?thesis by simp
qed

subsection \<open>The server's decisions\<close>

lemma length_answer_records:
  "\<forall>ip \<in> set ips. ip_ok ip \<Longrightarrow> length (concat (map (answer_record ttl) ips)) \<le> 28 * length ips"
proof (induction ips)
  case (Cons ip ips)
  then show ?case by (cases ip) auto
qed simp

lemma federate_answers_from:
  "set (federate_answers server qtype) \<subseteq>
     (set (if ds_fixed_answers server = [] then ds_gateways server else ds_fixed_answers server) \<inter>
      {ip. (qtype = QueryA \<longrightarrow> is_ipv4 ip) \<and> (qtype = QueryAaaa \<longrightarrow> \<not> is_ipv4 ip)})"
  "length (federate_answers server qtype) \<le> MAX_ANSWERS"
  by (cases qtype; auto simp: federate_answers_def Let_def dest!: in_set_takeD)+


subsection \<open>Framing\<close>

definition tcp_frame :: "bytes \<Rightarrow> bytes" where
  "tcp_frame p = u16_to_be (of_nat (length p)) @ p"

text \<open>
  C29: A TCP client gets the answers a UDP client gets: on a connection that carries any sequence of
  framed queries of at most 4096 bytes, each with an answer, the server sends exactly the framed
  answers of the packet handler, in order; a last incomplete frame is dropped.
\<close>

theorem tcp_serves_like_udp:
  assumes "\<forall>p \<in> set packets. 0 < length p \<and> length p \<le> 4096 \<and>
      (\<exists>r. handler p = Some r \<and> length r \<le> 65535)"
    and "length rest < 2"
  shows "serve_tcp_conn handler (concat (map tcp_frame packets) @ rest) =
    concat (map (\<lambda>p. tcp_frame (the (handler p))) packets)"
  using assms
proof (induction packets)
  case Nil
  then show ?case by (subst serve_tcp_conn.simps) simp
next
  case (Cons p packets)
  let ?input = "concat (map tcp_frame (p # packets)) @ rest"
  obtain r where r: "handler p = Some r" "length r \<le> 65535" using Cons.prems by auto
  have p: "p \<noteq> []" "length p \<le> 4096" using Cons.prems by auto
  have len: "unat (u16_at ?input 0) = length p"
    using p u16_at_append [of "[]" "of_nat (length p)"] by (simp add: tcp_frame_def unat_of_nat)
  have rest: "drop 2 ?input = p @ concat (map tcp_frame packets) @ rest" by (simp add: tcp_frame_def)
  have IH: "serve_tcp_conn handler (concat (map tcp_frame packets) @ rest) =
      concat (map (\<lambda>p. tcp_frame (the (handler p))) packets)"
    using Cons by simp
  have long: "\<not> length ?input < 2" by (simp add: tcp_frame_def)
  show ?case
    unfolding serve_tcp_conn.simps [of handler ?input] Let_def len rest
    using p r long IH by (simp add: MAX_TCP_MESSAGE_def tcp_frame_def)
qed


theorem tcp_serves_like_udp_witness:
  "serve_tcp_conn (\<lambda>p. Some (rev p)) (tcp_frame [1, 2, 3] @ tcp_frame [4, 5] @ [0])
     = tcp_frame [3, 2, 1] @ tcp_frame [5, 4]"
  using tcp_serves_like_udp [of "[[1, 2, 3], [4, 5]]" "\<lambda>p. Some (rev p)" "[0]"] by simp

end
