(* ===== verification/Native_Protocol.thy ===== *)
theory Native_Protocol
  imports Codec Identity
begin

text \<open>
  \<open>crates/federate-protocol/src/lib.rs\<close> and \<open>crates/federate-transport/src/lib.rs\<close>: messages,
  version negotiation, frames, and the two ends of a session. A connection is the bytes the peer will
  still send, how reading ends after them, the bytes sent so far, and whether sending fails.
  \<open>mc\<close> is \<open>serde_json\<close> for messages.
\<close>

subsection \<open>Messages\<close>

definition SUPPORTED_VERSIONS :: "u16 list" where
  "SUPPORTED_VERSIONS = [1, 0]"

definition VERSION_DELEGATED_REGISTRIES :: u16 where
  "VERSION_DELEGATED_REGISTRIES = 1"

definition MAX_FRAME_BYTES :: nat where
  "MAX_FRAME_BYTES = 68 * 1024 * 1024"

datatype capability = CapRoot | CapManifests | CapBlocks | CapProviders | CapTldRegistries

datatype error_code = Unsupported | NotFound | BadRequest | Unavailable

text \<open>The derived \<open>{:?}\<close> form.\<close>

fun error_code_debug :: "error_code \<Rightarrow> string" where
  "error_code_debug Unsupported = ''Unsupported''"
| "error_code_debug NotFound = ''NotFound''"
| "error_code_debug BadRequest = ''BadRequest''"
| "error_code_debug Unavailable = ''Unavailable''"

datatype message =
    Hello (hello_versions: "u16 list") (msg_node_id: string) (msg_agent: string)
  | Welcome (welcome_version: u16) (msg_node_id: string) (msg_agent: string)
      (welcome_capabilities: "capability list")
  | GetRoot
  | RootMsg (zone_bytes: bytes)
  | GetManifest (msg_hash: string)
  | ManifestMsg (msg_hash: string) (msg_bytes: bytes)
  | GetBlock (msg_hash: string)
  | BlockMsg (msg_hash: string) (msg_bytes: bytes)
  | GetProviders (msg_hash: string)
  | ProvidersMsg (msg_hash: string) (nodes_bytes: bytes)
  | GetTldRegistry (msg_tld: string)
  | TldRegistryMsg (msg_tld: string) (registry_bytes: bytes)
  | GetDomainRecord (msg_fqdn: string)
  | DomainRecordMsg (msg_fqdn: string) (record_bytes: bytes)
  | GetStatus
  | StatusMsg (msg_node_id: string) (status_roles: "string list") (status_region: string)
      (msg_agent: string) (status_root_version: "nat option")
  | ErrorMsg (err_code: error_code) (err_detail: string)

definition negotiate :: "u16 list \<Rightarrow> u16 list \<Rightarrow> u16 option" where
  "negotiate ours theirs =
     (let shared = filter (\<lambda>v. v \<in> set theirs) ours
      in if shared = [] then None else Some (Max (set shared)))"

subsection \<open>Frames\<close>

definition encode_frame :: "message codec \<Rightarrow> message \<Rightarrow> bytes result" where
  "encode_frame mc msg =
     (let body = to_vec mc msg
      in if MAX_FRAME_BYTES < length body
         then Inl (NetworkError (''message exceeds frame cap ('' @ show_nat (length body) @ '' > '' @
           show_nat MAX_FRAME_BYTES @ '' bytes)''))
         else Inr (u32_to_be (of_nat (length body)) @ body))"

definition frame_len :: "byte \<Rightarrow> byte \<Rightarrow> byte \<Rightarrow> byte \<Rightarrow> nat result" where
  "frame_len a b c d =
     (let len = unat (u32_from_be a b c d)
      in if len = 0 \<or> MAX_FRAME_BYTES < len
         then Inl (NetworkError (''invalid frame length '' @ show_nat len @ '' (cap '' @
           show_nat MAX_FRAME_BYTES @ '')''))
         else Inr len)"

definition decode_frame :: "message codec \<Rightarrow> bytes \<Rightarrow> message result" where
  "decode_frame mc body = decode_as mc body"

subsection \<open>Connections\<close>

definition MAX_REQUESTS_PER_CONNECTION :: nat where
  "MAX_REQUESTS_PER_CONNECTION = 10000"

record connection =
  cn_input :: bytes
  cn_end :: string
  cn_output :: bytes
  cn_send_error :: "string option"
  cn_version :: u16

definition conn_send :: "message codec \<Rightarrow> message \<Rightarrow> connection \<Rightarrow> unit result \<times> connection" where
  "conn_send mc msg conn =
     (case encode_frame mc msg of
        Inl e \<Rightarrow> (Inl e, conn)
      | Inr frame \<Rightarrow>
          (case cn_send_error conn of
             Some e \<Rightarrow> (Inl (NetworkError e), conn)
           | None \<Rightarrow> (Inr (), conn\<lparr>cn_output := cn_output conn @ frame\<rparr>)))"

text \<open>\<open>read_exact\<close>: all \<open>n\<close> bytes or an error, and then the rest of the input is gone.\<close>

definition read_exact :: "nat \<Rightarrow> connection \<Rightarrow> bytes result \<times> connection" where
  "read_exact n conn =
     (if length (cn_input conn) < n then (Inl (NetworkError (cn_end conn)), conn\<lparr>cn_input := []\<rparr>)
      else (Inr (take n (cn_input conn)), conn\<lparr>cn_input := drop n (cn_input conn)\<rparr>))"

definition conn_recv :: "message codec \<Rightarrow> connection \<Rightarrow> message result \<times> connection" where
  "conn_recv mc conn =
     (case read_exact 4 conn of
        (Inl e, conn) \<Rightarrow> (Inl e, conn)
      | (Inr prefix, conn) \<Rightarrow>
          (case frame_len (prefix ! 0) (prefix ! 1) (prefix ! 2) (prefix ! 3) of
             Inl e \<Rightarrow> (Inl e, conn)
           | Inr len \<Rightarrow>
               (case read_exact len conn of
                  (Inl e, conn) \<Rightarrow> (Inl e, conn)
                | (Inr body, conn) \<Rightarrow> (decode_frame mc body, conn))))"

definition conn_request :: "message codec \<Rightarrow> message \<Rightarrow> connection \<Rightarrow> message result \<times> connection" where
  "conn_request mc msg conn =
     (case conn_send mc msg conn of
        (Inl e, conn) \<Rightarrow> (Inl e, conn)
      | (Inr _, conn) \<Rightarrow> conn_recv mc conn)"

text \<open>
  \<open>connect\<close> on a fresh stream; \<open>debug\<close> renders what the error messages quote with \<open>{:?}\<close>.
\<close>

definition conn_connect ::
  "message codec \<Rightarrow> (message \<Rightarrow> string) \<Rightarrow> connection \<Rightarrow> string \<Rightarrow> string
     \<Rightarrow> (connection \<times> message) result" where
  "conn_connect mc debug stream node agent =
     (let conn = stream\<lparr>cn_version := 0\<rparr> in
      case conn_send mc (Hello SUPPORTED_VERSIONS node agent) conn of
        (Inl e, _) \<Rightarrow> Inl e
      | (Inr _, conn) \<Rightarrow>
          (case conn_recv mc conn of
             (Inl e, _) \<Rightarrow> Inl e
           | (Inr welcome, conn) \<Rightarrow>
               (case welcome of
                  Welcome version _ _ _ \<Rightarrow>
                    if version \<notin> set SUPPORTED_VERSIONS
                    then Inl (NetworkError (''peer chose unsupported protocol version '' @ show_nat (unat version)))
                    else Inr (conn\<lparr>cn_version := version\<rparr>, welcome)
                | ErrorMsg kind detail \<Rightarrow>
                    Inl (NetworkError (''handshake rejected: '' @ error_code_debug kind @ '': '' @ detail))
                | _ \<Rightarrow> Inl (NetworkError (''expected Welcome, got '' @ debug welcome)))))"

subsection \<open>Serving\<close>

text \<open>What a node answers with; \<open>'s\<close> is the state its handler works on.\<close>

record 's node_service =
  ns_node_id :: string
  ns_capabilities :: "capability list"
  ns_handle :: "'s \<Rightarrow> message \<Rightarrow> message \<times> 's"

fun serve_requests ::
  "message codec \<Rightarrow> 's node_service \<Rightarrow> nat \<Rightarrow> 's \<Rightarrow> connection \<Rightarrow> unit result \<times> 's \<times> connection" where
  "serve_requests mc svc 0 s conn = (Inr (), s, conn)"
| "serve_requests mc svc (Suc n) s conn =
     (case conn_recv mc conn of
        (Inl _, conn) \<Rightarrow> (Inr (), s, conn)
      | (Inr request, conn) \<Rightarrow>
          (case ns_handle svc s request of
             (response, s) \<Rightarrow>
               (case conn_send mc response conn of
                  (Inl e, conn) \<Rightarrow> (Inl e, s, conn)
                | (Inr _, conn) \<Rightarrow> serve_requests mc svc n s conn)))"

definition serve_conn ::
  "message codec \<Rightarrow> 's node_service \<Rightarrow> string \<Rightarrow> 's \<Rightarrow> connection \<Rightarrow> unit result \<times> 's \<times> connection" where
  "serve_conn mc svc agent s conn =
     (case conn_recv mc conn of
        (Inl e, conn) \<Rightarrow> (Inl e, s, conn)
      | (Inr hello, conn) \<Rightarrow>
          (case hello of
             Hello versions _ _ \<Rightarrow>
               (case negotiate SUPPORTED_VERSIONS versions of
                  None \<Rightarrow>
                    (case conn_send mc (ErrorMsg Unsupported
                        ''no shared protocol version (ours: [1, 0])'') conn of
                      (r, conn) \<Rightarrow> (r, s, conn))
                | Some version \<Rightarrow>
                    (case conn_send mc (Welcome version (ns_node_id svc) agent (ns_capabilities svc)) conn of
                       (Inl e, conn) \<Rightarrow> (Inl e, s, conn)
                     | (Inr _, conn) \<Rightarrow> serve_requests mc svc MAX_REQUESTS_PER_CONNECTION s conn))
           | _ \<Rightarrow>
               (case conn_send mc (ErrorMsg BadRequest ''session must start with Hello'') conn of
                 (r, conn) \<Rightarrow> (r, s, conn))))"

end
