(* ===== verification/Native_Session.thy ===== *)
theory Native_Session
  imports Native_Protocol
begin

text \<open>
  The session protocol seen as messages, and its implementation on frames. \<open>serve_spec\<close> says what a
  node promises to a peer in terms of messages only; the byte-level \<open>serve_conn\<close> is shown to implement
  it, and the client end to read those answers back.
\<close>

subsection \<open>The contract\<close>

fun answer_all :: "'s node_service \<Rightarrow> 's \<Rightarrow> message list \<Rightarrow> message list \<times> 's" where
  "answer_all svc s [] = ([], s)"
| "answer_all svc s (m # ms) =
     (let (r, s1) = ns_handle svc s m; (rs, s2) = answer_all svc s1 ms in (r # rs, s2))"

definition no_shared_version :: message where
  "no_shared_version = ErrorMsg Unsupported ''no shared protocol version (ours: [1, 0])''"

definition must_start_with_hello :: message where
  "must_start_with_hello = ErrorMsg BadRequest ''session must start with Hello''"

fun serve_spec :: "'s node_service \<Rightarrow> string \<Rightarrow> 's \<Rightarrow> message list \<Rightarrow> message list \<times> 's" where
  "serve_spec svc agent s [] = ([], s)"
| "serve_spec svc agent s (Hello vs node peer # ms) =
     (case negotiate SUPPORTED_VERSIONS vs of
        None \<Rightarrow> ([no_shared_version], s)
      | Some v \<Rightarrow>
          (case answer_all svc s (take MAX_REQUESTS_PER_CONNECTION ms) of
             (rs, s') \<Rightarrow> (Welcome v (ns_node_id svc) agent (ns_capabilities svc) # rs, s')))"
| "serve_spec svc agent s (m # ms) = ([must_start_with_hello], s)"

text \<open>Messages that survive the wire: the codec reads back what it writes, within the frame cap.\<close>

definition sendable :: "message codec \<Rightarrow> message \<Rightarrow> bool" where
  "sendable mc m \<longleftrightarrow> to_vec mc m \<noteq> [] \<and> length (to_vec mc m) \<le> MAX_FRAME_BYTES
     \<and> from_slice mc (to_vec mc m) = Some m"

definition frame_of :: "message codec \<Rightarrow> message \<Rightarrow> bytes" where
  "frame_of mc m = u32_to_be (of_nat (length (to_vec mc m))) @ to_vec mc m"

definition frames :: "message codec \<Rightarrow> message list \<Rightarrow> bytes" where
  "frames mc ms = concat (map (frame_of mc) ms)"

lemma frames_simps [simp]: "frames mc [] = []" "frames mc (m # ms) = frame_of mc m @ frames mc ms"
  by (simp_all add: frames_def)

lemma frames_append [simp]: "frames mc (ms @ ns) = frames mc ms @ frames mc ns"
  by (simp add: frames_def)

subsection \<open>One frame\<close>

lemma encode_frame_sendable: "sendable mc m \<Longrightarrow> encode_frame mc m = Inr (frame_of mc m)"
  by (simp add: sendable_def encode_frame_def frame_of_def Let_def)

lemma frame_len_prefix:
  assumes "0 < n" "n \<le> MAX_FRAME_BYTES"
  shows "frame_len (u32_to_be (of_nat n) ! 0) (u32_to_be (of_nat n) ! 1)
    (u32_to_be (of_nat n) ! 2) (u32_to_be (of_nat n) ! 3) = Inr n"
proof -
  have "n < 4294967296" using assms by (simp add: MAX_FRAME_BYTES_def)
  then have "unat (of_nat n :: u32) = n" by (simp add: unat_of_nat)
  then show ?thesis
    unfolding frame_len_def u32_be_roundtrip Let_def using assms by simp
qed

lemma conn_recv_frame:
  assumes m: "sendable mc m" and inp: "cn_input conn = frame_of mc m @ rest"
  shows "conn_recv mc conn = (Inr m, conn\<lparr>cn_input := rest\<rparr>)"
proof -
  let ?n = "length (to_vec mc m)"
  have len: "0 < ?n" "?n \<le> MAX_FRAME_BYTES" using m by (simp_all add: sendable_def)
  have four: "take 4 (u32_to_be w) = u32_to_be w" "drop 4 (u32_to_be w) = []" for w
    by simp_all
  have p: "read_exact 4 conn
      = (Inr (u32_to_be (of_nat ?n)), conn\<lparr>cn_input := to_vec mc m @ rest\<rparr>)"
    by (simp add: read_exact_def inp frame_of_def four)
  have b: "read_exact ?n (conn\<lparr>cn_input := to_vec mc m @ rest\<rparr>)
      = (Inr (to_vec mc m), conn\<lparr>cn_input := rest\<rparr>)"
    by (simp add: read_exact_def)
  have d: "decode_frame mc (to_vec mc m) = Inr m"
    using m by (simp add: sendable_def decode_frame_def decode_as_def)
  show ?thesis
    unfolding conn_recv_def p prod.case sum.case frame_len_prefix [OF len] b d ..
qed

lemma conn_recv_end:
  assumes "cn_input conn = []"
  shows "conn_recv mc conn = (Inl (NetworkError (cn_end conn)), conn)"
  using assms by (cases conn) (simp add: conn_recv_def read_exact_def)

lemma conn_send_frame:
  assumes "sendable mc m" "cn_send_error conn = None"
  shows "conn_send mc m conn = (Inr (), conn\<lparr>cn_output := cn_output conn @ frame_of mc m\<rparr>)"
  using assms by (simp add: conn_send_def encode_frame_sendable)

subsection \<open>The server implements the contract\<close>

lemma serve_requests_refines:
  assumes "\<forall>m \<in> set ms. sendable mc m"
    and "\<forall>r \<in> set (fst (answer_all svc s (take n ms))). sendable mc r"
    and "cn_input conn = frames mc ms" "cn_send_error conn = None"
  shows "serve_requests mc svc n s conn =
    (Inr (), snd (answer_all svc s (take n ms)),
     conn\<lparr>cn_input := frames mc (drop n ms),
          cn_output := cn_output conn @ frames mc (fst (answer_all svc s (take n ms)))\<rparr>)"
  using assms
proof (induction n arbitrary: s ms conn)
  case 0
  then show ?case by (cases conn) simp
next
  case (Suc n)
  show ?case
  proof (cases ms)
    case Nil
    with Suc.prems show ?thesis by (cases conn) (simp add: conn_recv_end)
  next
    case (Cons m rest)
    obtain r s1 where h: "ns_handle svc s m = (r, s1)" by fastforce
    let ?conn1 = "conn\<lparr>cn_input := frames mc rest\<rparr>"
    let ?conn2 = "?conn1\<lparr>cn_output := cn_output conn @ frame_of mc r\<rparr>"
    have r: "sendable mc r" "\<forall>x \<in> set (fst (answer_all svc s1 (take n rest))). sendable mc x"
      using Suc.prems(2) by (simp_all add: Cons h split: prod.splits)
    have recv: "conn_recv mc conn = (Inr m, ?conn1)"
      using Suc.prems by (intro conn_recv_frame) (simp_all add: Cons)
    have send: "conn_send mc r ?conn1 = (Inr (), ?conn2)"
      using conn_send_frame [OF r(1), of ?conn1] Suc.prems by simp
    have "serve_requests mc svc (Suc n) s conn = serve_requests mc svc n s1 ?conn2"
      by (simp add: recv h send)
    also have "\<dots> = (Inr (), snd (answer_all svc s1 (take n rest)),
        ?conn2\<lparr>cn_input := frames mc (drop n rest),
          cn_output := cn_output ?conn2 @ frames mc (fst (answer_all svc s1 (take n rest)))\<rparr>)"
      using Suc.prems r(2) by (intro Suc.IH) (simp_all add: Cons)
    finally show ?thesis by (simp add: Cons h split: prod.splits)
  qed
qed

text \<open>What the input still holds when the server has stopped.\<close>

fun serve_unread :: "message list \<Rightarrow> message list" where
  "serve_unread [] = []"
| "serve_unread (Hello vs node peer # ms) =
     (case negotiate SUPPORTED_VERSIONS vs of None \<Rightarrow> ms
      | Some _ \<Rightarrow> drop MAX_REQUESTS_PER_CONNECTION ms)"
| "serve_unread (m # ms) = ms"

lemma serve_conn_refines:
  assumes ms: "\<forall>m \<in> set ms. sendable mc m"
    and rs: "\<forall>r \<in> set (fst (serve_spec svc agent s ms)). sendable mc r"
    and conn: "cn_input conn = frames mc ms" "cn_send_error conn = None"
  shows "serve_conn mc svc agent s conn =
    (if ms = [] then Inl (NetworkError (cn_end conn)) else Inr (), snd (serve_spec svc agent s ms),
     conn\<lparr>cn_input := frames mc (serve_unread ms),
          cn_output := cn_output conn @ frames mc (fst (serve_spec svc agent s ms))\<rparr>)"
proof (cases ms)
  case Nil
  with conn show ?thesis by (cases conn) (simp add: serve_conn_def conn_recv_end)
next
  case (Cons m rest)
  let ?conn1 = "conn\<lparr>cn_input := frames mc rest\<rparr>"
  have recv: "conn_recv mc conn = (Inr m, ?conn1)"
    using ms conn by (intro conn_recv_frame) (simp_all add: Cons)
  have ok: "cn_send_error ?conn1 = None" using conn by simp
  show ?thesis
  proof (cases "\<exists>vs node peer. m = Hello vs node peer")
    case False
    then have "serve_spec svc agent s ms = ([must_start_with_hello], s)" "serve_unread ms = rest"
      by (cases m; simp add: Cons)+
    moreover from this have "sendable mc must_start_with_hello" using rs by simp
    from conn_send_frame [OF this ok] have
      "serve_conn mc svc agent s conn =
         (Inr (), s, ?conn1\<lparr>cn_output := cn_output conn @ frame_of mc must_start_with_hello\<rparr>)"
      using False by (cases m) (simp_all add: serve_conn_def recv must_start_with_hello_def)
    ultimately show ?thesis by (simp add: Cons)
  next
    case True
    then obtain vs node peer where m: "m = Hello vs node peer" by blast
    show ?thesis
    proof (cases "negotiate SUPPORTED_VERSIONS vs")
      case None
      then have "sendable mc no_shared_version" using rs by (simp add: Cons m)
      from conn_send_frame [OF this ok] show ?thesis
        by (simp add: serve_conn_def recv Cons m None no_shared_version_def)
    next
      case (Some v)
      let ?w = "Welcome v (ns_node_id svc) agent (ns_capabilities svc)"
      let ?conn2 = "?conn1\<lparr>cn_output := cn_output conn @ frame_of mc ?w\<rparr>"
      let ?answers = "answer_all svc s (take MAX_REQUESTS_PER_CONNECTION rest)"
      have w: "sendable mc ?w" and a: "\<forall>r \<in> set (fst ?answers). sendable mc r"
        using rs by (simp_all add: Cons m Some split: prod.splits)
      have "serve_requests mc svc MAX_REQUESTS_PER_CONNECTION s ?conn2 =
        (Inr (), snd ?answers,
         ?conn2\<lparr>cn_input := frames mc (drop MAX_REQUESTS_PER_CONNECTION rest),
           cn_output := cn_output ?conn2 @ frames mc (fst ?answers)\<rparr>)"
        using ms conn a by (intro serve_requests_refines) (simp_all add: Cons)
      then show ?thesis
        using conn_send_frame [OF w ok]
        by (simp add: serve_conn_def recv Cons m Some split: prod.splits)
    qed
  qed
qed

subsection \<open>The client\<close>

text \<open>Requests one after another on an open connection.\<close>

fun request_all :: "message codec \<Rightarrow> message list \<Rightarrow> connection \<Rightarrow> message list result \<times> connection" where
  "request_all mc [] conn = (Inr [], conn)"
| "request_all mc (m # ms) conn =
     (case conn_request mc m conn of
        (Inl e, conn) \<Rightarrow> (Inl e, conn)
      | (Inr r, conn) \<Rightarrow>
          (case request_all mc ms conn of
             (Inl e, conn) \<Rightarrow> (Inl e, conn)
           | (Inr rs, conn) \<Rightarrow> (Inr (r # rs), conn)))"

lemma length_answer_all [simp]: "length (fst (answer_all svc s ms)) = length ms"
  by (induction ms arbitrary: s) (simp_all split: prod.splits, metis fst_conv)

lemma request_all_reads:
  assumes "length rs = length ms" "\<forall>m \<in> set ms. sendable mc m" "\<forall>r \<in> set rs. sendable mc r"
    and "cn_input conn = frames mc rs @ left" "cn_send_error conn = None"
  shows "request_all mc ms conn =
    (Inr rs, conn\<lparr>cn_input := left, cn_output := cn_output conn @ frames mc ms\<rparr>)"
  using assms
proof (induction rs ms arbitrary: conn rule: list_induct2)
  case Nil
  then show ?case by (cases conn) simp
next
  case (Cons r rs m ms)
  let ?conn1 = "conn\<lparr>cn_output := cn_output conn @ frame_of mc m\<rparr>"
  let ?conn2 = "?conn1\<lparr>cn_input := frames mc rs @ left\<rparr>"
  have send: "conn_send mc m conn = (Inr (), ?conn1)"
    using Cons.prems by (intro conn_send_frame) simp_all
  have recv: "conn_recv mc ?conn1 = (Inr r, ?conn2)"
    using Cons.prems by (intro conn_recv_frame) simp_all
  have "request_all mc ms ?conn2 =
      (Inr rs, ?conn2\<lparr>cn_input := left, cn_output := cn_output ?conn2 @ frames mc ms\<rparr>)"
    using Cons.prems by (intro Cons.IH) simp_all
  then show ?case by (simp add: conn_request_def send recv)
qed

lemma negotiate_ours: "negotiate SUPPORTED_VERSIONS SUPPORTED_VERSIONS = Some 1"
  by (simp add: negotiate_def SUPPORTED_VERSIONS_def)

lemma conn_connect_welcomed:
  assumes h: "sendable mc (Hello SUPPORTED_VERSIONS node agent)"
    and w: "sendable mc (Welcome v peer pagent caps)" "v \<in> set SUPPORTED_VERSIONS"
    and stream: "cn_input stream = frame_of mc (Welcome v peer pagent caps) @ left"
      "cn_send_error stream = None"
  shows "conn_connect mc debug stream node agent =
    Inr (stream\<lparr>cn_input := left, cn_version := v,
           cn_output := cn_output stream @ frame_of mc (Hello SUPPORTED_VERSIONS node agent)\<rparr>,
         Welcome v peer pagent caps)"
proof -
  let ?conn1 = "stream\<lparr>cn_version := 0,
    cn_output := cn_output stream @ frame_of mc (Hello SUPPORTED_VERSIONS node agent)\<rparr>"
  have send: "conn_send mc (Hello SUPPORTED_VERSIONS node agent) (stream\<lparr>cn_version := 0\<rparr>)
      = (Inr (), ?conn1)"
    using conn_send_frame [OF h, of "stream\<lparr>cn_version := 0\<rparr>"] stream by simp
  have recv: "conn_recv mc ?conn1 = (Inr (Welcome v peer pagent caps), ?conn1\<lparr>cn_input := left\<rparr>)"
    using stream by (intro conn_recv_frame [OF w(1)]) simp
  show ?thesis
    unfolding conn_connect_def Let_def send prod.case sum.case recv message.case using w(2) by simp
qed

subsection \<open>Negotiation and limits\<close>

lemma negotiate_Some:
  "negotiate ours theirs = Some v \<longleftrightarrow>
     v \<in> set ours \<and> v \<in> set theirs \<and> (\<forall>w \<in> set ours \<inter> set theirs. w \<le> v)"
proof -
  let ?S = "set (filter (\<lambda>v. v \<in> set theirs) ours)"
  have S: "?S = set ours \<inter> set theirs" by auto
  have "negotiate ours theirs = Some v \<longleftrightarrow> ?S \<noteq> {} \<and> Max ?S = v"
    by (simp add: negotiate_def Let_def del: set_filter)
  also have "\<dots> \<longleftrightarrow> v \<in> ?S \<and> (\<forall>w \<in> ?S. w \<le> v)"
    by (metis Max_eq_iff List.finite_set empty_iff)
  finally show ?thesis unfolding S by auto
qed

lemma negotiate_None: "negotiate ours theirs = None \<longleftrightarrow> set ours \<inter> set theirs = {}"
  by (auto simp: negotiate_def Let_def filter_empty_conv)

lemma read_exact_bound:
  "read_exact n conn = (Inr bs, conn') \<Longrightarrow>
     length bs = n \<and> cn_input conn = bs @ cn_input conn' \<and> conn' = conn\<lparr>cn_input := cn_input conn'\<rparr>"
  by (auto simp: read_exact_def split: if_splits)

lemma frame_len_bound: "frame_len a b c d = Inr n \<Longrightarrow> 0 < n \<and> n \<le> MAX_FRAME_BYTES"
  by (auto simp: frame_len_def Let_def split: if_splits)

subsection \<open>Properties\<close>

text \<open>
  C30: a node implements the message-level contract on the bytes of a connection: fed the frames of any
  messages, it sends exactly the frames of the answers the contract gives, leaves its state as the
  contract does and reads no further. A peer that does not start with \<open>Hello\<close>, or shares no version,
  gets one error and never reaches the service; at most \<open>10000\<close> requests are served.
\<close>

theorem native_server_implements_contract:
  assumes "\<forall>m \<in> set ms. sendable mc m"
    and "\<forall>r \<in> set (fst (serve_spec svc agent s ms)). sendable mc r"
    and "cn_input conn = frames mc ms" "cn_send_error conn = None"
  shows "serve_conn mc svc agent s conn =
    (if ms = [] then Inl (NetworkError (cn_end conn)) else Inr (), snd (serve_spec svc agent s ms),
     conn\<lparr>cn_input := frames mc (serve_unread ms),
          cn_output := cn_output conn @ frames mc (fst (serve_spec svc agent s ms))\<rparr>)"
  by (rule serve_conn_refines [OF assms])

text \<open>
  C31: client and node agree. A client that connects, with what the node sends as its input, negotiates
  version 1, is given the node's \<open>Welcome\<close>, and its requests return the service's answers in order; the
  bytes it has sent are the bytes the node was fed.
\<close>

theorem native_session_end_to_end:
  assumes node: "serve_conn mc svc agent s srv = (Inr (), s', srv')"
    and fed: "cn_input srv = frames mc (Hello SUPPORTED_VERSIONS me client # ms)"
      "cn_output srv = []" "cn_send_error srv = None" "length ms \<le> MAX_REQUESTS_PER_CONNECTION"
    and wire: "\<forall>m \<in> set ms. sendable mc m" "sendable mc (Hello SUPPORTED_VERSIONS me client)"
      "sendable mc (Welcome 1 (ns_node_id svc) agent (ns_capabilities svc))"
      "\<forall>r \<in> set (fst (answer_all svc s ms)). sendable mc r"
    and stream: "cn_input stream = cn_output srv'" "cn_output stream = []" "cn_send_error stream = None"
  shows "\<exists>conn conn'.
    conn_connect mc debug stream me client
      = Inr (conn, Welcome 1 (ns_node_id svc) agent (ns_capabilities svc)) \<and> cn_version conn = 1 \<and>
    request_all mc ms conn = (Inr (fst (answer_all svc s ms)), conn') \<and>
    s' = snd (answer_all svc s ms) \<and> cn_output conn' = cn_input srv \<and> cn_input conn' = []"
proof -
  let ?hello = "Hello SUPPORTED_VERSIONS me client"
  let ?w = "Welcome 1 (ns_node_id svc) agent (ns_capabilities svc)"
  let ?rs = "fst (answer_all svc s ms)"
  have spec: "serve_spec svc agent s (?hello # ms) = (?w # ?rs, snd (answer_all svc s ms))"
    using fed by (simp add: negotiate_ours split: prod.splits)
  have "serve_conn mc svc agent s srv = (Inr (), snd (answer_all svc s ms),
      srv\<lparr>cn_input := frames mc (serve_unread (?hello # ms)), cn_output := frames mc (?w # ?rs)\<rparr>)"
    using serve_conn_refines [where mc = mc and svc = svc and ms = "?hello # ms" and agent = agent
        and s = s and conn = srv] wire fed(1-3)
    unfolding spec by simp
  with node have s': "s' = snd (answer_all svc s ms)" and out: "cn_output srv' = frames mc (?w # ?rs)"
    by auto
  let ?conn = "stream\<lparr>cn_input := frames mc ?rs, cn_version := 1, cn_output := frame_of mc ?hello\<rparr>"
  have "conn_connect mc debug stream me client = Inr (?conn, ?w)"
    using conn_connect_welcomed [OF wire(2,3), where stream = stream] stream out
    by (simp add: SUPPORTED_VERSIONS_def)
  moreover have "request_all mc ms ?conn =
      (Inr ?rs, ?conn\<lparr>cn_input := [], cn_output := cn_output ?conn @ frames mc ms\<rparr>)"
    using wire stream by (intro request_all_reads) simp_all
  ultimately show ?thesis using s' fed(1) by simp
qed

text \<open>
  Negotiation picks the highest version both sides speak, none when there is none, and does not
  depend on who asks.
\<close>

lemma negotiated_version_is_highest_shared:
  "(negotiate ours theirs = Some v \<longleftrightarrow>
      v \<in> set ours \<and> v \<in> set theirs \<and> (\<forall>w \<in> set ours \<inter> set theirs. w \<le> v))
   \<and> (negotiate ours theirs = None \<longleftrightarrow> set ours \<inter> set theirs = {})
   \<and> negotiate ours theirs = negotiate theirs ours"
proof -
  have "negotiate ours theirs = negotiate theirs ours"
  proof (cases "negotiate ours theirs")
    case None
    then show ?thesis by (metis Int_commute negotiate_None)
  next
    case (Some v)
    then have "negotiate theirs ours = Some v" unfolding negotiate_Some by auto
    with Some show ?thesis by simp
  qed
  then show ?thesis by (intro conjI negotiate_Some negotiate_None)
qed

subsection \<open>Witnesses\<close>

text \<open>A node with one block; the sample codec knows the messages of one session.\<close>

definition echo_service :: "nat node_service" where
  "echo_service = \<lparr>ns_node_id = ''ee'', ns_capabilities = [CapBlocks],
     ns_handle = (\<lambda>s m. (case m of GetBlock h \<Rightarrow> (BlockMsg h [7], Suc s)
        | _ \<Rightarrow> (ErrorMsg Unsupported ''blocks only'', s)))\<rparr>"

definition session_writer :: "message \<Rightarrow> bytes" where
  "session_writer m =
     (if m = Hello SUPPORTED_VERSIONS ''aa'' ''client'' then [1]
      else if m = Welcome 1 ''ee'' ''node'' [CapBlocks] then [2]
      else if m = GetBlock ''00'' then [3]
      else if m = BlockMsg ''00'' [7] then [4]
      else if m = GetRoot then [5]
      else if m = ErrorMsg Unsupported ''blocks only'' then [6] else [])"

definition session_codec :: "message codec" where
  "session_codec = inverse_codec session_writer (\<lambda>m. session_writer m \<noteq> [])"

definition session_requests :: "message list" where
  "session_requests = [GetBlock ''00'', GetRoot]"

definition quiet_stream :: "bytes \<Rightarrow> connection" where
  "quiet_stream input = \<lparr>cn_input = input, cn_end = ''recv failed: early eof'', cn_output = [],
     cn_send_error = None, cn_version = 0\<rparr>"

lemma session_codec_sendable: "session_writer m \<noteq> [] \<Longrightarrow> sendable session_codec m"
proof -
  assume m: "session_writer m \<noteq> []"
  have "codec_ok (\<lambda>m. session_writer m \<noteq> []) session_codec"
    unfolding session_codec_def
    by (rule codec_ok_inverse) (auto simp: session_writer_def split: if_splits)
  moreover have "length (session_writer m) \<le> 1" by (simp add: session_writer_def)
  ultimately show ?thesis
    using m by (auto simp: sendable_def codec_ok_def session_codec_def inverse_codec_def MAX_FRAME_BYTES_def)
qed

lemmas session_defs = session_requests_def echo_service_def session_writer_def

lemma session_sendable:
  "\<forall>m \<in> set session_requests. sendable session_codec m"
  "sendable session_codec (Hello SUPPORTED_VERSIONS ''aa'' ''client'')"
  "sendable session_codec (Welcome 1 (ns_node_id echo_service) ''node'' (ns_capabilities echo_service))"
  "\<forall>r \<in> set (fst (answer_all echo_service 0 session_requests)). sendable session_codec r"
  by (auto simp: session_defs intro!: session_codec_sendable)

lemma session_spec:
  "serve_spec echo_service ''node'' 0 (Hello SUPPORTED_VERSIONS ''aa'' ''client'' # session_requests)
     = (Welcome 1 ''ee'' ''node'' [CapBlocks] # fst (answer_all echo_service 0 session_requests), 1)"
  by (simp add: negotiate_ours MAX_REQUESTS_PER_CONNECTION_def session_defs)

theorem native_server_implements_contract_witness:
  "serve_conn session_codec echo_service ''node'' 0 (quiet_stream
       (frames session_codec (Hello SUPPORTED_VERSIONS ''aa'' ''client'' # session_requests)))
     = (Inr (), 1, quiet_stream []\<lparr>cn_output := frames session_codec
         [Welcome 1 ''ee'' ''node'' [CapBlocks], BlockMsg ''00'' [7], ErrorMsg Unsupported ''blocks only'']\<rparr>)"
  using native_server_implements_contract
    [where mc = session_codec and svc = echo_service and agent = "''node''" and s = 0
      and ms = "Hello SUPPORTED_VERSIONS ''aa'' ''client'' # session_requests"
      and conn = "quiet_stream
       (frames session_codec (Hello SUPPORTED_VERSIONS ''aa'' ''client'' # session_requests))"]
    session_sendable
  unfolding session_spec
  by (simp add: quiet_stream_def negotiate_ours MAX_REQUESTS_PER_CONNECTION_def session_requests_def
      echo_service_def)

lemma session_served:
  "serve_conn session_codec echo_service ''node'' 0 (quiet_stream
       (frames session_codec (Hello SUPPORTED_VERSIONS ''aa'' ''client'' # session_requests)))
     = (Inr (), 1, quiet_stream []\<lparr>cn_output := frames session_codec
         (Welcome 1 ''ee'' ''node'' [CapBlocks] # fst (answer_all echo_service 0 session_requests))\<rparr>)"
  using serve_conn_refines
    [where mc = session_codec and svc = echo_service and agent = "''node''" and s = 0
      and ms = "Hello SUPPORTED_VERSIONS ''aa'' ''client'' # session_requests"
      and conn = "quiet_stream
       (frames session_codec (Hello SUPPORTED_VERSIONS ''aa'' ''client'' # session_requests))"]
    session_sendable
  unfolding session_spec
  by (simp add: quiet_stream_def negotiate_ours MAX_REQUESTS_PER_CONNECTION_def session_requests_def
      echo_service_def)

theorem native_session_end_to_end_witness:
  "\<exists>conn conn'.
    conn_connect session_codec (\<lambda>_. ''refused'') (quiet_stream (frames session_codec
       (Welcome 1 ''ee'' ''node'' [CapBlocks] # fst (answer_all echo_service 0 session_requests))))
       ''aa'' ''client'' = Inr (conn, Welcome 1 ''ee'' ''node'' [CapBlocks]) \<and>
    request_all session_codec session_requests conn
      = (Inr [BlockMsg ''00'' [7], ErrorMsg Unsupported ''blocks only''], conn')"
  using native_session_end_to_end [OF session_served _ _ _ _ session_sendable,
      where stream = "quiet_stream (frames session_codec
       (Welcome 1 ''ee'' ''node'' [CapBlocks] # fst (answer_all echo_service 0 session_requests)))"
      and debug = "\<lambda>_. ''refused''"]
  by (auto simp: quiet_stream_def MAX_REQUESTS_PER_CONNECTION_def session_requests_def echo_service_def)

lemma negotiated_version_is_highest_shared_witness:
  "negotiate SUPPORTED_VERSIONS [0, 5] = Some 0 \<and> negotiate SUPPORTED_VERSIONS [9999] = None"
  using negotiated_version_is_highest_shared [of SUPPORTED_VERSIONS "[0, 5]" 0]
    negotiated_version_is_highest_shared [of SUPPORTED_VERSIONS "[9999]" 0]
  by (simp add: SUPPORTED_VERSIONS_def)

end
