(* ===== verification/Ip_Addr.thy ===== *)
theory Ip_Addr
  imports Rust_Str
begin

text \<open>
  The part of Rust's \<open>std::net\<close> the nodes use: \<open>IpAddr\<close> and its \<open>FromStr\<close>, a recursive-descent
  parser for dotted-decimal IPv4 and the RFC 4291 forms of IPv6. A reader takes the input and returns
  what it read with the rest, or \<open>None\<close>, after which the input counts as not read.
\<close>

datatype ip_address = V4 byte byte byte byte | V6 "u16 list"

definition digit_in :: "nat \<Rightarrow> char \<Rightarrow> nat option" where
  "digit_in radix c =
     (let n = code c;
          v = (if 48 \<le> n \<and> n \<le> 57 then n - 48
               else if 97 \<le> n \<and> n \<le> 122 then n - 87
               else if 65 \<le> n \<and> n \<le> 90 then n - 55 else radix)
      in if v < radix then Some v else None)"

definition digits_value :: "nat \<Rightarrow> string \<Rightarrow> nat" where
  "digits_value radix ds = foldl (\<lambda>v c. v * radix + the (digit_in radix c)) 0 ds"

text \<open>\<open>read_number\<close>: at most \<open>max_digits\<close> digits, a value up to \<open>bound\<close>.\<close>

definition read_number :: "nat \<Rightarrow> nat \<Rightarrow> bool \<Rightarrow> nat \<Rightarrow> string \<Rightarrow> (nat \<times> string) option" where
  "read_number radix max_digits zero_prefix bound s =
     (let ds = takeWhile (\<lambda>c. digit_in radix c \<noteq> None) s
      in if ds = [] \<or> max_digits < length ds \<or> bound < digits_value radix ds
            \<or> (\<not> zero_prefix \<and> hd ds = CHR ''0'' \<and> 1 < length ds)
         then None else Some (digits_value radix ds, drop (length ds) s))"

fun read_given_char :: "char \<Rightarrow> string \<Rightarrow> string option" where
  "read_given_char c [] = None"
| "read_given_char c (x # xs) = (if x = c then Some xs else None)"

text \<open>\<open>read_separator\<close>: all but the first item come after the separator.\<close>

definition read_separator ::
  "char \<Rightarrow> nat \<Rightarrow> (string \<Rightarrow> ('a \<times> string) option) \<Rightarrow> string \<Rightarrow> ('a \<times> string) option" where
  "read_separator sep i inner s =
     (if 0 < i then Option.bind (read_given_char sep s) inner else inner s)"

fun read_octets :: "nat \<Rightarrow> nat \<Rightarrow> string \<Rightarrow> (byte list \<times> string) option" where
  "read_octets 0 i s = Some ([], s)"
| "read_octets (Suc k) i s =
     Option.bind (read_separator (CHR ''.'') i (read_number 10 3 False 255) s) (\<lambda>(n, s).
     Option.bind (read_octets k (Suc i) s) (\<lambda>(ns, s). Some (of_nat n # ns, s)))"

definition read_ipv4 :: "string \<Rightarrow> (byte list \<times> string) option" where
  "read_ipv4 s = read_octets 4 0 s"

text \<open>
  \<open>read_groups\<close>: up to \<open>k\<close> more groups from position \<open>i\<close>; the result says whether they end in an
  embedded IPv4 address, which needs two places.
\<close>

fun read_groups :: "nat \<Rightarrow> nat \<Rightarrow> string \<Rightarrow> u16 list \<times> bool \<times> string" where
  "read_groups 0 i s = ([], False, s)"
| "read_groups (Suc k) i s =
     (case (if 0 < k then read_separator (CHR '':'') i read_ipv4 s else None) of
        Some (o4, s) \<Rightarrow> ([u16_from_be (o4 ! 0) (o4 ! 1), u16_from_be (o4 ! 2) (o4 ! 3)], True, s)
      | None \<Rightarrow>
          (case read_separator (CHR '':'') i (read_number 16 4 True 65535) s of
             None \<Rightarrow> ([], False, s)
           | Some (g, s) \<Rightarrow> (case read_groups k (Suc i) s of (gs, v4, s) \<Rightarrow> (of_nat g # gs, v4, s))))"

definition read_ipv6 :: "string \<Rightarrow> (u16 list \<times> string) option" where
  "read_ipv6 s =
     (case read_groups 8 0 s of (head, head_ipv4, s) \<Rightarrow>
        if length head = 8 then Some (head, s)
        else if head_ipv4 then None
        else Option.bind (read_given_char (CHR '':'') s) (\<lambda>s.
             Option.bind (read_given_char (CHR '':'') s) (\<lambda>s.
               case read_groups (8 - (length head + 1)) 0 s of (tail, _, s) \<Rightarrow>
                 Some (head @ replicate (8 - length head - length tail) 0 @ tail, s))))"

definition parse_ip :: "string \<Rightarrow> ip_address option" where
  "parse_ip s =
     (case (case read_ipv4 s of
              Some (o4, s) \<Rightarrow> Some (V4 (o4 ! 0) (o4 ! 1) (o4 ! 2) (o4 ! 3), s)
            | None \<Rightarrow> map_option (\<lambda>(g, s). (V6 g, s)) (read_ipv6 s)) of
        Some (ip, []) \<Rightarrow> Some ip
      | _ \<Rightarrow> None)"

subsection \<open>Which characters an address has\<close>

definition ip_char :: "char \<Rightarrow> bool" where
  "ip_char c \<longleftrightarrow> digit_in 16 c \<noteq> None \<or> c = CHR ''.'' \<or> c = CHR '':''"

definition consumes :: "string \<Rightarrow> string \<Rightarrow> bool" where
  "consumes s r \<longleftrightarrow> (\<exists>p. s = p @ r \<and> list_all ip_char p)"

lemma consumes_refl [simp]: "consumes s s"
  by (simp add: consumes_def)

lemma consumes_trans [trans]: "consumes s t \<Longrightarrow> consumes t r \<Longrightarrow> consumes s r"
  unfolding consumes_def by (metis append_assoc list_all_append)

lemma digit_10_16: "digit_in 10 c \<noteq> None \<Longrightarrow> digit_in 16 c \<noteq> None"
  by (auto simp: digit_in_def Let_def split: if_splits)

lemma read_number_consumes:
  assumes "read_number radix m z b s = Some (n, r)" "radix = 10 \<or> radix = 16"
  shows "consumes s r"
proof -
  let ?ds = "takeWhile (\<lambda>c. digit_in radix c \<noteq> None) s"
  have "r = drop (length ?ds) s"
    using assms(1) by (auto simp: read_number_def Let_def split: if_splits)
  then have "s = ?ds @ r" by (metis takeWhile_dropWhile_id dropWhile_eq_drop)
  moreover have "list_all ip_char ?ds"
    using assms(2) digit_10_16 by (auto simp: list_all_iff ip_char_def dest!: set_takeWhileD)
  ultimately show ?thesis unfolding consumes_def by blast
qed

lemma read_given_char_consumes:
  "read_given_char c s = Some r \<Longrightarrow> c = CHR ''.'' \<or> c = CHR '':'' \<Longrightarrow> consumes s r"
  by (cases s) (auto simp: consumes_def ip_char_def split: if_splits intro!: exI [of _ "[c]"])

lemma read_separator_consumes:
  assumes "read_separator sep i inner s = Some (x, r)" "sep = CHR ''.'' \<or> sep = CHR '':''"
    and "\<And>s x r. inner s = Some (x, r) \<Longrightarrow> consumes s r"
  shows "consumes s r"
proof (cases "0 < i")
  case True
  then obtain t where "read_given_char sep s = Some t" "inner t = Some (x, r)"
    using assms(1) by (auto simp: read_separator_def bind_eq_Some_conv)
  then show ?thesis
    using read_given_char_consumes assms(2,3) consumes_trans by blast
next
  case False
  then show ?thesis using assms(1,3) by (simp add: read_separator_def)
qed

lemma read_octets_consumes: "read_octets k i s = Some (o4, r) \<Longrightarrow> consumes s r"
proof (induction k arbitrary: i s o4)
  case (Suc k)
  then obtain n t ns where "read_separator (CHR ''.'') i (read_number 10 3 False 255) s = Some (n, t)"
    and "read_octets k (Suc i) t = Some (ns, r)"
    by (auto simp: bind_eq_Some_conv)
  then show ?case
    using Suc.IH read_separator_consumes [of "CHR ''.''" i _ s n t] read_number_consumes consumes_trans
    by blast
qed simp

lemma read_groups_consumes: "read_groups k i s = (gs, v4, r) \<Longrightarrow> consumes s r"
proof (induction k arbitrary: i s gs)
  case (Suc k)
  show ?case
  proof (cases "if 0 < k then read_separator (CHR '':'') i read_ipv4 s else None")
    case (Some p)
    then have "read_separator (CHR '':'') i read_ipv4 s = Some (fst p, snd p)"
      by (simp split: if_splits)
    moreover have "r = snd p" using Suc.prems Some by (auto split: prod.splits)
    ultimately show ?thesis
      using read_separator_consumes [of "CHR '':''" i read_ipv4 s "fst p" r] read_octets_consumes
      by (auto simp: read_ipv4_def)
  next
    case None
    show ?thesis
    proof (cases "read_separator (CHR '':'') i (read_number 16 4 True 65535) s")
      case None': None
      with Suc.prems None show ?thesis by simp
    next
      case (Some p)
      then obtain g t where p: "read_separator (CHR '':'') i (read_number 16 4 True 65535) s = Some (g, t)"
        by (cases p) simp
      then have "consumes s t"
        using read_separator_consumes [OF p] read_number_consumes by blast
      moreover have "consumes t r" using Suc.prems None p Suc.IH by (auto split: prod.splits)
      ultimately show ?thesis by (rule consumes_trans)
    qed
  qed
qed simp

lemma parse_ip_chars: "parse_ip s = Some ip \<Longrightarrow> list_all ip_char s"
proof -
  assume ip: "parse_ip s = Some ip"
  have "consumes s []"
  proof (cases "read_ipv4 s")
    case (Some p)
    with ip show ?thesis
      using read_octets_consumes by (auto simp: parse_ip_def read_ipv4_def split: prod.splits list.splits)
  next
    case None
    then obtain g where g: "read_ipv6 s = Some (g, [])"
      using ip by (auto simp: parse_ip_def split: option.splits prod.splits list.splits)
    obtain head v4 t where head: "read_groups 8 0 s = (head, v4, t)" by (metis prod_cases3)
    show ?thesis
    proof (cases "length head = 8")
      case True
      with g head have "t = []" by (simp add: read_ipv6_def)
      with head show ?thesis using read_groups_consumes by blast
    next
      case False
      then obtain u v where uv: "read_given_char (CHR '':'') t = Some u" "read_given_char (CHR '':'') u = Some v"
        using g head by (auto simp: read_ipv6_def bind_eq_Some_conv split: if_splits)
      obtain tail b w where tail: "read_groups (8 - (length head + 1)) 0 v = (tail, b, w)"
        by (metis prod_cases3)
      have "w = []" using g head False uv tail by (auto simp: read_ipv6_def split: if_splits)
      then show ?thesis
        using read_groups_consumes [OF head] read_groups_consumes [OF tail]
          read_given_char_consumes uv consumes_trans by blast
    qed
  qed
  then show ?thesis by (simp add: consumes_def)
qed

text \<open>What an address never contains, in particular the characters that delimit a host in a URL.\<close>

lemma ip_char_not_delimiter:
  "ip_char c \<Longrightarrow> c \<notin> set ''[]@/?#''"
  by (auto simp: ip_char_def digit_in_def code_def)

lemma parse_ip_examples:
  "parse_ip ''45.1.1.1'' = Some (V4 45 1 1 1)" "parse_ip ''045.1.1.1'' = None"
  "parse_ip ''256.1.1.1'' = None" "parse_ip ''::1'' = Some (V6 [0, 0, 0, 0, 0, 0, 0, 1])"
  "parse_ip ''2001:db8::1.2.3.4'' = Some (V6 [0x2001, 0xdb8, 0, 0, 0, 0, 0x102, 0x304])"
  "parse_ip ''1::2::3'' = None" "parse_ip ''[::1]'' = None"
  by code_simp+

subsection \<open>Printing\<close>

text \<open>\<open>Display\<close> of \<open>IpAddr\<close> and \<open>SocketAddr\<close>: the longest run of zero groups is compressed.\<close>

fun show_hex :: "nat \<Rightarrow> string" where
  "show_hex n =
     (let d = (\<lambda>k. if k < 10 then char_of (48 + k) else char_of (87 + k))
      in if n < 16 then [d n] else show_hex (n div 16) @ [d (n mod 16)])"

declare show_hex.simps [simp del]

definition longest_zeros :: "u16 list \<Rightarrow> nat \<times> nat" where
  "longest_zeros segments =
     fst (foldl (\<lambda>(longest, current) (i, g).
         if g = 0
         then let current = ((if snd current = 0 then i else fst current), snd current + 1)
              in (if snd longest < snd current then current else longest, current)
         else (longest, (0, 0))) ((0, 0), (0, 0)) (enumerate 0 segments))"

definition show_groups :: "u16 list \<Rightarrow> string" where
  "show_groups gs = join '':'' (map (\<lambda>g. show_hex (unat g)) gs)"

definition show_octets :: "byte list \<Rightarrow> string" where
  "show_octets os = join ''.'' (map (\<lambda>b. show_nat (unat b)) os)"

fun show_ip :: "ip_address \<Rightarrow> string" where
  "show_ip (V4 a b c d) = show_octets [a, b, c, d]"
| "show_ip (V6 gs) =
     (if take 6 gs = [0, 0, 0, 0, 0, 0xFFFF]
      then ''::ffff:'' @ show_octets [of_nat (unat (gs ! 6) div 256), of_nat (unat (gs ! 6) mod 256),
             of_nat (unat (gs ! 7) div 256), of_nat (unat (gs ! 7) mod 256)]
      else case longest_zeros gs of (start, len) \<Rightarrow>
        if 1 < len then show_groups (take start gs) @ ''::'' @ show_groups (drop (start + len) gs)
        else show_groups gs)"

fun show_socket_addr :: "ip_address \<times> u16 \<Rightarrow> string" where
  "show_socket_addr (V4 a b c d, port) = show_ip (V4 a b c d) @ '':'' @ show_nat (unat port)"
| "show_socket_addr (V6 gs, port) = ''['' @ show_ip (V6 gs) @ '']:'' @ show_nat (unat port)"

lemma show_ip_examples:
  "show_socket_addr (V4 45 1 1 1, 4077) = ''45.1.1.1:4077''"
  "show_ip (V6 [0x2001, 0xdb8, 0, 0, 1, 0, 0, 1]) = ''2001:db8::1:0:0:1''"
  "show_ip (V6 [0, 0, 0, 0, 0, 0xFFFF, 0x102, 0x304]) = ''::ffff:1.2.3.4''"
  by code_simp+

end
