(* ===== verification/Directory.thy ===== *)
theory Directory
  imports Ip_Addr Codec Naming
begin

text \<open>
  \<open>crates/federate-directory/src/lib.rs\<close>: node registrations and announcements with their
  signatures, and the directory of live nodes. A \<open>HashMap\<close> is a map kept by key with the order it is
  iterated in as a parameter (\<open>hash_order\<close>); an operation that snapshots the node table is told
  whether the file could be written.
\<close>

subsection \<open>Roles and health\<close>

datatype node_role =
    RootAuthority | RootMirror | RoleDns | RoleGateway | RoleStorage | RoleCdn | RoleSearch
  | RoleBootstrap | RoleOrigin

definition ALL_ROLES :: "node_role list" where
  "ALL_ROLES = [RootAuthority, RootMirror, RoleDns, RoleGateway, RoleStorage, RoleCdn, RoleSearch,
     RoleBootstrap, RoleOrigin]"

fun node_role_as_str :: "node_role \<Rightarrow> string" where
  "node_role_as_str RootAuthority = ''root-authority''"
| "node_role_as_str RootMirror = ''root-mirror''"
| "node_role_as_str RoleDns = ''dns''"
| "node_role_as_str RoleGateway = ''gateway''"
| "node_role_as_str RoleStorage = ''storage''"
| "node_role_as_str RoleCdn = ''cdn''"
| "node_role_as_str RoleSearch = ''search''"
| "node_role_as_str RoleBootstrap = ''bootstrap''"
| "node_role_as_str RoleOrigin = ''origin''"

definition node_role_from_str :: "string \<Rightarrow> string + node_role" where
  "node_role_from_str s =
     ok_or (find (\<lambda>r. node_role_as_str r = to_ascii_lowercase (trim s)) ALL_ROLES)
       (''unknown node role '' @ [CHR 0x27] @ s @ [CHR 0x27] @
        '' (valid: root-authority root-mirror dns gateway storage cdn search bootstrap origin)'')"

datatype node_status = Online | Degraded | Offline

fun node_status_as_str :: "node_status \<Rightarrow> string" where
  "node_status_as_str Online = ''online''"
| "node_status_as_str Degraded = ''degraded''"
| "node_status_as_str Offline = ''offline''"

lemma node_role_as_str_inj: "node_role_as_str r = node_role_as_str r' \<Longrightarrow> r = r'"
  by (cases r; cases r') simp_all

subsection \<open>Registrations\<close>

record node_capacity =
  storage_gb :: nat
  bandwidth_mbps :: nat

record node_registration =
  nr_node_id :: string
  nr_public_key :: string
  nr_roles :: "node_role list"
  nr_public_ips :: "string list"
  nr_region :: string
  nr_version :: string
  nr_capacity :: node_capacity
  nr_health_endpoint :: string
  nr_native_port :: "u16 option"
  nr_registered_at :: string
  nr_signature_algorithm :: string
  nr_signature :: "string option"

definition capacity_json :: "node_capacity \<Rightarrow> json" where
  "capacity_json c = json_obj (
     json_field ''storage_gb'' (json_nat (storage_gb c)) @
     json_field ''bandwidth_mbps'' (json_nat (bandwidth_mbps c)))"

definition registration_fields :: "node_registration \<Rightarrow> (string \<times> json) list" where
  "registration_fields r =
     json_field ''node_id'' (JString (nr_node_id r)) @
     json_field ''public_key'' (JString (nr_public_key r)) @
     json_field ''roles'' (JArray (map (\<lambda>x. JString (node_role_as_str x)) (nr_roles r))) @
     json_field ''public_ips'' (JArray (map JString (nr_public_ips r))) @
     json_field ''region'' (JString (nr_region r)) @
     json_field ''version'' (JString (nr_version r)) @
     json_field ''capacity'' (capacity_json (nr_capacity r)) @
     json_field ''health_endpoint'' (JString (nr_health_endpoint r)) @
     json_opt ''native_port'' (\<lambda>p. json_nat (unat p)) (nr_native_port r) @
     json_field ''registered_at'' (JString (nr_registered_at r)) @
     json_field ''signature_algorithm'' (JString (nr_signature_algorithm r)) @
     json_field ''signature'' (json_nullable JString (nr_signature r))"

definition registration_json :: "node_registration \<Rightarrow> json" where
  "registration_json r = json_obj (registration_fields r)"

definition registration_signable_bytes :: "'x deps_scheme \<Rightarrow> node_registration \<Rightarrow> bytes" where
  "registration_signable_bytes E r = canonical_bytes E (registration_json (r\<lparr>nr_signature := None\<rparr>))"

definition registration_ips :: "node_registration \<Rightarrow> ip_address list" where
  "registration_ips r = List.map_filter parse_ip (nr_public_ips r)"

text \<open>The authority's host: after \<open>[\<close> up to \<open>]\<close>, else up to the first colon.\<close>

definition authority_host :: "string \<Rightarrow> string" where
  "authority_host authority =
     (case strip_prefix ''['' authority of
        Some a \<Rightarrow> split_first (CHR '']'') a
      | None \<Rightarrow> split_first (CHR '':'') authority)"

definition health_endpoint_host :: "string \<Rightarrow> string option" where
  "health_endpoint_host endpoint =
     Option.bind
       (case strip_prefix ''http://'' endpoint of Some rest \<Rightarrow> Some rest
        | None \<Rightarrow> strip_prefix ''https://'' endpoint)
       (\<lambda>rest.
         let authority = split_first (CHR ''/'') rest
         in if authority = [] then None
            else let host = authority_host authority
                 in if host = [] then None else Some host)"

text \<open>\<open>trim_matches\<close> with the two square brackets.\<close>

definition trim_brackets :: "string \<Rightarrow> string" where
  "trim_brackets s =
     (let is_bracket = (\<lambda>c. c = CHR ''['' \<or> c = CHR '']'')
      in rev (dropWhile is_bracket (rev (dropWhile is_bracket s))))"

definition registration_verify :: "'x deps_scheme \<Rightarrow> node_registration \<Rightarrow> unit result" where
  "registration_verify E r =
     (let fail = (\<lambda>reason. Inl (VerificationFailed ''node-registration'' (nr_node_id r) reason))
      in if nr_node_id r \<noteq> nr_public_key r then fail ''node_id must equal the node public key''
         else if nr_roles r = [] then fail ''registration lists no roles''
         else (case nr_signature r of
             None \<Rightarrow> fail ''registration is unsigned''
           | Some sig \<Rightarrow>
               if \<not> verify_signature E (nr_public_key r) (registration_signable_bytes E r) sig
               then fail ''registration signature invalid''
               else if nr_public_ips r = [] \<or> length (registration_ips r) \<noteq> length (nr_public_ips r)
               then fail ''public_ips must all be valid IP addresses''
               else (case health_endpoint_host (nr_health_endpoint r) of
                   None \<Rightarrow> fail ''health_endpoint must be an http(s) URL''
                 | Some host \<Rightarrow>
                     if \<not> list_ex (\<lambda>ip. trim_brackets ip = host) (nr_public_ips r)
                     then fail (''health_endpoint host must be one of the node'' @ [CHR 0x27] @
                       ''s declared public_ips'')
                     else Inr ())))"

subsection \<open>Block announcements\<close>

record block_announce =
  ba_node_id :: string
  ba_blocks :: "string list"
  ba_announced_at :: string
  ba_signature :: "string option"

definition announce_json :: "block_announce \<Rightarrow> json" where
  "announce_json a = json_obj (
     json_field ''node_id'' (JString (ba_node_id a)) @
     json_field ''blocks'' (JArray (map JString (ba_blocks a))) @
     json_field ''announced_at'' (JString (ba_announced_at a)) @
     json_field ''signature'' (json_nullable JString (ba_signature a)))"

definition announce_signable_bytes :: "'x deps_scheme \<Rightarrow> block_announce \<Rightarrow> bytes" where
  "announce_signable_bytes E a = canonical_bytes E (announce_json (a\<lparr>ba_signature := None\<rparr>))"

definition announce_signed ::
  "'x deps_scheme \<Rightarrow> int \<Rightarrow> node_identity \<Rightarrow> string list \<Rightarrow> block_announce" where
  "announce_signed E clock i blocks =
     (let a = \<lparr>ba_node_id = node_id E i, ba_blocks = blocks,
            ba_announced_at = x_to_rfc3339 E clock, ba_signature = None\<rparr>
      in a\<lparr>ba_signature := Some (sign E i (announce_signable_bytes E a))\<rparr>)"

definition announce_verify :: "'x deps_scheme \<Rightarrow> block_announce \<Rightarrow> unit result" where
  "announce_verify E a =
     (case ba_signature a of
        None \<Rightarrow> Inl (VerificationFailed ''block-announce'' (ba_node_id a) ''unsigned announcement'')
      | Some sig \<Rightarrow>
          if \<not> verify_signature E (ba_node_id a) (announce_signable_bytes E a) sig
          then Inl (VerificationFailed ''block-announce'' (ba_node_id a) ''announcement signature invalid'')
          else Inr ())"

subsection \<open>The directory\<close>

record node_entry =
  ne_registration :: node_registration
  ne_status :: node_status
  ne_last_seen :: string
  ne_latency_ms :: "nat option"
  ne_consecutive_failures :: u32

definition native_addr :: "node_entry \<Rightarrow> (ip_address \<times> u16) option" where
  "native_addr n =
     Option.bind (nr_native_port (ne_registration n)) (\<lambda>port.
       case registration_ips (ne_registration n) of [] \<Rightarrow> None | ip # _ \<Rightarrow> Some (ip, port))"

definition MAX_NODES :: nat where
  "MAX_NODES = 5000"

text \<open>Durations are nanoseconds.\<close>

definition STALE_NODE_MAX_AGE :: int where
  "STALE_NODE_MAX_AGE = 24 * 60 * 60 * 1000000000"

record directory_deps = deps +
  hash_order :: "string list \<Rightarrow> string list"
  entries_codec :: "node_entry list codec"

text \<open>\<open>d_snapshot\<close> is the content of the file at \<open>d_persist_path\<close>.\<close>

record directory =
  d_nodes :: "(string, node_entry) bmap"
  d_providers :: "(string, string list) bmap"
  d_root_public_key :: "string option"
  d_persist_path :: "string option"
  d_snapshot :: "bytes option"

text \<open>The values of a \<open>HashMap\<close> in the order it yields them.\<close>

definition hash_values :: "'x directory_deps_scheme \<Rightarrow> (string, 'v) bmap \<Rightarrow> 'v list" where
  "hash_values E m = List.map_filter (bm_get m) (hash_order E (bm_keys m))"

definition directory_new :: "string option \<Rightarrow> directory" where
  "directory_new root_public_key =
     \<lparr>d_nodes = [], d_providers = [], d_root_public_key = root_public_key, d_persist_path = None,
      d_snapshot = None\<rparr>"

definition restore_nodes :: "'x directory_deps_scheme \<Rightarrow> bytes \<Rightarrow> (string, node_entry) bmap" where
  "restore_nodes E bs =
     (case from_slice (entries_codec E) bs of
        None \<Rightarrow> []
      | Some entries \<Rightarrow>
          foldl (\<lambda>nodes entry.
            if is_ok (registration_verify E (ne_registration entry))
            then bm_insert (nr_node_id (ne_registration entry)) entry nodes else nodes) [] entries)"

definition directory_with_persistence ::
  "'x directory_deps_scheme \<Rightarrow> string option \<Rightarrow> string \<Rightarrow> bytes option \<Rightarrow> directory" where
  "directory_with_persistence E root_public_key path file =
     \<lparr>d_nodes = (case file of None \<Rightarrow> [] | Some bs \<Rightarrow> restore_nodes E bs), d_providers = [],
      d_root_public_key = root_public_key, d_persist_path = Some path, d_snapshot = file\<rparr>"

definition persist_nodes :: "'x directory_deps_scheme \<Rightarrow> bool \<Rightarrow> directory \<Rightarrow> directory" where
  "persist_nodes E written d =
     (case d_persist_path d of
        None \<Rightarrow> d
      | Some _ \<Rightarrow>
          if written then d\<lparr>d_snapshot := Some (to_vec (entries_codec E) (hash_values E (d_nodes d)))\<rparr> else d)"

definition register_node ::
  "'x directory_deps_scheme \<Rightarrow> int \<Rightarrow> bool \<Rightarrow> node_registration \<Rightarrow> directory \<Rightarrow> unit result \<times> directory" where
  "register_node E clock written reg d =
     (case registration_verify E reg of
        Inl e \<Rightarrow> (Inl e, d)
      | Inr _ \<Rightarrow>
          if RootAuthority \<in> set (nr_roles reg) \<and> d_root_public_key d \<noteq> Some (nr_public_key reg)
          then (Inl (VerificationFailed ''node-registration'' (nr_node_id reg)
            ''only the Federate Root Key may register the root-authority role''), d)
          else if MAX_NODES \<le> length (d_nodes d) \<and> \<not> bm_contains (d_nodes d) (nr_node_id reg)
          then (Inl (VerificationFailed ''node-registration'' (nr_node_id reg)
            (''directory is full ('' @ show_nat MAX_NODES @ '' nodes)'')), d)
          else
            let now = x_to_rfc3339 E clock;
                entry = (case bm_get (d_nodes d) (nr_node_id reg) of
                    Some entry \<Rightarrow> entry
                  | None \<Rightarrow> \<lparr>ne_registration = reg, ne_status = Online, ne_last_seen = now,
                      ne_latency_ms = None, ne_consecutive_failures = 0\<rparr>);
                entry = entry\<lparr>ne_registration := reg, ne_last_seen := now, ne_status := Online,
                  ne_consecutive_failures := 0\<rparr>
            in (Inr (), persist_nodes E written
                 (d\<lparr>d_nodes := bm_insert (nr_node_id reg) entry (d_nodes d)\<rparr>)))"

text \<open>
  \<open>Duration::from_std\<close> fails above \<open>i64::MAX\<close> milliseconds, and then a day counts.
\<close>

definition is_stale :: "'x deps_scheme \<Rightarrow> int \<Rightarrow> int \<Rightarrow> node_entry \<Rightarrow> bool" where
  "is_stale E clock max_age entry =
     (case x_parse_rfc3339 E (ne_last_seen entry) of
        None \<Rightarrow> True
      | Some seen \<Rightarrow>
          (if max_age \<le> 9223372036854775807 * 1000000 then max_age
           else 24 * 60 * 60 * 1000000000) < clock - seen)"

definition scrub_provider :: "string list \<Rightarrow> (string \<times> string list) list \<Rightarrow> (string \<times> string list) list" where
  "scrub_provider stale providers =
     filter (\<lambda>(_, ids). ids \<noteq> [])
       (map (\<lambda>(h, ids). (h, filter (\<lambda>x. x \<notin> set stale) ids)) providers)"

definition prune_stale ::
  "'x directory_deps_scheme \<Rightarrow> int \<Rightarrow> int \<Rightarrow> bool \<Rightarrow> directory \<Rightarrow> nat \<times> directory" where
  "prune_stale E clock max_age written d =
     (let stale = map fst (filter (\<lambda>(_, entry). is_stale E clock max_age entry) (d_nodes d));
          nodes = foldl (\<lambda>m x. bm_remove x m) (d_nodes d) stale
      in if stale = [] then (0, d)
         else (length stale,
           persist_nodes E written
             (d\<lparr>d_nodes := nodes, d_providers := scrub_provider stale (d_providers d)\<rparr>)))"

text \<open>
  \<open>announce_blocks\<close> gives the node table back before it takes the provider table: it is two steps,
  and other operations can come in between.
\<close>

definition announce_check :: "'x deps_scheme \<Rightarrow> block_announce \<Rightarrow> directory \<Rightarrow> unit result" where
  "announce_check E a d =
     and_then (announce_verify E a) (\<lambda>_.
       if \<not> bm_contains (d_nodes d) (ba_node_id a)
       then Inl (NetworkError (''unknown node '' @ ba_node_id a)) else Inr ())"

definition add_provider :: "string \<Rightarrow> string \<Rightarrow> (string, string list) bmap \<Rightarrow> (string, string list) bmap" where
  "add_provider node hash providers =
     (if \<not> is_valid_hash hash then providers
      else let ids = (case bm_get providers hash of Some ids \<Rightarrow> ids | None \<Rightarrow> [])
           in bm_insert hash (List.insert node ids) providers)"

definition announce_commit :: "block_announce \<Rightarrow> directory \<Rightarrow> directory" where
  "announce_commit a d =
     d\<lparr>d_providers := foldl (\<lambda>m h. add_provider (ba_node_id a) h m) (d_providers d) (ba_blocks a)\<rparr>"

definition announce_blocks :: "'x deps_scheme \<Rightarrow> block_announce \<Rightarrow> directory \<Rightarrow> unit result \<times> directory" where
  "announce_blocks E a d =
     (case announce_check E a d of Inl e \<Rightarrow> (Inl e, d) | Inr _ \<Rightarrow> (Inr (), announce_commit a d))"

subsection \<open>Queries\<close>

definition has_role :: "node_role option \<Rightarrow> node_entry \<Rightarrow> bool" where
  "has_role role n = (case role of None \<Rightarrow> True | Some r \<Rightarrow> r \<in> set (nr_roles (ne_registration n)))"

definition directory_list ::
  "'x directory_deps_scheme \<Rightarrow> node_role option \<Rightarrow> bool \<Rightarrow> directory \<Rightarrow> node_entry list" where
  "directory_list E role only_healthy d =
     filter (\<lambda>n. \<not> only_healthy \<or> ne_status n \<noteq> Offline)
       (filter (has_role role) (hash_values E (d_nodes d)))"

definition latency_key :: "node_entry \<Rightarrow> nat" where
  "latency_key n = (case ne_latency_ms n of Some l \<Rightarrow> l | None \<Rightarrow> u64_max)"

text \<open>Sort keys are lists compared lexicographically, as Rust compares tuples.\<close>

definition health_key :: "node_entry \<Rightarrow> nat list" where
  "health_key n = [if ne_status n \<noteq> Online then 1 else 0, latency_key n]"

definition healthy_nodes :: "'x directory_deps_scheme \<Rightarrow> node_role \<Rightarrow> directory \<Rightarrow> node_entry list" where
  "healthy_nodes E role d = sort_key health_key (directory_list E (Some role) True d)"

definition directory_get :: "string \<Rightarrow> directory \<Rightarrow> node_entry option" where
  "directory_get node d = bm_get (d_nodes d) node"

definition providers_for_block ::
  "'x directory_deps_scheme \<Rightarrow> string \<Rightarrow> node_role option \<Rightarrow> directory \<Rightarrow> node_entry list" where
  "providers_for_block E hash role d =
     (let ids = (case bm_get (d_providers d) hash of Some ids \<Rightarrow> ids | None \<Rightarrow> []);
          out = filter (has_role role)
            (filter (\<lambda>n. ne_status n \<noteq> Offline) (List.map_filter (bm_get (d_nodes d)) (hash_order E ids)))
      in sort_key latency_key out)"

subsection \<open>Health checks\<close>

definition mark_entry :: "'x deps_scheme \<Rightarrow> int \<Rightarrow> bool \<Rightarrow> nat option \<Rightarrow> node_entry \<Rightarrow> node_entry" where
  "mark_entry E clock ok latency entry =
     (if ok then entry\<lparr>ne_consecutive_failures := 0, ne_status := Online, ne_latency_ms := latency,
            ne_last_seen := x_to_rfc3339 E clock\<rparr>
      else let failures = ne_consecutive_failures entry + 1
           in entry\<lparr>ne_consecutive_failures := failures,
                ne_status := (if failures = 1 \<or> failures = 2 then Degraded else Offline)\<rparr>)"

definition mark_node ::
  "'x deps_scheme \<Rightarrow> int \<Rightarrow> string \<Rightarrow> bool \<Rightarrow> nat option \<Rightarrow> directory \<Rightarrow> directory" where
  "mark_node E clock node ok latency d =
     (case bm_get (d_nodes d) node of
        None \<Rightarrow> d
      | Some entry \<Rightarrow> d\<lparr>d_nodes := bm_insert node (mark_entry E clock ok latency entry) (d_nodes d)\<rparr>)"

text \<open>
  One round of \<open>health_check_loop\<close>: prune, list, probe. \<open>probe\<close> is the HTTP client: whether a URL
  answered with success, how long it took in milliseconds, and the clock afterwards.
\<close>

definition health_url :: "node_entry \<Rightarrow> string" where
  "health_url n = trim_end_matches (CHR ''/'') (nr_health_endpoint (ne_registration n)) @ ''/health''"

definition probe_node :: "'x deps_scheme \<Rightarrow> (string \<Rightarrow> bool \<times> nat \<times> int) \<Rightarrow> node_entry \<Rightarrow> directory \<Rightarrow> directory" where
  "probe_node E probe n d =
     (case probe (health_url n) of (ok, latency, clock) \<Rightarrow>
        mark_node E clock (nr_node_id (ne_registration n)) ok (if ok then Some latency else None) d)"

definition health_check_round ::
  "'x directory_deps_scheme \<Rightarrow> int \<Rightarrow> bool \<Rightarrow> (string \<Rightarrow> bool \<times> nat \<times> int) \<Rightarrow> directory \<Rightarrow> directory" where
  "health_check_round E clock written probe d =
     (let d = snd (prune_stale E clock STALE_NODE_MAX_AGE written d)
      in foldl (\<lambda>d n. probe_node E probe n d) d (directory_list E None False d))"

end
