(* ===== verification/Directory_Signed.thy ===== *)
theory Directory_Signed
  imports Directory
begin

text \<open>
  What the directory's signatures bind, and what a verified registration says about the addresses the
  node will be contacted at.
\<close>

subsection \<open>Signed documents\<close>

definition registration_wf :: "node_registration \<Rightarrow> bool" where
  "registration_wf r \<longleftrightarrow>
     storage_gb (nr_capacity r) \<le> u64_max \<and> bandwidth_mbps (nr_capacity r) \<le> u64_max"

lemma capacity_json_inj: "capacity_json c = capacity_json c' \<Longrightarrow> c = c'"
proof -
  assume eq: "capacity_json c = capacity_json c'"
  note get = json_obj_field [OF eq [unfolded capacity_json_def], unfolded json_get_simps]
  have "storage_gb c = storage_gb c'" using get [of "''storage_gb''"] by simp
  moreover have "bandwidth_mbps c = bandwidth_mbps c'" using get [of "''bandwidth_mbps''"] by simp
  ultimately show ?thesis by (intro node_capacity.equality) simp_all
qed

lemma json_strings_inj: "map (\<lambda>x. JString (f x)) xs = map (\<lambda>x. JString (f x)) ys \<Longrightarrow> inj f \<Longrightarrow> xs = ys"
  by (rule map_injective [of "\<lambda>x. JString (f x)"]) (simp_all add: inj_def)

lemma unat_u16_le_u64: "unat (w :: u16) \<le> u64_max"
proof -
  have "unat w < 2 ^ 16" by (rule less_le_trans [OF unsigned_less]) simp
  then show ?thesis by simp
qed

lemma capacity_json_wf: "registration_wf r \<Longrightarrow> json_wf (capacity_json (nr_capacity r))"
  unfolding capacity_json_def
  by (rule json_wf_obj) (simp only: json_wf_simps json_wf.simps, simp add: registration_wf_def)

lemma registration_json_wf: "registration_wf r \<Longrightarrow> json_wf (registration_json r)"
  unfolding registration_json_def registration_fields_def
  using capacity_json_wf [of r] unat_u16_le_u64
  by (intro json_wf_obj)
     (auto simp: json_field_def json_opt_def json_nullable_def split: option.splits)

lemma registration_json_inj:
  assumes "registration_json r = registration_json s"
  shows "r = s"
proof -
  note get = json_obj_field [OF assms [unfolded registration_json_def registration_fields_def],
      unfolded json_get_simps]
  have "nr_node_id r = nr_node_id s" using get [of "''node_id''"] by simp
  moreover have "nr_public_key r = nr_public_key s" using get [of "''public_key''"] by simp
  moreover have "nr_roles r = nr_roles s" using get [of "''roles''"]
    by (auto intro!: json_strings_inj [of node_role_as_str] simp: inj_def dest: node_role_as_str_inj)
  moreover have "nr_public_ips r = nr_public_ips s" using get [of "''public_ips''"]
    by (auto intro!: json_strings_inj [of "\<lambda>x. x"])
  moreover have "nr_region r = nr_region s" using get [of "''region''"] by simp
  moreover have "nr_version r = nr_version s" using get [of "''version''"] by simp
  moreover have "nr_capacity r = nr_capacity s" using get [of "''capacity''"]
    by (auto dest: capacity_json_inj)
  moreover have "nr_health_endpoint r = nr_health_endpoint s" using get [of "''health_endpoint''"] by simp
  moreover have "nr_native_port r = nr_native_port s" using get [of "''native_port''"]
    by (cases "nr_native_port r"; cases "nr_native_port s") (simp_all add: unsigned_word_eqI)
  moreover have "nr_registered_at r = nr_registered_at s" using get [of "''registered_at''"] by simp
  moreover have "nr_signature_algorithm r = nr_signature_algorithm s"
    using get [of "''signature_algorithm''"] by simp
  moreover have "nr_signature r = nr_signature s"
    using get [of "''signature''"] by (auto dest: json_nullable_inj)
  ultimately show ?thesis by (intro node_registration.equality) simp_all
qed

interpretation reg: binding_document E "registration_signable_bytes E" nr_signature
    "\<lambda>s. nr_signature_update (\<lambda>_. s)" registration_wf
  for E :: "'x deps_scheme"
proof unfold_locales
  fix s d d'
  show "registration_signable_bytes E (d\<lparr>nr_signature := s\<rparr>) = registration_signable_bytes E d"
    by (simp add: registration_signable_bytes_def)
  show "nr_signature (d\<lparr>nr_signature := s\<rparr>) = s" by simp
  assume "json_scalar_ok E" "registration_wf d" "registration_wf d'"
    "registration_signable_bytes E d = registration_signable_bytes E d'"
  then show "d\<lparr>nr_signature := None\<rparr> = d'\<lparr>nr_signature := None\<rparr>"
    unfolding registration_signable_bytes_def
    by (intro registration_json_inj canonical_bytes_eqD registration_json_wf)
       (simp_all add: registration_wf_def)
qed

lemma announce_json_wf: "json_wf (announce_json a)"
  unfolding announce_json_def by (rule json_wf_obj) (auto simp: json_wf_simps json_field_def json_nullable_def split: option.splits)

lemma announce_json_inj:
  assumes "announce_json a = announce_json b"
  shows "a = b"
proof -
  note get = json_obj_field [OF assms [unfolded announce_json_def], unfolded json_get_simps]
  have "ba_node_id a = ba_node_id b" using get [of "''node_id''"] by simp
  moreover have "ba_blocks a = ba_blocks b" using get [of "''blocks''"]
    by (auto intro!: json_strings_inj [of "\<lambda>x. x"])
  moreover have "ba_announced_at a = ba_announced_at b" using get [of "''announced_at''"] by simp
  moreover have "ba_signature a = ba_signature b"
    using get [of "''signature''"] by (auto dest: json_nullable_inj)
  ultimately show ?thesis by (intro block_announce.equality) simp_all
qed

interpretation ann: binding_document E "announce_signable_bytes E" ba_signature
    "\<lambda>s. ba_signature_update (\<lambda>_. s)" "\<lambda>_. True"
  for E :: "'x deps_scheme"
proof unfold_locales
  fix s d d'
  show "announce_signable_bytes E (d\<lparr>ba_signature := s\<rparr>) = announce_signable_bytes E d"
    by (simp add: announce_signable_bytes_def)
  show "ba_signature (d\<lparr>ba_signature := s\<rparr>) = s" by simp
  assume "json_scalar_ok E" "announce_signable_bytes E d = announce_signable_bytes E d'"
  then show "d\<lparr>ba_signature := None\<rparr> = d'\<lparr>ba_signature := None\<rparr>"
    unfolding announce_signable_bytes_def
    by (intro announce_json_inj canonical_bytes_eqD announce_json_wf) simp_all
qed

lemma announce_verify_iff [result_simps]:
  "announce_verify E a = Inr u \<longleftrightarrow> signature_check E (ba_node_id a) (announce_signable_bytes E a) (ba_signature a)"
  by (auto simp: announce_verify_def signature_check_def split: option.splits)

lemma announce_signed_verifies:
  assumes "hex_ok E" "ed25519_ok E" "length (signing_key i) = 32"
  shows "announce_verify E (announce_signed E clock i blocks) = Inr ()"
  unfolding announce_verify_iff announce_signed_def Let_def
  using ann.sealed_checks [OF assms refl,
      of "\<lparr>ba_node_id = node_id E i, ba_blocks = blocks, ba_announced_at = x_to_rfc3339 E clock, ba_signature = None\<rparr>"]
  by simp

subsection \<open>Hosts\<close>

lemma length_map_filter: "length (List.map_filter f xs) \<le> length xs"
  by (induction xs) (simp_all add: List.map_filter_simps split: option.splits)

lemma map_filter_all: "length (List.map_filter f xs) = length xs \<longleftrightarrow> (\<forall>x \<in> set xs. f x \<noteq> None)"
proof (induction xs)
  case (Cons x xs)
  then show ?case
    using length_map_filter [of f xs] by (cases "f x") (simp_all add: List.map_filter_simps)
qed (simp add: List.map_filter_simps)

lemma registration_ips_all:
  "length (registration_ips r) = length (nr_public_ips r) \<longleftrightarrow> (\<forall>s \<in> set (nr_public_ips r). parse_ip s \<noteq> None)"
  using map_filter_all [of parse_ip "nr_public_ips r"] by (simp add: registration_ips_def)

lemma trim_brackets_ip: "parse_ip s = Some ip \<Longrightarrow> trim_brackets s = s"
proof -
  assume "parse_ip s = Some ip"
  then have "\<forall>c \<in> set s. \<not> (c = CHR ''['' \<or> c = CHR '']'')"
    using parse_ip_chars ip_char_not_delimiter by (fastforce simp: list_all_iff)
  moreover have drop: "dropWhile P xs = xs" if "\<forall>c \<in> set xs. \<not> P c" for P and xs :: string
    using that by (cases xs) simp_all
  ultimately show ?thesis by (simp add: trim_brackets_def Let_def drop)
qed

lemma registration_verify_iff [result_simps]:
  "registration_verify E r = Inr u \<longleftrightarrow>
     nr_node_id r = nr_public_key r \<and> nr_roles r \<noteq> [] \<and>
     signature_check E (nr_public_key r) (registration_signable_bytes E r) (nr_signature r) \<and>
     nr_public_ips r \<noteq> [] \<and> (\<forall>s \<in> set (nr_public_ips r). parse_ip s \<noteq> None) \<and>
     (\<exists>host \<in> set (nr_public_ips r). health_endpoint_host (nr_health_endpoint r) = Some host)"
proof -
  have "(\<exists>x \<in> set (nr_public_ips r). trim_brackets x = host) \<longleftrightarrow> host \<in> set (nr_public_ips r)"
    if "\<forall>s \<in> set (nr_public_ips r). parse_ip s \<noteq> None" for host
    using that trim_brackets_ip by force
  then show ?thesis
    unfolding registration_verify_def Let_def registration_ips_all signature_check_def
    by (auto simp: list_ex_iff split: option.splits)
qed

text \<open>
  The host a URL names by RFC 3986: the authority ends at the first slash, question mark or hash, and
  what stands before an at sign is not part of the host.
\<close>

definition url_host :: "string \<Rightarrow> string option" where
  "url_host url =
     map_option (\<lambda>rest. authority_host (rsplit_first (CHR ''@'') (fst (split_at_any ''/?#'' rest))))
       (case strip_prefix ''http://'' url of Some rest \<Rightarrow> Some rest
        | None \<Rightarrow> strip_prefix ''https://'' url)"

lemma url_host_plain:
  assumes "health_endpoint_host url = Some host" and "set url \<inter> set ''@?#'' = {}"
  shows "url_host url = Some host"
proof -
  obtain rest where rest: "(case strip_prefix ''http://'' url of Some rest \<Rightarrow> Some rest
      | None \<Rightarrow> strip_prefix ''https://'' url) = Some rest"
    and host: "authority_host (split_first (CHR ''/'') rest) = host"
    using assms(1) by (auto simp: health_endpoint_host_def bind_eq_Some_conv Let_def split: if_splits)
  have "set rest \<subseteq> set url"
    using rest by (auto simp: strip_prefix_eq_Some split: option.splits)
  with assms(2) have no: "\<forall>c \<in> set rest. c \<noteq> CHR ''@'' \<and> c \<noteq> CHR ''?'' \<and> c \<noteq> CHR ''#''" by fastforce
  have cut: "fst (split_at_any ''/?#'' rest) = split_first (CHR ''/'') rest"
    using no by (auto simp: split_at_any_def split_first_def intro!: takeWhile_cong)
  have "set (split_first (CHR ''/'') rest) \<subseteq> set rest" using split_first_subset by blast
  with no have "CHR ''@'' \<notin> set (split_first (CHR ''/'') rest)" by blast
  then have "rsplit_first (CHR ''@'') (split_first (CHR ''/'') rest) = split_first (CHR ''/'') rest"
    by (simp add: rsplit_first_def takeWhile_no_sep)
  then show ?thesis unfolding url_host_def rest using cut host by simp
qed

end
