(* ===== verification/Directory_Invariant.thy ===== *)
theory Directory_Invariant
  imports Directory_Signed
begin

text \<open>
  The directory as a state machine: registrations, announcements (two steps each), health checks and
  pruning in any order, and what holds in every state they reach.
\<close>

subsection \<open>Steps\<close>

text \<open>A state is the directory and the announcements that have passed the check but not been stored.\<close>

inductive directory_step ::
  "'x directory_deps_scheme \<Rightarrow> directory \<times> block_announce list \<Rightarrow> directory \<times> block_announce list \<Rightarrow> bool"
  for E where
    step_register: "register_node E clock written reg d = (r, d') \<Longrightarrow> directory_step E (d, as) (d', as)"
  | step_prune: "prune_stale E clock max_age written d = (n, d') \<Longrightarrow> directory_step E (d, as) (d', as)"
  | step_check: "announce_check E a d = Inr () \<Longrightarrow> directory_step E (d, as) (d, a # as)"
  | step_commit: "a \<in> set as \<Longrightarrow> directory_step E (d, as) (announce_commit a d, remove1 a as)"
  | step_mark: "directory_step E (d, as) (mark_node E clock node ok latency d, as)"

inductive_cases directory_stepE: "directory_step E s t"

inductive directory_reachable ::
  "'x directory_deps_scheme \<Rightarrow> directory \<Rightarrow> directory \<times> block_announce list \<Rightarrow> bool" for E d0 where
    reach_start: "directory_reachable E d0 (d0, [])"
  | reach_step: "directory_reachable E d0 s \<Longrightarrow> directory_step E s t \<Longrightarrow> directory_reachable E d0 t"

subsection \<open>The invariant\<close>

definition status_coherent :: "node_entry \<Rightarrow> bool" where
  "status_coherent n \<longleftrightarrow>
     (ne_status n = Online \<longrightarrow> ne_consecutive_failures n = 0) \<and>
     (ne_consecutive_failures n = 1 \<or> ne_consecutive_failures n = 2 \<longrightarrow> ne_status n = Degraded)"

definition entry_ok :: "'x deps_scheme \<Rightarrow> string option \<Rightarrow> string \<Rightarrow> node_entry \<Rightarrow> bool" where
  "entry_ok E root node n \<longleftrightarrow>
     nr_node_id (ne_registration n) = node \<and> registration_verify E (ne_registration n) = Inr () \<and>
     (RootAuthority \<in> set (nr_roles (ne_registration n)) \<longrightarrow> root = Some (nr_public_key (ne_registration n))) \<and>
     status_coherent n"

text \<open>Someone who is listed as holding a block has signed that.\<close>

definition announced :: "'x deps_scheme \<Rightarrow> string \<Rightarrow> string \<Rightarrow> bool" where
  "announced E node hash \<longleftrightarrow>
     (\<exists>a. announce_verify E a = Inr () \<and> ba_node_id a = node \<and> hash \<in> set (ba_blocks a))"

definition providers_ok :: "'x deps_scheme \<Rightarrow> (string, string list) bmap \<Rightarrow> bool" where
  "providers_ok E m \<longleftrightarrow>
     (\<forall>hash ids. bm_get m hash = Some ids \<longrightarrow>
        is_valid_hash hash \<and> ids \<noteq> [] \<and> distinct ids \<and> (\<forall>x \<in> set ids. announced E x hash))"

definition directory_inv :: "'x deps_scheme \<Rightarrow> directory \<Rightarrow> bool" where
  "directory_inv E d \<longleftrightarrow>
     bm_sorted (d_nodes d) \<and> bm_sorted (d_providers d) \<and> length (d_nodes d) \<le> MAX_NODES \<and>
     (\<forall>node n. bm_get (d_nodes d) node = Some n \<longrightarrow> entry_ok E (d_root_public_key d) node n) \<and>
     providers_ok E (d_providers d)"

lemma persist_nodes_fields [simp]:
  "d_nodes (persist_nodes E w d) = d_nodes d" "d_providers (persist_nodes E w d) = d_providers d"
  "d_root_public_key (persist_nodes E w d) = d_root_public_key d"
  by (simp_all add: persist_nodes_def split: option.splits)

lemma directory_inv_persist [simp]: "directory_inv E (persist_nodes E' w d) = directory_inv E d"
  by (simp add: directory_inv_def)

lemma status_coherent_reset: "ne_consecutive_failures n = 0 \<Longrightarrow> status_coherent n"
  by (simp add: status_coherent_def)

lemma register_node_inv:
  assumes inv: "directory_inv E d" and reg: "register_node E clock w reg d = (r, d')"
  shows "directory_inv E d' \<and> d_root_public_key d' = d_root_public_key d"
proof (cases "d' = d")
  case True
  with inv show ?thesis by simp
next
  case False
  let ?now = "x_to_rfc3339 E clock"
  define entry where "entry = (case bm_get (d_nodes d) (nr_node_id reg) of Some entry \<Rightarrow> entry
    | None \<Rightarrow> \<lparr>ne_registration = reg, ne_status = Online, ne_last_seen = ?now,
        ne_latency_ms = None, ne_consecutive_failures = 0\<rparr>)"
  have v: "registration_verify E reg = Inr ()"
    using reg False by (cases "registration_verify E reg") (simp_all add: register_node_def)
  note eq = reg [unfolded register_node_def v sum.case Let_def, folded entry_def]
  have root: "RootAuthority \<in> set (nr_roles reg) \<longrightarrow> d_root_public_key d = Some (nr_public_key reg)"
    and cap: "length (d_nodes d) < MAX_NODES \<or> bm_contains (d_nodes d) (nr_node_id reg)"
    and d': "d' = persist_nodes E w (d\<lparr>d_nodes := bm_insert (nr_node_id reg)
      (entry\<lparr>ne_registration := reg, ne_last_seen := ?now, ne_status := Online,
        ne_consecutive_failures := 0\<rparr>) (d_nodes d)\<rparr>)"
    using eq False by (auto split: if_splits)
  have "length (bm_insert (nr_node_id reg) e (d_nodes d)) \<le> MAX_NODES" for e
    using cap inv by (auto simp: length_bm_insert directory_inv_def bm_contains_iff)
  then show ?thesis
    using inv v root
    by (auto simp: d' directory_inv_def map_simps entry_ok_def status_coherent_reset split: if_splits)
qed

lemma foldl_bm_remove_get:
  "bm_get (foldl (\<lambda>m x. bm_remove x m) m ks) k = (if k \<in> set ks then None else bm_get m k)"
  by (induction ks arbitrary: m) (auto simp: map_simps)

lemma foldl_bm_remove_sorted: "bm_sorted m \<Longrightarrow> bm_sorted (foldl (\<lambda>m x. bm_remove x m) m ks)"
  by (induction ks arbitrary: m) (auto simp: bm_sorted_remove)

lemma foldl_bm_remove_length: "length (foldl (\<lambda>m x. bm_remove x m) m ks) \<le> length m"
proof (induction ks arbitrary: m)
  case (Cons k ks)
  have "length (bm_remove k m) \<le> length m" by (simp add: bm_remove_def)
  with Cons [of "bm_remove k m"] show ?case by simp
qed simp

lemma scrub_provider_map:
  "scrub_provider stale m = filter (\<lambda>(_, ids). ids \<noteq> []) (bm_map (filter (\<lambda>x. x \<notin> set stale)) m)"
  by (simp add: scrub_provider_def bm_map_def)

lemma scrub_provider_sorted: "bm_sorted m \<Longrightarrow> bm_sorted (scrub_provider stale m)"
  by (simp add: scrub_provider_map bm_sorted_filter)

lemma scrub_provider_get:
  "bm_sorted m \<Longrightarrow> bm_get (scrub_provider stale m) h =
     (case bm_get m h of None \<Rightarrow> None
      | Some ids \<Rightarrow> let kept = filter (\<lambda>x. x \<notin> set stale) ids in if kept = [] then None else Some kept)"
proof -
  assume m: "bm_sorted m"
  note sorted = scrub_provider_sorted [OF m]
  have "bm_get (scrub_provider stale m) h = Some ids \<longleftrightarrow>
      (\<exists>old. bm_get m h = Some old \<and> ids = filter (\<lambda>x. x \<notin> set stale) old \<and> ids \<noteq> [])" for ids
    unfolding bm_in_set [OF sorted, symmetric] bm_in_set [OF m, symmetric]
    by (auto simp: scrub_provider_def)
  then show ?thesis
    by (cases "bm_get (scrub_provider stale m) h"; cases "bm_get m h") (auto simp: Let_def)
qed

lemma prune_stale_fields:
  assumes "prune_stale E clock max_age w d = (n, d')"
  obtains stale where
    "d_nodes d' = foldl (\<lambda>m x. bm_remove x m) (d_nodes d) stale"
    "d_providers d' = (if stale = [] then d_providers d else scrub_provider stale (d_providers d))"
    "d_root_public_key d' = d_root_public_key d"
    "stale = map fst (filter (\<lambda>(_, entry). is_stale E clock max_age entry) (d_nodes d))"
  using assms
  by (intro that [of "map fst (filter (\<lambda>(_, entry). is_stale E clock max_age entry) (d_nodes d))"])
     (auto simp: prune_stale_def Let_def split: if_splits)

lemma prune_stale_inv:
  assumes inv: "directory_inv E d" and "prune_stale E clock max_age w d = (n, d')"
  shows "directory_inv E d' \<and> d_root_public_key d' = d_root_public_key d"
proof -
  from assms(2) obtain stale where f: "d_nodes d' = foldl (\<lambda>m x. bm_remove x m) (d_nodes d) stale"
    "d_providers d' = (if stale = [] then d_providers d else scrub_provider stale (d_providers d))"
    "d_root_public_key d' = d_root_public_key d"
    by (rule prune_stale_fields)
  have "length (d_nodes d') \<le> MAX_NODES"
    using inv foldl_bm_remove_length [of "d_nodes d" stale] by (simp add: f directory_inv_def)
  moreover have "providers_ok E (d_providers d')"
    using inv
    by (auto simp: f directory_inv_def providers_ok_def scrub_provider_get Let_def
        split: option.splits if_splits)
  moreover have "bm_sorted (d_nodes d')" "bm_sorted (d_providers d')"
    using inv by (simp_all add: f directory_inv_def foldl_bm_remove_sorted scrub_provider_sorted)
  ultimately show ?thesis
    using inv by (auto simp: f directory_inv_def foldl_bm_remove_get split: if_splits)
qed

lemma list_insert_not_Nil: "List.insert x xs \<noteq> []"
  by (auto simp: List.insert_def)

lemma add_provider_ok:
  assumes "bm_sorted m" "providers_ok E m" "announced E node hash"
  shows "bm_sorted (add_provider node hash m) \<and> providers_ok E (add_provider node hash m)"
  using assms
  by (auto simp: add_provider_def Let_def providers_ok_def map_simps list_insert_not_Nil
      split: option.splits if_splits)

lemma announce_commit_inv:
  assumes "directory_inv E d" "announce_verify E a = Inr ()"
  shows "directory_inv E (announce_commit a d)"
proof -
  have "bm_sorted m \<and> providers_ok E m \<Longrightarrow> set hs \<subseteq> set (ba_blocks a) \<Longrightarrow>
      bm_sorted (foldl (\<lambda>m h. add_provider (ba_node_id a) h m) m hs) \<and>
      providers_ok E (foldl (\<lambda>m h. add_provider (ba_node_id a) h m) m hs)" for m hs
  proof (induction hs arbitrary: m)
    case (Cons h hs)
    have "announced E (ba_node_id a) h" using assms(2) Cons.prems(2) by (auto simp: announced_def)
    with Cons show ?case using add_provider_ok [of m E] by simp
  qed simp
  from this [of "d_providers d" "ba_blocks a"] assms(1) show ?thesis
    by (simp add: directory_inv_def announce_commit_def)
qed

lemma mark_entry_ok:
  assumes "entry_ok E root node n"
  shows "entry_ok E root node (mark_entry E' clock ok latency n)"
proof -
  have "status_coherent (mark_entry E' clock ok latency n)"
    by (auto simp: mark_entry_def status_coherent_def Let_def)
  moreover have "ne_registration (mark_entry E' clock ok latency n) = ne_registration n"
    by (simp add: mark_entry_def Let_def)
  ultimately show ?thesis using assms by (simp add: entry_ok_def)
qed

lemma mark_node_inv:
  assumes inv: "directory_inv E d"
  shows "directory_inv E (mark_node E' clock node ok latency d)"
proof (cases "bm_get (d_nodes d) node")
  case None
  with inv show ?thesis by (simp add: mark_node_def)
next
  case (Some n)
  then have "length (bm_insert node x (d_nodes d)) = length (d_nodes d)" for x
    using inv by (simp add: directory_inv_def length_bm_insert bm_contains_iff)
  with inv Some show ?thesis
    by (auto simp: mark_node_def directory_inv_def map_simps mark_entry_ok split: if_splits)
qed

lemma mark_node_root [simp]: "d_root_public_key (mark_node E clock node ok latency d) = d_root_public_key d"
  by (simp add: mark_node_def split: option.splits)

definition machine_inv :: "'x deps_scheme \<Rightarrow> string option \<Rightarrow> directory \<times> block_announce list \<Rightarrow> bool" where
  "machine_inv E root s \<longleftrightarrow>
     directory_inv E (fst s) \<and> d_root_public_key (fst s) = root \<and>
     (\<forall>a \<in> set (snd s). announce_verify E a = Inr ())"

lemma directory_step_inv:
  "directory_step E s t \<Longrightarrow> machine_inv E root s \<Longrightarrow> machine_inv E root t"
proof (induction rule: directory_step.induct)
  case (step_register clock written reg d r d' as)
  then show ?case using register_node_inv [of E d clock written reg r d'] by (auto simp: machine_inv_def)
next
  case (step_prune clock max_age written d n d' as)
  then show ?case using prune_stale_inv [of E d clock max_age written n d'] by (auto simp: machine_inv_def)
next
  case (step_check a d as)
  then show ?case by (auto simp: machine_inv_def announce_check_def result_simps split: if_splits)
next
  case (step_commit a as d)
  then show ?case
    using announce_commit_inv [of E d a] set_remove1_subset [of a as]
    by (auto simp: machine_inv_def) (simp_all add: announce_commit_def)
next
  case (step_mark d as clock node ok latency)
  then show ?case by (auto simp: machine_inv_def mark_node_inv)
qed

lemma directory_inv_new: "directory_inv E (directory_new root)"
  by (simp add: directory_inv_def directory_new_def providers_ok_def)

lemma reachable_machine_inv:
  "directory_reachable E (directory_new root) s \<Longrightarrow> machine_inv E root s"
proof (induction rule: directory_reachable.induct)
  case reach_start
  then show ?case by (simp add: machine_inv_def directory_inv_new) (simp add: directory_new_def)
next
  case (reach_step s t)
  then show ?case using directory_step_inv by blast
qed

lemma health_check_round_reachable:
  "directory_reachable E d0 (d, as) \<Longrightarrow> directory_reachable E d0 (health_check_round E clock written probe d, as)"
proof -
  assume d: "directory_reachable E d0 (d, as)"
  obtain n d' where p: "prune_stale E clock STALE_NODE_MAX_AGE written d = (n, d')" by fastforce
  have "directory_reachable E d0 (d'', as) \<Longrightarrow>
      directory_reachable E d0 (foldl (\<lambda>d n. probe_node E probe n d) d'' ns, as)" for d'' ns
    by (induction ns arbitrary: d'')
       (auto simp: probe_node_def split: prod.splits intro: reach_step step_mark)
  with reach_step [OF d step_prune [OF p]] show ?thesis
    by (simp add: health_check_round_def p Let_def)
qed

end
