(* ===== verification/Directory_Properties.thy ===== *)
theory Directory_Properties
  imports Directory_Invariant "HOL-Library.Multiset"
begin

text \<open>
  The properties of the directory, with the registrations and the directory the witnesses evaluate.
\<close>

subsection \<open>Samples\<close>

definition sample_directory_deps :: directory_deps where
  "sample_directory_deps = sample_ext (directory_deps.fields (\<lambda>ks. ks) \<lparr>to_vec = (\<lambda>_. []), from_slice = (\<lambda>_. None)\<rparr>)"

lemma sample_directory_ok:
  "hex_ok sample_directory_deps" "ed25519_ok sample_directory_deps" "json_scalar_ok sample_directory_deps"
  unfolding sample_directory_deps_def
  by (rule sample_ext_hex_ok sample_ext_ed25519_ok sample_ext_scalar_ok)+

lemma sample_hash_order [simp]: "hash_order sample_directory_deps ks = ks"
  by (simp add: sample_directory_deps_def sample_ext_def directory_deps.defs)

definition seal_registration :: "'x deps_scheme \<Rightarrow> node_identity \<Rightarrow> node_registration \<Rightarrow> node_registration" where
  "seal_registration E i r = r\<lparr>nr_signature := Some (sign E i (registration_signable_bytes E r))\<rparr>"

lemma seal_registration_fields [simp]:
  "nr_node_id (seal_registration E i r) = nr_node_id r" "nr_public_key (seal_registration E i r) = nr_public_key r"
  "nr_roles (seal_registration E i r) = nr_roles r" "nr_public_ips (seal_registration E i r) = nr_public_ips r"
  "nr_health_endpoint (seal_registration E i r) = nr_health_endpoint r"
  by (simp_all add: seal_registration_def)

lemma sealed_registration_verifies:
  assumes "hex_ok E" "ed25519_ok E" "length (signing_key i) = 32"
    and "nr_node_id r = node_id E i" "nr_public_key r = node_id E i" "nr_roles r \<noteq> []"
    and "\<forall>s \<in> set (nr_public_ips r). parse_ip s \<noteq> None" "host \<in> set (nr_public_ips r)"
    and "health_endpoint_host (nr_health_endpoint r) = Some host"
  shows "registration_verify E (seal_registration E i r) = Inr ()"
  using reg.sealed_checks [OF assms(1-3) seal_registration_def] assms(4-)
  by (auto simp: registration_verify_iff)

definition sample_registration :: "node_role list \<Rightarrow> string \<Rightarrow> node_registration" where
  "sample_registration roles endpoint =
     \<lparr>nr_node_id = node_id sample_directory_deps sample_identity,
      nr_public_key = node_id sample_directory_deps sample_identity, nr_roles = roles,
      nr_public_ips = [''45.1.1.1''], nr_region = ''br-sp'', nr_version = ''0.1.0'',
      nr_capacity = \<lparr>storage_gb = 100, bandwidth_mbps = 500\<rparr>, nr_health_endpoint = endpoint,
      nr_native_port = Some 4077, nr_registered_at = ''1'', nr_signature_algorithm = ''ed25519'',
      nr_signature = None\<rparr>"

definition sealed_sample :: "node_role list \<Rightarrow> string \<Rightarrow> node_registration" where
  "sealed_sample roles endpoint =
     seal_registration sample_directory_deps sample_identity (sample_registration roles endpoint)"

lemma sealed_sample_verifies:
  assumes "roles \<noteq> []" "health_endpoint_host endpoint = Some ''45.1.1.1''"
  shows "registration_verify sample_directory_deps (sealed_sample roles endpoint) = Inr ()"
  unfolding sealed_sample_def
  using assms parse_ip_examples(1)
  by (intro sealed_registration_verifies sample_directory_ok length_sample_identity)
     (simp_all add: sample_registration_def)

lemma sample_endpoint: "health_endpoint_host ''http://45.1.1.1:8080'' = Some ''45.1.1.1''"
  by code_simp

subsection \<open>Registrations\<close>

text \<open>
  A registration that verifies is signed by the node itself over everything it says, lists only IP
  addresses, and its health endpoint names one of them, as the directory reads the URL; the host the URL
  means is that address when the URL has no user info, query or fragment.
\<close>

lemma registration_verify_sound:
  assumes "registration_verify E r = Inr ()"
  shows "nr_node_id r = nr_public_key r \<and> nr_roles r \<noteq> [] \<and>
    signature_check E (nr_node_id r) (registration_signable_bytes E r) (nr_signature r) \<and>
    (json_scalar_ok E \<and> registration_wf r \<and> registration_wf r' \<and>
       registration_signable_bytes E r' = registration_signable_bytes E r
       \<longrightarrow> r'\<lparr>nr_signature := None\<rparr> = r\<lparr>nr_signature := None\<rparr>) \<and>
    (\<forall>s \<in> set (nr_public_ips r). parse_ip s \<noteq> None) \<and>
    (\<exists>ip \<in> set (nr_public_ips r). health_endpoint_host (nr_health_endpoint r) = Some ip \<and>
       (set (nr_health_endpoint r) \<inter> set ''@?#'' = {} \<longrightarrow> url_host (nr_health_endpoint r) = Some ip))"
proof -
  note v = assms [unfolded registration_verify_iff]
  then obtain ip where "ip \<in> set (nr_public_ips r)" "health_endpoint_host (nr_health_endpoint r) = Some ip"
    by blast
  with v reg.payload_binds [of E r' r] url_host_plain [of "nr_health_endpoint r" ip] show ?thesis
    by auto
qed

lemma registration_verify_sound_witness:
  "url_host (nr_health_endpoint (sealed_sample [RoleCdn] ''http://45.1.1.1:8080'')) = Some ''45.1.1.1''"
proof -
  have ep: "nr_health_endpoint (sealed_sample [RoleCdn] ''http://45.1.1.1:8080'') = ''http://45.1.1.1:8080''"
    "nr_public_ips (sealed_sample [RoleCdn] ''http://45.1.1.1:8080'') = [''45.1.1.1'']"
    by (simp_all add: sealed_sample_def sample_registration_def)
  have "registration_verify sample_directory_deps (sealed_sample [RoleCdn] ''http://45.1.1.1:8080'') = Inr ()"
    by (intro sealed_sample_verifies sample_endpoint) simp
  from registration_verify_sound [OF this] show ?thesis unfolding ep by auto
qed

lemma health_endpoint_host_http:
  "health_endpoint_host (''http://'' @ rest) =
     (if split_first (CHR ''/'') rest = [] \<or> authority_host (split_first (CHR ''/'') rest) = [] then None
      else Some (authority_host (split_first (CHR ''/'') rest)))"
  unfolding health_endpoint_host_def strip_prefix_append option.case bind.bind_lunit Let_def by simp

lemma url_host_http:
  "url_host (''http://'' @ rest) =
     Some (authority_host (rsplit_first (CHR ''@'') (fst (split_at_any ''/?#'' rest))))"
  unfolding url_host_def strip_prefix_append option.case option.map ..

lemma url_host_userinfo:
  assumes "set user \<inter> set ''/?#'' = {}" "set host \<inter> set ''/?#@:['' = {}" "t = [] \<or> hd t = CHR ''/''"
  shows "url_host (''http://'' @ (user @ ''@'' @ host) @ t) = Some host"
proof -
  let ?auth = "user @ ''@'' @ host"
  have "\<forall>c \<in> set ?auth. c \<noteq> CHR ''/'' \<and> c \<noteq> CHR ''?'' \<and> c \<noteq> CHR ''#''" using assms(1,2) by auto
  then have "fst (split_at_any ''/?#'' (?auth @ t)) = ?auth"
    using assms(3) by (cases t) (auto simp: split_at_any_def takeWhile_append2 takeWhile_eq_all_conv)
  moreover have "takeWhile (\<lambda>x. x \<noteq> CHR ''@'') (rev host @ CHR ''@'' # rev user) = rev host"
    using assms(2) by (intro takeWhile_sep) auto
  then have "rsplit_first (CHR ''@'') ?auth = host" by (simp add: rsplit_first_def)
  moreover have "split_first (CHR '':'') host = host" using assms(2) by (intro split_first_no_sep) auto
  moreover have "strip_prefix ''['' host = None" using assms(2) by (cases host) (auto simp: strip_prefix_def)
  ultimately show ?thesis unfolding url_host_http by (simp add: authority_host_def)
qed

text \<open>
  The check is bypassed by user info: \<open>http://IP:80@HOST/\<close> passes \<open>verify\<close> with any declared IPv4
  address before the at sign, and what the health checker then requests is \<open>HOST\<close>.
\<close>

lemma userinfo_escapes_ip_check:
  assumes "hex_ok E" "ed25519_ok E" "length (signing_key i) = 32"
    and "nr_node_id r = node_id E i" "nr_public_key r = node_id E i" "nr_roles r \<noteq> []"
    and ip: "nr_public_ips r = [ip]" "parse_ip ip = Some (V4 a b c d)" "CHR '':'' \<notin> set ip" "ip \<noteq> []"
    and host: "set host \<inter> set ''/?#@:['' = {}"
    and endpoint: "nr_health_endpoint r = ''http://'' @ ip @ '':80@'' @ host"
  shows "registration_verify E (seal_registration E i r) = Inr () \<and>
    url_host (nr_health_endpoint r) = Some host \<and>
    (ne_registration n = seal_registration E i r \<longrightarrow> url_host (health_url n) = Some host)"
proof -
  define auth where "auth = ip @ '':80@'' @ host"
  have ep: "nr_health_endpoint r = ''http://'' @ auth" using endpoint by (simp only: auth_def)
  have ipc: "\<forall>c \<in> set ip. c \<notin> set ''[]@/?#''"
    using parse_ip_chars [OF ip(2)] ip_char_not_delimiter by (auto simp: list_all_iff)
  have no_bracket: "strip_prefix ''['' auth = None" "strip_prefix ''['' host = None"
    using ipc ip(4) host by (cases ip; cases host; auto simp: strip_prefix_def auth_def)+
  have chars: "\<forall>c \<in> set auth. c \<noteq> CHR ''/'' \<and> c \<noteq> CHR ''?'' \<and> c \<noteq> CHR ''#''"
    using ipc host by (auto simp: auth_def)
  have "split_first (CHR '':'') auth = ip"
    using split_first_sep [OF ip(3), of "''80@'' @ host"] by (simp add: auth_def)
  then have "authority_host auth = ip" by (simp add: authority_host_def no_bracket)
  moreover have "split_first (CHR ''/'') auth = auth" using chars by (intro split_first_no_sep) auto
  moreover have "auth \<noteq> []" by (simp add: auth_def)
  ultimately have "health_endpoint_host (nr_health_endpoint r) = Some ip"
    unfolding ep health_endpoint_host_http using ip(4) by simp
  then have verifies: "registration_verify E (seal_registration E i r) = Inr ()"
    using assms(1-6) ip by (intro sealed_registration_verifies) auto
  have url: "url_host (''http://'' @ auth @ t) = Some host" if "t = [] \<or> hd t = CHR ''/''" for t
    using url_host_userinfo [OF _ host that, of "ip @ '':80''"] ipc by (auto simp: auth_def)
  have "url_host (health_url n) = Some host" if n: "ne_registration n = seal_registration E i r"
  proof -
    have "last auth \<noteq> CHR ''/''" using chars \<open>auth \<noteq> []\<close> last_in_set by blast
    then have "trim_end_matches (CHR ''/'') (''http://'' @ auth) = ''http://'' @ auth"
      using \<open>auth \<noteq> []\<close> by (cases auth rule: rev_cases) (simp_all add: trim_end_matches_def)
    then have "health_url n = (''http://'' @ auth) @ ''/health''"
      unfolding health_url_def n seal_registration_fields ep by (rule arg_cong)
    then show ?thesis using url [of "''/health''"] by simp
  qed
  then show ?thesis using verifies url [of "[]"] unfolding ep by simp
qed

lemma userinfo_escapes_ip_check_witness:
  "registration_verify sample_directory_deps (sealed_sample [RoleGateway] ''http://45.1.1.1:80@169.254.169.254'')
     = Inr () \<and> url_host ''http://45.1.1.1:80@169.254.169.254'' = Some ''169.254.169.254''"
  using userinfo_escapes_ip_check [OF sample_directory_ok(1,2) length_sample_identity,
      where r = "sample_registration [RoleGateway] ''http://45.1.1.1:80@169.254.169.254''"
        and ip = "''45.1.1.1''" and host = "''169.254.169.254''"] parse_ip_examples(1)
  by (simp add: sample_registration_def sealed_sample_def)

subsection \<open>Every state\<close>


subsection \<open>Who is offered\<close>

text \<open>A \<open>HashMap\<close> yields each key once, in an order of its own.\<close>

definition hash_order_ok :: "'x directory_deps_scheme \<Rightarrow> bool" where
  "hash_order_ok E \<longleftrightarrow> (\<forall>ks. mset (hash_order E ks) = mset ks)"

lemma map_filter_keys: "distinct (map fst m) \<Longrightarrow> List.map_filter (bm_get m) (map fst m) = map snd m"
proof -
  assume m: "distinct (map fst m)"
  have "bm_get m (fst p) = Some (snd p)" if "p \<in> set m" for p
    using m that by (simp add: bm_get_def)
  then have "List.map_filter (\<lambda>p. bm_get m (fst p)) ps = map snd ps" if "set ps \<subseteq> set m" for ps
    using that by (induction ps) (auto simp: List.map_filter_simps)
  then show ?thesis by (simp add: List.map_filter_def filter_map comp_def)
qed

lemma mset_map_filter:
  "mset xs = mset ys \<Longrightarrow> mset (List.map_filter f xs) = mset (List.map_filter f ys)"
  by (simp add: List.map_filter_def)

lemma mset_hash_values:
  "hash_order_ok E \<Longrightarrow> bm_sorted m \<Longrightarrow> mset (hash_values E m) = mset (bm_values m)"
proof -
  assume "hash_order_ok E" "bm_sorted m"
  then have "mset (hash_order E (map fst m)) = mset (map fst m)"
    and "List.map_filter (bm_get m) (map fst m) = map snd m"
    using map_filter_keys [OF bm_sorted_distinct] by (simp_all only: hash_order_ok_def)
  then show ?thesis
    using mset_map_filter [of "hash_order E (map fst m)" "map fst m" "bm_get m"]
    by (simp only: hash_values_def bm_keys_def bm_values_def)
qed

lemma set_map_filter_mset:
  "mset xs = mset ys \<Longrightarrow> y \<in> set (List.map_filter f xs) \<longleftrightarrow> (\<exists>x \<in> set ys. f x = Some y)"
  using mset_eq_setD [of xs ys] by (force simp: List.map_filter_def)

text \<open>
  C37: \<open>healthy\<close> offers exactly the registered nodes of the role that are not offline, online before
  degraded and then by latency; \<open>providers_for_block\<close> offers exactly the registered nodes listed for the
  block that are not offline, by latency. The order of the hash maps only decides ties.
\<close>

lemma healthy_nodes_ranked:
  assumes "hash_order_ok E" "bm_sorted (d_nodes d)"
  shows "mset (healthy_nodes E role d) =
      mset (filter (\<lambda>n. role \<in> set (nr_roles (ne_registration n)) \<and> ne_status n \<noteq> Offline) (bm_values (d_nodes d))) \<and>
    sorted (map health_key (healthy_nodes E role d)) \<and>
    (n \<in> set (providers_for_block E hash wanted d) \<longleftrightarrow>
      (\<exists>ids. bm_get (d_providers d) hash = Some ids \<and> (\<exists>x \<in> set ids. directory_get x d = Some n)) \<and>
      ne_status n \<noteq> Offline \<and> has_role wanted n) \<and>
    sorted (map latency_key (providers_for_block E hash wanted d))"
proof (intro conjI)
  have "directory_list E (Some role) True d =
      filter (\<lambda>n. role \<in> set (nr_roles (ne_registration n)) \<and> ne_status n \<noteq> Offline) (hash_values E (d_nodes d))"
    by (simp add: directory_list_def has_role_def)
  then show "mset (healthy_nodes E role d) =
      mset (filter (\<lambda>n. role \<in> set (nr_roles (ne_registration n)) \<and> ne_status n \<noteq> Offline) (bm_values (d_nodes d)))"
    using mset_hash_values [OF assms] by (simp add: healthy_nodes_def)
  show "sorted (map health_key (healthy_nodes E role d))" by (simp add: healthy_nodes_def)
  show "sorted (map latency_key (providers_for_block E hash wanted d))"
    by (simp add: providers_for_block_def Let_def)
  have "mset (hash_order E ids) = mset ids" for ids using assms(1) by (simp add: hash_order_ok_def)
  note in_order = set_map_filter_mset [OF this]
  show "n \<in> set (providers_for_block E hash wanted d) \<longleftrightarrow>
      (\<exists>ids. bm_get (d_providers d) hash = Some ids \<and> (\<exists>x \<in> set ids. directory_get x d = Some n)) \<and>
      ne_status n \<noteq> Offline \<and> has_role wanted n"
    by (cases "bm_get (d_providers d) hash")
       (auto simp: providers_for_block_def directory_get_def in_order)
qed

subsection \<open>Failing nodes\<close>

lemma mark_entry_failed:
  "ne_consecutive_failures (mark_entry E clock False l e) = ne_consecutive_failures e + 1"
  "ne_status (mark_entry E clock False l e) =
     (if ne_consecutive_failures e + 1 = 1 \<or> ne_consecutive_failures e + 1 = 2 then Degraded else Offline)"
  by (simp_all add: mark_entry_def Let_def)

lemma mark_failures:
  "n < 4294967296 \<Longrightarrow> ne_consecutive_failures e = 0 \<Longrightarrow>
     ne_consecutive_failures ((mark_entry E clock False None ^^ n) e) = of_nat n \<and>
     (0 < n \<longrightarrow> ne_status ((mark_entry E clock False None ^^ n) e) = (if n \<le> 2 then Degraded else Offline))"
proof (induction n)
  case (Suc n)
  then have f: "ne_consecutive_failures ((mark_entry E clock False None ^^ n) e) = of_nat n" by simp
  have next_count: "(of_nat n + 1 :: u32) = of_nat (Suc n)" by simp
  have count: "unat (of_nat (Suc n) :: u32) = Suc n" using Suc.prems by (simp only: unat_of_nat) simp
  have "(of_nat (Suc n) :: u32) = 1 \<longleftrightarrow> Suc n = 1" using count by (metis of_nat_1 unat_1)
  moreover have "(of_nat (Suc n) :: u32) = 2 \<longleftrightarrow> Suc n = 2"
  proof
    assume "(of_nat (Suc n) :: u32) = 2"
    then have "unat (of_nat (Suc n) :: u32) = unat (2 :: u32)" by (simp only:)
    then show "Suc n = 2" unfolding count by simp
  qed (simp only: of_nat_numeral)
  moreover have "Suc n \<le> 2 \<longleftrightarrow> Suc n = 1 \<or> Suc n = 2" by auto
  ultimately show ?case
    unfolding funpow.simps comp_apply mark_entry_failed f next_count by (simp only: simp_thms)
qed simp

text \<open>
  Health follows the count of consecutive failures: one or two make a node degraded, three or more
  offline, and one success, or registering again, makes it online.
\<close>

lemma health_follows_failures:
  assumes "ne_consecutive_failures e = 0" "0 < n" "n < 4294967296"
  shows "ne_status ((mark_entry E clock False None ^^ n) e) = (if n \<le> 2 then Degraded else Offline) \<and>
    (let e' = mark_entry E clock True (Some l) ((mark_entry E clock' False None ^^ n) e)
     in ne_status e' = Online \<and> ne_consecutive_failures e' = 0 \<and> ne_last_seen e' = x_to_rfc3339 E clock)"
  using mark_failures [OF assms(3,1), of E clock] assms(2) by (simp add: mark_entry_def Let_def)

subsection \<open>Restarts\<close>

text \<open>
  A restored entry is only checked for its signature: a self-signed registration with the root-authority
  role, which \<open>register\<close> refuses, is taken from the snapshot.
\<close>

lemma restored_snapshot_skips_root_check:
  assumes "from_slice (entries_codec E) bs = Some [n]" "registration_verify E (ne_registration n) = Inr ()"
    and "RootAuthority \<in> set (nr_roles (ne_registration n))" "root \<noteq> Some (nr_public_key (ne_registration n))"
    and "d = directory_with_persistence E root path (Some bs)"
  shows "directory_get (nr_node_id (ne_registration n)) d = Some n \<and>
    (\<exists>e. register_node E clock written (ne_registration n) d = (Inl e, d))"
  using assms
  by (simp add: directory_with_persistence_def restore_nodes_def directory_get_def register_node_def
      bm_get_def)

subsection \<open>An announcement overtaken by pruning\<close>

lemma add_provider_lists:
  "is_valid_hash h \<Longrightarrow> h \<in> set hs \<Longrightarrow>
     \<exists>ids. bm_get (foldl (\<lambda>m h. add_provider node h m) m hs) h = Some ids \<and> node \<in> set ids"
proof (induction hs rule: rev_induct)
  case (snoc x hs)
  let ?m = "foldl (\<lambda>m h. add_provider node h m) m hs"
  show ?case
  proof (cases "x = h")
    case True
    with snoc.prems show ?thesis by (simp add: add_provider_def Let_def map_simps)
  next
    case False
    with snoc have "\<exists>ids. bm_get ?m h = Some ids \<and> node \<in> set ids" by auto
    with False show ?thesis by (simp add: add_provider_def Let_def map_simps)
  qed
qed simp

lemma prune_keeps_unknown:
  assumes p: "prune_stale E clock max_age w d = (n, d')" and inv: "bm_sorted (d_providers d)"
    and x: "bm_get (d_providers d) h = Some ids" "node \<in> set ids" "bm_get (d_nodes d) node = None"
  shows "\<exists>ids'. bm_get (d_providers d') h = Some ids' \<and> node \<in> set ids'"
proof -
  from p obtain stale where f:
    "d_providers d' = (if stale = [] then d_providers d else scrub_provider stale (d_providers d))"
    "stale = map fst (filter (\<lambda>(_, entry). is_stale E clock max_age entry) (d_nodes d))"
    by (rule prune_stale_fields)
  have "node \<notin> set stale"
    using x(3) by (auto simp: f(2) bm_get_def map_of_eq_None_iff)
  then have "node \<in> set (filter (\<lambda>y. y \<notin> set stale) ids)" using x(2) by simp
  then show ?thesis
    using x inv by (auto simp: f(1) scrub_provider_get Let_def filter_empty_conv)
qed

text \<open>
  The check and the storing of an announcement are two steps. If pruning drops the node in between,
  the node is listed as a provider although it is not registered, and no later pruning takes it off the
  list; it is offered to nobody, because \<open>providers_for_block\<close> only returns registered nodes.
\<close>

lemma announcement_overtaken_by_prune:
  assumes reach: "directory_reachable E (directory_new root) (d, as)" and check: "announce_check E a d = Inr ()"
    and prune: "prune_stale E clock max_age w d = (n, d')" and gone: "directory_get (ba_node_id a) d' = None"
    and h: "h \<in> set (ba_blocks a)" "is_valid_hash h" and d'': "d'' = announce_commit a d'"
  shows "directory_reachable E (directory_new root) (d'', as) \<and> directory_get (ba_node_id a) d'' = None \<and>
    (\<exists>ids. bm_get (d_providers d'') h = Some ids \<and> ba_node_id a \<in> set ids) \<and>
    (\<exists>ids. bm_get (d_providers (snd (prune_stale E clock' max_age' w' d''))) h = Some ids \<and> ba_node_id a \<in> set ids) \<and>
    (\<forall>x \<in> set (providers_for_block E h role d''). nr_node_id (ne_registration x) \<noteq> ba_node_id a)"
proof (intro conjI)
  have "directory_step E (d, as) (d, a # as)" using check by (rule step_check)
  moreover have "directory_step E (d, a # as) (d', a # as)" using prune by (rule step_prune)
  moreover have "directory_step E (d', a # as) (d'', remove1 a (a # as))"
    unfolding d'' by (rule step_commit) simp
  ultimately show r: "directory_reachable E (directory_new root) (d'', as)"
    using reach reach_step by (metis remove1.simps(2))
  show unknown: "directory_get (ba_node_id a) d'' = None"
    using gone by (simp add: d'' announce_commit_def directory_get_def)
  show listed: "\<exists>ids. bm_get (d_providers d'') h = Some ids \<and> ba_node_id a \<in> set ids"
    using add_provider_lists [OF h(2,1)] by (simp add: d'' announce_commit_def)
  have inv: "directory_inv E d''" using reachable_machine_inv [OF r] by (simp add: machine_inv_def)
  show "\<exists>ids. bm_get (d_providers (snd (prune_stale E clock' max_age' w' d''))) h = Some ids \<and> ba_node_id a \<in> set ids"
    using listed prune_keeps_unknown [OF surjective_pairing] inv unknown
    by (auto simp: directory_inv_def directory_get_def)
  show "\<forall>x \<in> set (providers_for_block E h role d''). nr_node_id (ne_registration x) \<noteq> ba_node_id a"
  proof
    fix x
    assume "x \<in> set (providers_for_block E h role d'')"
    then obtain node where "bm_get (d_nodes d'') node = Some x"
      by (auto simp: providers_for_block_def Let_def List.map_filter_def)
    then show "nr_node_id (ne_registration x) \<noteq> ba_node_id a"
      using inv unknown by (auto simp: directory_inv_def entry_ok_def directory_get_def)
  qed
qed

subsection \<open>Witnesses\<close>

definition sample_entry :: node_entry where
  "sample_entry = \<lparr>ne_registration = sealed_sample [RoleCdn] ''http://45.1.1.1:8080'', ne_status = Online,
     ne_last_seen = ''0'', ne_latency_ms = None, ne_consecutive_failures = 0\<rparr>"

abbreviation sample_node :: string where
  "sample_node \<equiv> node_id sample_directory_deps sample_identity"

definition sample_directory :: directory where
  "sample_directory = (directory_new None)\<lparr>d_nodes := [(sample_node, sample_entry)]\<rparr>"

lemma sample_registered:
  "register_node sample_directory_deps 0 True (sealed_sample [RoleCdn] ''http://45.1.1.1:8080'') (directory_new None)
     = (Inr (), sample_directory)"
proof -
  have "registration_verify sample_directory_deps (sealed_sample [RoleCdn] ''http://45.1.1.1:8080'') = Inr ()"
    by (intro sealed_sample_verifies sample_endpoint) simp
  moreover have "x_to_rfc3339 sample_directory_deps 0 = ''0''"
    by (simp add: sample_directory_deps_def sample_ext_def sample_show_time_def timestamp_def) code_simp
  ultimately show ?thesis
    by (simp add: register_node_def Let_def sealed_sample_def sample_registration_def MAX_NODES_def
        directory_new_def bm_get_def persist_nodes_def sample_directory_def sample_entry_def)
qed

lemma sample_reachable: "directory_reachable sample_directory_deps (directory_new None) (sample_directory, [])"
  by (rule reach_step [OF reach_start step_register [OF sample_registered]])


lemma healthy_nodes_ranked_witness:
  "mset (healthy_nodes sample_directory_deps RoleCdn sample_directory) = {#sample_entry#}"
proof -
  have "hash_order_ok sample_directory_deps" "bm_sorted (d_nodes sample_directory)"
    by (simp_all add: hash_order_ok_def sample_directory_def bm_sorted_def)
  from healthy_nodes_ranked [OF this, of RoleCdn] show ?thesis
    by (simp add: sample_directory_def bm_values_def sample_entry_def sealed_sample_def sample_registration_def)
qed

lemma health_follows_failures_witness:
  "ne_status ((mark_entry sample_directory_deps 5 False None ^^ 3) sample_entry) = Offline"
  using health_follows_failures [of sample_entry 3 sample_directory_deps 5 0 5] by (simp add: sample_entry_def)

definition sample_hash :: string where
  "sample_hash = hash_bytes sample_directory_deps []"

lemma sample_hash_valid: "is_valid_hash sample_hash"
  unfolding sample_hash_def sample_directory_deps_def by (rule is_valid_hash_sample)

definition sample_announce :: block_announce where
  "sample_announce = announce_signed sample_directory_deps 0 sample_identity [sample_hash]"

lemma sample_announce_fields: "ba_node_id sample_announce = sample_node" "ba_blocks sample_announce = [sample_hash]"
  by (simp_all add: sample_announce_def announce_signed_def Let_def)

lemma sample_check: "announce_check sample_directory_deps sample_announce sample_directory = Inr ()"
  using announce_signed_verifies [OF sample_directory_ok(1,2) length_sample_identity]
  by (simp add: announce_check_def sample_announce_fields bm_contains_def sample_directory_def)
     (simp add: sample_announce_def)

lemma sample_prune:
  "prune_stale sample_directory_deps 172800000000000 STALE_NODE_MAX_AGE True sample_directory
     = (1, directory_new None)"
proof -
  have "x_parse_rfc3339 sample_directory_deps ''0'' = Some 0"
    by (simp add: sample_directory_deps_def sample_ext_def) code_simp
  then show ?thesis
    by (simp add: prune_stale_def Let_def sample_directory_def is_stale_def STALE_NODE_MAX_AGE_def
        sample_entry_def scrub_provider_def directory_new_def bm_remove_def persist_nodes_def)
qed

lemma announcement_overtaken_by_prune_witness:
  "bm_get (d_providers (announce_commit sample_announce (directory_new None))) sample_hash = Some [sample_node] \<and>
   directory_reachable sample_directory_deps (directory_new None)
     (announce_commit sample_announce (directory_new None), [])"
proof -
  have "bm_get (d_providers (announce_commit sample_announce (directory_new None))) sample_hash = Some [sample_node]"
    using sample_hash_valid
    by (simp add: announce_commit_def sample_announce_fields add_provider_def directory_new_def bm_get_def)
  then show ?thesis
    using announcement_overtaken_by_prune [OF sample_reachable sample_check sample_prune _ _ sample_hash_valid refl]
    by (simp add: sample_announce_fields directory_get_def directory_new_def bm_get_def)
qed

end
