(* ===== verification/Http_Client.thy ===== *)
theory Http_Client
  imports Codec Manifest Root
begin

text \<open>
  \<open>crates/federate-client/src/lib.rs\<close>: the capped HTTP client for the APIs of other nodes. The network
  is a parameter: \<open>h_send\<close> answers a GET of a URL with an error text or a response, whose body arrives
  in chunks, the last of which may be an error; \<open>h_status\<close> renders a status code; \<open>h_json\<close> is
  \<open>serde_json\<close>. An error names the requested URL (the code names the one after redirects).
\<close>

record http_response =
  hr_status :: nat
  hr_content_length :: "nat option"
  hr_chunks :: "(string + bytes) list"

record http_client =
  h_send :: "string \<Rightarrow> string + http_response"
  h_status :: "nat \<Rightarrow> string"
  h_json :: "bytes \<Rightarrow> json option"

definition MAX_ROOT_BYTES :: nat where
  "MAX_ROOT_BYTES = 16 * 1024 * 1024"

definition MAX_MANIFEST_BYTES :: nat where
  "MAX_MANIFEST_BYTES = 4 * 1024 * 1024"

definition MAX_BLOCK_BYTES :: nat where
  "MAX_BLOCK_BYTES = 64 * 1024 * 1024"

definition is_success :: "nat \<Rightarrow> bool" where
  "is_success status \<longleftrightarrow> 200 \<le> status \<and> status < 300"

definition too_big :: "string \<Rightarrow> nat \<Rightarrow> nat \<Rightarrow> federate_error" where
  "too_big url max_bytes got =
     NetworkError (url @ '' response exceeds '' @ show_nat max_bytes @ '' bytes ('' @ show_nat got @ '')'')"

fun read_chunks :: "string \<Rightarrow> nat \<Rightarrow> bytes \<Rightarrow> (string + bytes) list \<Rightarrow> bytes result" where
  "read_chunks url max_bytes out [] = Inr out"
| "read_chunks url max_bytes out (Inl e # chunks) = Inl (NetworkError e)"
| "read_chunks url max_bytes out (Inr chunk # chunks) =
     (if max_bytes < length out + length chunk
      then Inl (too_big url max_bytes (length out + length chunk))
      else read_chunks url max_bytes (out @ chunk) chunks)"

definition read_capped :: "string \<Rightarrow> http_response \<Rightarrow> nat \<Rightarrow> bytes result" where
  "read_capped url resp max_bytes =
     (case hr_content_length resp of
        Some len \<Rightarrow>
          if max_bytes < len then Inl (too_big url max_bytes len)
          else read_chunks url max_bytes [] (hr_chunks resp)
      | None \<Rightarrow> read_chunks url max_bytes [] (hr_chunks resp))"

definition http_get :: "http_client \<Rightarrow> string \<Rightarrow> nat \<Rightarrow> bytes result" where
  "http_get H url max_bytes =
     (case h_send H url of
        Inl e \<Rightarrow> Inl (NetworkError e)
      | Inr resp \<Rightarrow>
          if \<not> is_success (hr_status resp)
          then Inl (NetworkError (url @ '' returned '' @ h_status H (hr_status resp)))
          else read_capped url resp max_bytes)"

definition http_get_json :: "http_client \<Rightarrow> string \<Rightarrow> json result" where
  "http_get_json H url =
     and_then (http_get H url (4 * 1024 * 1024)) (\<lambda>bs. ok_or (h_json H bs) Serde)"

text \<open>\<open>NodeClient\<close>, which is its base URL.\<close>

definition node_client_new :: "string \<Rightarrow> string" where
  "node_client_new bootstrap_url = trim_end_matches (CHR ''/'') bootstrap_url"

definition get_bytes :: "http_client \<Rightarrow> string \<Rightarrow> string \<Rightarrow> nat \<Rightarrow> bytes result" where
  "get_bytes H base path max_bytes = http_get H (base @ path) max_bytes"

definition client_fetch_root :: "http_client \<Rightarrow> root_zone codec \<Rightarrow> string \<Rightarrow> root_zone result" where
  "client_fetch_root H zc base =
     and_then (get_bytes H base ''/v1/root'' MAX_ROOT_BYTES) (\<lambda>bs.
     and_then (decode_as zc bs) (\<lambda>zone.
     and_then (root_zone_validate zone) (\<lambda>_. Inr zone)))"

definition client_fetch_manifest_bytes :: "'x deps_scheme \<Rightarrow> http_client \<Rightarrow> string \<Rightarrow> string \<Rightarrow> bytes result" where
  "client_fetch_manifest_bytes E H base hash =
     (if \<not> is_valid_hash hash then Inl (BlockNotFound hash)
      else and_then (get_bytes H base (''/v1/manifest/'' @ hash) MAX_MANIFEST_BYTES) (\<lambda>bs.
           and_then (storage_verify E bs hash) (\<lambda>_. Inr bs)))"

definition client_fetch_manifest ::
  "'x deps_scheme \<Rightarrow> http_client \<Rightarrow> manifest codec \<Rightarrow> string \<Rightarrow> string \<Rightarrow> manifest result" where
  "client_fetch_manifest E H c base hash =
     and_then (client_fetch_manifest_bytes E H base hash) (\<lambda>bs.
     and_then (decode_as c bs) (\<lambda>m.
     and_then (manifest_validate m) (\<lambda>_. Inr m)))"

definition client_fetch_block :: "'x deps_scheme \<Rightarrow> http_client \<Rightarrow> string \<Rightarrow> string \<Rightarrow> bytes result" where
  "client_fetch_block E H base hash =
     (if \<not> is_valid_hash hash then Inl (BlockNotFound hash)
      else and_then (get_bytes H base (''/v1/block/'' @ hash) MAX_BLOCK_BYTES) (\<lambda>bs.
           and_then (storage_verify E bs hash) (\<lambda>_. Inr bs)))"

definition client_health :: "http_client \<Rightarrow> string \<Rightarrow> bool result" where
  "client_health H base = Inr (is_ok (get_bytes H base ''/health'' 4096))"

subsection \<open>Downloads are bounded and verified\<close>

lemma read_chunks_bound: "read_chunks url m out cs = Inr bs \<Longrightarrow> length out \<le> m \<Longrightarrow> length bs \<le> m"
  by (induction url m out cs rule: read_chunks.induct) (auto split: if_splits)

text \<open>Every chunk accepted before an overlong answer is refused fits the cap: memory stays bounded.\<close>

lemma read_chunks_prefix:
  "read_chunks url m out cs = Inr bs \<longleftrightarrow>
     list_all (\<lambda>c. \<exists>b. c = Inr b) cs \<and> bs = out @ concat (map projr cs) \<and>
     (cs = [] \<or> length bs \<le> m)"
proof (induction url m out cs rule: read_chunks.induct)
  case (3 url m out chunk chunks)
  show ?case
  proof (cases "m < length out + length chunk")
    case True
    then show ?thesis by auto
  next
    case False
    with 3 show ?thesis by (cases chunks) auto
  qed
qed auto

lemma http_get_bound: "http_get H url m = Inr bs \<Longrightarrow> length bs \<le> m"
  using read_chunks_bound [of url m "[]"]
  by (auto simp: http_get_def read_capped_def split: sum.splits if_splits option.splits)

lemma client_fetch_manifest_bytes_ok:
  "client_fetch_manifest_bytes E H base h = Inr bs \<Longrightarrow> storage_verify E bs h = Inr () \<and> length bs \<le> MAX_MANIFEST_BYTES"
  by (auto simp: client_fetch_manifest_bytes_def get_bytes_def result_simps dest: http_get_bound split: if_splits)

lemma client_fetch_block_ok:
  "client_fetch_block E H base h = Inr bs \<Longrightarrow> storage_verify E bs h = Inr () \<and> length bs \<le> MAX_BLOCK_BYTES"
  by (auto simp: client_fetch_block_def get_bytes_def result_simps dest: http_get_bound split: if_splits)

end
