(* ===== verification/Cdn.thy ===== *)
theory Cdn
  imports Directory Http_Client
begin

text \<open>
  \<open>crates/federate-cdn/src/lib.rs\<close>: ranking providers, fetching a block from one, and the size-bounded
  block cache with least-recently-used eviction. The clock is an argument; \<open>w\<close> says which block paths
  can be written and \<open>saved\<close> whether the index file could be.
\<close>

subsection \<open>Providers\<close>

definition rank_key :: "string option \<Rightarrow> node_entry \<Rightarrow> nat list" where
  "rank_key region p =
     [if ne_status p \<noteq> Online then 1 else 0,
      if (case region of None \<Rightarrow> True | Some r \<Rightarrow> nr_region (ne_registration p) \<noteq> r) then 1 else 0,
      latency_key p]"

definition rank_providers :: "node_entry list \<Rightarrow> string option \<Rightarrow> node_entry list" where
  "rank_providers providers region =
     sort_key (rank_key region) (filter (\<lambda>p. ne_status p \<noteq> Offline) providers)"

definition fetch_block_from :: "'x deps_scheme \<Rightarrow> http_client \<Rightarrow> node_entry \<Rightarrow> string \<Rightarrow> bytes result" where
  "fetch_block_from E H provider hash =
     (if \<not> is_valid_hash hash then Inl (BlockNotFound hash)
      else let url = trim_end_matches (CHR ''/'') (nr_health_endpoint (ne_registration provider))
             @ ''/v1/block/'' @ hash
           in (case h_send H url of
                 Inl e \<Rightarrow> Inl (NetworkError e)
               | Inr resp \<Rightarrow>
                   if \<not> is_success (hr_status resp) then Inl (BlockNotFound hash)
                   else and_then (read_capped url resp MAX_BLOCK_BYTES) (\<lambda>bs.
                        and_then (storage_verify E bs hash) (\<lambda>_. Inr bs))))"

subsection \<open>The cache\<close>

text \<open>\<open>entries\<close>: address to time of last use, in seconds, and size.\<close>

type_synonym cache_index = "(string, nat \<times> nat) bmap"

record cdn_cache =
  cc_store :: block_store
  cc_index :: cache_index
  cc_index_file :: "bytes option"
  cc_max_bytes :: nat

definition cdn_new :: "cache_index codec \<Rightarrow> block_store \<Rightarrow> bytes option \<Rightarrow> nat \<Rightarrow> cdn_cache" where
  "cdn_new ic st index_file max_bytes =
     \<lparr>cc_store = st,
      cc_index = (case Option.bind index_file (from_slice ic) of Some index \<Rightarrow> index | None \<Rightarrow> []),
      cc_index_file = index_file, cc_max_bytes = max_bytes\<rparr>"

definition persist_index :: "cache_index codec \<Rightarrow> bool \<Rightarrow> cdn_cache \<Rightarrow> cdn_cache" where
  "persist_index ic saved c = (if saved then c\<lparr>cc_index_file := Some (to_vec ic (cc_index c))\<rparr> else c)"

definition cached_hashes :: "(string list \<Rightarrow> string list) \<Rightarrow> cdn_cache \<Rightarrow> string list" where
  "cached_hashes hash_iter c = hash_iter (bm_keys (cc_index c))"

definition cdn_get :: "'x deps_scheme \<Rightarrow> nat \<Rightarrow> string \<Rightarrow> cdn_cache \<Rightarrow> bytes result \<times> cdn_cache" where
  "cdn_get E now hash c =
     (case block_store_get E (cc_store c) hash of
        Inl e \<Rightarrow> (Inl e, c)
      | Inr bs \<Rightarrow>
          (let sz = (case bm_get (cc_index c) hash of Some (_, s) \<Rightarrow> s | None \<Rightarrow> length bs)
           in (Inr bs, c\<lparr>cc_index := bm_insert hash (now, sz) (cc_index c)\<rparr>)))"

definition index_total :: "cache_index \<Rightarrow> nat" where
  "index_total index = sum_list (map (\<lambda>(_, _, s). s) index)"

text \<open>The eviction loop over the entries by age; a block that cannot be removed stays on disk.\<close>

definition store_without :: "string \<Rightarrow> block_store \<Rightarrow> block_store" where
  "store_without hash st = (case block_store_remove st hash of Inl _ \<Rightarrow> st | Inr st \<Rightarrow> st)"

fun evict :: "string \<Rightarrow> nat \<Rightarrow> (string \<times> nat \<times> nat) list \<Rightarrow> nat \<Rightarrow> cdn_cache \<Rightarrow> cdn_cache" where
  "evict hash max_bytes [] used c = c"
| "evict hash max_bytes ((victim, _, sz) # by_age) used c =
     (if used \<le> max_bytes then c
      else if victim = hash then evict hash max_bytes by_age used c
      else evict hash max_bytes by_age (used - sz)
             (c\<lparr>cc_store := store_without victim (cc_store c),
                cc_index := bm_remove victim (cc_index c)\<rparr>))"

definition by_age :: "(string list \<Rightarrow> string list) \<Rightarrow> cache_index \<Rightarrow> (string \<times> nat \<times> nat) list" where
  "by_age hash_iter index =
     sort_key (\<lambda>(_, t, _). t)
       (List.map_filter (\<lambda>h. map_option (\<lambda>(t, s). (h, t, s)) (bm_get index h)) (hash_iter (bm_keys index)))"

definition cdn_put ::
  "'x deps_scheme \<Rightarrow> cache_index codec \<Rightarrow> (string list \<Rightarrow> string list) \<Rightarrow> (string \<Rightarrow> bool) \<Rightarrow> bool \<Rightarrow> nat
     \<Rightarrow> string \<Rightarrow> bytes \<Rightarrow> cdn_cache \<Rightarrow> unit result \<times> cdn_cache" where
  "cdn_put E ic hash_iter w saved now hash bs c =
     (case block_store_put E w (cc_store c) hash bs of
        Inl e \<Rightarrow> (Inl e, c)
      | Inr st \<Rightarrow>
          (let c = c\<lparr>cc_store := st, cc_index := bm_insert hash (now, length bs) (cc_index c)\<rparr>;
               used = index_total (cc_index c);
               c = (if cc_max_bytes c < used
                    then evict hash (cc_max_bytes c) (by_age hash_iter (cc_index c)) used c else c)
           in (Inr (), persist_index ic saved c)))"

definition cdn_has :: "string \<Rightarrow> cdn_cache \<Rightarrow> bool" where
  "cdn_has hash c = block_store_has (cc_store c) hash"

subsection \<open>Eviction\<close>

text \<open>What the loop leaves out: the entries it removes, oldest first.\<close>

fun victims :: "string \<Rightarrow> nat \<Rightarrow> (string \<times> nat \<times> nat) list \<Rightarrow> nat \<Rightarrow> (string \<times> nat \<times> nat) list" where
  "victims hash max_bytes [] used = []"
| "victims hash max_bytes ((victim, t, sz) # rest) used =
     (if used \<le> max_bytes then []
      else if victim = hash then victims hash max_bytes rest used
      else (victim, t, sz) # victims hash max_bytes rest (used - sz))"

lemma evict_victims:
  "evict hash m es used c =
     c\<lparr>cc_store := foldl (\<lambda>st v. store_without (fst v) st) (cc_store c) (victims hash m es used),
       cc_index := foldl (\<lambda>ix v. bm_remove (fst v) ix) (cc_index c) (victims hash m es used)\<rparr>"
  by (induction hash m es used c rule: evict.induct) auto

lemma foldl_remove_filter:
  "foldl (\<lambda>ix v. bm_remove (fst v) ix) index vs = filter (\<lambda>p. fst p \<notin> fst ` set vs) index"
  by (induction vs arbitrary: index) (auto simp: bm_remove_def intro: filter_cong)

text \<open>
  The victims are a prefix of the other entries, and the loop stops with the size within the limit or
  with no other entry left.
\<close>

lemma victims_prefix:
  "\<exists>k. victims hash m es used = take k (filter (\<lambda>e. fst e \<noteq> hash) es)"
proof (induction hash m es used rule: victims.induct)
  case (2 hash m victim t sz rest used)
  show ?case
  proof (cases "used \<le> m \<or> victim = hash")
    case True
    with 2 show ?thesis by (auto intro: exI [of _ 0])
  next
    case False
    with 2 obtain k where "victims hash m rest (used - sz) = take k (filter (\<lambda>e. fst e \<noteq> hash) rest)"
      by auto
    with False show ?thesis by (auto intro!: exI [of _ "Suc k"])
  qed
qed simp

lemma victims_enough:
  "used - sum_list (map (snd \<circ> snd) (victims hash m es used)) \<le> m \<or>
     victims hash m es used = filter (\<lambda>e. fst e \<noteq> hash) es"
  by (induction hash m es used rule: victims.induct) auto

end
