(* ===== verification/Cdn_Properties.thy ===== *)
theory Cdn_Properties
  imports Cdn "HOL-Library.Multiset"
begin

text \<open>What a \<open>put\<close> into the block cache guarantees, and what a provider can make a gateway accept.\<close>

subsection \<open>The store after eviction\<close>

lemma block_store_get_without:
  "block_store_get E (store_without v st) h = (if h = v then Inl (BlockNotFound h) else block_store_get E st h)"
proof (cases "block_path v")
  case None
  then show ?thesis by (auto simp: store_without_def block_store_remove_def block_store_get_def)
next
  case (Some p)
  show ?thesis
  proof (cases "h = v")
    case True
    with Some show ?thesis
      by (auto simp: store_without_def block_store_remove_def block_store_get_def bm_contains_iff map_simps)
  next
    case False
    then have "block_path h \<noteq> Some p" using Some block_path_inj by blast
    with Some False show ?thesis
      by (cases "block_path h")
         (auto simp: store_without_def block_store_remove_def block_store_get_def map_simps)
  qed
qed

lemma block_store_get_evicted:
  "block_store_get E (foldl (\<lambda>st v. store_without (fst v) st) st vs) h =
     (if h \<in> fst ` set vs then Inl (BlockNotFound h) else block_store_get E st h)"
  by (induction vs arbitrary: st) (auto simp: block_store_get_without)

subsection \<open>The index after eviction\<close>

lemma filter_take_keys:
  assumes "distinct (map fst xs)"
  shows "filter (\<lambda>p. fst p \<in> fst ` set (take k xs)) xs = take k xs"
proof -
  have "fst ` set (take k xs) \<inter> fst ` set (drop k xs) = {}"
    using assms by (metis distinct_append append_take_drop_id map_append set_map)
  then have "filter (\<lambda>p. fst p \<in> fst ` set (take k xs)) (drop k xs) = []"
    by (force simp: filter_empty_conv)
  moreover have "filter (\<lambda>p. fst p \<in> fst ` set (take k xs)) (take k xs) = take k xs"
    by (simp add: filter_id_conv)
  ultimately show ?thesis by (metis append_Nil2 append_take_drop_id filter_append)
qed

lemma map_filter_entries:
  assumes "distinct (map fst m)"
  shows "List.map_filter (\<lambda>h. map_option (\<lambda>(t, s). (h, t, s)) (bm_get m h)) (map fst m) = m"
proof -
  have "bm_get m (fst p) = Some (snd p)" if "p \<in> set m" for p
    using assms that by (simp add: bm_get_def)
  then have "List.map_filter (\<lambda>p. map_option (\<lambda>(t, s). (fst p, t, s)) (bm_get m (fst p))) ps = ps"
    if "set ps \<subseteq> set m" for ps
    using that by (induction ps) (auto simp: List.map_filter_simps)
  then show ?thesis by (simp add: List.map_filter_def filter_map comp_def)
qed

lemma mset_by_age:
  assumes "\<forall>ks. mset (hash_iter ks) = mset ks" "bm_sorted index"
  shows "mset (by_age hash_iter index) = mset index"
proof -
  let ?f = "\<lambda>h. map_option (\<lambda>(t, s). (h, t, s)) (bm_get index h)"
  have "mset (List.map_filter ?f (hash_iter (map fst index))) = mset (List.map_filter ?f (map fst index))"
    using assms(1) by (simp add: List.map_filter_def)
  then show ?thesis
    using map_filter_entries [OF bm_sorted_distinct [OF assms(2)]]
    by (simp add: by_age_def bm_keys_def)
qed

lemma sum_list_partition:
  fixes f :: "'a \<Rightarrow> nat"
  shows "sum_list (map f xs) = sum_list (map f (filter P xs)) + sum_list (map f (filter (\<lambda>x. \<not> P x) xs))"
  by (induction xs) auto

text \<open>One eviction run over the index: \<open>es\<close> are its entries by age.\<close>

definition eviction_run :: "string \<Rightarrow> cache_index \<Rightarrow> (string \<times> nat \<times> nat) list \<Rightarrow> bool" where
  "eviction_run hash index es \<longleftrightarrow>
     bm_sorted index \<and> mset es = mset index \<and> sorted (map (\<lambda>(_, t, _). t) es) \<and> hash \<in> fst ` set index"

definition without :: "(string \<times> nat \<times> nat) list \<Rightarrow> cache_index \<Rightarrow> cache_index" where
  "without gone index = filter (\<lambda>p. fst p \<notin> fst ` set gone) index"

lemma run_distinct: "eviction_run hash index es \<Longrightarrow> distinct (map fst es)"
proof -
  assume run: "eviction_run hash index es"
  then have "mset (map fst es) = mset (map fst index)" by (simp add: eviction_run_def)
  then show ?thesis
    using run bm_sorted_distinct mset_eq_imp_distinct_iff unfolding eviction_run_def by blast
qed

lemma run_set: "eviction_run hash index es \<Longrightarrow> set es = set index"
  by (rule mset_eq_setD) (simp add: eviction_run_def)

lemma victims_others: "set (victims hash m es used) \<subseteq> {e \<in> set es. fst e \<noteq> hash}"
proof -
  obtain k where "victims hash m es used = take k (filter (\<lambda>e. fst e \<noteq> hash) es)"
    using victims_prefix by blast
  then have "set (victims hash m es used) \<subseteq> set (filter (\<lambda>e. fst e \<noteq> hash) es)"
    by (simp only: set_take_subset)
  then show ?thesis by simp
qed

lemma victims_keys:
  assumes "eviction_run hash index es" and gone: "gone = victims hash m es used"
  shows "filter (\<lambda>p. fst p \<in> fst ` set gone) es = gone"
proof -
  let ?others = "filter (\<lambda>e. fst e \<noteq> hash) es"
  obtain k where k: "gone = take k ?others" using victims_prefix gone by blast
  have "hash \<notin> fst ` set gone" using victims_others [of hash m es used] by (auto simp: gone)
  then have "filter (\<lambda>p. fst p \<in> fst ` set gone) es = filter (\<lambda>p. fst p \<in> fst ` set gone) ?others"
    unfolding filter_filter by (intro filter_cong) auto
  also have "\<dots> = gone"
    unfolding k using run_distinct [OF assms(1)] by (intro filter_take_keys distinct_map_filter)
  finally show ?thesis .
qed

lemma without_total:
  assumes run: "eviction_run hash index es" and gone: "gone = victims hash m es used"
  shows "index_total (without gone index) = index_total index - sum_list (map (snd \<circ> snd) gone)"
proof -
  let ?P = "\<lambda>p. fst p \<in> fst ` set gone" and ?f = "\<lambda>(_, _, s). s :: nat"
  have "mset es = mset index" using run by (simp add: eviction_run_def)
  then have "mset (filter ?P index) = mset (filter ?P es)" by simp
  then have "mset (filter ?P index) = mset gone" by (simp only: victims_keys [OF assms])
  then have "mset (map ?f (filter ?P index)) = mset (map ?f gone)" by (simp only: mset_map)
  then have "sum_mset (mset (map ?f (filter ?P index))) = sum_mset (mset (map ?f gone))" by (simp only:)
  then have "sum_list (map ?f (filter ?P index)) = sum_list (map ?f gone)"
    unfolding sum_mset_sum_list .
  moreover have f: "snd \<circ> snd = ?f" by (auto simp: fun_eq_iff)
  ultimately show ?thesis
    using sum_list_partition [of ?f index ?P] unfolding f by (simp add: index_total_def without_def)
qed

text \<open>The limit is met, or only the new entry is left.\<close>

lemma without_bounded:
  assumes run: "eviction_run hash index es" and gone: "gone = victims hash m es (index_total index)"
  shows "index_total (without gone index) \<le> m \<or> fst ` set (without gone index) = {hash}"
proof (cases "gone = filter (\<lambda>e. fst e \<noteq> hash) es")
  case True
  have "fst ` set (without gone index) = {hash}"
  proof
    show "fst ` set (without gone index) \<subseteq> {hash}"
      using True run_set [OF run] by (auto simp: without_def)
    show "{hash} \<subseteq> fst ` set (without gone index)"
      using True run by (auto simp: without_def eviction_run_def)
  qed
  then show ?thesis by simp
next
  case False
  then show ?thesis
    using victims_enough [of "index_total index" hash m es] without_total [OF assms]
    by (simp add: gone)
qed

text \<open>Nothing that was used later goes before something used earlier.\<close>

lemma oldest_first:
  assumes run: "eviction_run hash index es" and gone: "gone = victims hash m es used"
    and v: "(v, t, s) \<in> set gone" and k: "(k, t', s') \<in> set (without gone index)" "k \<noteq> hash"
  shows "t \<le> t'"
proof -
  let ?others = "filter (\<lambda>e. fst e \<noteq> hash) es" and ?t = "\<lambda>e :: string \<times> nat \<times> nat. fst (snd e)"
  obtain n where n: "gone = take n ?others" using victims_prefix gone by blast
  have "(k, t', s') \<in> set ?others" "(k, t', s') \<notin> set gone"
    using k run_set [OF run] by (force simp: without_def)+
  then have later: "(k, t', s') \<in> set (drop n ?others)"
    unfolding n by (metis Un_iff append_take_drop_id set_append)
  have "(\<lambda>(_, t, _). t) = ?t" by (auto simp: fun_eq_iff)
  then have "sorted (map ?t es)" using run by (simp add: eviction_run_def)
  then have "sorted (map ?t ?others)" by (rule sorted_filter)
  then have "sorted (map ?t (take n ?others) @ map ?t (drop n ?others))"
    by (simp only: append_take_drop_id flip: map_append)
  then have "\<forall>x \<in> set (take n ?others). \<forall>y \<in> set (drop n ?others). ?t x \<le> ?t y"
    by (simp add: sorted_append)
  then have "?t (v, t, s) \<le> ?t (k, t', s')" using v later unfolding n by blast
  then show ?thesis by simp
qed

subsection \<open>Storing a block\<close>

lemma bm_get_without: "bm_get (without gone index) h = (if h \<in> fst ` set gone then None else bm_get index h)"
proof -
  have "map_of (filter (\<lambda>p. fst p \<notin> K) index) h = (if h \<in> K then None else map_of index h)" for K
    by (induction index) auto
  then show ?thesis by (simp only: without_def bm_get_def)
qed

lemma only_entry:
  assumes "bm_sorted index" "fst ` set index = {hash}" "bm_get index hash = Some v"
  shows "index = [(hash, v)]"
proof (rule bm_ext [OF assms(1)])
  show "bm_sorted [(hash, v)]" by (simp add: bm_sorted_def)
  show "bm_get index h = bm_get [(hash, v)] h" for h
  proof (cases "h = hash")
    case True
    then show ?thesis using assms(3) by (simp add: bm_get_def)
  next
    case False
    then have "h \<notin> fst ` set index" using assms(2) by simp
    with False show ?thesis by (simp add: bm_get_def map_of_eq_None_iff)
  qed
qed

text \<open>An evicted entry was used no later than every other one that stays.\<close>

lemma evicted_oldest:
  assumes run: "eviction_run hash index es" and gone: "gone = victims hash m es used" and h: "h \<in> fst ` set gone"
  shows "\<exists>t s. bm_get index h = Some (t, s) \<and>
    (\<forall>k t' s'. k \<noteq> hash \<and> bm_get (without gone index) k = Some (t', s') \<longrightarrow> t \<le> t')"
proof -
  obtain t s where v: "(h, t, s) \<in> set gone" using h by auto
  then have "(h, t, s) \<in> set index" using victims_others [of hash m es used] run_set [OF run] by (auto simp: gone)
  then have "bm_get index h = Some (t, s)" using run by (simp add: bm_in_set eviction_run_def)
  moreover have "t \<le> t'" if "k \<noteq> hash" "bm_get (without gone index) k = Some (t', s')" for k t' s'
    using oldest_first [OF run gone v _ that(1)] bm_get_in_set [OF that(2)] by simp
  ultimately show ?thesis by blast
qed


definition sample_cache :: cdn_cache where
  "sample_cache = \<lparr>cc_store = [], cc_index = [(replicate 64 (CHR ''0''), 1, 6)], cc_index_file = None, cc_max_bytes = 10\<rparr>"


subsection \<open>Fetching and ranking\<close>

lemma fetch_block_from_ok:
  "fetch_block_from E H p h = Inr bs \<Longrightarrow> storage_verify E bs h = Inr () \<and> length bs \<le> MAX_BLOCK_BYTES"
  using read_chunks_bound [of _ MAX_BLOCK_BYTES "[]"]
  by (auto simp: fetch_block_from_def read_capped_def Let_def result_simps split: if_splits sum.splits option.splits)

lemma rank_providers_permutes:
  "mset (rank_providers ps region) = mset (filter (\<lambda>p. ne_status p \<noteq> Offline) ps)"
  by (simp add: rank_providers_def)

lemma set_rank_providers: "set (rank_providers ps region) = {p \<in> set ps. ne_status p \<noteq> Offline}"
  by (simp add: rank_providers_def)

end
