(* ===== verification/Directory_Api.thy ===== *)
theory Directory_Api
  imports Directory Http_Client
begin

text \<open>
  The directory's HTTP surface: the handlers \<open>router\<close> mounts (\<open>crates/federate-directory/src/lib.rs\<close>),
  as functions from the parsed request to status and JSON body, and \<open>DirectoryClient\<close>. What the client
  relies on is a parameter: \<open>http\<close> sends a request and gives status and body, or fails; \<open>read_json\<close>
  and \<open>entries_of\<close> are \<open>serde_json\<close>.
\<close>

subsection \<open>Handlers\<close>

type_synonym json_response = "nat \<times> json"

definition api_register ::
  "'x directory_deps_scheme \<Rightarrow> int \<Rightarrow> bool \<Rightarrow> node_registration \<Rightarrow> directory \<Rightarrow> json_response \<times> directory" where
  "api_register E clock written reg d =
     (case register_node E clock written reg d of
        (Inr _, d) \<Rightarrow> ((200, json_obj [(''registered'', JBool True)]), d)
      | (Inl e, d) \<Rightarrow>
          ((403, json_obj [(''registered'', JBool False), (''error'', JString (error_display e))]), d))"

text \<open>A tracked node as JSON: the registration's fields are flattened into it.\<close>

definition entry_json :: "node_entry \<Rightarrow> json" where
  "entry_json n = json_obj (
     registration_fields (ne_registration n) @
     json_field ''status'' (JString (node_status_as_str (ne_status n))) @
     json_field ''last_seen'' (JString (ne_last_seen n)) @
     json_field ''latency_ms'' (json_nullable json_nat (ne_latency_ms n)) @
     json_field ''consecutive_failures'' (json_nat (unat (ne_consecutive_failures n))))"

definition query_role :: "(string, string) bmap \<Rightarrow> node_role option" where
  "query_role q = Option.bind (bm_get q ''role'') (\<lambda>r. ok_option (node_role_from_str r))"

definition api_list_nodes :: "'x directory_deps_scheme \<Rightarrow> (string, string) bmap \<Rightarrow> directory \<Rightarrow> json" where
  "api_list_nodes E q d =
     (let role = query_role q;
          healthy = (case bm_get q ''healthy'' of None \<Rightarrow> False | Some v \<Rightarrow> v = ''true'');
          nodes = (case (healthy, role) of
              (True, Some r) \<Rightarrow> healthy_nodes E r d
            | _ \<Rightarrow> directory_list E role healthy d)
      in json_obj [(''nodes'', JArray (map entry_json nodes))])"

definition api_get_node :: "string \<Rightarrow> directory \<Rightarrow> nat + json" where
  "api_get_node node d = ok_or (map_option entry_json (directory_get node d)) 404"

definition api_announce ::
  "'x deps_scheme \<Rightarrow> block_announce \<Rightarrow> directory \<Rightarrow> json_response \<times> directory" where
  "api_announce E a d =
     (case announce_blocks E a d of
        (Inr _, d) \<Rightarrow> ((200, json_obj [(''ok'', JBool True)]), d)
      | (Inl e, d) \<Rightarrow> ((403, json_obj [(''ok'', JBool False), (''error'', JString (error_display e))]), d))"

definition api_providers ::
  "'x directory_deps_scheme \<Rightarrow> string \<Rightarrow> (string, string) bmap \<Rightarrow> directory \<Rightarrow> json" where
  "api_providers E hash q d =
     json_obj [(''providers'', JArray (map entry_json (providers_for_block E hash (query_role q) d)))]"

subsection \<open>The client\<close>

datatype http_request = HttpGet string | HttpPost string json

record directory_client_deps =
  http :: "http_request \<Rightarrow> string + (nat \<times> bytes)"
  read_json :: "bytes \<Rightarrow> string + json"
  entries_of :: "json \<Rightarrow> node_entry list option"

definition client_new :: "string \<Rightarrow> string" where
  "client_new base_url = trim_end_matches (CHR ''/'') base_url"

definition client_register :: "directory_client_deps \<Rightarrow> string \<Rightarrow> node_registration \<Rightarrow> unit result" where
  "client_register C base reg =
     (case http C (HttpPost (base @ ''/v1/nodes/register'') (registration_json reg)) of
        Inl e \<Rightarrow> Inl (NetworkError e)
      | Inr (status, body) \<Rightarrow>
          if \<not> is_success status then Inl (NetworkError (''registration rejected: '' @ str_of_bytes body))
          else Inr ())"

text \<open>\<open>v[key]\<close> of a JSON value: \<open>null\<close> when there is no such field.\<close>

fun json_index :: "string \<Rightarrow> json \<Rightarrow> json" where
  "json_index k (JObject m) = (case bm_get m k of Some v \<Rightarrow> v | None \<Rightarrow> JNull)"
| "json_index k _ = JNull"

definition client_entries :: "directory_client_deps \<Rightarrow> string \<Rightarrow> string \<Rightarrow> node_entry list result" where
  "client_entries C url key =
     (case http C (HttpGet url) of
        Inl e \<Rightarrow> Inl (NetworkError e)
      | Inr (_, body) \<Rightarrow>
          (case read_json C body of
             Inl e \<Rightarrow> Inl (NetworkError e)
           | Inr v \<Rightarrow> ok_or (entries_of C (json_index key v)) Serde))"

definition client_list ::
  "directory_client_deps \<Rightarrow> string \<Rightarrow> node_role option \<Rightarrow> bool \<Rightarrow> node_entry list result" where
  "client_list C base role only_healthy =
     client_entries C (base @ ''/v1/nodes?healthy='' @ (if only_healthy then ''true'' else ''false'') @
       (case role of None \<Rightarrow> [] | Some r \<Rightarrow> ''&role='' @ node_role_as_str r)) ''nodes''"

definition client_providers ::
  "directory_client_deps \<Rightarrow> string \<Rightarrow> string \<Rightarrow> node_role option \<Rightarrow> node_entry list result" where
  "client_providers C base hash role =
     client_entries C (base @ ''/v1/providers/'' @ hash @
       (case role of None \<Rightarrow> [] | Some r \<Rightarrow> ''?role='' @ node_role_as_str r)) ''providers''"

definition client_announce ::
  "'x deps_scheme \<Rightarrow> directory_client_deps \<Rightarrow> int \<Rightarrow> string \<Rightarrow> node_identity \<Rightarrow> string list \<Rightarrow> unit result" where
  "client_announce E C clock base i blocks =
     (case http C (HttpPost (base @ ''/v1/nodes/announce-blocks'')
         (announce_json (announce_signed E clock i blocks))) of
        Inl e \<Rightarrow> Inl (NetworkError e)
      | Inr (status, body) \<Rightarrow>
          if \<not> is_success status then Inl (NetworkError (''announce rejected: '' @ str_of_bytes body))
          else Inr ())"

text \<open>Roles survive the query string.\<close>

lemma node_role_roundtrip: "node_role_from_str (node_role_as_str r) = Inr r"
  by (induction r) code_simp+

end
