(* ===== verification/Resolver.thy ===== *)
theory Resolver
  imports Cdn Directory_Api Registry Native_Protocol Uri
begin

text \<open>
  \<open>crates/federate-resolution/src/lib.rs\<close>: the resolution engine's state, root zones, manifests and
  delegated registries. The network can change between any two uses: \<open>rx_dial\<close>, \<open>rx_http\<close> and
  \<open>rx_directory\<close> take the number of the use, which the resolver counts in \<open>rv_tick\<close>; so does
  \<open>rx_write\<close>, which says whether a file could be written or removed. The diagnostic trace only observes and is left out.
\<close>

record resolution_deps = deps +
  rx_zone :: "root_zone codec"
  rx_zone_pretty :: "root_zone \<Rightarrow> bytes"
  rx_registry :: "tld_registry codec"
  rx_registry_pretty :: "tld_registry \<Rightarrow> bytes"
  rx_registry_value :: "json \<Rightarrow> tld_registry option"
  rx_manifest :: "manifest codec"
  rx_message :: "message codec"
  rx_debug :: "message \<Rightarrow> string"
  rx_dial :: "nat \<Rightarrow> string \<Rightarrow> connection result"
  rx_http :: "nat \<Rightarrow> http_client"
  rx_directory :: "nat \<Rightarrow> directory_client_deps"
  rx_mime :: "string \<Rightarrow> string"
  rx_write :: "nat \<Rightarrow> string \<Rightarrow> bool"

text \<open>
  The resolver: \<open>rv_cache\<close> is the directory of the root cache, \<open>rv_manifests\<close> and \<open>rv_registries\<close> the
  files of \<open>manifest_dir\<close> and \<open>registries_dir\<close>, \<open>rv_key_file\<close> the file of the pinned key.
\<close>

record resolver =
  rv_client :: string
  rv_cache :: cache_disk
  rv_blocks :: block_store
  rv_manifests :: "(string, bytes) bmap"
  rv_registries :: "(string, bytes) bmap"
  rv_root :: "root_zone option"
  rv_trusted :: "string option"
  rv_key_file :: "string option"
  rv_directory :: "string option"
  rv_region :: "string option"
  rv_native_providers :: "string list"
  rv_identity :: node_identity
  rv_tick :: nat

definition AGENT :: string where
  "AGENT = ''federate-resolution/0.1.0''"

subsection \<open>Steps that can fail\<close>

text \<open>The question-mark operator on functions that also change the resolver.\<close>

definition try_then :: "('s \<Rightarrow> 'a result \<times> 's) \<Rightarrow> ('a \<Rightarrow> 's \<Rightarrow> 'b result \<times> 's) \<Rightarrow> 's \<Rightarrow> 'b result \<times> 's" where
  "try_then m f s = (case m s of (Inl e, s) \<Rightarrow> (Inl e, s) | (Inr x, s) \<Rightarrow> f x s)"

definition ticked :: "(nat \<Rightarrow> 'a) \<Rightarrow> resolver \<Rightarrow> 'a \<times> resolver" where
  "ticked f s = (f (rv_tick s), s\<lparr>rv_tick := rv_tick s + 1\<rparr>)"

text \<open>Providers one after another until the first that answers well.\<close>

fun first_ok :: "('p \<Rightarrow> 's \<Rightarrow> 'a result \<times> 's) \<Rightarrow> 'p list \<Rightarrow> 's \<Rightarrow> 'a option \<times> 's" where
  "first_ok f [] s = (None, s)"
| "first_ok f (p # ps) s = (case f p s of (Inr x, s) \<Rightarrow> (Some x, s) | (Inl _, s) \<Rightarrow> first_ok f ps s)"

definition resolver_new ::
  "string \<Rightarrow> resolver \<Rightarrow> string option \<Rightarrow> node_identity \<Rightarrow> resolver" where
  "resolver_new client disk configured_root_key i =
     (let from_file = map_option trim (rv_key_file disk);
          key = (case configured_root_key of Some k \<Rightarrow> Some k | None \<Rightarrow> from_file)
      in disk\<lparr>rv_client := client, rv_root := None,
              rv_trusted := (case key of None \<Rightarrow> None | Some k \<Rightarrow> if k = [] then None else Some k),
              rv_directory := None, rv_region := None, rv_native_providers := [], rv_identity := i\<rparr>)"

definition with_directory :: "string \<Rightarrow> string option \<Rightarrow> resolver \<Rightarrow> resolver" where
  "with_directory directory region s = s\<lparr>rv_directory := Some directory, rv_region := region\<rparr>"

definition with_native_providers :: "string list \<Rightarrow> resolver \<Rightarrow> resolver" where
  "with_native_providers providers s = s\<lparr>rv_native_providers := providers\<rparr>"

subsection \<open>Native exchanges\<close>

definition native_connect :: "'x resolution_deps_scheme \<Rightarrow> node_identity \<Rightarrow> string \<Rightarrow> nat \<Rightarrow> connection result" where
  "native_connect E i addr n =
     and_then (rx_dial E n addr) (\<lambda>stream.
     and_then (conn_connect (rx_message E) (rx_debug E) stream (node_id E i) AGENT) (\<lambda>(conn, _). Inr conn))"

text \<open>What a native provider answers instead of the expected message.\<close>

definition provider_refused :: "'x resolution_deps_scheme \<Rightarrow> string \<Rightarrow> message \<Rightarrow> federate_error" where
  "provider_refused E who other =
     (case other of
        ErrorMsg kind detail \<Rightarrow> NetworkError (who @ '' answered '' @ error_code_debug kind @ '': '' @ detail)
      | _ \<Rightarrow> NetworkError (who @ '' answered unexpectedly: '' @ rx_debug E other))"

definition native_request ::
  "'x resolution_deps_scheme \<Rightarrow> message \<Rightarrow> (message \<Rightarrow> 'a result) \<Rightarrow> connection \<Rightarrow> 'a result" where
  "native_request E msg answer conn = and_then (fst (conn_request (rx_message E) msg conn)) answer"

subsection \<open>Root zones\<close>

definition verify_zone :: "'x resolution_deps_scheme \<Rightarrow> root_zone \<Rightarrow> resolver \<Rightarrow> unit result \<times> resolver" where
  "verify_zone E zone s =
     (case rv_trusted s of
        Some key \<Rightarrow> (root_zone_verify E zone key, s)
      | None \<Rightarrow>
          (case root_zone_verify E zone (rz_root_public_key zone) of
             Inl e \<Rightarrow> (Inl e, s)
           | Inr _ \<Rightarrow>
               (case ticked (rx_write E) s of
                  (writes, s) \<Rightarrow>
                    if \<not> writes ''trusted-root-key'' then (Inl Io, s)
                    else (Inr (), s\<lparr>rv_key_file := Some (rz_root_public_key zone),
                                    rv_trusted := Some (rz_root_public_key zone)\<rparr>))))"

definition load_cached_root :: "'x resolution_deps_scheme \<Rightarrow> resolver \<Rightarrow> root_zone result" where
  "load_cached_root E s = root_cache_load (from_slice (rx_zone E)) (rv_cache s)"

definition last_verified_zone ::
  "'x resolution_deps_scheme \<Rightarrow> resolver \<Rightarrow> root_zone option \<times> resolver" where
  "last_verified_zone E s =
     (case rv_root s of
        Some zone \<Rightarrow> (Some zone, s)
      | None \<Rightarrow>
          (case load_cached_root E s of
             Inl _ \<Rightarrow> (None, s)
           | Inr cached \<Rightarrow>
               (case verify_zone E cached s of (Inl _, s) \<Rightarrow> (None, s) | (Inr _, s) \<Rightarrow> (Some cached, s))))"

definition fetch_root_native ::
  "'x resolution_deps_scheme \<Rightarrow> string \<Rightarrow> resolver \<Rightarrow> root_zone result \<times> resolver" where
  "fetch_root_native E addr s =
     ticked (\<lambda>n. and_then (native_connect E (rv_identity s) addr n) (native_request E GetRoot (\<lambda>reply.
       case reply of
         RootMsg zone_json \<Rightarrow>
           if MAX_ROOT_BYTES < length zone_json
           then Inl (NetworkError (''native root zone exceeds '' @ show_nat MAX_ROOT_BYTES @ '' bytes''))
           else and_then (decode_as (rx_zone E) zone_json) (\<lambda>zone.
                and_then (root_zone_validate zone) (\<lambda>_. Inr zone))
       | other \<Rightarrow> Inl (provider_refused E ''native provider'' other)))) s"

definition fetch_root_network ::
  "'x resolution_deps_scheme \<Rightarrow> resolver \<Rightarrow> root_zone result \<times> resolver" where
  "fetch_root_network E s =
     (case first_ok (fetch_root_native E) (rv_native_providers s) s of
        (Some zone, s) \<Rightarrow> (Inr zone, s)
      | (None, s) \<Rightarrow> ticked (\<lambda>n. client_fetch_root (rx_http E n) (rx_zone E) (rv_client s)) s)"

definition store_root :: "'x resolution_deps_scheme \<Rightarrow> root_zone \<Rightarrow> resolver \<Rightarrow> unit result \<times> resolver" where
  "store_root E zone s =
     (case ticked (rx_write E) s of
        (writes, s) \<Rightarrow>
          if \<not> writes ''root-zone.json'' then (Inl Io, s)
          else (Inr (), s\<lparr>rv_cache := last (root_cache_store_trace (rx_zone_pretty E) zone 0 (rv_cache s))\<rparr>))"

text \<open>The disk cache as a last resort, after an error \<open>e\<close>.\<close>

definition use_cached_root ::
  "'x resolution_deps_scheme \<Rightarrow> federate_error \<Rightarrow> resolver \<Rightarrow> root_zone result \<times> resolver" where
  "use_cached_root E e s =
     (case load_cached_root E s of
        Inl _ \<Rightarrow> (Inl e, s)
      | Inr cached \<Rightarrow>
          (case verify_zone E cached s of
             (Inl _, s) \<Rightarrow> (Inl e, s)
           | (Inr _, s) \<Rightarrow> (Inr cached, s\<lparr>rv_root := Some cached\<rparr>)))"

definition accept_root ::
  "'x resolution_deps_scheme \<Rightarrow> root_zone \<Rightarrow> resolver \<Rightarrow> root_zone result \<times> resolver" where
  "accept_root E zone s =
     (case last_verified_zone E s of
        (known, s) \<Rightarrow>
          (case known of
             Some k \<Rightarrow>
               if rz_root_version zone < rz_root_version k then (Inr k, s\<lparr>rv_root := Some k\<rparr>)
               else try_then (store_root E zone) (\<lambda>_ s. (Inr zone, s\<lparr>rv_root := Some zone\<rparr>)) s
           | None \<Rightarrow> try_then (store_root E zone) (\<lambda>_ s. (Inr zone, s\<lparr>rv_root := Some zone\<rparr>)) s))"

definition refresh_root :: "'x resolution_deps_scheme \<Rightarrow> resolver \<Rightarrow> root_zone result \<times> resolver" where
  "refresh_root E s =
     (case fetch_root_network E s of
        (Inr zone, s) \<Rightarrow>
          (case verify_zone E zone s of
             (Inl e, s) \<Rightarrow> use_cached_root E e s
           | (Inr _, s) \<Rightarrow> accept_root E zone s)
      | (Inl _, s) \<Rightarrow>
          (case load_cached_root E s of
             Inl _ \<Rightarrow> (Inl RootUnavailable, s)
           | Inr zone \<Rightarrow> try_then (verify_zone E zone) (\<lambda>_ s. (Inr zone, s\<lparr>rv_root := Some zone\<rparr>)) s))"

definition current_root :: "'x resolution_deps_scheme \<Rightarrow> resolver \<Rightarrow> root_zone result \<times> resolver" where
  "current_root E s = (case rv_root s of Some zone \<Rightarrow> (Inr zone, s) | None \<Rightarrow> refresh_root E s)"

end
