(* ===== verification/Resolution.thy ===== *)
theory Resolution
  imports Resolver
begin

text \<open>
  \<open>crates/federate-resolution/src/lib.rs\<close>, continued: manifests, delegated TLD registries, blocks, and
  the resolution of a name and path to verified content.
\<close>

subsection \<open>Manifests\<close>

definition fetch_manifest_native ::
  "'x resolution_deps_scheme \<Rightarrow> string \<Rightarrow> string \<Rightarrow> resolver \<Rightarrow> bytes result \<times> resolver" where
  "fetch_manifest_native E hash addr s =
     ticked (\<lambda>n. and_then (native_connect E (rv_identity s) addr n) (native_request E (GetManifest hash) (\<lambda>reply.
       case reply of
         ManifestMsg _ bs \<Rightarrow>
           if MAX_MANIFEST_BYTES < length bs
           then Inl (NetworkError (''native manifest exceeds '' @ show_nat MAX_MANIFEST_BYTES @ '' bytes''))
           else and_then (storage_verify E bs hash) (\<lambda>_. Inr bs)
       | other \<Rightarrow> Inl (provider_refused E ''native provider'' other)))) s"

definition fetch_manifest_network ::
  "'x resolution_deps_scheme \<Rightarrow> string \<Rightarrow> resolver \<Rightarrow> bytes result \<times> resolver" where
  "fetch_manifest_network E hash s =
     (case first_ok (fetch_manifest_native E hash) (rv_native_providers s) s of
        (Some bs, s) \<Rightarrow> (Inr bs, s)
      | (None, s) \<Rightarrow> ticked (\<lambda>n. client_fetch_manifest_bytes E (rx_http E n) (rv_client s) hash) s)"

text \<open>Fetched bytes are written to the cache (and renamed); a cached file that does not match is removed.\<close>

definition keep_manifest :: "'x resolution_deps_scheme \<Rightarrow> string \<Rightarrow> bytes \<Rightarrow> resolver \<Rightarrow> bytes result \<times> resolver" where
  "keep_manifest E hash bs s =
     (case ticked (rx_write E) s of
        (writes, s) \<Rightarrow>
          if \<not> writes hash then (Inl Io, s)
          else (Inr bs, s\<lparr>rv_manifests := bm_insert hash bs (rv_manifests s)\<rparr>))"

definition fetch_and_keep_manifest ::
  "'x resolution_deps_scheme \<Rightarrow> string \<Rightarrow> resolver \<Rightarrow> bytes result \<times> resolver" where
  "fetch_and_keep_manifest E hash = try_then (fetch_manifest_network E hash) (keep_manifest E hash)"

definition drop_manifest :: "'x resolution_deps_scheme \<Rightarrow> string \<Rightarrow> resolver \<Rightarrow> resolver" where
  "drop_manifest E hash s =
     (case ticked (rx_write E) s of
        (writes, s) \<Rightarrow> if writes hash then s\<lparr>rv_manifests := bm_remove hash (rv_manifests s)\<rparr> else s)"

definition manifest_bytes :: "'x resolution_deps_scheme \<Rightarrow> string \<Rightarrow> resolver \<Rightarrow> bytes result \<times> resolver" where
  "manifest_bytes E hash s =
     (if \<not> is_valid_hash hash then (Inl (ManifestNotFound hash), s)
      else (case bm_get (rv_manifests s) hash of
          None \<Rightarrow> fetch_and_keep_manifest E hash s
        | Some bs \<Rightarrow>
            if is_ok (storage_verify E bs hash) then (Inr bs, s)
            else fetch_and_keep_manifest E hash (drop_manifest E hash s)))"

definition load_manifest :: "'x resolution_deps_scheme \<Rightarrow> string \<Rightarrow> resolver \<Rightarrow> manifest result \<times> resolver" where
  "load_manifest E hash =
     try_then (manifest_bytes E hash) (\<lambda>bs s.
       (and_then (decode_as (rx_manifest E) bs) (\<lambda>m. and_then (manifest_validate m) (\<lambda>_. Inr m)), s))"

subsection \<open>Delegated registries\<close>

definition registry_cache_path :: "string \<Rightarrow> string option" where
  "registry_cache_path tld = map_option (\<lambda>t. t @ ''.json'') (ok_option (validate_tld_name tld))"

definition cached_registry :: "'x resolution_deps_scheme \<Rightarrow> tld_record \<Rightarrow> resolver \<Rightarrow> tld_registry option" where
  "cached_registry E tld_rec s =
     Option.bind (registry_cache_path (tr_tld tld_rec)) (\<lambda>path.
     Option.bind (bm_get (rv_registries s) path) (\<lambda>bs.
     Option.bind (from_slice (rx_registry E) bs) (\<lambda>registry.
     if is_ok (tld_registry_verify E registry (tr_tld tld_rec) (tr_operator_public_key tld_rec))
     then Some registry else None)))"

definition keep_registry :: "'x resolution_deps_scheme \<Rightarrow> tld_registry \<Rightarrow> resolver \<Rightarrow> resolver" where
  "keep_registry E registry s =
     (case registry_cache_path (rg_tld registry) of
        None \<Rightarrow> s
      | Some path \<Rightarrow>
          (case ticked (rx_write E) s of
             (writes, s) \<Rightarrow>
               if writes path
               then s\<lparr>rv_registries := bm_insert path (rx_registry_pretty E registry) (rv_registries s)\<rparr>
               else s))"

definition fetch_registry_native ::
  "'x resolution_deps_scheme \<Rightarrow> string \<Rightarrow> string \<Rightarrow> string \<Rightarrow> resolver \<Rightarrow> tld_registry result \<times> resolver" where
  "fetch_registry_native E tld operator_public_key addr s =
     ticked (\<lambda>n. and_then (native_connect E (rv_identity s) addr n) (\<lambda>conn.
       if cn_version conn < VERSION_DELEGATED_REGISTRIES
       then Inl (NetworkError (''provider speaks protocol v'' @ show_nat (unat (cn_version conn)) @ '' (< v'' @
         show_nat (unat VERSION_DELEGATED_REGISTRIES) @ ''); no delegated registry support''))
       else native_request E (GetTldRegistry tld) (\<lambda>reply.
         case reply of
           TldRegistryMsg _ registry_json \<Rightarrow>
             if MAX_REGISTRY_BYTES < length registry_json
             then Inl (NetworkError (''registry exceeds '' @ show_nat MAX_REGISTRY_BYTES @ '' bytes''))
             else and_then (ok_or (from_slice (rx_registry E) registry_json)
                      (NetworkError ''provider sent malformed registry: '')) (\<lambda>registry.
                  and_then (tld_registry_verify E registry tld operator_public_key) (\<lambda>_. Inr registry))
         | other \<Rightarrow> Inl (provider_refused E ''registry provider'' other)) conn)) s"

text \<open>The loop over the native registry providers: \<open>None\<close> when none answered.\<close>

fun fetch_registry_providers ::
  "'x resolution_deps_scheme \<Rightarrow> tld_record \<Rightarrow> string list \<Rightarrow> resolver \<Rightarrow> tld_registry option result \<times> resolver" where
  "fetch_registry_providers E tld_rec [] s = (Inr None, s)"
| "fetch_registry_providers E tld_rec (addr # addrs) s =
     (case fetch_registry_native E (tr_tld tld_rec) (tr_operator_public_key tld_rec) addr s of
        (Inr registry, s) \<Rightarrow> (Inr (Some registry), s)
      | (Inl (VerificationFailed a b c), s) \<Rightarrow> (Inl (VerificationFailed a b c), s)
      | (Inl _, s) \<Rightarrow> fetch_registry_providers E tld_rec addrs s)"

definition fetch_registry_live ::
  "'x resolution_deps_scheme \<Rightarrow> tld_record \<Rightarrow> resolver \<Rightarrow> tld_registry result \<times> resolver" where
  "fetch_registry_live E tld_rec =
     (let unavailable = DelegatedRegistryUnavailable (tr_tld tld_rec) ''no registry provider answered'' in
      try_then (fetch_registry_providers E tld_rec (tr_registry_providers tld_rec)) (\<lambda>found s.
        case found of
          Some registry \<Rightarrow> (Inr registry, s)
        | None \<Rightarrow>
            (case tr_registry_endpoint tld_rec of
               None \<Rightarrow> (Inl unavailable, s)
             | Some endpoint \<Rightarrow>
                 (case ticked (\<lambda>n. fetch_registry E (http_get_json (rx_http E n)) (rx_registry_value E)
                     (delegated_registry_client_new endpoint (tr_operator_public_key tld_rec)) (tr_tld tld_rec)) s of
                    (Inr registry, s) \<Rightarrow> (Inr registry, s)
                  | (Inl (VerificationFailed a b c), s) \<Rightarrow> (Inl (VerificationFailed a b c), s)
                  | (Inl _, s) \<Rightarrow> (Inl unavailable, s)))))"

text \<open>A registry pinned by its content address; only reachability becomes \<open>unavailable\<close>.\<close>

definition pinned_registry ::
  "'x resolution_deps_scheme \<Rightarrow> tld_record \<Rightarrow> resolver \<Rightarrow> tld_registry result \<times> resolver" where
  "pinned_registry E tld_rec s =
     (let tld = tr_tld tld_rec in
      case tr_registry_manifest_hash tld_rec of
        None \<Rightarrow> (Inl (DelegatedRegistryUnavailable tld
          ''TLD record declares delegated_manifest but carries no registry_manifest_hash''), s)
      | Some hash \<Rightarrow>
          (case manifest_bytes E hash s of
             (Inl (HashMismatch a b), s) \<Rightarrow> (Inl (HashMismatch a b), s)
           | (Inl (VerificationFailed a b c), s) \<Rightarrow> (Inl (VerificationFailed a b c), s)
           | (Inl other, s) \<Rightarrow> (Inl (DelegatedRegistryUnavailable tld
               (''registry manifest '' @ hash @ '' not fetchable: '' @ error_display other)), s)
           | (Inr bs, s) \<Rightarrow>
               (and_then (ok_or (from_slice (rx_registry E) bs) (VerificationFailed ''tld-registry'' (''.'' @ tld)
                  ''registry manifest is not a valid registry document: '')) (\<lambda>registry.
                and_then (tld_registry_verify E registry tld (tr_operator_public_key tld_rec)) (\<lambda>_.
                Inr registry)), s)))"

text \<open>A live registry, never older than the last verified one; signature failures do not fall back.\<close>

definition live_registry ::
  "'x resolution_deps_scheme \<Rightarrow> tld_record \<Rightarrow> resolver \<Rightarrow> tld_registry result \<times> resolver" where
  "live_registry E tld_rec s =
     (case fetch_registry_live E tld_rec s of
        (Inr registry, s) \<Rightarrow>
          (case cached_registry E tld_rec s of
             Some cached \<Rightarrow>
               if rg_version registry < rg_version cached then (Inr cached, s)
               else (Inr registry, keep_registry E registry s)
           | None \<Rightarrow> (Inr registry, keep_registry E registry s))
      | (Inl (VerificationFailed a b c), s) \<Rightarrow> (Inl (VerificationFailed a b c), s)
      | (Inl e, s) \<Rightarrow>
          (case cached_registry E tld_rec s of Some cached \<Rightarrow> (Inr cached, s) | None \<Rightarrow> (Inl e, s)))"

definition resolver_tld_registry ::
  "'x resolution_deps_scheme \<Rightarrow> tld_record \<Rightarrow> resolver \<Rightarrow> tld_registry result \<times> resolver" where
  "resolver_tld_registry E tld_rec s =
     (case tr_registry_type tld_rec of
        DelegatedManifest \<Rightarrow> pinned_registry E tld_rec s
      | DelegatedNative \<Rightarrow> live_registry E tld_rec s
      | DelegatedHttp \<Rightarrow> live_registry E tld_rec s
      | other \<Rightarrow> (Inl (DelegatedRegistryUnavailable (tr_tld tld_rec)
          (''registry type '' @ registry_type_debug other @ '' is not resolvable'')), s))"

definition tld_registry_by_name ::
  "'x resolution_deps_scheme \<Rightarrow> string \<Rightarrow> resolver \<Rightarrow> tld_registry result \<times> resolver" where
  "tld_registry_by_name E tld =
     try_then (current_root E) (\<lambda>root s.
       case root_zone_lookup_tld root tld of
         None \<Rightarrow> (Inl (TldNotFound tld), s)
       | Some tld_rec \<Rightarrow> resolver_tld_registry E tld_rec s)"

definition locate_record ::
  "'x resolution_deps_scheme \<Rightarrow> root_zone \<Rightarrow> tld_record \<Rightarrow> string \<Rightarrow> resolver \<Rightarrow> domain_record result \<times> resolver" where
  "locate_record E root tld_rec name s =
     (case tr_registry_type tld_rec of
        RootManaged \<Rightarrow> (ok_or (root_zone_lookup root name) (DomainNotFound name), s)
      | OfflineManual \<Rightarrow> (Inl (DelegatedRegistryUnavailable (tr_tld tld_rec)
          ''registry is administered offline and cannot be resolved''), s)
      | _ \<Rightarrow> try_then (resolver_tld_registry E tld_rec) (\<lambda>registry s.
          (ok_or (tld_registry_lookup registry name) (DomainNotFound name), s)) s)"

subsection \<open>Blocks\<close>

definition fetch_block_native ::
  "'x resolution_deps_scheme \<Rightarrow> string \<Rightarrow> string \<Rightarrow> resolver \<Rightarrow> bytes result \<times> resolver" where
  "fetch_block_native E hash addr s =
     (if \<not> is_valid_hash hash then (Inl (BlockNotFound hash), s)
      else ticked (\<lambda>n. and_then (native_connect E (rv_identity s) addr n) (native_request E (GetBlock hash) (\<lambda>reply.
        case reply of
          BlockMsg _ bs \<Rightarrow> and_then (storage_verify E bs hash) (\<lambda>_. Inr bs)
        | other \<Rightarrow> Inl (provider_refused E ''native provider'' other)))) s)"

text \<open>The native addresses to try: the ranked providers', then the defaults not among them.\<close>

definition native_addrs :: "node_entry list \<Rightarrow> string list \<Rightarrow> string list" where
  "native_addrs ranked defaults =
     foldl (\<lambda>addrs addr. if addr \<in> set addrs then addrs else addrs @ [addr])
       (List.map_filter (\<lambda>p. map_option show_socket_addr (native_addr p)) ranked) defaults"

definition keep_block :: "'x resolution_deps_scheme \<Rightarrow> string \<Rightarrow> bytes \<Rightarrow> resolver \<Rightarrow> bytes result \<times> resolver" where
  "keep_block E hash bs s =
     (case ticked (rx_write E) s of
        (writes, s) \<Rightarrow>
          (case block_store_put E writes (rv_blocks s) hash bs of
             Inl e \<Rightarrow> (Inl e, s)
           | Inr st \<Rightarrow> (Inr bs, s\<lparr>rv_blocks := st\<rparr>)))"

definition directory_providers ::
  "'x resolution_deps_scheme \<Rightarrow> string \<Rightarrow> resolver \<Rightarrow> node_entry list \<times> resolver" where
  "directory_providers E hash s =
     (case rv_directory s of
        None \<Rightarrow> ([], s)
      | Some dir \<Rightarrow>
          ticked (\<lambda>n. case client_providers (rx_directory E n) dir hash None of Inl _ \<Rightarrow> [] | Inr ps \<Rightarrow> ps) s)"

definition fetch_block_anywhere ::
  "'x resolution_deps_scheme \<Rightarrow> string \<Rightarrow> resolver \<Rightarrow> bytes result \<times> resolver" where
  "fetch_block_anywhere E hash s =
     (case directory_providers E hash s of
        (entries, s) \<Rightarrow>
          (let ranked = rank_providers entries (rv_region s) in
           case first_ok (fetch_block_native E hash) (native_addrs ranked (rv_native_providers s)) s of
             (Some bs, s) \<Rightarrow> (Inr bs, s)
           | (None, s) \<Rightarrow>
               (case first_ok (\<lambda>p. ticked (\<lambda>n. fetch_block_from E (rx_http E n) p hash)) ranked s of
                  (Some bs, s) \<Rightarrow> (Inr bs, s)
                | (None, s) \<Rightarrow> ticked (\<lambda>n. client_fetch_block E (rx_http E n) (rv_client s) hash) s)))"

definition load_block :: "'x resolution_deps_scheme \<Rightarrow> string \<Rightarrow> resolver \<Rightarrow> bytes result \<times> resolver" where
  "load_block E hash s =
     (case block_store_get E (rv_blocks s) hash of
        Inr bs \<Rightarrow> (Inr bs, s)
      | Inl _ \<Rightarrow> try_then (fetch_block_anywhere E hash) (keep_block E hash) s)"

subsection \<open>Resolving\<close>

definition resolve_domain ::
  "'x resolution_deps_scheme \<Rightarrow> int \<Rightarrow> string \<Rightarrow> resolver \<Rightarrow> domain_record result \<times> resolver" where
  "resolve_domain E clock host s =
     (case federate_domain_parse host of
        Inl e \<Rightarrow> (Inl e, s)
      | Inr domain \<Rightarrow>
          try_then (current_root E) (\<lambda>root s.
            case root_zone_lookup_tld root (fd_tld domain) of
              None \<Rightarrow> (Inl (TldNotFound (fd_tld domain)), s)
            | Some tld_rec \<Rightarrow>
                if \<not> tld_status_is_resolvable (tr_status tld_rec) \<or> tld_record_is_expired E clock tld_rec
                then (Inl (TldUnavailable (fd_tld domain)
                  (if tld_record_is_expired E clock tld_rec then ''expired''
                   else tld_status_as_str (tr_status tld_rec))), s)
                else try_then (locate_record E root tld_rec (fqdn domain)) (\<lambda>record s.
                  (and_then (domain_record_verify E record (tr_operator_public_key tld_rec)) (\<lambda>_.
                   if dr_tld record \<noteq> fd_tld domain
                   then Inl (VerificationFailed ''domain'' (fqdn domain) ''domain record belongs to a different TLD'')
                   else if \<not> domain_status_is_resolvable (dr_status record) \<or> domain_record_is_expired E clock record
                   then Inl (TldUnavailable (fd_tld domain)
                     (if domain_record_is_expired E clock record then ''expired''
                      else domain_status_as_str (dr_status record)))
                   else Inr record), s)) s) s)"

definition site_files ::
  "'x resolution_deps_scheme \<Rightarrow> int \<Rightarrow> string \<Rightarrow> resolver \<Rightarrow> string list result \<times> resolver" where
  "site_files E clock host =
     try_then (resolve_domain E clock host) (\<lambda>record.
     try_then (load_manifest E (dr_manifest_hash record)) (\<lambda>m s.
       (and_then (manifest_verify E m host (dr_owner_public_key record)) (\<lambda>_. Inr (bm_keys (mf_files m))), s)))"

datatype resolved =
    Content (rs_domain: string) (rs_path: string) (rs_bytes: bytes) (rs_mime: string) (rs_hash: string)
  | NotFederate string
  | NoSuchTld string
  | UnavailableTld string string
  | DelegatedUnavailable string string string
  | NoSuchDomain string
  | DomainUnavailable string string
  | NoSuchPath string string
  | SecurityFailure (sf_domain: string) (sf_layer: string) (sf_reason: string)

text \<open>Step 9: the path to a file of the manifest, and its block.\<close>

definition serve_file ::
  "'x resolution_deps_scheme \<Rightarrow> string \<Rightarrow> string \<Rightarrow> manifest \<Rightarrow> resolver \<Rightarrow> resolved result \<times> resolver" where
  "serve_file E name path m s =
     (case manifest_resolve_path m path of
        None \<Rightarrow> (Inr (NoSuchPath name path), s)
      | Some (file_name, file_hash) \<Rightarrow>
          (case load_block E file_hash s of
             (Inr bs, s) \<Rightarrow> (Inr (Content name path bs (rx_mime E file_name) file_hash), s)
           | (Inl (HashMismatch expected actual), s) \<Rightarrow>
               (Inr (SecurityFailure name ''content'' (''content block hash mismatch (expected '' @ expected @
                 '', got '' @ actual @ '')'')), s)
           | (Inl e, s) \<Rightarrow> (Inl e, s)))"

text \<open>Step 8: the manifest of a verified, active record.\<close>

definition serve_record ::
  "'x resolution_deps_scheme \<Rightarrow> string \<Rightarrow> string \<Rightarrow> domain_record \<Rightarrow> resolver \<Rightarrow> resolved result \<times> resolver" where
  "serve_record E name path record s =
     (case load_manifest E (dr_manifest_hash record) s of
        (Inr m, s) \<Rightarrow>
          (case manifest_verify E m name (dr_owner_public_key record) of
             Inl (VerificationFailed layer _ reason) \<Rightarrow> (Inr (SecurityFailure name layer reason), s)
           | _ \<Rightarrow> serve_file E name path m s)
      | (Inl (HashMismatch expected actual), s) \<Rightarrow>
          (Inr (SecurityFailure name ''manifest'' (''manifest hash mismatch (expected '' @ expected @
            '', got '' @ actual @ '')'')), s)
      | (Inl e, s) \<Rightarrow> (Inl e, s))"

text \<open>Steps 6 and 7: the domain record of an active TLD.\<close>

definition check_record ::
  "'x resolution_deps_scheme \<Rightarrow> int \<Rightarrow> federate_domain \<Rightarrow> string \<Rightarrow> tld_record \<Rightarrow> domain_record
     \<Rightarrow> resolver \<Rightarrow> resolved result \<times> resolver" where
  "check_record E clock domain path tld_rec record s =
     (let name = fqdn domain in
      case domain_record_verify E record (tr_operator_public_key tld_rec) of
        Inl (VerificationFailed layer _ reason) \<Rightarrow> (Inr (SecurityFailure name layer reason), s)
      | _ \<Rightarrow>
          if dr_tld record \<noteq> fd_tld domain
          then (Inr (SecurityFailure name ''domain'' ''domain record belongs to a different TLD''), s)
          else if \<not> domain_status_is_resolvable (dr_status record)
          then (Inr (DomainUnavailable name (domain_status_as_str (dr_status record))), s)
          else if domain_record_is_expired E clock record then (Inr (DomainUnavailable name ''expired''), s)
          else serve_record E name path record s)"

definition serve_tld ::
  "'x resolution_deps_scheme \<Rightarrow> int \<Rightarrow> federate_domain \<Rightarrow> string \<Rightarrow> root_zone \<Rightarrow> tld_record
     \<Rightarrow> resolver \<Rightarrow> resolved result \<times> resolver" where
  "serve_tld E clock domain path root tld_rec s =
     (let name = fqdn domain in
      case locate_record E root tld_rec name s of
        (Inr record, s) \<Rightarrow> check_record E clock domain path tld_rec record s
      | (Inl (DomainNotFound _), s) \<Rightarrow> (Inr (NoSuchDomain name), s)
      | (Inl (VerificationFailed layer _ reason), s) \<Rightarrow> (Inr (SecurityFailure name layer reason), s)
      | (Inl (HashMismatch expected actual), s) \<Rightarrow>
          (Inr (SecurityFailure name ''tld-registry'' (''registry manifest hash mismatch (expected '' @ expected @
            '', got '' @ actual @ '')'')), s)
      | (Inl (DelegatedRegistryUnavailable tld reason), s) \<Rightarrow> (Inr (DelegatedUnavailable name tld reason), s)
      | (Inl e, s) \<Rightarrow> (Inl e, s))"

text \<open>Steps 4 and 5, with the verified root zone.\<close>

definition serve_root ::
  "'x resolution_deps_scheme \<Rightarrow> int \<Rightarrow> federate_domain \<Rightarrow> string \<Rightarrow> root_zone \<Rightarrow> resolver
     \<Rightarrow> resolved result \<times> resolver" where
  "serve_root E clock domain path root s =
     (case root_zone_lookup_tld root (fd_tld domain) of
        None \<Rightarrow> (Inr (NoSuchTld (fd_tld domain)), s)
      | Some tld_rec \<Rightarrow>
          (case tld_record_verify E tld_rec (case rv_trusted s of Some key \<Rightarrow> key | None \<Rightarrow> []) of
             Inl (VerificationFailed layer _ reason) \<Rightarrow> (Inr (SecurityFailure (fqdn domain) layer reason), s)
           | _ \<Rightarrow>
               if \<not> tld_status_is_resolvable (tr_status tld_rec)
               then (Inr (UnavailableTld (fd_tld domain) (tld_status_as_str (tr_status tld_rec))), s)
               else if tld_record_is_expired E clock tld_rec
               then (Inr (UnavailableTld (fd_tld domain) ''expired''), s)
               else serve_tld E clock domain path root tld_rec s))"

definition resolve ::
  "'x resolution_deps_scheme \<Rightarrow> int \<Rightarrow> string \<Rightarrow> string \<Rightarrow> resolver \<Rightarrow> resolved result \<times> resolver" where
  "resolve E clock host path s =
     (case federate_domain_parse host of
        Inl _ \<Rightarrow> (Inr (NotFederate host), s)
      | Inr domain \<Rightarrow>
          (case current_root E s of
             (Inr root, s) \<Rightarrow> serve_root E clock domain path root s
           | (Inl (VerificationFailed layer subject reason), s) \<Rightarrow> (Inr (SecurityFailure subject layer reason), s)
           | (Inl e, s) \<Rightarrow> (Inl e, s)))"

definition resolve_uri ::
  "'x resolution_deps_scheme \<Rightarrow> int \<Rightarrow> federate_uri \<Rightarrow> resolver \<Rightarrow> resolved result \<times> resolver" where
  "resolve_uri E clock uri = resolve E clock (federate_uri_fqdn uri) (fu_path uri)"

end
