(* ===== verification/Gateway.thy ===== *)
theory Gateway
  imports Resolution
begin

text \<open>
  \<open>crates/federate-gateway/src/lib.rs\<close>: the HTTP adapter for browsers. A request is what the handler
  reads of it: \<open>gr_host\<close> and \<open>gr_if_none_match\<close> are the header values, if present and printable
  (\<open>to_str\<close>), and \<open>gr_path\<close> is \<open>uri.path()\<close>. The fixed text of the error page, with its embedded font,
  is the parameter \<open>error_page\<close>; binding the socket is not modelled.
\<close>

record gateway_request =
  gr_method :: string
  gr_host :: "string option"
  gr_if_none_match :: "string option"
  gr_path :: string

record gateway_response =
  gw_status :: nat
  gw_headers :: "(string \<times> string) list"
  gw_body :: bytes

text \<open>The text of the page before, between and after the two titles and the detail.\<close>

record error_page =
  ep_head :: string
  ep_style :: string
  ep_sep :: string
  ep_foot :: string

definition GATEWAY_MAX_PATH_LEN :: nat where
  "GATEWAY_MAX_PATH_LEN = 2048"

definition etag_matches :: "string \<Rightarrow> string \<Rightarrow> bool" where
  "etag_matches if_none_match etag \<longleftrightarrow>
     list_ex (\<lambda>t. let t = trim t in t = ''*'' \<or> t = etag \<or> strip_prefix ''W/'' t = Some etag)
       (split_char (CHR '','') if_none_match)"

definition esc_char :: "char \<Rightarrow> string" where
  "esc_char c =
     (if c = CHR ''&'' then ''&amp;''
      else if c = CHR ''<'' then ''&lt;''
      else if c = CHR ''>'' then ''&gt;''
      else if c = CHR 0x22 then ''&quot;''
      else if c = CHR 0x27 then ''&#x27;''
      else [c])"

definition esc :: "string \<Rightarrow> string" where
  "esc s = concat (map esc_char s)"

definition error_html :: "error_page \<Rightarrow> string \<Rightarrow> string \<Rightarrow> string" where
  "error_html page title detail =
     ep_head page @ title @ ep_style page @ title @ ep_sep page @ detail @ ep_foot page"

definition styled_error :: "error_page \<Rightarrow> nat \<Rightarrow> string \<Rightarrow> string \<Rightarrow> gateway_response" where
  "styled_error page status title detail =
     \<lparr>gw_status = status, gw_headers = [(''content-type'', ''text/html; charset=utf-8'')],
      gw_body = bytes_of_str (error_html page title detail)\<rparr>"

definition plain_answer :: "nat \<Rightarrow> (string \<times> string) list \<Rightarrow> string \<Rightarrow> gateway_response" where
  "plain_answer status headers body =
     \<lparr>gw_status = status, gw_headers = (''content-type'', ''text/plain; charset=utf-8'') # headers,
      gw_body = bytes_of_str body\<rparr>"

text \<open>Content, or 304 when the browser already has these bytes.\<close>

definition content_answer :: "string option \<Rightarrow> bytes \<Rightarrow> string \<Rightarrow> string \<Rightarrow> gateway_response" where
  "content_answer if_none_match bs mime hash =
     (let etag = [CHR 0x22] @ hash @ [CHR 0x22] in
      if (case if_none_match of None \<Rightarrow> False | Some inm \<Rightarrow> etag_matches inm etag)
      then \<lparr>gw_status = 304,
            gw_headers = [(''etag'', etag), (''cache-control'', ''public, max-age=60'')], gw_body = []\<rparr>
      else \<lparr>gw_status = 200,
            gw_headers = [(''content-type'', mime), (''x-content-type-options'', ''nosniff''),
              (''referrer-policy'', ''no-referrer''), (''cache-control'', ''public, max-age=60''),
              (''etag'', etag), (''x-federate-gateway'', ''federated'')],
            gw_body = bs\<rparr>)"

definition in_code :: "string \<Rightarrow> string" where
  "in_code s = ''<code>'' @ s @ ''</code>''"

definition in_strong :: "string \<Rightarrow> string" where
  "in_strong s = ''<strong>'' @ s @ ''</strong>''"

text \<open>The answer for each outcome of the resolution.\<close>

fun outcome_answer :: "error_page \<Rightarrow> string option \<Rightarrow> resolved result \<Rightarrow> gateway_response" where
  "outcome_answer page inm (Inr (Content _ _ bs mime hash)) = content_answer inm bs mime hash"
| "outcome_answer page inm (Inr (NotFederate _)) = plain_answer 404 [] (''404 not found'' @ [CHR 10])"
| "outcome_answer page inm (Inr (NoSuchTld tld)) =
     styled_error page 404 ''TLD not found in Federate Network''
       (in_code (''.'' @ esc tld) @ '' does not exist in the Federate root registry.'')"
| "outcome_answer page inm (Inr (UnavailableTld tld status)) =
     styled_error page 503 ''TLD not resolvable''
       (in_code (''.'' @ esc tld) @ '' exists but is currently '' @ in_strong (esc status) @
        '' and cannot be resolved.'')"
| "outcome_answer page inm (Inr (DelegatedUnavailable domain tld reason)) =
     styled_error page 503 ''Delegated registry unavailable''
       (in_code (''.'' @ esc tld) @ '' is delegated to an operator, but its registry cannot be '' @
        ''used right now, so '' @ in_code (esc domain) @ '' cannot be resolved:<br>'' @ in_code (esc reason))"
| "outcome_answer page inm (Inr (NoSuchDomain domain)) =
     styled_error page 404 ''Domain not found in Federate Network''
       (in_code (esc domain) @ '' is a valid Federate name, but no record exists for it in its TLD registry yet.'')"
| "outcome_answer page inm (Inr (DomainUnavailable domain status)) =
     styled_error page 503 ''Domain not resolvable''
       (in_code (esc domain) @ '' exists but is currently '' @ in_strong (esc status) @ ''.'')"
| "outcome_answer page inm (Inr (NoSuchPath domain path)) =
     styled_error page 404 ''404 - page not found''
       (in_code (esc domain) @ '' has no content at '' @ in_code (esc path) @ ''.'')"
| "outcome_answer page inm (Inr (SecurityFailure domain layer reason)) =
     styled_error page 502 ''Federate security verification failed''
       (''Verification failed at the '' @ in_strong (esc layer) @ '' layer while resolving '' @
        in_code (esc domain) @ '':<br>'' @ in_code (esc reason) @ ''<br><br>'' @
        ''The content was '' @ in_strong ''not served'' @ ''. This can mean tampering, a '' @
        ''corrupted cache, or a misconfigured trust anchor. '' @
        ''Run '' @ in_code ''federate doctor'' @ '' and check your pinned root key.'')"
| "outcome_answer page inm (Inl e) =
     styled_error page 502 ''Federate resolution error''
       (in_code (esc (error_display e)) @
        ''<br>Node 1 may be unreachable and this site is not cached yet. Try '' @ in_code ''federate doctor'' @ ''.'')"

definition gateway_handle ::
  "'x resolution_deps_scheme \<Rightarrow> error_page \<Rightarrow> int \<Rightarrow> gateway_request \<Rightarrow> resolver \<Rightarrow> gateway_response \<times> resolver" where
  "gateway_handle E page clock req s =
     (if gr_method req \<noteq> ''GET'' \<and> gr_method req \<noteq> ''HEAD''
      then (plain_answer 405 [(''allow'', ''GET, HEAD'')] (''method not allowed'' @ [CHR 10]), s)
      else
        let host = (case gr_host req of None \<Rightarrow> [] | Some h \<Rightarrow> h) in
        if GATEWAY_MAX_PATH_LEN < length (gr_path req)
        then (plain_answer 414 [] (''uri too long'' @ [CHR 10]), s)
        else (case federate_uri_from_http host (gr_path req) of
            Inl _ \<Rightarrow> (plain_answer 404 [] (''404 not found'' @ [CHR 10]), s)
          | Inr uri \<Rightarrow>
              (case resolve_uri E clock uri s of
                 (outcome, s) \<Rightarrow> (outcome_answer page (gr_if_none_match req) outcome, s))))"

subsection \<open>Escaping\<close>

lemma esc_simps [simp]: "esc [] = []" "esc (c # s) = esc_char c @ esc s" "esc (s @ t) = esc s @ esc t"
  by (simp_all add: esc_def)

lemma esc_char_safe: "c \<in> set (esc_char d) \<Longrightarrow> c \<notin> {CHR ''<'', CHR ''>'', CHR 0x22, CHR 0x27}"
  by (auto simp: esc_char_def split: if_splits)

text \<open>No text from outside can open a tag or leave an attribute.\<close>

lemma esc_safe: "c \<in> set (esc s) \<Longrightarrow> c \<notin> {CHR ''<'', CHR ''>'', CHR 0x22, CHR 0x27}"
  by (induction s) (use esc_char_safe in \<open>auto\<close>)

text \<open>What a browser shows for escaped text.\<close>

fun unesc :: "string \<Rightarrow> string" where
  "unesc s =
     (case s of
        [] \<Rightarrow> []
      | c # t \<Rightarrow>
          if take 5 s = ''&amp;'' then CHR ''&'' # unesc (drop 5 s)
          else if take 4 s = ''&lt;'' then CHR ''<'' # unesc (drop 4 s)
          else if take 4 s = ''&gt;'' then CHR ''>'' # unesc (drop 4 s)
          else if take 6 s = ''&quot;'' then CHR 0x22 # unesc (drop 6 s)
          else if take 6 s = ''&#x27;'' then CHR 0x27 # unesc (drop 6 s)
          else c # unesc t)"

declare unesc.simps [simp del]

lemma unesc_step: "unesc (esc_char c @ s) = c # unesc s"
  by (subst unesc.simps) (auto simp: esc_char_def)

lemma unesc_esc: "unesc (esc s) = s"
  by (induction s) (simp_all add: unesc_step, simp add: unesc.simps)

end
