(* ===== verification/Resolution_Trust.thy ===== *)
theory Resolution_Trust
  imports Resolution Cdn_Properties
begin

text \<open>
  What the steps of the resolver leave alone, and what each of them has verified when it succeeds.
\<close>

subsection \<open>Frames\<close>

text \<open>Only the caches of manifests, registries and blocks may change, and the count of network uses.\<close>

definition same_root :: "resolver \<Rightarrow> resolver \<Rightarrow> bool" where
  "same_root s s' \<longleftrightarrow>
     rv_root s' = rv_root s \<and> rv_cache s' = rv_cache s \<and> rv_trusted s' = rv_trusted s"

definition only_ticks :: "resolver \<Rightarrow> resolver \<Rightarrow> bool" where
  "only_ticks s s' \<longleftrightarrow> (\<exists>n. s' = s\<lparr>rv_tick := n\<rparr>)"

lemma same_root_refl [simp]: "same_root s s"
  by (simp add: same_root_def)

lemma same_root_trans: "same_root s t \<Longrightarrow> same_root t u \<Longrightarrow> same_root s u"
  by (simp add: same_root_def)

lemma only_ticks_refl [simp]: "only_ticks s s"
  unfolding only_ticks_def by (rule exI [of _ "rv_tick s"]) simp

lemma only_ticks_trans: "only_ticks s t \<Longrightarrow> only_ticks t u \<Longrightarrow> only_ticks s u"
  by (auto simp: only_ticks_def)

lemma only_ticks_fields:
  assumes "only_ticks s s'"
  shows "rv_root s' = rv_root s" "rv_cache s' = rv_cache s" "rv_trusted s' = rv_trusted s"
    "rv_blocks s' = rv_blocks s" "rv_manifests s' = rv_manifests s" "rv_registries s' = rv_registries s"
    "rv_native_providers s' = rv_native_providers s" "rv_client s' = rv_client s"
    "rv_key_file s' = rv_key_file s" "rv_directory s' = rv_directory s"
  using assms by (auto simp: only_ticks_def)

lemma only_ticks_same_root: "only_ticks s s' \<Longrightarrow> same_root s s'"
  by (auto simp: only_ticks_def same_root_def)

lemma ticked_eq: "ticked f s = (x, s') \<longleftrightarrow> x = f (rv_tick s) \<and> s' = s\<lparr>rv_tick := rv_tick s + 1\<rparr>"
  by (auto simp: ticked_def)

lemma ticked_only: "ticked f s = (x, s') \<Longrightarrow> only_ticks s s'"
  by (auto simp: ticked_eq only_ticks_def)

lemma try_then_eq_Inr:
  "try_then m f s = (Inr y, s') \<longleftrightarrow> (\<exists>x s1. m s = (Inr x, s1) \<and> f x s1 = (Inr y, s'))"
  by (auto simp: try_then_def split: prod.splits sum.splits)

subsection \<open>Correctness of a step\<close>

text \<open>
  \<open>step_ok R P m\<close>: the step relates the states before and after by \<open>R\<close>, and its result, when it has
  one, satisfies \<open>P\<close>.
\<close>

definition step_ok :: "('s \<Rightarrow> 's \<Rightarrow> bool) \<Rightarrow> ('a \<Rightarrow> bool) \<Rightarrow> ('s \<Rightarrow> 'a result \<times> 's) \<Rightarrow> bool" where
  "step_ok R P m \<longleftrightarrow> (\<forall>s. R s (snd (m s)) \<and> (\<forall>x. fst (m s) = Inr x \<longrightarrow> P x))"

lemma step_okI: "(\<And>s r s'. m s = (r, s') \<Longrightarrow> R s s' \<and> (\<forall>x. r = Inr x \<longrightarrow> P x)) \<Longrightarrow> step_ok R P m"
  unfolding step_ok_def by (metis prod.collapse)

lemma step_okD: "step_ok R P m \<Longrightarrow> m s = (r, s') \<Longrightarrow> R s s' \<and> (\<forall>x. r = Inr x \<longrightarrow> P x)"
  unfolding step_ok_def by (metis fst_conv snd_conv)

lemma step_ok_mono: "step_ok R P m \<Longrightarrow> (\<And>s s'. R s s' \<Longrightarrow> R' s s') \<Longrightarrow> (\<And>x. P x \<Longrightarrow> P' x) \<Longrightarrow> step_ok R' P' m"
  by (simp add: step_ok_def)

lemma step_ok_ticked: "(\<And>s n x. f s n = Inr x \<Longrightarrow> P x) \<Longrightarrow> step_ok only_ticks P (\<lambda>s. ticked (f s) s)"
  by (auto simp: step_ok_def ticked_def only_ticks_def)

lemma step_ok_try_then:
  assumes "step_ok R Q m" "\<And>x. Q x \<Longrightarrow> step_ok R P (f x)"
    and trans: "\<And>s t u. R s t \<Longrightarrow> R t u \<Longrightarrow> R s u"
  shows "step_ok R P (try_then m f)"
proof (rule step_okI)
  fix s r s'
  assume run: "try_then m f s = (r, s')"
  obtain x s1 where m: "m s = (x, s1)" by fastforce
  note first = step_okD [OF assms(1) m]
  show "R s s' \<and> (\<forall>y. r = Inr y \<longrightarrow> P y)"
  proof (cases x)
    case (Inl e)
    with run m first show ?thesis by (auto simp: try_then_def)
  next
    case (Inr y)
    with run m have "f y s1 = (r, s')" by (simp add: try_then_def)
    from step_okD [OF assms(2) this] first Inr show ?thesis using trans by blast
  qed
qed

lemma first_ok_steps:
  assumes "\<And>p. step_ok R P (f p)" "\<And>s. R s s" "\<And>s t u. R s t \<Longrightarrow> R t u \<Longrightarrow> R s u"
  shows "first_ok f ps s = (x, s') \<Longrightarrow> R s s' \<and> (\<forall>y. x = Some y \<longrightarrow> P y)"
proof (induction ps arbitrary: s)
  case Nil
  then show ?case using assms(2) by simp
next
  case (Cons p ps)
  obtain r s1 where r: "f p s = (r, s1)" by fastforce
  note first = step_okD [OF assms(1) r]
  show ?case
  proof (cases r)
    case (Inl e)
    with Cons.prems r have "first_ok f ps s1 = (x, s')" by simp
    from Cons.IH [OF this] first show ?thesis using assms(3) by blast
  next
    case (Inr y)
    with Cons.prems r first show ?thesis by auto
  qed
qed

lemma first_ok_ticks:
  assumes "\<And>p. step_ok only_ticks P (f p)" "first_ok f ps s = (x, s')"
  shows "only_ticks s s' \<and> (\<forall>y. x = Some y \<longrightarrow> P y)"
  by (rule first_ok_steps [OF assms(1) only_ticks_refl only_ticks_trans assms(2)])

lemma try_then_same_root:
  assumes "step_ok same_root Q m" "\<And>x. Q x \<Longrightarrow> step_ok same_root P (f x)"
  shows "step_ok same_root P (try_then m f)"
  by (rule step_ok_try_then [OF assms same_root_trans])

subsection \<open>What an answer must have been\<close>

lemma root_answer:
  "(case reply of RootMsg b \<Rightarrow> F b | other \<Rightarrow> Inl (provider_refused E who other)) = Inr x \<longleftrightarrow>
     (\<exists>b. reply = RootMsg b \<and> F b = Inr x)"
  by (cases reply) simp_all

lemma manifest_answer:
  "(case reply of ManifestMsg h b \<Rightarrow> F h b | other \<Rightarrow> Inl (provider_refused E who other)) = Inr x \<longleftrightarrow>
     (\<exists>h b. reply = ManifestMsg h b \<and> F h b = Inr x)"
  by (cases reply) simp_all

lemma registry_answer:
  "(case reply of TldRegistryMsg h b \<Rightarrow> F h b | other \<Rightarrow> Inl (provider_refused E who other)) = Inr x \<longleftrightarrow>
     (\<exists>h b. reply = TldRegistryMsg h b \<and> F h b = Inr x)"
  by (cases reply) simp_all

lemma block_answer:
  "(case reply of BlockMsg h b \<Rightarrow> F h b | other \<Rightarrow> Inl (provider_refused E who other)) = Inr x \<longleftrightarrow>
     (\<exists>h b. reply = BlockMsg h b \<and> F h b = Inr x)"
  by (cases reply) simp_all

lemmas answer_simps = root_answer manifest_answer registry_answer block_answer native_request_def

subsection \<open>Manifests and blocks\<close>

abbreviation verified :: "'x deps_scheme \<Rightarrow> string \<Rightarrow> bytes \<Rightarrow> bool" where
  "verified E hash bs \<equiv> storage_verify E bs hash = Inr ()"

lemma fetch_manifest_native_ok: "step_ok only_ticks (verified E hash) (fetch_manifest_native E hash addr)"
  unfolding fetch_manifest_native_def
  by (rule step_ok_ticked) (auto simp: answer_simps result_simps split: if_splits)

lemma fetch_manifest_network_ok: "step_ok only_ticks (verified E hash) (fetch_manifest_network E hash)"
proof (rule step_okI)
  fix s r s'
  assume run: "fetch_manifest_network E hash s = (r, s')"
  obtain found s1 where f: "first_ok (fetch_manifest_native E hash) (rv_native_providers s) s = (found, s1)"
    by fastforce
  note first = first_ok_ticks [OF fetch_manifest_native_ok f]
  show "only_ticks s s' \<and> (\<forall>x. r = Inr x \<longrightarrow> verified E hash x)"
  proof (cases found)
    case None
    with run f have t: "ticked (\<lambda>n. client_fetch_manifest_bytes E (rx_http E n) (rv_client s1) hash) s1 = (r, s')"
      by (simp add: fetch_manifest_network_def)
    from t have r: "r = client_fetch_manifest_bytes E (rx_http E (rv_tick s1)) (rv_client s1) hash"
      by (simp add: ticked_eq)
    from first have "only_ticks s s1" ..
    with ticked_only [OF t] have "only_ticks s s'" using only_ticks_trans by blast
    moreover have "verified E hash x" if "r = Inr x" for x
      using that r by (auto dest: client_fetch_manifest_bytes_ok)
    ultimately show ?thesis by simp
  next
    case (Some bs)
    with run f have "r = Inr bs" "s' = s1" by (simp_all add: fetch_manifest_network_def)
    with first Some show ?thesis by simp
  qed
qed

lemma keep_manifest_ok: "verified E hash bs \<Longrightarrow> step_ok same_root (verified E hash) (keep_manifest E hash bs)"
  by (rule step_okI) (auto simp: keep_manifest_def ticked_def same_root_def split: if_splits)

lemma fetch_and_keep_manifest_ok: "step_ok same_root (verified E hash) (fetch_and_keep_manifest E hash)"
  unfolding fetch_and_keep_manifest_def
  using step_ok_mono [OF fetch_manifest_network_ok only_ticks_same_root]
  by (rule try_then_same_root) (use keep_manifest_ok in blast)+

lemma drop_manifest_same_root: "same_root s (drop_manifest E hash s)"
  by (simp add: drop_manifest_def ticked_def same_root_def)

lemma manifest_bytes_ok: "step_ok same_root (verified E hash) (manifest_bytes E hash)"
proof (rule step_okI)
  fix s r s'
  assume run: "manifest_bytes E hash s = (r, s')"
  show "same_root s s' \<and> (\<forall>x. r = Inr x \<longrightarrow> verified E hash x)"
  proof (cases "is_valid_hash hash")
    case False
    with run show ?thesis by (auto simp: manifest_bytes_def)
  next
    case valid: True
    show ?thesis
    proof (cases "bm_get (rv_manifests s) hash")
      case None
      with run valid have "fetch_and_keep_manifest E hash s = (r, s')" by (simp add: manifest_bytes_def)
      then show ?thesis by (rule step_okD [OF fetch_and_keep_manifest_ok])
    next
      case (Some bs)
      show ?thesis
      proof (cases "storage_verify E bs hash")
        case (Inl e)
        with run valid Some have "fetch_and_keep_manifest E hash (drop_manifest E hash s) = (r, s')"
          by (simp add: manifest_bytes_def)
        from step_okD [OF fetch_and_keep_manifest_ok this] show ?thesis
          using same_root_trans [OF drop_manifest_same_root] by blast
      next
        case (Inr u)
        with run valid Some have "r = Inr bs" "s' = s" by (simp_all add: manifest_bytes_def)
        with Inr show ?thesis by simp
      qed
    qed
  qed
qed

lemma load_manifest_ok:
  "step_ok same_root (\<lambda>m. \<exists>bs. verified E hash bs \<and> from_slice (rx_manifest E) bs = Some m) (load_manifest E hash)"
  unfolding load_manifest_def using manifest_bytes_ok
  by (rule try_then_same_root) (auto simp: step_ok_def decode_as_def result_simps)

subsection \<open>Registries\<close>

abbreviation registry_of :: "'x deps_scheme \<Rightarrow> tld_record \<Rightarrow> tld_registry \<Rightarrow> bool" where
  "registry_of E t r \<equiv> tld_registry_verify E r (tr_tld t) (tr_operator_public_key t) = Inr ()"

lemma fetch_registry_native_ok:
  "step_ok only_ticks (registry_of E t) (fetch_registry_native E (tr_tld t) (tr_operator_public_key t) addr)"
  unfolding fetch_registry_native_def
  by (rule step_ok_ticked) (auto simp: answer_simps and_then_eq_Inr ok_or_eq_Inr split: if_splits)

lemma fetch_registry_providers_ok:
  "step_ok only_ticks (\<lambda>found. \<forall>r. found = Some r \<longrightarrow> registry_of E t r) (fetch_registry_providers E t addrs)"
proof (induction addrs)
  case Nil
  show ?case by (simp add: step_ok_def)
next
  case (Cons addr addrs)
  show ?case
  proof (rule step_okI)
    fix s r s'
    assume run: "fetch_registry_providers E t (addr # addrs) s = (r, s')"
    obtain x s1 where x: "fetch_registry_native E (tr_tld t) (tr_operator_public_key t) addr s = (x, s1)"
      by fastforce
    note first = step_okD [OF fetch_registry_native_ok x]
    show "only_ticks s s' \<and> (\<forall>f. r = Inr f \<longrightarrow> (\<forall>r. f = Some r \<longrightarrow> registry_of E t r))"
    proof (cases x)
      case (Inr y)
      with run x have "r = Inr (Some y)" "s' = s1" by simp_all
      with first Inr show ?thesis by simp
    next
      case (Inl e)
      with run x have "(r = Inl e \<and> s' = s1) \<or> fetch_registry_providers E t addrs s1 = (r, s')"
        by (cases e) simp_all
      then show ?thesis
      proof
        assume "r = Inl e \<and> s' = s1"
        with first show ?thesis by simp
      next
        assume "fetch_registry_providers E t addrs s1 = (r, s')"
        from step_okD [OF Cons.IH this] first show ?thesis using only_ticks_trans by blast
      qed
    qed
  qed
qed

lemma fetch_registry_ok:
  "fetch_registry E get from_value (delegated_registry_client_new endpoint (tr_operator_public_key t)) (tr_tld t) = Inr r
     \<Longrightarrow> registry_of E t r"
  by (auto simp: fetch_registry_def delegated_registry_client_new_def and_then_eq_Inr)

text \<open>The HTTP endpoint, asked when no native provider had an answer.\<close>

lemma live_endpoint_ok:
  assumes "ticked f s = (x, s1)" "\<And>n y. f n = Inr y \<Longrightarrow> P y"
    and "(case (x, s1) of (Inr registry, s) \<Rightarrow> (Inr registry, s)
          | (Inl (VerificationFailed a b c), s) \<Rightarrow> (Inl (VerificationFailed a b c), s)
          | (Inl _, s) \<Rightarrow> (Inl unavailable, s)) = (r, s')"
  shows "only_ticks s s' \<and> (\<forall>y. r = Inr y \<longrightarrow> P y)"
proof (cases x)
  case (Inl e)
  with assms(3) have "s' = s1 \<and> (\<exists>e. r = Inl e)" by (cases e) auto
  with ticked_only [OF assms(1)] show ?thesis by auto
next
  case (Inr y)
  with assms(3) have "r = Inr y" "s' = s1" by simp_all
  moreover have "f (rv_tick s) = Inr y" using assms(1) Inr by (simp add: ticked_eq)
  ultimately show ?thesis using ticked_only [OF assms(1)] assms(2) by auto
qed

lemma fetch_registry_live_ok: "step_ok only_ticks (registry_of E t) (fetch_registry_live E t)"
  unfolding fetch_registry_live_def Let_def
proof (rule step_ok_try_then [OF fetch_registry_providers_ok _ only_ticks_trans])
  fix found :: "tld_registry option"
  let ?unavailable = "DelegatedRegistryUnavailable (tr_tld t) ''no registry provider answered''"
  let ?ask = "\<lambda>endpoint n. fetch_registry E (http_get_json (rx_http E n)) (rx_registry_value E)
    (delegated_registry_client_new endpoint (tr_operator_public_key t)) (tr_tld t)"
  assume found: "\<forall>r. found = Some r \<longrightarrow> registry_of E t r"
  show "step_ok only_ticks (registry_of E t) (\<lambda>s.
      case found of
        Some registry \<Rightarrow> (Inr registry, s)
      | None \<Rightarrow>
          (case tr_registry_endpoint t of
             None \<Rightarrow> (Inl ?unavailable, s)
           | Some endpoint \<Rightarrow>
               (case ticked (?ask endpoint) s of
                  (Inr registry, s) \<Rightarrow> (Inr registry, s)
                | (Inl (VerificationFailed a b c), s) \<Rightarrow> (Inl (VerificationFailed a b c), s)
                | (Inl _, s) \<Rightarrow> (Inl ?unavailable, s))))"
  proof (cases found)
    case None
    show ?thesis
    proof (cases "tr_registry_endpoint t")
      case none: None
      with None show ?thesis by (simp add: step_ok_def)
    next
      case (Some endpoint)
      show ?thesis
      proof (rule step_okI)
        fix s r s'
        assume run: "(case found of
            Some registry \<Rightarrow> (Inr registry, s)
          | None \<Rightarrow>
              (case tr_registry_endpoint t of
                 None \<Rightarrow> (Inl ?unavailable, s)
               | Some endpoint \<Rightarrow>
                   (case ticked (?ask endpoint) s of
                      (Inr registry, s) \<Rightarrow> (Inr registry, s)
                    | (Inl (VerificationFailed a b c), s) \<Rightarrow> (Inl (VerificationFailed a b c), s)
                    | (Inl _, s) \<Rightarrow> (Inl ?unavailable, s)))) = (r, s')"
        obtain x s1 where t: "ticked (?ask endpoint) s = (x, s1)" by fastforce
        show "only_ticks s s' \<and> (\<forall>x. r = Inr x \<longrightarrow> registry_of E t x)"
          by (rule live_endpoint_ok [OF t fetch_registry_ok run [unfolded None Some t option.case]])
      qed
    qed
  next
    case (Some y)
    with found show ?thesis by (simp add: step_ok_def)
  qed
qed

lemma pinned_registry_ok: "step_ok same_root (registry_of E t) (pinned_registry E t)"
proof (rule step_okI)
  fix s r s'
  assume run: "pinned_registry E t s = (r, s')"
  show "same_root s s' \<and> (\<forall>x. r = Inr x \<longrightarrow> registry_of E t x)"
  proof (cases "tr_registry_manifest_hash t")
    case None
    with run show ?thesis by (auto simp: pinned_registry_def)
  next
    case (Some hash)
    obtain x s1 where x: "manifest_bytes E hash s = (x, s1)" by fastforce
    note first = step_okD [OF manifest_bytes_ok x]
    show ?thesis
    proof (cases x)
      case (Inl e)
      with run Some x have "s' = s1 \<and> (\<exists>e. r = Inl e)" by (cases e) (auto simp: pinned_registry_def)
      with first show ?thesis by auto
    next
      case (Inr bs)
      with run Some x first show ?thesis
        by (auto simp: pinned_registry_def Let_def and_then_eq_Inr ok_or_eq_Inr)
    qed
  qed
qed

lemma cached_registry_ok: "cached_registry E t s = Some r \<Longrightarrow> registry_of E t r"
  by (auto simp: cached_registry_def is_ok_iff bind_eq_Some_conv split: if_splits)

lemma keep_registry_same_root: "same_root s (keep_registry E r s)"
  by (simp add: keep_registry_def ticked_def same_root_def split: option.split)

lemma live_registry_ok: "step_ok same_root (registry_of E t) (live_registry E t)"
proof (rule step_okI)
  fix s r s'
  assume run: "live_registry E t s = (r, s')"
  obtain x s1 where x: "fetch_registry_live E t s = (x, s1)" by fastforce
  note first = step_okD [OF fetch_registry_live_ok x]
  then have frame: "same_root s s1" using only_ticks_same_root by blast
  show "same_root s s' \<and> (\<forall>x. r = Inr x \<longrightarrow> registry_of E t x)"
  proof (cases x)
    case (Inl e)
    with run x have "s' = s1 \<and> (r = Inl e \<or> (\<exists>c. cached_registry E t s1 = Some c \<and> r = Inr c))"
      by (cases e; cases "cached_registry E t s1") (auto simp: live_registry_def)
    with frame show ?thesis using cached_registry_ok by auto
  next
    case (Inr y)
    with run x have "(s' = s1 \<and> (\<exists>c. cached_registry E t s1 = Some c \<and> r = Inr c))
        \<or> (s' = keep_registry E y s1 \<and> r = Inr y)"
      by (cases "cached_registry E t s1") (auto simp: live_registry_def split: if_splits)
    with frame first Inr same_root_trans [OF frame keep_registry_same_root] show ?thesis
      using cached_registry_ok by auto
  qed
qed

lemma resolver_tld_registry_ok: "step_ok same_root (registry_of E t) (resolver_tld_registry E t)"
proof (cases "tr_registry_type t")
  case DelegatedManifest
  then have "resolver_tld_registry E t = pinned_registry E t" by (auto simp: resolver_tld_registry_def)
  then show ?thesis using pinned_registry_ok by simp
next
  case DelegatedNative
  then have "resolver_tld_registry E t = live_registry E t" by (auto simp: resolver_tld_registry_def)
  then show ?thesis using live_registry_ok by simp
next
  case DelegatedHttp
  then have "resolver_tld_registry E t = live_registry E t" by (auto simp: resolver_tld_registry_def)
  then show ?thesis using live_registry_ok by simp
qed (simp_all add: step_ok_def resolver_tld_registry_def)

text \<open>Where a record may come from: the zone for a root-managed TLD, else the operator's registry.\<close>

definition record_source :: "'x deps_scheme \<Rightarrow> root_zone \<Rightarrow> tld_record \<Rightarrow> string \<Rightarrow> domain_record \<Rightarrow> bool" where
  "record_source E root t name d \<longleftrightarrow>
     (if tr_registry_type t = RootManaged then root_zone_lookup root name = Some d
      else \<exists>r. registry_of E t r \<and> tld_registry_lookup r name = Some d)"

lemma locate_record_ok: "step_ok same_root (record_source E root t name) (locate_record E root t name)"
proof (cases "tr_registry_type t = RootManaged \<or> tr_registry_type t = OfflineManual")
  case True
  then show ?thesis by (auto simp: step_ok_def locate_record_def record_source_def ok_or_eq_Inr)
next
  case False
  have "step_ok same_root (record_source E root t name)
     (try_then (resolver_tld_registry E t) (\<lambda>registry s. (ok_or (tld_registry_lookup registry name) (DomainNotFound name), s)))"
    by (rule try_then_same_root [OF resolver_tld_registry_ok])
      (use False in \<open>auto simp: step_ok_def record_source_def ok_or_eq_Inr\<close>)
  moreover have "locate_record E root t name = try_then (resolver_tld_registry E t)
      (\<lambda>registry s. (ok_or (tld_registry_lookup registry name) (DomainNotFound name), s))"
    using False by (cases "tr_registry_type t") (auto simp: locate_record_def fun_eq_iff)
  ultimately show ?thesis by simp
qed

subsection \<open>Blocks of a site\<close>

lemma fetch_block_native_ok: "step_ok only_ticks (verified E hash) (fetch_block_native E hash addr)"
proof (cases "is_valid_hash hash")
  case True
  then have "fetch_block_native E hash addr = (\<lambda>s. ticked (\<lambda>n. and_then (native_connect E (rv_identity s) addr n)
      (native_request E (GetBlock hash) (\<lambda>reply. case reply of
          BlockMsg _ bs \<Rightarrow> and_then (storage_verify E bs hash) (\<lambda>_. Inr bs)
        | other \<Rightarrow> Inl (provider_refused E ''native provider'' other)))) s)"
    by (simp add: fetch_block_native_def fun_eq_iff)
  then show ?thesis
    by simp (rule step_ok_ticked, auto simp: answer_simps result_simps)
qed (simp add: step_ok_def fetch_block_native_def)

lemma keep_block_ok: "verified E hash bs \<Longrightarrow> step_ok same_root (verified E hash) (keep_block E hash bs)"
  by (rule step_okI) (auto simp: keep_block_def ticked_def same_root_def split: sum.splits)

lemma directory_providers_ticks: "directory_providers E hash s = (ps, s') \<Longrightarrow> only_ticks s s'"
  by (auto simp: directory_providers_def ticked_only split: option.splits)

lemma fetch_block_anywhere_ok: "step_ok only_ticks (verified E hash) (fetch_block_anywhere E hash)"
proof (rule step_okI)
  fix s r s'
  assume run: "fetch_block_anywhere E hash s = (r, s')"
  let ?http = "\<lambda>p. ticked (\<lambda>n. fetch_block_from E (rx_http E n) p hash)"
  have http: "step_ok only_ticks (verified E hash) (?http p)" for p
    by (rule step_ok_ticked) (auto dest: fetch_block_from_ok)
  obtain entries s1 where d: "directory_providers E hash s = (entries, s1)" by fastforce
  let ?ranked = "rank_providers entries (rv_region s1)"
  obtain a s2 where a: "first_ok (fetch_block_native E hash) (native_addrs ?ranked (rv_native_providers s1)) s1 = (a, s2)"
    by fastforce
  obtain b s3 where b: "first_ok ?http ?ranked s2 = (b, s3)" by fastforce
  note one = directory_providers_ticks [OF d]
  note two = first_ok_ticks [OF fetch_block_native_ok a]
  note three = first_ok_ticks [OF http b]
  have s2: "only_ticks s s2" using one two only_ticks_trans by blast
  show "only_ticks s s' \<and> (\<forall>x. r = Inr x \<longrightarrow> verified E hash x)"
  proof (cases a)
    case (Some bs)
    with run d a have "r = Inr bs" "s' = s2" by (simp_all add: fetch_block_anywhere_def Let_def)
    with s2 two Some show ?thesis by simp
  next
    case none: None
    have s3: "only_ticks s s3" using s2 three only_ticks_trans by blast
    show ?thesis
    proof (cases b)
      case (Some bs)
      with run d a b none have "r = Inr bs" "s' = s3" by (simp_all add: fetch_block_anywhere_def Let_def)
      with s3 three Some show ?thesis by simp
    next
      case None
      with run d a b none have t: "ticked (\<lambda>n. client_fetch_block E (rx_http E n) (rv_client s3) hash) s3 = (r, s')"
        by (simp add: fetch_block_anywhere_def Let_def)
      then have r: "r = client_fetch_block E (rx_http E (rv_tick s3)) (rv_client s3) hash" by (simp add: ticked_eq)
      have "only_ticks s s'" using s3 ticked_only [OF t] only_ticks_trans by blast
      moreover have "verified E hash x" if "r = Inr x" for x
        using that r by (auto dest: client_fetch_block_ok)
      ultimately show ?thesis by simp
    qed
  qed
qed

lemma block_store_get_verified: "block_store_get E st hash = Inr bs \<Longrightarrow> verified E hash bs"
  by (auto simp: block_store_get_def result_simps split: if_splits option.splits)

lemma load_block_ok: "step_ok same_root (verified E hash) (load_block E hash)"
proof (rule step_okI)
  fix s r s'
  assume run: "load_block E hash s = (r, s')"
  show "same_root s s' \<and> (\<forall>x. r = Inr x \<longrightarrow> verified E hash x)"
  proof (cases "block_store_get E (rv_blocks s) hash")
    case (Inl e)
    with run have "try_then (fetch_block_anywhere E hash) (keep_block E hash) s = (r, s')"
      by (simp add: load_block_def)
    moreover have "step_ok same_root (verified E hash) (try_then (fetch_block_anywhere E hash) (keep_block E hash))"
      by (rule try_then_same_root [OF step_ok_mono [OF fetch_block_anywhere_ok only_ticks_same_root] keep_block_ok])
    ultimately show ?thesis by (rule step_okD [rotated])
  next
    case (Inr bs)
    with run have "r = Inr bs" "s' = s" by (simp_all add: load_block_def)
    with block_store_get_verified [OF Inr] show ?thesis by simp
  qed
qed

end
