(* ===== verification/Resolution_Root.thy ===== *)
theory Resolution_Root
  imports Resolution_Trust
begin

text \<open>
  The trust anchor and the rollback protection of the resolver: the zone in memory is always verified
  under the pinned key and on disk, the pinned key never changes, and no sequence of refreshes, failures
  and requests replaces the known zone by an older one.
\<close>

subsection \<open>Verifying and pinning\<close>

definition zone_trusted :: "'x resolution_deps_scheme \<Rightarrow> resolver \<Rightarrow> root_zone \<Rightarrow> bool" where
  "zone_trusted E s z \<longleftrightarrow> (\<exists>key. rv_trusted s = Some key \<and> root_zone_verify E z key = Inr ())"

text \<open>The zone in memory is verified, and the one the disk cache would give back.\<close>

definition resolver_inv :: "'x resolution_deps_scheme \<Rightarrow> resolver \<Rightarrow> bool" where
  "resolver_inv E s \<longleftrightarrow>
     (\<forall>z. rv_root s = Some z \<longrightarrow> zone_trusted E s z \<and> load_cached_root E s = Inr z)"

text \<open>\<open>serde_json\<close> reads a zone it has read once back from its pretty-printed form.\<close>

definition zone_reprints :: "'x resolution_deps_scheme \<Rightarrow> bool" where
  "zone_reprints E \<longleftrightarrow>
     (\<forall>bs z. from_slice (rx_zone E) bs = Some z \<longrightarrow> from_slice (rx_zone E) (rx_zone_pretty E z) = Some z)"

definition decoded_zone :: "'x resolution_deps_scheme \<Rightarrow> root_zone \<Rightarrow> bool" where
  "decoded_zone E z \<longleftrightarrow> (\<exists>bs. from_slice (rx_zone E) bs = Some z) \<and> root_zone_validate z = Inr ()"

text \<open>What verifying leaves alone: everything but the pin, and the pin too once there is one.\<close>

definition pins :: "resolver \<Rightarrow> resolver \<Rightarrow> bool" where
  "pins s s' \<longleftrightarrow> rv_root s' = rv_root s \<and> rv_cache s' = rv_cache s \<and>
     (\<forall>k. rv_trusted s = Some k \<longrightarrow> rv_trusted s' = Some k)"

lemma pins_refl [simp]: "pins s s"
  by (simp add: pins_def)

lemma pins_trans: "pins s t \<Longrightarrow> pins t u \<Longrightarrow> pins s u"
  by (simp add: pins_def)

lemma same_root_pins: "same_root s s' \<Longrightarrow> pins s s'"
  by (simp add: same_root_def pins_def)

lemma only_ticks_pins: "only_ticks s s' \<Longrightarrow> pins s s'"
  using only_ticks_same_root same_root_pins by blast

lemma zone_trusted_pins: "zone_trusted E s z \<Longrightarrow> pins s s' \<Longrightarrow> zone_trusted E s' z"
  by (auto simp: zone_trusted_def pins_def)

lemma load_cached_root_pins: "pins s s' \<Longrightarrow> load_cached_root E s' = load_cached_root E s"
  by (simp add: load_cached_root_def pins_def)

lemma resolver_inv_pins: "resolver_inv E s \<Longrightarrow> pins s s' \<Longrightarrow> resolver_inv E s'"
  unfolding resolver_inv_def using zone_trusted_pins load_cached_root_pins by (metis pins_def)

lemma verify_zone_pins:
  assumes "verify_zone E z s = (r, s')"
  shows "pins s s' \<and> (r = Inr () \<longrightarrow> zone_trusted E s' z)"
proof (cases "rv_trusted s")
  case None
  show ?thesis
  proof (cases "root_zone_verify E z (rz_root_public_key z)")
    case (Inl e)
    with None assms show ?thesis by (auto simp: verify_zone_def)
  next
    case (Inr u)
    with None assms show ?thesis
      by (auto simp: verify_zone_def ticked_def pins_def zone_trusted_def split: if_splits)
  qed
next
  case (Some key)
  with assms show ?thesis by (auto simp: verify_zone_def zone_trusted_def)
qed

text \<open>A pinned key decides alone, and nothing changes.\<close>

lemma verify_zone_pinned: "rv_trusted s = Some key \<Longrightarrow> verify_zone E z s = (root_zone_verify E z key, s)"
  by (simp add: verify_zone_def)

lemma verify_zone_known: "zone_trusted E s z \<Longrightarrow> verify_zone E z s = (Inr (), s)"
  by (auto simp: zone_trusted_def verify_zone_def)

subsection \<open>The zone a resolver knows\<close>

text \<open>The zone in memory; after a restart, the one on disk if it verifies under the pinned key.\<close>

definition known_zone :: "'x resolution_deps_scheme \<Rightarrow> resolver \<Rightarrow> root_zone option" where
  "known_zone E s =
     (case rv_root s of
        Some z \<Rightarrow> Some z
      | None \<Rightarrow>
          (case (rv_trusted s, load_cached_root E s) of
             (Some key, Inr z) \<Rightarrow> if is_ok (root_zone_verify E z key) then Some z else None
           | _ \<Rightarrow> None))"

lemma known_zone_iff:
  assumes "resolver_inv E s"
  shows "known_zone E s = Some z \<longleftrightarrow> zone_trusted E s z \<and> load_cached_root E s = Inr z"
proof (cases "rv_root s")
  case None
  then show ?thesis
    by (cases "rv_trusted s"; cases "load_cached_root E s")
       (auto simp: known_zone_def zone_trusted_def is_ok_iff split: if_splits)
next
  case (Some y)
  with assms have "zone_trusted E s y" "load_cached_root E s = Inr y" by (auto simp: resolver_inv_def)
  with Some show ?thesis by (auto simp: known_zone_def)
qed

lemma known_zone_pins:
  assumes "resolver_inv E s" "pins s s'" "known_zone E s = Some z"
  shows "known_zone E s' = Some z"
proof -
  have inv: "resolver_inv E s'" using assms resolver_inv_pins by blast
  from assms show ?thesis
    unfolding known_zone_iff [OF assms(1)] known_zone_iff [OF inv]
    using zone_trusted_pins load_cached_root_pins by metis
qed

text \<open>Never backwards: the known zone stays known or gives way to one at least as new, under the same key.\<close>

definition no_rollback :: "'x resolution_deps_scheme \<Rightarrow> resolver \<Rightarrow> resolver \<Rightarrow> bool" where
  "no_rollback E s s' \<longleftrightarrow>
     (\<forall>k. rv_trusted s = Some k \<longrightarrow> rv_trusted s' = Some k) \<and>
     (\<forall>z. known_zone E s = Some z \<longrightarrow>
        (\<exists>z'. known_zone E s' = Some z' \<and> rz_root_version z \<le> rz_root_version z'))"

lemma no_rollback_refl: "no_rollback E s s"
  by (simp add: no_rollback_def)

lemma no_rollback_trans: "no_rollback E s t \<Longrightarrow> no_rollback E t u \<Longrightarrow> no_rollback E s u"
  unfolding no_rollback_def by (meson order_trans)

lemma no_rollback_pins: "resolver_inv E s \<Longrightarrow> pins s s' \<Longrightarrow> no_rollback E s s'"
  using known_zone_pins [of E s s'] by (auto simp: no_rollback_def pins_def)

text \<open>Making the zone on disk the one in memory.\<close>

lemma adopt_zone:
  assumes "load_cached_root E s = Inr z" "zone_trusted E s z" "s' = s\<lparr>rv_root := Some z\<rparr>"
  shows "resolver_inv E s' \<and> known_zone E s' = Some z \<and> (resolver_inv E s \<longrightarrow> no_rollback E s s')"
proof -
  have inv: "resolver_inv E s'"
    using assms by (simp add: resolver_inv_def zone_trusted_def load_cached_root_def)
  have known: "known_zone E s' = Some z" using assms by (simp add: known_zone_def)
  have "no_rollback E s s'" if i: "resolver_inv E s"
    using known assms known_zone_iff [OF i] by (auto simp: no_rollback_def)
  with inv known show ?thesis by blast
qed

subsection \<open>Refreshing\<close>

lemma fetch_root_native_ok: "step_ok only_ticks (decoded_zone E) (fetch_root_native E addr)"
  unfolding fetch_root_native_def
  by (rule step_ok_ticked)
     (auto simp: answer_simps and_then_eq_Inr ok_or_eq_Inr decode_as_def decoded_zone_def split: if_splits)

lemma client_fetch_root_ok: "client_fetch_root H (rx_zone E) base = Inr z \<Longrightarrow> decoded_zone E z"
  by (auto simp: client_fetch_root_def and_then_eq_Inr ok_or_eq_Inr decode_as_def decoded_zone_def)

lemma fetch_root_network_ok: "step_ok only_ticks (decoded_zone E) (fetch_root_network E)"
proof (rule step_okI)
  fix s r s'
  assume run: "fetch_root_network E s = (r, s')"
  obtain found s1 where f: "first_ok (fetch_root_native E) (rv_native_providers s) s = (found, s1)" by fastforce
  note first = first_ok_ticks [OF fetch_root_native_ok f]
  show "only_ticks s s' \<and> (\<forall>x. r = Inr x \<longrightarrow> decoded_zone E x)"
  proof (cases found)
    case None
    with run f have t: "ticked (\<lambda>n. client_fetch_root (rx_http E n) (rx_zone E) (rv_client s1)) s1 = (r, s')"
      by (simp add: fetch_root_network_def)
    then have "r = client_fetch_root (rx_http E (rv_tick s1)) (rx_zone E) (rv_client s1)" by (simp add: ticked_eq)
    with first ticked_only [OF t] show ?thesis using only_ticks_trans client_fetch_root_ok by fastforce
  next
    case (Some z)
    with run f have "r = Inr z" "s' = s1" by (simp_all add: fetch_root_network_def)
    with first Some show ?thesis by simp
  qed
qed

lemma store_root_ok:
  assumes "store_root E z s = (r, s')" "decoded_zone E z" "zone_reprints E"
  shows "rv_root s' = rv_root s \<and> rv_trusted s' = rv_trusted s \<and> (\<forall>e. r = Inl e \<longrightarrow> pins s s') \<and>
    (r = Inr () \<longrightarrow> load_cached_root E s' = Inr z)"
proof -
  have "from_slice (rx_zone E) (rx_zone_pretty E z) = Some z" "root_zone_validate z = Inr ()"
    using assms(2,3) by (auto simp: decoded_zone_def zone_reprints_def)
  with assms(1) show ?thesis
    by (auto simp: store_root_def ticked_def pins_def load_cached_root_def root_cache_store_trace_def
        root_cache_load_def Let_def and_then_eq_Inr split: if_splits)
qed

lemma last_verified_zone_ok:
  assumes inv: "resolver_inv E s" and pinned: "rv_trusted s \<noteq> None"
  shows "last_verified_zone E s = (known_zone E s, s)"
proof (cases "rv_root s")
  case None
  from pinned obtain key where key: "rv_trusted s = Some key" by auto
  show ?thesis
  proof (cases "load_cached_root E s")
    case (Inl e)
    with None key show ?thesis by (simp add: last_verified_zone_def known_zone_def)
  next
    case (Inr z)
    with None key show ?thesis
      by (cases "root_zone_verify E z key") (simp_all add: last_verified_zone_def known_zone_def verify_zone_def)
  qed
next
  case (Some z)
  then show ?thesis by (simp add: last_verified_zone_def known_zone_def)
qed

lemma accept_root_ok:
  assumes inv: "resolver_inv E s" and dec: "decoded_zone E z" "zone_reprints E" and z: "zone_trusted E s z"
    and run: "accept_root E z s = (r, s')"
  shows "resolver_inv E s' \<and> no_rollback E s s' \<and> (\<forall>x. r = Inr x \<longrightarrow> rv_root s' = Some x)"
proof -
  from z have known: "last_verified_zone E s = (known_zone E s, s)"
    using last_verified_zone_ok [OF inv] by (auto simp: zone_trusted_def)
  show ?thesis
  proof (cases "\<exists>k. known_zone E s = Some k \<and> rz_root_version z < rz_root_version k")
    case True
    then obtain k where k: "known_zone E s = Some k" "rz_root_version z < rz_root_version k" by blast
    with run known have "r = Inr k" "s' = s\<lparr>rv_root := Some k\<rparr>" by (simp_all add: accept_root_def)
    with adopt_zone [of E s k s'] inv k show ?thesis by (simp add: known_zone_iff)
  next
    case False
    with run known have store: "try_then (store_root E z) (\<lambda>_ s. (Inr z, s\<lparr>rv_root := Some z\<rparr>)) s = (r, s')"
      by (cases "known_zone E s") (auto simp: accept_root_def)
    obtain x s1 where x: "store_root E z s = (x, s1)" by fastforce
    note stored = store_root_ok [OF x dec]
    show ?thesis
    proof (cases x)
      case (Inl e)
      with store x have "r = Inl e" "s' = s1" by (simp_all add: try_then_def)
      with Inl stored inv show ?thesis using resolver_inv_pins no_rollback_pins by auto
    next
      case (Inr u)
      with store x have r: "r = Inr z" "s' = s1\<lparr>rv_root := Some z\<rparr>" by (simp_all add: try_then_def)
      have "zone_trusted E s1 z" using z stored by (simp add: zone_trusted_def)
      with adopt_zone [of E s1 z s'] Inr stored r
      have "resolver_inv E s'" "known_zone E s' = Some z" by auto
      moreover have "rv_trusted s' = rv_trusted s" using stored r by simp
      ultimately show ?thesis using False r by (auto simp: no_rollback_def)
    qed
  qed
qed

lemma use_cached_root_ok:
  assumes inv: "resolver_inv E s" and run: "use_cached_root E e s = (r, s')"
  shows "resolver_inv E s' \<and> no_rollback E s s' \<and> (\<forall>x. r = Inr x \<longrightarrow> rv_root s' = Some x)"
proof (cases "load_cached_root E s")
  case (Inl e')
  with run inv show ?thesis by (auto simp: use_cached_root_def no_rollback_refl)
next
  case (Inr z)
  obtain x s1 where x: "verify_zone E z s = (x, s1)" by fastforce
  note v = verify_zone_pins [OF x]
  from v inv have i1: "resolver_inv E s1" "no_rollback E s s1" using resolver_inv_pins no_rollback_pins by auto
  show ?thesis
  proof (cases x)
    case (Inl e')
    with run Inr x have "r = Inl e" "s' = s1" by (simp_all add: use_cached_root_def)
    with i1 show ?thesis by simp
  next
    case (Inr u)
    with run \<open>load_cached_root E s = Inr z\<close> x have r: "r = Inr z" "s' = s1\<lparr>rv_root := Some z\<rparr>"
      by (simp_all add: use_cached_root_def)
    have "load_cached_root E s1 = Inr z"
      using \<open>load_cached_root E s = Inr z\<close> v load_cached_root_pins by metis
    with adopt_zone [of E s1 z s'] v Inr r i1 show ?thesis using no_rollback_trans by auto
  qed
qed

text \<open>After a failed download the disk cache is used the same way, whatever the error.\<close>

lemma refresh_offline:
  assumes "fetch_root_network E s = (Inl e, s1)"
  shows "\<exists>e'. refresh_root E s = use_cached_root E e' s1"
proof (cases "load_cached_root E s1")
  case (Inl e')
  with assms show ?thesis by (auto simp: refresh_root_def use_cached_root_def)
next
  case (Inr z)
  obtain x s2 where x: "verify_zone E z s1 = (x, s2)" by fastforce
  with Inr assms have
    "refresh_root E s = (case x of Inl e' \<Rightarrow> (Inl e', s2) | Inr u \<Rightarrow> (Inr z, s2\<lparr>rv_root := Some z\<rparr>))"
    by (simp add: refresh_root_def try_then_def split: sum.split)
  moreover have
    "use_cached_root E e' s1 = (case x of Inl _ \<Rightarrow> (Inl e', s2) | Inr u \<Rightarrow> (Inr z, s2\<lparr>rv_root := Some z\<rparr>))" for e'
    using Inr x by (simp add: use_cached_root_def split: sum.split)
  ultimately show ?thesis by (cases x) simp_all
qed

lemma refresh_root_ok:
  assumes inv: "resolver_inv E s" and re: "zone_reprints E" and run: "refresh_root E s = (r, s')"
  shows "resolver_inv E s' \<and> no_rollback E s s' \<and> (\<forall>x. r = Inr x \<longrightarrow> rv_root s' = Some x)"
proof -
  obtain f s1 where f: "fetch_root_network E s = (f, s1)" by fastforce
  note fetched = step_okD [OF fetch_root_network_ok f]
  from fetched have "pins s s1" using only_ticks_pins by blast
  then have i1: "resolver_inv E s1" "no_rollback E s s1" using inv resolver_inv_pins no_rollback_pins by auto
  show ?thesis
  proof (cases f)
    case (Inl e)
    obtain e' where "use_cached_root E e' s1 = (r, s')"
      using refresh_offline [OF f [unfolded Inl]] run by auto
    with use_cached_root_ok [OF i1(1)] show ?thesis using no_rollback_trans [OF i1(2)] by auto
  next
    case (Inr z)
    obtain x s2 where x: "verify_zone E z s1 = (x, s2)" by fastforce
    note v = verify_zone_pins [OF x]
    from v i1 have i2: "resolver_inv E s2" "no_rollback E s s2"
      using resolver_inv_pins no_rollback_pins no_rollback_trans by blast+
    show ?thesis
    proof (cases x)
      case (Inl e)
      with run f Inr x have "use_cached_root E e s2 = (r, s')" by (simp add: refresh_root_def)
      from use_cached_root_ok [OF i2(1) this] show ?thesis using no_rollback_trans [OF i2(2)] by auto
    next
      case ok: (Inr u)
      with run f Inr x have "accept_root E z s2 = (r, s')" by (simp add: refresh_root_def)
      from accept_root_ok [OF i2(1) _ re _ this] fetched Inr v ok show ?thesis
        using no_rollback_trans [OF i2(2)] by auto
    qed
  qed
qed

lemma current_root_ok:
  assumes "resolver_inv E s" "zone_reprints E" "current_root E s = (r, s')"
  shows "resolver_inv E s' \<and> no_rollback E s s' \<and> (\<forall>x. r = Inr x \<longrightarrow> rv_root s' = Some x)"
proof (cases "rv_root s")
  case None
  with assms show ?thesis using refresh_root_ok by (simp add: current_root_def)
next
  case (Some z)
  with assms show ?thesis by (auto simp: current_root_def no_rollback_refl)
qed

lemma resolver_invD: "resolver_inv E s \<Longrightarrow> rv_root s = Some z \<Longrightarrow> zone_trusted E s z"
  by (simp add: resolver_inv_def)

end
