(* ===== verification/Resolution_Properties.thy ===== *)
theory Resolution_Properties
  imports Resolution_Root
begin

text \<open>
  What resolving a name guarantees: served content is anchored in the pinned root key through every link
  of the chain, the anchor and the version of the zone only move forward, and with warm caches no
  network is needed.
\<close>

subsection \<open>The chain from a record to the content\<close>

definition content_from_record ::
  "'x resolution_deps_scheme \<Rightarrow> string \<Rightarrow> string \<Rightarrow> domain_record \<Rightarrow> resolved \<Rightarrow> bool" where
  "content_from_record E name path rec x \<longleftrightarrow>
     (\<forall>d p bs mime h. x = Content d p bs mime h \<longrightarrow> d = name \<and> p = path \<and>
        (\<exists>mb m f. verified E (dr_manifest_hash rec) mb \<and> from_slice (rx_manifest E) mb = Some m \<and>
           manifest_verify E m name (dr_owner_public_key rec) = Inr () \<and>
           manifest_resolve_path m path = Some (f, h) \<and> verified E h bs))"

definition record_active :: "'x deps_scheme \<Rightarrow> int \<Rightarrow> federate_domain \<Rightarrow> tld_record \<Rightarrow> domain_record \<Rightarrow> bool" where
  "record_active E clock domain t rec \<longleftrightarrow>
     domain_record_verify E rec (tr_operator_public_key t) = Inr () \<and> dr_tld rec = fd_tld domain \<and>
     domain_status_is_resolvable (dr_status rec) \<and> \<not> domain_record_is_expired E clock rec"

definition tld_active :: "'x deps_scheme \<Rightarrow> int \<Rightarrow> root_zone \<Rightarrow> string \<Rightarrow> tld_record \<Rightarrow> bool" where
  "tld_active E clock root tld t \<longleftrightarrow>
     root_zone_lookup_tld root tld = Some t \<and> tld_status_is_resolvable (tr_status t) \<and>
     \<not> tld_record_is_expired E clock t"

lemma tld_record_verify_error:
  "tld_record_verify E t pk = Inl e \<Longrightarrow> \<exists>a b c. e = VerificationFailed a b c"
  by (auto simp: tld_record_verify_def Let_def split: option.splits if_splits)

lemma manifest_verify_error:
  "manifest_verify E m d pk = Inl e \<Longrightarrow> \<exists>a b c. e = VerificationFailed a b c"
  by (auto simp: manifest_verify_def Let_def split: option.splits if_splits)

lemma content_from_recordI:
  "(\<And>d p bs mime h. x = Content d p bs mime h \<Longrightarrow> False) \<Longrightarrow> content_from_record E name path rec x"
  by (auto simp: content_from_record_def)

lemma serve_file_ok:
  assumes "verified E (dr_manifest_hash rec) mb" "from_slice (rx_manifest E) mb = Some m"
    and "manifest_verify E m name (dr_owner_public_key rec) = Inr ()"
  shows "step_ok same_root (content_from_record E name path rec) (serve_file E name path m)"
proof (rule step_okI)
  fix s r s'
  assume run: "serve_file E name path m s = (r, s')"
  show "same_root s s' \<and> (\<forall>x. r = Inr x \<longrightarrow> content_from_record E name path rec x)"
  proof (cases "manifest_resolve_path m path")
    case None
    with run show ?thesis by (auto simp: serve_file_def content_from_record_def)
  next
    case (Some fh)
    obtain f h where fh: "fh = (f, h)" by fastforce
    obtain b s1 where b: "load_block E h s = (b, s1)" by fastforce
    note block = step_okD [OF load_block_ok b]
    show ?thesis
    proof (cases b)
      case (Inl e)
      with run Some fh b have "s' = s1 \<and> (\<forall>x. r = Inr x \<longrightarrow> content_from_record E name path rec x)"
        by (cases e) (auto simp: serve_file_def content_from_record_def)
      with block show ?thesis by simp
    next
      case (Inr bs)
      with run Some fh b have "s' = s1" "r = Inr (Content name path bs (rx_mime E f) h)"
        by (simp_all add: serve_file_def)
      with block Inr Some fh assms show ?thesis by (auto simp: content_from_record_def)
    qed
  qed
qed

lemma serve_record_ok:
  "step_ok same_root (content_from_record E name path rec) (serve_record E name path rec)"
proof (rule step_okI)
  fix s r s'
  assume run: "serve_record E name path rec s = (r, s')"
  obtain x s1 where x: "load_manifest E (dr_manifest_hash rec) s = (x, s1)" by fastforce
  note loaded = step_okD [OF load_manifest_ok x]
  show "same_root s s' \<and> (\<forall>x. r = Inr x \<longrightarrow> content_from_record E name path rec x)"
  proof (cases x)
    case (Inl e)
    with run x have "s' = s1 \<and> (\<forall>x. r = Inr x \<longrightarrow> content_from_record E name path rec x)"
      by (cases e) (auto simp: serve_record_def content_from_record_def)
    with loaded show ?thesis by simp
  next
    case (Inr m)
    with loaded obtain mb where mb: "verified E (dr_manifest_hash rec) mb" "from_slice (rx_manifest E) mb = Some m"
      by auto
    show ?thesis
    proof (cases "manifest_verify E m name (dr_owner_public_key rec)")
      case (Inl e)
      with manifest_verify_error [OF Inl] run x Inr
      have "s' = s1 \<and> (\<forall>x. r = Inr x \<longrightarrow> content_from_record E name path rec x)"
        by (auto simp: serve_record_def content_from_record_def)
      with loaded show ?thesis by simp
    next
      case ok: (Inr u)
      with run x Inr have "serve_file E name path m s1 = (r, s')" by (simp add: serve_record_def)
      from step_okD [OF serve_file_ok this] mb ok have
        "same_root s1 s' \<and> (\<forall>x. r = Inr x \<longrightarrow> content_from_record E name path rec x)" by auto
      with loaded show ?thesis using same_root_trans by blast
    qed
  qed
qed

text \<open>With the record: the content hangs on an active record from an allowed source.\<close>

definition content_from_tld ::
  "'x resolution_deps_scheme \<Rightarrow> int \<Rightarrow> federate_domain \<Rightarrow> string \<Rightarrow> root_zone \<Rightarrow> tld_record \<Rightarrow> resolved \<Rightarrow> bool" where
  "content_from_tld E clock domain path root t x \<longleftrightarrow>
     (\<exists>d p bs mime h. x = Content d p bs mime h) \<longrightarrow>
     (\<exists>rec. record_source E root t (fqdn domain) rec \<and> record_active E clock domain t rec \<and>
        content_from_record E (fqdn domain) path rec x)"

lemma check_record_ok:
  assumes "record_source E root t (fqdn domain) rec"
  shows "step_ok same_root (content_from_tld E clock domain path root t) (check_record E clock domain path t rec)"
proof (rule step_okI)
  fix s r s'
  assume run: "check_record E clock domain path t rec s = (r, s')"
  show "same_root s s' \<and> (\<forall>x. r = Inr x \<longrightarrow> content_from_tld E clock domain path root t x)"
  proof (cases "record_active E clock domain t rec")
    case True
    then have "check_record E clock domain path t rec s = serve_record E (fqdn domain) path rec s"
      by (simp add: check_record_def record_active_def Let_def)
    with run have "serve_record E (fqdn domain) path rec s = (r, s')" by simp
    from step_okD [OF serve_record_ok this] assms True show ?thesis
      by (auto simp: content_from_tld_def)
  next
    case False
    then have "s' = s \<and> (\<exists>x. r = Inr x \<and> (\<forall>d p bs mime h. x \<noteq> Content d p bs mime h))"
      using run domain_record_verify_error [of E rec "tr_operator_public_key t"]
      by (cases "domain_record_verify E rec (tr_operator_public_key t)")
         (auto simp: check_record_def record_active_def Let_def split: if_splits)
    then show ?thesis by (auto simp: content_from_tld_def)
  qed
qed

lemma serve_tld_ok:
  "step_ok same_root (content_from_tld E clock domain path root t) (serve_tld E clock domain path root t)"
proof (rule step_okI)
  fix s r s'
  assume run: "serve_tld E clock domain path root t s = (r, s')"
  obtain x s1 where x: "locate_record E root t (fqdn domain) s = (x, s1)" by fastforce
  note located = step_okD [OF locate_record_ok x]
  show "same_root s s' \<and> (\<forall>x. r = Inr x \<longrightarrow> content_from_tld E clock domain path root t x)"
  proof (cases x)
    case (Inl e)
    with run x have "s' = s1 \<and> (\<forall>x. r = Inr x \<longrightarrow> content_from_tld E clock domain path root t x)"
      by (cases e) (auto simp: serve_tld_def Let_def content_from_tld_def)
    with located show ?thesis by simp
  next
    case (Inr rec)
    with run x have "check_record E clock domain path t rec s1 = (r, s')" by (simp add: serve_tld_def Let_def)
    from step_okD [OF check_record_ok this] located Inr show ?thesis using same_root_trans by blast
  qed
qed

lemma serve_root_ok:
  "step_ok same_root (\<lambda>x. (\<exists>d p bs mime h. x = Content d p bs mime h) \<longrightarrow>
      (\<exists>t. tld_active E clock root (fd_tld domain) t \<and> content_from_tld E clock domain path root t x))
     (serve_root E clock domain path root)"
proof (rule step_okI)
  fix s r s'
  let ?P = "\<lambda>x. (\<exists>d p bs mime h. x = Content d p bs mime h) \<longrightarrow>
      (\<exists>t. tld_active E clock root (fd_tld domain) t \<and> content_from_tld E clock domain path root t x)"
  assume run: "serve_root E clock domain path root s = (r, s')"
  show "same_root s s' \<and> (\<forall>x. r = Inr x \<longrightarrow> ?P x)"
  proof (cases "root_zone_lookup_tld root (fd_tld domain)")
    case None
    with run show ?thesis by (auto simp: serve_root_def)
  next
    case (Some t)
    let ?key = "case rv_trusted s of Some key \<Rightarrow> key | None \<Rightarrow> []"
    show ?thesis
    proof (cases "tld_active E clock root (fd_tld domain) t \<and> is_ok (tld_record_verify E t ?key)")
      case True
      with Some run have "serve_tld E clock domain path root t s = (r, s')"
        by (auto simp: serve_root_def tld_active_def is_ok_iff)
      from step_okD [OF serve_tld_ok this] True show ?thesis by blast
    next
      case False
      then have "s' = s \<and> (\<exists>x. r = Inr x \<and> (\<forall>d p bs mime h. x \<noteq> Content d p bs mime h))"
        using run Some tld_record_verify_error [of E t ?key]
        by (cases "tld_record_verify E t ?key")
           (auto simp: serve_root_def tld_active_def is_ok_iff split: if_splits)
      then show ?thesis by auto
    qed
  qed
qed

subsection \<open>The whole resolution\<close>

lemma resolve_cases:
  assumes "resolve E clock host path s = (r, s')"
  obtains "s' = s" "\<And>d p bs mime h. r \<noteq> Inr (Content d p bs mime h)"
    | e where "current_root E s = (Inl e, s')" "\<And>d p bs mime h. r \<noteq> Inr (Content d p bs mime h)"
    | domain root s1 where "federate_domain_parse host = Inr domain" "current_root E s = (Inr root, s1)"
        "serve_root E clock domain path root s1 = (r, s')"
proof (cases "federate_domain_parse host")
  case (Inl e)
  with assms that(1) show ?thesis by (auto simp: resolve_def)
next
  case (Inr domain)
  obtain x s1 where x: "current_root E s = (x, s1)" by fastforce
  show ?thesis
  proof (cases x)
    case e: (Inl e)
    with assms Inr x have "s' = s1 \<and> (\<forall>d p bs mime h. r \<noteq> Inr (Content d p bs mime h))"
      by (cases e) (auto simp: resolve_def)
    with e x that(2) show ?thesis by blast
  next
    case root: (Inr root)
    with assms Inr x have "serve_root E clock domain path root s1 = (r, s')" by (simp add: resolve_def)
    with Inr x root that(3) show ?thesis by blast
  qed
qed

lemma resolve_ok:
  assumes "resolver_inv E s" "zone_reprints E" "resolve E clock host path s = (r, s')"
  shows "resolver_inv E s' \<and> no_rollback E s s'"
  using assms(3)
proof (cases rule: resolve_cases)
  case 1
  with assms show ?thesis by (simp add: no_rollback_refl)
next
  case 2
  with assms current_root_ok show ?thesis by blast
next
  case (3 domain root s1)
  from current_root_ok [OF assms(1,2) 3(2)] have i: "resolver_inv E s1" "no_rollback E s s1" by auto
  from step_okD [OF serve_root_ok 3(3)] have "pins s1 s'" using same_root_pins by blast
  with i show ?thesis using resolver_inv_pins no_rollback_pins no_rollback_trans by blast
qed

text \<open>The other entry points only read the zone and fill the caches.\<close>

lemma try_current_root_ok:
  assumes "\<And>root. step_ok same_root P (f root)"
    and "resolver_inv E s" "zone_reprints E" "try_then (current_root E) f s = (r, s')"
  shows "resolver_inv E s' \<and> no_rollback E s s'"
proof -
  obtain x s1 where x: "current_root E s = (x, s1)" by fastforce
  from current_root_ok [OF assms(2,3) x] have i: "resolver_inv E s1" "no_rollback E s s1" by auto
  show ?thesis
  proof (cases x)
    case (Inl e)
    with assms(4) x i show ?thesis by (simp add: try_then_def)
  next
    case (Inr root)
    with assms(4) x have "f root s1 = (r, s')" by (simp add: try_then_def)
    from step_okD [OF assms(1) this] have "pins s1 s'" using same_root_pins by blast
    with i show ?thesis using resolver_inv_pins no_rollback_pins no_rollback_trans by blast
  qed
qed

lemma step_ok_any: "step_ok R P m \<Longrightarrow> step_ok R (\<lambda>_. True) m"
  by (simp add: step_ok_def)

lemma step_ok_same: "step_ok same_root (\<lambda>_. True) (\<lambda>s. (x, s))"
  by (simp add: step_ok_def)

lemma resolve_domain_ok:
  assumes "resolver_inv E s" "zone_reprints E" "resolve_domain E clock host s = (r, s')"
  shows "resolver_inv E s' \<and> no_rollback E s s'"
proof (cases "federate_domain_parse host")
  case (Inl e)
  with assms show ?thesis by (auto simp: resolve_domain_def no_rollback_refl)
next
  case (Inr domain)
  have steps: "step_ok same_root (\<lambda>_. True) (try_then (locate_record E root t name) (\<lambda>rec s. (f rec, s)))"
    for root t name and f :: "domain_record \<Rightarrow> domain_record result"
    by (rule try_then_same_root [OF locate_record_ok step_ok_same])
  from Inr assms(3) show ?thesis
    unfolding resolve_domain_def
    by simp
       (rule try_current_root_ok [OF _ assms(1,2)], use steps in \<open>auto simp: step_ok_def split: option.split\<close>)
qed

lemma tld_registry_by_name_ok:
  assumes "resolver_inv E s" "zone_reprints E" "tld_registry_by_name E tld s = (r, s')"
  shows "resolver_inv E s' \<and> no_rollback E s s'"
  using assms(3) unfolding tld_registry_by_name_def
  by (rule try_current_root_ok [OF _ assms(1,2), where P = "\<lambda>_. True", rotated])
     (use step_ok_any [OF resolver_tld_registry_ok] in \<open>auto simp: step_ok_def split: option.split\<close>)

lemma site_files_ok:
  assumes "resolver_inv E s" "zone_reprints E" "site_files E clock host s = (r, s')"
  shows "resolver_inv E s' \<and> no_rollback E s s'"
proof -
  obtain x s1 where x: "resolve_domain E clock host s = (x, s1)" by fastforce
  note i = resolve_domain_ok [OF assms(1,2) x]
  show ?thesis
  proof (cases x)
    case (Inl e)
    with assms(3) x i show ?thesis by (simp add: site_files_def try_then_def)
  next
    case (Inr rec)
    obtain y s2 where y: "load_manifest E (dr_manifest_hash rec) s1 = (y, s2)" by fastforce
    with Inr assms(3) x have "s' = s2" by (cases y) (auto simp: site_files_def try_then_def)
    with step_okD [OF load_manifest_ok y] have "pins s1 s'" using same_root_pins by blast
    with i show ?thesis using resolver_inv_pins no_rollback_pins no_rollback_trans by blast
  qed
qed

subsection \<open>Runs of a resolver\<close>

text \<open>
  What a node does with its resolver, in any order, with the network and the disk behaving in any way
  (\<open>rx_dial\<close>, \<open>rx_http\<close> and \<open>rx_write\<close> decide each use): requests, refreshes, relayed registries,
  blocks and manifests, and restarts that come up with the same pinned key.
\<close>

inductive resolver_step :: "'x resolution_deps_scheme \<Rightarrow> resolver \<Rightarrow> resolver \<Rightarrow> bool" for E where
  refreshed: "refresh_root E s = (r, s') \<Longrightarrow> resolver_step E s s'"
| resolved: "resolve E clock host path s = (r, s') \<Longrightarrow> resolver_step E s s'"
| located: "resolve_domain E clock host s = (r, s') \<Longrightarrow> resolver_step E s s'"
| listed: "site_files E clock host s = (r, s') \<Longrightarrow> resolver_step E s s'"
| relayed_registry: "tld_registry_by_name E tld s = (r, s') \<Longrightarrow> resolver_step E s s'"
| relayed_block: "load_block E hash s = (r, s') \<Longrightarrow> resolver_step E s s'"
| relayed_manifest: "manifest_bytes E hash s = (r, s') \<Longrightarrow> resolver_step E s s'"
| restarted: "s' = resolver_new client s configured i \<Longrightarrow> rv_trusted s' = rv_trusted s \<Longrightarrow> resolver_step E s s'"

lemma restart_ok:
  assumes inv: "resolver_inv E s" and key: "rv_trusted (resolver_new client s configured i) = rv_trusted s"
  shows "resolver_inv E (resolver_new client s configured i) \<and>
    no_rollback E s (resolver_new client s configured i)"
proof -
  let ?s' = "resolver_new client s configured i"
  have fields: "rv_root ?s' = None" "rv_cache ?s' = rv_cache s" by (simp_all add: resolver_new_def Let_def)
  then have inv': "resolver_inv E ?s'" by (simp add: resolver_inv_def)
  have "known_zone E ?s' = Some z" if "known_zone E s = Some z" for z
    using that key fields unfolding known_zone_iff [OF inv] known_zone_iff [OF inv']
    by (simp add: zone_trusted_def load_cached_root_def)
  with inv' key show ?thesis by (auto simp: no_rollback_def)
qed

lemma resolver_step_ok:
  assumes "resolver_step E s s'" "zone_reprints E" "resolver_inv E s"
  shows "resolver_inv E s' \<and> no_rollback E s s'"
  using assms
proof cases
  case refreshed
  with assms show ?thesis using refresh_root_ok by blast
next
  case relayed_block
  then have "pins s s'" using step_okD [OF load_block_ok] same_root_pins by blast
  with assms show ?thesis using resolver_inv_pins no_rollback_pins by blast
next
  case relayed_manifest
  then have "pins s s'" using step_okD [OF manifest_bytes_ok] same_root_pins by blast
  with assms show ?thesis using resolver_inv_pins no_rollback_pins by blast
next
  case (resolved clock host path r)
  show ?thesis by (rule resolve_ok [OF assms(3,2) resolved])
next
  case (located clock host r)
  show ?thesis by (rule resolve_domain_ok [OF assms(3,2) located])
next
  case (listed clock host r)
  show ?thesis by (rule site_files_ok [OF assms(3,2) listed])
next
  case (relayed_registry tld r)
  show ?thesis by (rule tld_registry_by_name_ok [OF assms(3,2) relayed_registry])
next
  case (restarted client configured i)
  show ?thesis using restart_ok [OF assms(3) restarted(2) [unfolded restarted(1)]] restarted(1) by simp
qed

interpretation rv: forward_system "resolver_step E" "\<lambda>s. zone_reprints E \<and> resolver_inv E s" "no_rollback E"
  for E :: "'x resolution_deps_scheme"
proof
  fix s s' s''
  show "zone_reprints E \<and> resolver_inv E s \<Longrightarrow> resolver_step E s s' \<Longrightarrow> zone_reprints E \<and> resolver_inv E s'"
    using resolver_step_ok by blast
  show "zone_reprints E \<and> resolver_inv E s \<Longrightarrow> resolver_step E s s' \<Longrightarrow> no_rollback E s s'"
    using resolver_step_ok by blast
  show "no_rollback E s s" by (rule no_rollback_refl)
  show "no_rollback E s s' \<Longrightarrow> no_rollback E s' s'' \<Longrightarrow> no_rollback E s s''" by (rule no_rollback_trans)
qed


text \<open>The chain behind served content, as \<open>resolve\<close> establishes it.\<close>

lemma resolve_content:
  assumes "resolver_inv E s" "zone_reprints E"
    and "resolve E clock host path s = (Inr (Content d p bs mime h), s')"
  shows "\<exists>domain root t rec. federate_domain_parse host = Inr domain \<and> zone_trusted E s' root \<and>
    tld_active E clock root (fd_tld domain) t \<and> record_source E root t (fqdn domain) rec \<and>
    record_active E clock domain t rec \<and>
    content_from_record E (fqdn domain) path rec (Content d p bs mime h)"
  using assms(3)
proof (cases rule: resolve_cases)
  case (3 domain root s1)
  from current_root_ok [OF assms(1,2) 3(2)] have "zone_trusted E s1 root" using resolver_invD by blast
  moreover note served = step_okD [OF serve_root_ok 3(3)]
  ultimately have "zone_trusted E s' root" by (auto simp: zone_trusted_def same_root_def)
  moreover from served obtain t where "tld_active E clock root (fd_tld domain) t"
      "content_from_tld E clock domain path root t (Content d p bs mime h)" by blast
  ultimately show ?thesis using 3(1) unfolding content_from_tld_def by blast
qed blast+

text \<open>
  C3: Served content is never taken on trust. When \<open>resolve\<close> answers with content, the host parsed to
  a domain; under the pinned root key a zone verifies whose active, unexpired TLD record names an
  operator; that operator signed an active, unexpired record of the domain's TLD, found in the zone or
  in the operator's verified registry; the bytes at the record's manifest address decode to a manifest
  signed by the record's owner for this very domain; and the served bytes hash to the address that
  manifest lists for the requested path.
\<close>

theorem resolved_content_chain_of_trust:
  assumes "resolver_inv E s" "zone_reprints E"
    and "resolve E clock host path s = (Inr (Content d p bs mime h), s')"
  shows "\<exists>domain key root t rec mb m f.
    federate_domain_parse host = Inr domain \<and> d = fqdn domain \<and> p = path \<and>
    rv_trusted s' = Some key \<and> root_zone_verify E root key = Inr () \<and>
    root_zone_lookup_tld root (fd_tld domain) = Some t \<and> tld_status_is_resolvable (tr_status t) \<and>
    \<not> tld_record_is_expired E clock t \<and> record_source E root t d rec \<and>
    domain_record_verify E rec (tr_operator_public_key t) = Inr () \<and> dr_tld rec = fd_tld domain \<and>
    domain_status_is_resolvable (dr_status rec) \<and> \<not> domain_record_is_expired E clock rec \<and>
    storage_verify E mb (dr_manifest_hash rec) = Inr () \<and> from_slice (rx_manifest E) mb = Some m \<and>
    manifest_verify E m d (dr_owner_public_key rec) = Inr () \<and>
    manifest_resolve_path m path = Some (f, h) \<and> storage_verify E bs h = Inr ()"
proof -
  obtain domain root t rec where chain: "federate_domain_parse host = Inr domain" "zone_trusted E s' root"
    "tld_active E clock root (fd_tld domain) t" "record_source E root t (fqdn domain) rec"
    "record_active E clock domain t rec" "content_from_record E (fqdn domain) path rec (Content d p bs mime h)"
    using resolve_content [OF assms] by blast
  from chain(2) obtain key where key: "rv_trusted s' = Some key" "root_zone_verify E root key = Inr ()"
    by (auto simp: zone_trusted_def)
  from chain(6) obtain mb m f where m: "d = fqdn domain" "p = path" "verified E (dr_manifest_hash rec) mb"
      "from_slice (rx_manifest E) mb = Some m" "manifest_verify E m (fqdn domain) (dr_owner_public_key rec) = Inr ()"
      "manifest_resolve_path m path = Some (f, h)" "verified E h bs"
    unfolding content_from_record_def by blast
  show ?thesis
    using chain(1) key chain(3-5) m unfolding tld_active_def record_active_def by blast
qed

text \<open>
  C15: Cached sites stay up without any network. A resolver that holds a verified zone, and whose caches
  hold the manifest and the block of a path of a root-managed domain with active, unexpired records,
  serves that content at once, touching neither network nor disk nor its own state.
\<close>

theorem cached_site_served_offline:
  assumes "resolver_inv E s" "rv_root s = Some root" "federate_domain_parse host = Inr domain"
    and "root_zone_lookup_tld root (fd_tld domain) = Some t" "tld_status_is_resolvable (tr_status t)"
    and "\<not> tld_record_is_expired E clock t" "tr_registry_type t = RootManaged"
    and "root_zone_lookup root (fqdn domain) = Some rec" "dr_tld rec = fd_tld domain"
    and "domain_record_verify E rec (tr_operator_public_key t) = Inr ()"
    and "domain_status_is_resolvable (dr_status rec)" "\<not> domain_record_is_expired E clock rec"
    and "bm_get (rv_manifests s) (dr_manifest_hash rec) = Some mb"
    and "storage_verify E mb (dr_manifest_hash rec) = Inr ()" "from_slice (rx_manifest E) mb = Some m"
    and "manifest_validate m = Inr ()" "manifest_verify E m (fqdn domain) (dr_owner_public_key rec) = Inr ()"
    and "manifest_resolve_path m path = Some (f, h)" "block_store_get E (rv_blocks s) h = Inr bs"
  shows "resolve E clock host path s = (Inr (Content (fqdn domain) path bs (rx_mime E f) h), s)"
proof -
  have hash: "is_valid_hash (dr_manifest_hash rec)" using assms(14) by (simp add: result_simps)
  have manifest: "load_manifest E (dr_manifest_hash rec) s = (Inr m, s)"
    using assms hash by (simp add: load_manifest_def try_then_def manifest_bytes_def decode_as_def)
  have served: "serve_file E (fqdn domain) path m s = (Inr (Content (fqdn domain) path bs (rx_mime E f) h), s)"
    using assms by (simp add: serve_file_def load_block_def)
  have checked: "serve_tld E clock domain path root t s = serve_file E (fqdn domain) path m s"
    using assms manifest
    by (simp add: serve_tld_def Let_def locate_record_def check_record_def serve_record_def)
  obtain key where key: "rv_trusted s = Some key" "root_zone_verify E root key = Inr ()"
    using resolver_invD [OF assms(1,2)] by (auto simp: zone_trusted_def)
  then have "tld_record_verify E t key = Inr ()"
    using assms(4) by (auto simp: root_zone_verify_iff root_zone_lookup_tld_def dest!: bm_get_value)
  then show ?thesis
    using assms key checked served by (simp add: resolve_def current_root_def serve_root_def)
qed

end
