(* ===== verification/Resolution_Sample.thy ===== *)
theory Resolution_Sample
  imports Resolution_Properties
begin

text \<open>
  A concrete resolver for the witnesses: a signed site \<open>joao.pagina\<close> in its caches, a pinned key, and a
  network on which only an older version of the signed zone is offered.
\<close>

subsection \<open>Signatures do not depend on the other parameters\<close>

lemma write_canonical_cong: "x_json_scalar E = x_json_scalar E' \<Longrightarrow> write_canonical E v = write_canonical E' v"
proof (induction E v rule: write_canonical.induct)
  case (1 E m)
  then have "map (\<lambda>p. (fst p, write_canonical E (snd p))) m = map (\<lambda>p. (fst p, write_canonical E' (snd p))) m"
    by auto
  with 1(2) show ?case by (simp only: write_canonical.simps Let_def)
next
  case (2 E items)
  then have "map (write_canonical E) items = map (write_canonical E') items" by auto
  then show ?case by (simp only: write_canonical.simps)
qed (simp_all only: write_canonical.simps)

lemma sample_canonical: "canonical_bytes (sample_ext m) v = canonical_bytes sample_deps v"
  unfolding canonical_bytes_def by (rule write_canonical_cong) (simp add: sample_ext_def sample_deps_def)

lemma sample_ext_fields:
  "x_hex_decode (sample_ext m) = x_hex_decode sample_deps"
  "x_vk_from_bytes (sample_ext m) = x_vk_from_bytes sample_deps"
  "x_ed_verify (sample_ext m) = x_ed_verify sample_deps"
  "x_blake3_hex (sample_ext m) = x_blake3_hex sample_deps"
  by (simp_all add: sample_ext_def sample_deps_def)

lemma sample_verify_signature: "verify_signature (sample_ext m) = verify_signature sample_deps"
  by (intro ext) (simp add: verify_signature_def sample_ext_fields cong: option.case_cong)

lemma sample_verifies:
  "tld_record_verify (sample_ext m) t pk = tld_record_verify sample_deps t pk"
  "domain_record_verify (sample_ext m) d pk = domain_record_verify sample_deps d pk"
  "manifest_verify (sample_ext m) f name pk = manifest_verify sample_deps f name pk"
  "storage_verify (sample_ext m) bs h = storage_verify sample_deps bs h"
  by (simp_all only: tld_record_verify_def domain_record_verify_def manifest_verify_def storage_verify_def
      tld_record_signable_bytes_def domain_record_signable_bytes_def manifest_signable_bytes_def
      sample_canonical sample_verify_signature sample_ext_fields hash_bytes_def)

lemma sample_zone_verifies: "root_zone_verify (sample_ext m) z pk = root_zone_verify sample_deps z pk"
  by (simp only: root_zone_verify_def root_zone_signable_bytes_def sample_canonical sample_verify_signature
      sample_verifies)

subsection \<open>The site\<close>

abbreviation site_key :: string where
  "site_key \<equiv> node_id sample_deps sample_identity"

definition site_hash :: string where
  "site_hash = hash_bytes sample_deps [72, 105]"

definition site_draft :: manifest where
  "site_draft =
     \<lparr>mf_domain = ''joao.pagina'', mf_version = 1, mf_entry = ''index.html'',
      mf_files = [(''index.html'', site_hash)], mf_owner_public_key = site_key,
      mf_created_at = ''1'', mf_signature_algorithm = ''ed25519'', mf_signature = None\<rparr>"

definition site_manifest :: manifest where
  "site_manifest = site_draft
     \<lparr>mf_signature := Some (sign sample_deps sample_identity (manifest_signable_bytes sample_deps site_draft))\<rparr>"

definition site_manifest_hash :: string where
  "site_manifest_hash = hash_bytes sample_deps [3]"

definition site_unsigned_record :: domain_record where
  "site_unsigned_record = sample_domain_record
     \<lparr>dr_owner_public_key := site_key, dr_manifest_hash := site_manifest_hash\<rparr>"

definition site_record :: domain_record where
  "site_record = site_unsigned_record
     \<lparr>dr_signature := Some (sign sample_deps sample_identity
        (domain_record_signable_bytes sample_deps site_unsigned_record))\<rparr>"

definition site_unsigned_zone :: "nat \<Rightarrow> root_zone" where
  "site_unsigned_zone version = sample_root_zone
     \<lparr>rz_root_version := version, rz_root_public_key := site_key,
      rz_tlds := [(''pagina'', sample_signed_tld)], rz_domains := [(''joao.pagina'', site_record)]\<rparr>"

definition site_zone :: "nat \<Rightarrow> root_zone" where
  "site_zone version = site_unsigned_zone version
     \<lparr>rz_signature := Some (sign sample_deps sample_identity
        (root_zone_signable_bytes sample_deps (site_unsigned_zone version)))\<rparr>"

lemma site_zone_fields:
  "rz_root_version (site_zone v) = v" "rz_domains (site_zone v) = [(''joao.pagina'', site_record)]"
  "rz_tlds (site_zone v) = [(''pagina'', sample_signed_tld)]" "rz_root_public_key (site_zone v) = site_key"
  "rz_network (site_zone v) = rz_network sample_root_zone"
  by (simp_all add: site_zone_def site_unsigned_zone_def)

lemma site_record_fields:
  "dr_tld site_record = ''pagina''" "dr_status site_record = Active" "dr_expires_at site_record = None"
  "dr_owner_public_key site_record = site_key" "dr_manifest_hash site_record = site_manifest_hash"
  "dr_domain site_record = ''joao.pagina''" "dr_label site_record = ''joao''"
  by (simp_all add: site_record_def site_unsigned_record_def sample_domain_record_def)

lemmas sample_signer = sample_hex_ok sample_ed25519_ok length_sample_identity

lemma site_record_verifies: "domain_record_verify sample_deps site_record site_key = Inr ()"
  using dr.sealed_checks [OF sample_signer site_record_def]
  by (simp add: domain_record_verify_iff site_record_fields)

lemma site_zone_verifies: "root_zone_verify sample_deps (site_zone v) site_key = Inr ()"
  using sample_signed_tld_verifies rz.sealed_checks [OF sample_signer site_zone_def]
  by (simp add: result_simps site_zone_fields bm_values_def)

lemma site_zone_validates: "root_zone_validate (site_zone v) = Inr ()"
  by (simp add: root_zone_validate_iff site_zone_fields sample_root_zone_def bm_values_def bm_contains_def
      site_record_fields)

lemma site_manifest_ok:
  "manifest_validate site_manifest = Inr ()"
  "manifest_verify sample_deps site_manifest ''joao.pagina'' site_key = Inr ()"
  "manifest_resolve_path site_manifest ''/'' = Some (''index.html'', site_hash)"
proof -
  show "manifest_validate site_manifest = Inr ()"
    by (simp add: manifest_validate_iff site_manifest_def site_draft_def bm_contains_def)
  show "manifest_verify sample_deps site_manifest ''joao.pagina'' site_key = Inr ()"
    using mf.sealed_checks [OF sample_signer site_manifest_def]
    by (simp add: manifest_verify_iff, simp add: site_manifest_def site_draft_def)
  show "manifest_resolve_path site_manifest ''/'' = Some (''index.html'', site_hash)"
    by (simp add: manifest_resolve_path_def trim_start_matches_def site_manifest_def site_draft_def bm_get_def)
qed

subsection \<open>The resolver and its network\<close>

text \<open>The zones are written as \<open>[1]\<close> and \<open>[2]\<close>, the manifest as \<open>[3]\<close>; the network only offers \<open>[1]\<close>.\<close>

definition site_zone_codec :: "root_zone codec" where
  "site_zone_codec =
     \<lparr>to_vec = (\<lambda>z. if z = site_zone 1 then [1] else [2]),
      from_slice = (\<lambda>bs. if bs = [1] then Some (site_zone 1) else if bs = [2] then Some (site_zone 2) else None)\<rparr>"

definition replaying_network :: http_client where
  "replaying_network =
     \<lparr>h_send = (\<lambda>_. Inr \<lparr>hr_status = 200, hr_content_length = None, hr_chunks = [Inr [1]]\<rparr>),
      h_status = (\<lambda>_. []), h_json = (\<lambda>_. None)\<rparr>"

definition site_deps :: resolution_deps where
  "site_deps = sample_ext (resolution_deps.fields
     site_zone_codec (to_vec site_zone_codec)
     \<lparr>to_vec = (\<lambda>_. []), from_slice = (\<lambda>_. None)\<rparr> (\<lambda>_. []) (\<lambda>_. None)
     \<lparr>to_vec = (\<lambda>_. [3]), from_slice = (\<lambda>bs. if bs = [3] then Some site_manifest else None)\<rparr>
     \<lparr>to_vec = (\<lambda>_. []), from_slice = (\<lambda>_. None)\<rparr> (\<lambda>_. [])
     (\<lambda>_ _. Inl (NetworkError ''refused'')) (\<lambda>_. replaying_network)
     (\<lambda>_. \<lparr>http = (\<lambda>_. Inl ''refused''), read_json = (\<lambda>_. Inl []), entries_of = (\<lambda>_. None)\<rparr>)
     (\<lambda>_. ''text/html'') (\<lambda>_ _. True))"

lemma site_deps_fields:
  "rx_zone site_deps = site_zone_codec" "rx_zone_pretty site_deps = to_vec site_zone_codec"
  "from_slice (rx_manifest site_deps) [3] = Some site_manifest" "rx_http site_deps n = replaying_network"
  "rx_dial site_deps n a = Inl (NetworkError ''refused'')" "rx_mime site_deps f = ''text/html''"
  "rx_write site_deps n w = True"
  by (simp_all add: site_deps_def sample_ext_def resolution_deps.defs)

definition site_resolver :: resolver where
  "site_resolver =
     \<lparr>rv_client = ''http://n'', rv_cache = \<lparr>cd_zone = Some [2], cd_tmp = None\<rparr>,
      rv_blocks = [(take 2 site_hash @ ''/'' @ site_hash, [72, 105])],
      rv_manifests = [(site_manifest_hash, [3])], rv_registries = [],
      rv_root = Some (site_zone 2), rv_trusted = Some site_key, rv_key_file = Some site_key,
      rv_directory = None, rv_region = None, rv_native_providers = [], rv_identity = sample_identity, rv_tick = 0\<rparr>"

lemma site_zones_differ: "site_zone 1 \<noteq> site_zone 2"
  using site_zone_fields(1) [of 1] site_zone_fields(1) [of 2] by auto

lemma site_reprints: "zone_reprints site_deps"
  using site_zones_differ by (auto simp: zone_reprints_def site_deps_fields site_zone_codec_def)

lemma site_zone_verifies_here: "root_zone_verify site_deps (site_zone v) site_key = Inr ()"
  unfolding site_deps_def sample_zone_verifies by (rule site_zone_verifies)

lemma site_inv: "resolver_inv site_deps site_resolver"
  by (simp add: resolver_inv_def zone_trusted_def site_resolver_def site_zone_verifies_here load_cached_root_def
      root_cache_load_def site_deps_fields site_zone_codec_def site_zone_validates)

lemma site_storage: "storage_verify site_deps bs (hash_bytes sample_deps bs) = Inr ()"
  unfolding site_deps_def sample_verifies
  using is_valid_hash_sample [of "()"] by (simp add: storage_verify_ok_iff sample_deps_def)

text \<open>The replay is refused: the newer zone stays.\<close>

lemma site_replay: "refresh_root site_deps site_resolver = (Inr (site_zone 2), site_resolver\<lparr>rv_tick := 1\<rparr>)"
proof -
  have "client_fetch_root replaying_network site_zone_codec ''http://n'' = Inr (site_zone 1)"
    by (simp add: client_fetch_root_def get_bytes_def http_get_def replaying_network_def is_success_def
        read_capped_def MAX_ROOT_BYTES_def decode_as_def site_zone_codec_def site_zone_validates)
  then have "fetch_root_network site_deps site_resolver = (Inr (site_zone 1), site_resolver\<lparr>rv_tick := 1\<rparr>)"
    by (simp add: fetch_root_network_def site_resolver_def ticked_def site_deps_fields)
  then show ?thesis
    by (simp add: refresh_root_def verify_zone_def accept_root_def last_verified_zone_def site_resolver_def
        site_zone_verifies_here site_zone_fields)
qed


subsection \<open>The site is served\<close>

lemma site_domain: "federate_domain_parse ''Joao.Pagina'' = Inr \<lparr>fd_name = ''joao'', fd_tld = ''pagina''\<rparr>"
  by code_simp

lemma site_active:
  "root_zone_lookup_tld (site_zone v) ''pagina'' = Some sample_signed_tld"
  "root_zone_lookup (site_zone v) ''joao.pagina'' = Some site_record"
  "tld_status_is_resolvable (tr_status sample_signed_tld)" "domain_status_is_resolvable (dr_status site_record)"
  "\<not> tld_record_is_expired site_deps clock sample_signed_tld" "\<not> domain_record_is_expired site_deps clock site_record"
  "domain_record_verify site_deps site_record site_key = Inr ()"
proof -
  show "domain_record_verify site_deps site_record site_key = Inr ()"
    unfolding site_deps_def sample_verifies by (rule site_record_verifies)
qed (simp_all add: root_zone_lookup_tld_def root_zone_lookup_def site_zone_fields site_record_fields bm_get_def
      tld_record_is_expired_def domain_record_is_expired_def expired_def expired_at_def)

lemma site_roots: "rv_root site_resolver = Some (site_zone 2)" "rv_trusted site_resolver = Some site_key"
  by (simp_all add: site_resolver_def)

lemma site_cached:
  "bm_get (rv_manifests site_resolver) site_manifest_hash = Some [3]"
  "storage_verify site_deps [3] site_manifest_hash = Inr ()"
  "manifest_verify site_deps site_manifest ''joao.pagina'' site_key = Inr ()"
  "block_store_get site_deps (rv_blocks site_resolver) site_hash = Inr [72, 105]"
proof -
  show "bm_get (rv_manifests site_resolver) site_manifest_hash = Some [3]"
    by (simp add: site_resolver_def bm_get_def)
  show "storage_verify site_deps [3] site_manifest_hash = Inr ()"
    unfolding site_manifest_hash_def by (rule site_storage)
  show "manifest_verify site_deps site_manifest ''joao.pagina'' site_key = Inr ()"
    unfolding site_deps_def sample_verifies by (rule site_manifest_ok)
  have v: "storage_verify site_deps [72, 105] site_hash = Inr ()"
    unfolding site_hash_def by (rule site_storage)
  then have "is_valid_hash site_hash" by (simp add: storage_verify_ok_iff)
  with v show "block_store_get site_deps (rv_blocks site_resolver) site_hash = Inr [72, 105]"
    by (simp add: block_store_get_def block_path_def site_resolver_def bm_get_def)
qed

theorem cached_site_served_offline_witness:
  "resolve site_deps 5 ''Joao.Pagina'' ''/'' site_resolver
     = (Inr (Content ''joao.pagina'' ''/'' [72, 105] ''text/html'' site_hash), site_resolver)"
  using cached_site_served_offline [OF site_inv _ site_domain, of "site_zone 2" sample_signed_tld 5 site_record
      "[3]" site_manifest "''/''" "''index.html''" site_hash "[72, 105]"]
    site_active(1-4,7) site_active(5,6) [of 5] site_cached site_manifest_ok
    site_roots
  by (simp add: site_record_fields site_deps_fields fqdn_def)

lemma site_served_as:
  assumes host: "federate_domain_parse host = Inr \<lparr>fd_name = ''joao'', fd_tld = ''pagina''\<rparr>"
  shows "resolve site_deps 6 host ''/'' site_resolver
     = (Inr (Content ''joao.pagina'' ''/'' [72, 105] ''text/html'' site_hash), site_resolver)"
proof -
  have hash: "is_valid_hash site_manifest_hash" using site_cached(2) by (simp add: storage_verify_ok_iff)
  have tld: "tld_record_verify site_deps sample_signed_tld site_key = Inr ()"
    unfolding site_deps_def sample_verifies by (rule sample_signed_tld_verifies)
  have manifest: "load_manifest site_deps site_manifest_hash site_resolver = (Inr site_manifest, site_resolver)"
    using site_cached hash site_manifest_ok
    by (simp add: load_manifest_def try_then_def manifest_bytes_def decode_as_def site_deps_fields)
  show ?thesis
    using site_cached site_manifest_ok site_active(1-4,7) site_active(5,6) [of 6] manifest tld site_roots
    by (simp add: resolve_def host current_root_def serve_root_def serve_tld_def Let_def fqdn_def
        locate_record_def check_record_def serve_record_def serve_file_def load_block_def site_record_fields
        site_deps_fields)
qed

lemmas site_served = site_served_as [OF site_domain]

theorem resolved_content_chain_of_trust_witness:
  "\<exists>root t rec. root_zone_verify site_deps root site_key = Inr () \<and>
     record_source site_deps root t ''joao.pagina'' rec \<and>
     domain_record_verify site_deps rec (tr_operator_public_key t) = Inr () \<and>
     storage_verify site_deps [72, 105] site_hash = Inr ()"
proof -
  have "rv_trusted site_resolver = Some site_key" by (simp add: site_resolver_def)
  with resolved_content_chain_of_trust [OF site_inv site_reprints site_served] show ?thesis by auto
qed

text \<open>
  \<open>site_files\<close> compares the manifest with the host as given, not with the parsed domain: the spelling
  that resolves to the page fails there.
\<close>

lemma site_files_compares_raw_host:
  "fst (resolve site_deps 6 ''Joao.Pagina'' ''/'' site_resolver)
     = Inr (Content ''joao.pagina'' ''/'' [72, 105] ''text/html'' site_hash) \<and>
   (\<exists>e. fst (site_files site_deps 6 ''Joao.Pagina'' site_resolver) = Inl e) \<and>
   fst (site_files site_deps 6 ''joao.pagina'' site_resolver) = Inr [''index.html'']"
proof (intro conjI)
  have lower: "federate_domain_parse ''joao.pagina'' = Inr \<lparr>fd_name = ''joao'', fd_tld = ''pagina''\<rparr>" by code_simp
  have hash: "is_valid_hash site_manifest_hash" using site_cached(2) by (simp add: storage_verify_ok_iff)
  have manifest: "load_manifest site_deps site_manifest_hash site_resolver = (Inr site_manifest, site_resolver)"
    using site_cached hash site_manifest_ok
    by (simp add: load_manifest_def try_then_def manifest_bytes_def decode_as_def site_deps_fields)
  have located: "federate_domain_parse host = Inr \<lparr>fd_name = ''joao'', fd_tld = ''pagina''\<rparr> \<Longrightarrow>
      resolve_domain site_deps 6 host site_resolver = (Inr site_record, site_resolver)" for host
    using site_active(1-4,7) site_active(5,6) [of 6] site_roots
    by (simp add: resolve_domain_def try_then_def current_root_def locate_record_def fqdn_def site_record_fields)
  show "fst (resolve site_deps 6 ''Joao.Pagina'' ''/'' site_resolver)
     = Inr (Content ''joao.pagina'' ''/'' [72, 105] ''text/html'' site_hash)" by (simp add: site_served)
  have "mf_domain site_manifest = ''joao.pagina''" "mf_files site_manifest = [(''index.html'', site_hash)]"
    by (simp_all add: site_manifest_def site_draft_def)
  note site = this
  have "\<exists>e. manifest_verify site_deps site_manifest ''Joao.Pagina'' site_key = Inl e"
    by (simp add: manifest_verify_def Let_def site)
  then show "\<exists>e. fst (site_files site_deps 6 ''Joao.Pagina'' site_resolver) = Inl e"
    using located [OF site_domain] manifest by (auto simp: site_files_def try_then_def site_record_fields)
  show "fst (site_files site_deps 6 ''joao.pagina'' site_resolver) = Inr [''index.html'']"
    using located [OF lower] manifest site_cached(3)
    by (simp add: site_files_def try_then_def site_record_fields bm_keys_def site)
qed

end
