(* ===== verification/Gateway_Properties.thy ===== *)
theory Gateway_Properties
  imports Gateway Resolution_Sample
begin

text \<open>
  What the HTTP gateway guarantees: it is no second way to content, and its error pages cannot be
  made to carry markup.
\<close>

subsection \<open>Only verified content\<close>

lemma styled_error_status [simp]: "gw_status (styled_error page n title detail) = n"
  by (simp add: styled_error_def)

lemma plain_answer_status [simp]: "gw_status (plain_answer n headers body) = n"
  by (simp add: plain_answer_def)

lemma content_answer_cases:
  "gw_status (content_answer inm bs mime h) = 304 \<and> gw_body (content_answer inm bs mime h) = [] \<and>
     (\<exists>t. inm = Some t \<and> etag_matches t ([CHR 0x22] @ h @ [CHR 0x22]))
   \<or> gw_status (content_answer inm bs mime h) = 200 \<and> gw_body (content_answer inm bs mime h) = bs"
  by (auto simp: content_answer_def Let_def split: option.splits)

lemma content_answer_etag:
  "map_of (gw_headers (content_answer inm bs mime h)) ''etag'' = Some ([CHR 0x22] @ h @ [CHR 0x22])"
  by (simp add: content_answer_def Let_def)

text \<open>Success means content.\<close>

lemma success_is_content:
  assumes "gw_status (outcome_answer page inm r) \<in> {200, 304}"
  shows "\<exists>d p bs mime h. r = Inr (Content d p bs mime h)"
  using assms by (cases "(page, inm, r)" rule: outcome_answer.cases) auto

lemma gateway_success:
  assumes "gateway_handle E page clock req s = (resp, s')" "gw_status resp \<in> {200, 304}"
  obtains uri d p bs mime h where "gr_method req \<in> {''GET'', ''HEAD''}" "length (gr_path req) \<le> GATEWAY_MAX_PATH_LEN"
    and "federate_uri_from_http (case gr_host req of None \<Rightarrow> [] | Some h \<Rightarrow> h) (gr_path req) = Inr uri"
    and "resolve E clock (federate_uri_fqdn uri) (fu_path uri) s = (Inr (Content d p bs mime h), s')"
    and "resp = content_answer (gr_if_none_match req) bs mime h"
proof -
  let ?host = "case gr_host req of None \<Rightarrow> [] | Some h \<Rightarrow> h"
  have checks: "gr_method req \<in> {''GET'', ''HEAD''}" "length (gr_path req) \<le> GATEWAY_MAX_PATH_LEN"
    using assms by (auto simp: gateway_handle_def Let_def split: if_splits)
  obtain uri where uri: "federate_uri_from_http ?host (gr_path req) = Inr uri"
    using assms checks by (cases "federate_uri_from_http ?host (gr_path req)") (auto simp: gateway_handle_def Let_def)
  obtain r s1 where r: "resolve E clock (federate_uri_fqdn uri) (fu_path uri) s = (r, s1)" by fastforce
  have run: "resp = outcome_answer page (gr_if_none_match req) r" "s' = s1"
    using assms(1) checks uri r by (auto simp: gateway_handle_def Let_def resolve_uri_def)
  with assms(2) success_is_content obtain d p bs mime h where "r = Inr (Content d p bs mime h)" by blast
  with that checks uri r run show ?thesis by simp
qed

text \<open>
  C16: The gateway is no second way to content. An answer with status 200 or 304 is given only to a GET
  or HEAD with a path within bounds whose Host names a Federate domain, and only after the whole chain
  verified for that domain and path: a zone under the pinned key, an active TLD, an active record of its
  operator, the owner's manifest. The ETag is the address the manifest lists for the path; the body of a
  200 hashes to it, and a 304 has no body and answers an If-None-Match that names it.
\<close>

theorem gateway_serves_only_verified:
  assumes "resolver_inv E s" "zone_reprints E"
    and "gateway_handle E page clock req s = (resp, s')" "gw_status resp \<in> {200, 304}"
  shows "gr_method req \<in> {''GET'', ''HEAD''} \<and> length (gr_path req) \<le> 2048 \<and>
    (\<exists>host uri domain root key t rec mb m f h.
       gr_host req = Some host \<and> federate_uri_from_http host (gr_path req) = Inr uri \<and>
       federate_domain_parse (federate_uri_fqdn uri) = Inr domain \<and>
       rv_trusted s' = Some key \<and> root_zone_verify E root key = Inr () \<and>
       tld_active E clock root (fd_tld domain) t \<and> record_source E root t (fqdn domain) rec \<and>
       record_active E clock domain t rec \<and>
       storage_verify E mb (dr_manifest_hash rec) = Inr () \<and> from_slice (rx_manifest E) mb = Some m \<and>
       manifest_verify E m (fqdn domain) (dr_owner_public_key rec) = Inr () \<and>
       manifest_resolve_path m (fu_path uri) = Some (f, h) \<and>
       map_of (gw_headers resp) ''etag'' = Some ([CHR 0x22] @ h @ [CHR 0x22]) \<and>
       (if gw_status resp = 200 then storage_verify E (gw_body resp) h = Inr ()
        else gw_body resp = [] \<and>
          (\<exists>inm. gr_if_none_match req = Some inm \<and> etag_matches inm ([CHR 0x22] @ h @ [CHR 0x22]))))"
  using assms(3,4)
proof (rule gateway_success)
  let ?host = "case gr_host req of None \<Rightarrow> [] | Some h \<Rightarrow> h"
  fix uri d p bs mime h
  assume checks: "gr_method req \<in> {''GET'', ''HEAD''}" "length (gr_path req) \<le> GATEWAY_MAX_PATH_LEN"
    and uri: "federate_uri_from_http ?host (gr_path req) = Inr uri"
    and served: "resolve E clock (federate_uri_fqdn uri) (fu_path uri) s = (Inr (Content d p bs mime h), s')"
    and resp: "resp = content_answer (gr_if_none_match req) bs mime h"
  have "federate_uri_from_http [] path = Inr u \<Longrightarrow> False" for path u
  proof -
    have "\<not> is_ok (federate_domain_parse [])" by code_simp
    then show "federate_uri_from_http [] path = Inr u \<Longrightarrow> False"
      by (auto simp: federate_uri_from_http_def is_ok_iff and_then_eq_Inr)
  qed
  with uri obtain host where host: "gr_host req = Some host" "federate_uri_from_http host (gr_path req) = Inr uri"
    by (cases "gr_host req") auto
  obtain domain root t rec where chain: "federate_domain_parse (federate_uri_fqdn uri) = Inr domain"
    "zone_trusted E s' root" "tld_active E clock root (fd_tld domain) t" "record_source E root t (fqdn domain) rec"
    "record_active E clock domain t rec"
    "content_from_record E (fqdn domain) (fu_path uri) rec (Content d p bs mime h)"
    using resolve_content [OF assms(1,2) served] by blast
  obtain mb m f where m: "verified E (dr_manifest_hash rec) mb" "from_slice (rx_manifest E) mb = Some m"
    "manifest_verify E m (fqdn domain) (dr_owner_public_key rec) = Inr ()"
    "manifest_resolve_path m (fu_path uri) = Some (f, h)" "verified E h bs"
    using chain(6) unfolding content_from_record_def by blast
  have body: "if gw_status resp = 200 then storage_verify E (gw_body resp) h = Inr ()
        else gw_body resp = [] \<and>
          (\<exists>inm. gr_if_none_match req = Some inm \<and> etag_matches inm ([CHR 0x22] @ h @ [CHR 0x22]))"
    using content_answer_cases [of "gr_if_none_match req" bs mime h] m(5) unfolding resp by auto
  obtain key where key: "rv_trusted s' = Some key" "root_zone_verify E root key = Inr ()"
    using chain(2) by (auto simp: zone_trusted_def)
  have "length (gr_path req) \<le> 2048" using checks by (simp add: GATEWAY_MAX_PATH_LEN_def)
  then show ?thesis
    using checks(1) host chain(1) key chain(3-5) m(1-4) content_answer_etag [of _ bs mime h, folded resp] body
    unfolding resp by blast
qed

subsection \<open>Error pages carry no foreign markup\<close>

text \<open>The characters HTML gives a meaning to: tags and attribute quotes.\<close>

definition markup :: "string \<Rightarrow> string" where
  "markup s = filter (\<lambda>c. c \<in> {CHR ''<'', CHR ''>'', CHR 0x22, CHR 0x27}) s"

lemma markup_append [simp]: "markup (s @ t) = markup s @ markup t"
  by (simp add: markup_def)

lemma markup_Cons [simp]:
  "markup (c # s) = (if c \<in> {CHR ''<'', CHR ''>'', CHR 0x22, CHR 0x27} then c # markup s else markup s)"
  by (simp add: markup_def)

lemma markup_esc [simp]: "markup (esc s) = []"
  using esc_safe [of _ s] by (auto simp: markup_def filter_empty_conv)

text \<open>The same outcome with the texts from outside (names, paths, reasons, errors) taken out.\<close>

fun blank :: "resolved result \<Rightarrow> resolved result" where
  "blank (Inr (Content _ _ _ _ _)) = Inr (Content [] [] [] [] [])"
| "blank (Inr (NotFederate _)) = Inr (NotFederate [])"
| "blank (Inr (NoSuchTld _)) = Inr (NoSuchTld [])"
| "blank (Inr (UnavailableTld _ _)) = Inr (UnavailableTld [] [])"
| "blank (Inr (DelegatedUnavailable _ _ _)) = Inr (DelegatedUnavailable [] [] [])"
| "blank (Inr (NoSuchDomain _)) = Inr (NoSuchDomain [])"
| "blank (Inr (DomainUnavailable _ _)) = Inr (DomainUnavailable [] [])"
| "blank (Inr (NoSuchPath _ _)) = Inr (NoSuchPath [] [])"
| "blank (Inr (SecurityFailure _ _ _)) = Inr (SecurityFailure [] [] [])"
| "blank (Inl _) = Inl RootUnavailable"

text \<open>
  Nothing from outside becomes markup. Whatever a host, path, registry or error text contains, the
  tags and quotes of the answer are those of the fixed page: the markup of the body is the same as with
  all those texts empty; and a browser shows the escaped text back unchanged.
\<close>

lemma error_pages_carry_no_markup:
  "unesc (esc text) = text \<and>
   ((\<nexists>d p bs mime h. outcome = Inr (Content d p bs mime h)) \<longrightarrow>
     markup (str_of_bytes (gw_body (outcome_answer page inm outcome)))
       = markup (str_of_bytes (gw_body (outcome_answer page inm (blank outcome)))) \<and>
     gw_status (outcome_answer page inm outcome) = gw_status (outcome_answer page inm (blank outcome)) \<and>
     gw_headers (outcome_answer page inm outcome) = gw_headers (outcome_answer page inm (blank outcome)))"
  by (cases "(page, inm, outcome)" rule: outcome_answer.cases)
     (simp_all add: unesc_esc styled_error_def error_html_def in_code_def in_strong_def del: error_display.simps)

subsection \<open>The properties at concrete inputs\<close>

definition sample_page :: error_page where
  "sample_page = \<lparr>ep_head = ''<title>'', ep_style = ''</title><h1>'', ep_sep = ''</h1><p>'', ep_foot = ''</p>''\<rparr>"

definition attack :: string where
  "attack = ''<script>alert(1)</script>''"

lemma error_pages_carry_no_markup_witness:
  "markup (str_of_bytes (gw_body (outcome_answer sample_page None (Inr (NoSuchPath ''a.fed'' attack)))))
     = markup (str_of_bytes (gw_body (outcome_answer sample_page None (Inr (NoSuchPath [] [])))))"
  using error_pages_carry_no_markup [of attack "Inr (NoSuchPath ''a.fed'' attack)" sample_page None] by simp

definition sample_get :: gateway_request where
  "sample_get = \<lparr>gr_method = ''GET'', gr_host = Some ''Joao.Pagina:80'', gr_if_none_match = None, gr_path = ''/''\<rparr>"

lemma sample_get_served:
  "gateway_handle site_deps sample_page 6 sample_get site_resolver
     = (content_answer None [72, 105] ''text/html'' site_hash, site_resolver)"
proof -
  have uri: "federate_uri_from_http ''Joao.Pagina:80'' ''/''
      = Inr \<lparr>fu_domain = \<lparr>fd_name = ''joao'', fd_tld = ''pagina''\<rparr>, fu_path = ''/'', fu_query = None\<rparr>"
    by code_simp
  have "federate_domain_parse ''joao.pagina'' = Inr \<lparr>fd_name = ''joao'', fd_tld = ''pagina''\<rparr>" by code_simp
  from site_served_as [OF this] show ?thesis
    by (simp add: gateway_handle_def sample_get_def GATEWAY_MAX_PATH_LEN_def Let_def uri resolve_uri_def
        federate_uri_fqdn_def fqdn_def)
qed

theorem gateway_serves_only_verified_witness:
  "\<exists>resp h. gateway_handle site_deps sample_page 6 sample_get site_resolver = (resp, site_resolver) \<and>
     gw_status resp = 200 \<and> storage_verify site_deps (gw_body resp) h = Inr () \<and>
     map_of (gw_headers resp) ''etag'' = Some ([CHR 0x22] @ h @ [CHR 0x22])"
proof -
  let ?resp = "content_answer None [72, 105] ''text/html'' site_hash"
  have status: "gw_status ?resp = 200" by (simp add: content_answer_def Let_def)
  with gateway_serves_only_verified [OF site_inv site_reprints sample_get_served] sample_get_served
  show ?thesis by auto
qed

end
