(* ===== verification/Node1_Server.thy ===== *)
theory Node1_Server
  imports Store_Safety Directory_Api Native_Protocol
begin

text \<open>
  \<open>crates/federate-server/src/main.rs\<close>: Node 1, the bootstrap node and home of the root registry. Each
  HTTP handler is a function from the parsed request (what axum's extractors deliver) and the node's
  state to status, JSON body and new state; the native protocol is answered by \<open>node1_native\<close>. Every
  handler holds the registry's lock while it runs, so handlers are steps one after another. Arithmetic
  on versions wraps, as in the release profile. Not modelled: argument parsing, the route table, the
  sockets, logging, and the HTML of the index page.
\<close>

record node1 =
  n1_registry :: registry_store
  n1_blocklists :: blocklists
  n1_root_key :: node_identity
  n1_operator_key :: node_identity
  n1_node_id :: string
  n1_started_at :: string
  n1_native_port :: u16
  n1_directory :: directory

definition SERVER_AGENT :: string where
  "SERVER_AGENT = ''federate-server/0.1.0''"

definition json_int :: "int \<Rightarrow> json" where
  "json_int i = (if 0 \<le> i then json_nat (nat i) else JNumber (NegInt i))"

definition mutation_ctx :: "node1 \<Rightarrow> int \<Rightarrow> mutation_context" where
  "mutation_ctx n now =
     \<lparr>mc_root = n1_root_key n, mc_official_operator = n1_operator_key n,
      mc_blocklists = n1_blocklists n, mc_now = now\<rparr>"

text \<open>
  Start-up: the registry is opened if there is one, else an empty one is initialised. \<open>dir\<close> names the
  registry's directory and \<open>d\<close> is what is on disk there; \<open>directory\<close> is the restored node directory.
\<close>

definition build_store ::
  "'x store_deps_scheme \<Rightarrow> int \<Rightarrow> (root_zone \<Rightarrow> bytes) \<Rightarrow> io \<Rightarrow> node_identity \<Rightarrow> node_identity \<Rightarrow> node_identity
     \<Rightarrow> blocklists result \<Rightarrow> string \<Rightarrow> disk \<Rightarrow> (string \<Rightarrow> directory) \<Rightarrow> u16 \<Rightarrow> node1 result" where
  "build_store E clock to_pretty io root_key operator_key node blocklists dir d with_persistence native_port =
     and_then blocklists (\<lambda>lists.
     and_then (if registry_exists d then registry_open E dir d (node_id E root_key)
               else init_empty_registry E clock to_pretty io dir d root_key) (\<lambda>registry.
     Inr \<lparr>n1_registry = registry, n1_blocklists = lists, n1_root_key = root_key,
          n1_operator_key = operator_key, n1_node_id = node_id E node,
          n1_started_at = x_to_rfc3339 E clock, n1_native_port = native_port,
          n1_directory = with_persistence (rz_root_public_key (rs_zone registry))\<rparr>))"

subsection \<open>The native protocol\<close>

definition node1_capabilities :: "capability list" where
  "node1_capabilities = [CapRoot, CapManifests, CapBlocks, CapTldRegistries]"

definition not_found :: "string \<Rightarrow> message" where
  "not_found detail = ErrorMsg NotFound detail"

fun node1_native :: "'x store_deps_scheme \<Rightarrow> node1 \<Rightarrow> message \<Rightarrow> message" where
  "node1_native E n GetRoot = RootMsg (to_vec (x_zone E) (rs_zone (n1_registry n)))"
| "node1_native E n (GetManifest hash) =
     (case store_get_manifest (n1_registry n) hash of
        Some bs \<Rightarrow> ManifestMsg hash bs
      | None \<Rightarrow> not_found ''no such manifest'')"
| "node1_native E n (GetBlock hash) =
     (case store_block E (n1_registry n) hash of
        Some bs \<Rightarrow> BlockMsg hash bs
      | None \<Rightarrow> not_found ''no such block'')"
| "node1_native E n (GetTldRegistry tld) =
     (case store_registry (n1_registry n) tld of
        Some (bs, _) \<Rightarrow> TldRegistryMsg tld bs
      | None \<Rightarrow> not_found ''no delegated registry for this TLD here'')"
| "node1_native E n (GetDomainRecord name) =
     (case lookup_domain (n1_registry n) name of
        Some r \<Rightarrow> DomainRecordMsg name (to_vec (x_domain E) r)
      | None \<Rightarrow> not_found ''no such domain record here'')"
| "node1_native E n GetStatus =
     StatusMsg (n1_node_id n) [''root-authority'', ''origin''] [] SERVER_AGENT
       (Some (rz_root_version (rs_zone (n1_registry n))))"
| "node1_native E n _ =
     ErrorMsg Unsupported ''this node answers GetRoot, GetManifest, GetBlock, and GetStatus''"

definition node1_service :: "'x store_deps_scheme \<Rightarrow> string \<Rightarrow> node1 node_service" where
  "node1_service E node =
     \<lparr>ns_node_id = node, ns_capabilities = node1_capabilities, ns_handle = (\<lambda>n m. (node1_native E n m, n))\<rparr>"

subsection \<open>Reading over HTTP\<close>

definition api_status :: "node1 \<Rightarrow> json" where
  "api_status n =
     (let r = n1_registry n in json_obj
       [(''node'', JString ''node-1''), (''node_id'', JString (n1_node_id n)),
        (''native_port'', json_nat (unat (n1_native_port n))), (''started_at'', JString (n1_started_at n)),
        (''root_version'', json_nat (rz_root_version (rs_zone r))),
        (''root_public_key'', JString (rz_root_public_key (rs_zone r))),
        (''tlds'', json_nat (length (rz_tlds (rs_zone r)))),
        (''domains'', json_nat (length (rz_domains (rs_zone r)))),
        (''manifests'', json_nat (length (rs_manifests r))),
        (''blocks'', json_nat (length (block_store_list (rs_blocks r)))),
        (''mutations_applied'', json_nat (length (rs_applied r)))])"

definition json_strings :: "string list \<Rightarrow> json" where
  "json_strings xs = JArray (map JString xs)"

definition api_bootstrap :: "'y directory_deps_scheme \<Rightarrow> node1 \<Rightarrow> json" where
  "api_bootstrap D n =
     (let zone = rs_zone (n1_registry n);
          role = (\<lambda>r. healthy_nodes D r (n1_directory n));
          endpoints = (\<lambda>r. map (\<lambda>e. nr_health_endpoint (ne_registration e)) (role r));
          dns = concat (map (\<lambda>e. nr_public_ips (ne_registration e)) (role RoleDns));
          addrs = List.map_filter (\<lambda>e. map_option show_socket_addr (native_addr e))
            (directory_list D None True (n1_directory n))
      in json_obj
       [(''network'', JString (rz_network zone)), (''root_url'', JString ''/v1/root''),
        (''root_version'', json_nat (rz_root_version zone)),
        (''root_public_key'', JString (rz_root_public_key zone)),
        (''native_port'', json_nat (unat (n1_native_port n))),
        (''native_nodes'', json_strings (remdups_adj (sort addrs))),
        (''root_mirrors'', json_strings (endpoints RootMirror)), (''dns_nodes'', json_strings dns),
        (''gateway_nodes'', json_strings (endpoints RoleGateway)), (''directory_nodes'', JArray []),
        (''bootstrap_nodes'', json_strings (endpoints RoleBootstrap))])"

definition api_root :: "node1 \<Rightarrow> json" where
  "api_root n = root_zone_json (rs_zone (n1_registry n))"

definition api_tlds :: "node1 \<Rightarrow> json" where
  "api_tlds n = JArray (map tld_record_json (bm_values (rz_tlds (rs_zone (n1_registry n)))))"

definition path_tld :: "string \<Rightarrow> string" where
  "path_tld tld = to_ascii_lowercase (trim_start_matches (CHR ''.'') tld)"

definition api_tld_record :: "node1 \<Rightarrow> string \<Rightarrow> nat + json" where
  "api_tld_record n tld =
     ok_or (map_option tld_record_json (root_zone_lookup_tld (rs_zone (n1_registry n)) (path_tld tld))) 404"

definition tld_verdict :: "string \<Rightarrow> bool \<Rightarrow> string \<Rightarrow> string \<Rightarrow> json" where
  "tld_verdict tld available verdict reason =
     json_obj [(''tld'', JString tld), (''available'', JBool available), (''verdict'', JString verdict),
       (''reason'', JString reason)]"

definition api_tld_check :: "node1 \<Rightarrow> string \<Rightarrow> json" where
  "api_tld_check n input =
     (case validate_tld_name input of
        Inl e \<Rightarrow> tld_verdict input False ''invalid'' (error_display e)
      | Inr tld \<Rightarrow>
          (case root_zone_lookup_tld (rs_zone (n1_registry n)) tld of
             Some r \<Rightarrow> tld_verdict tld False (tld_status_as_str (tr_status r))
               (''.'' @ tld @ '' already exists in the Federate root registry (status: '' @
                tld_status_as_str (tr_status r) @ '', operator: '' @ tr_operator_name r @ '')'')
           | None \<Rightarrow>
               (case blocklists_check (n1_blocklists n) tld of
                  Some reason \<Rightarrow> tld_verdict tld False
                    (case reason of ReservedName \<Rightarrow> ''reserved'' | _ \<Rightarrow> ''blocked'')
                    (''.'' @ tld @ '' cannot be created because '' @ block_reason_describe reason)
                | None \<Rightarrow> tld_verdict tld True ''available''
                    (''.'' @ tld @ '' is available; the root can delegate it at runtime with `federate tld delegate`''))))"

definition sorted_names :: "string set \<Rightarrow> json" where
  "sorted_names s = json_strings (sorted_list_of_set s)"

definition api_blocked :: "node1 \<Rightarrow> json" where
  "api_blocked n = json_obj
     [(''iana'', sorted_names (bl_iana (n1_blocklists n))), (''policy'', sorted_names (bl_policy (n1_blocklists n))),
      (''brand_safety'', sorted_names (bl_brand_safety (n1_blocklists n)))]"

definition api_reserved :: "node1 \<Rightarrow> json" where
  "api_reserved n = json_obj [(''reserved'', sorted_names (bl_reserved (n1_blocklists n)))]"

definition api_domains :: "node1 \<Rightarrow> (string, string) bmap \<Rightarrow> json" where
  "api_domains n q =
     (let wanted = map_option path_tld (bm_get q ''tld'') in
      JArray (map domain_record_json
        (filter (\<lambda>d. case wanted of None \<Rightarrow> True | Some t \<Rightarrow> dr_tld d = t)
          (bm_values (rz_domains (rs_zone (n1_registry n)))))))"

definition api_domain_record :: "node1 \<Rightarrow> string \<Rightarrow> nat + json" where
  "api_domain_record n name =
     ok_or (map_option domain_record_json (lookup_domain (n1_registry n) (to_ascii_lowercase name))) 404"

text \<open>Raw answers: content type, further headers, and the bytes.\<close>

type_synonym raw_response = "(string \<times> string) list \<times> bytes"

definition CONTENT_ADDRESSED_CACHE :: "string \<times> string" where
  "CONTENT_ADDRESSED_CACHE = (''cache-control'', ''public, max-age=31536000, immutable'')"

definition api_tld_registry :: "node1 \<Rightarrow> string \<Rightarrow> nat + raw_response" where
  "api_tld_registry n tld =
     ok_or (map_option (\<lambda>(bs, _). ([(''content-type'', ''application/json'')], bs))
       (store_registry (n1_registry n) (path_tld tld))) 404"

definition api_manifest :: "node1 \<Rightarrow> string \<Rightarrow> nat + raw_response" where
  "api_manifest n hash =
     ok_or (map_option (\<lambda>bs. ([(''content-type'', ''application/json''), CONTENT_ADDRESSED_CACHE], bs))
       (store_get_manifest (n1_registry n) hash)) 404"

definition api_block :: "'x deps_scheme \<Rightarrow> node1 \<Rightarrow> string \<Rightarrow> nat + raw_response" where
  "api_block E n hash =
     ok_or (map_option (\<lambda>bs. ([(''content-type'', ''application/octet-stream''), CONTENT_ADDRESSED_CACHE], bs))
       (store_block E (n1_registry n) hash)) 404"

subsection \<open>Mutations over HTTP\<close>

fun mutation_status :: "federate_error \<Rightarrow> nat" where
  "mutation_status (Unauthorized _) = 403"
| "mutation_status InvalidSignature = 403"
| "mutation_status (Replay _) = 409"
| "mutation_status (DomainNotFound _) = 404"
| "mutation_status (TldNotFound _) = 404"
| "mutation_status (ManifestNotFound _) = 404"
| "mutation_status _ = 400"

definition refusal :: "nat \<Rightarrow> string \<Rightarrow> json_response" where
  "refusal status reason = (status, json_obj [(''accepted'', JBool False), (''error'', JString reason)])"

definition bad_nonce :: string where
  "bad_nonce = ''unknown, expired, or already-used nonce; request a fresh challenge at POST /v1/mutations/nonce''"

text \<open>The content of a package, blocks first.\<close>

definition store_content ::
  "'x deps_scheme \<Rightarrow> io \<Rightarrow> registry_store \<Rightarrow> bytes \<times> (string \<times> bytes) list \<Rightarrow> unit result \<times> registry_store" where
  "store_content E io s content =
     (case content of (manifest_bytes, blocks) \<Rightarrow>
        (case store_blocks E io s blocks of
           (Inl e, s) \<Rightarrow> (Inl e, s)
         | (Inr _, s) \<Rightarrow> store_manifest E io s (hash_bytes E manifest_bytes) manifest_bytes))"

text \<open>The mutation itself, and what the client is told.\<close>

definition apply_request ::
  "'x store_deps_scheme \<Rightarrow> int \<Rightarrow> (root_zone \<Rightarrow> bytes) \<Rightarrow> io \<Rightarrow> node1 \<Rightarrow> mutation_request \<Rightarrow> registry_store
     \<Rightarrow> json_response \<times> registry_store" where
  "apply_request E now to_pretty io n req s =
     (case apply_mutation E now to_pretty io s req (mutation_ctx n now) of
        (Inr event, s) \<Rightarrow>
          ((200, json_obj [(''accepted'', JBool True), (''mutation_id'', JString (mr_mutation_id req)),
             (''root_version'', json_nat (rz_root_version (rs_zone s))),
             (''audit_event'', audit_record_json event)]), s)
      | (Inl e, s) \<Rightarrow> (refusal (mutation_status e) (error_display e), s))"

text \<open>\<open>nonce_err\<close>: the database's failure to record the nonce, if any.\<close>

definition run_mutation ::
  "'x store_deps_scheme \<Rightarrow> int \<Rightarrow> (root_zone \<Rightarrow> bytes) \<Rightarrow> string option \<Rightarrow> io \<Rightarrow> mutation_request
     \<Rightarrow> (bytes \<times> (string \<times> bytes) list) option \<Rightarrow> node1 \<Rightarrow> json_response \<times> node1" where
  "run_mutation E now to_pretty nonce_err io req content n =
     (case store_consume_nonce nonce_err (n1_registry n) (mr_nonce req) (timestamp now) of
        (Inl e, s) \<Rightarrow> (refusal 500 (error_display e), n\<lparr>n1_registry := s\<rparr>)
      | (Inr False, s) \<Rightarrow> (refusal 409 bad_nonce, n\<lparr>n1_registry := s\<rparr>)
      | (Inr True, s) \<Rightarrow>
          (case (case content of None \<Rightarrow> (Inr (), s) | Some c \<Rightarrow> store_content E io s c) of
             (Inl e, s) \<Rightarrow> (refusal 400 (error_display e), n\<lparr>n1_registry := s\<rparr>)
           | (Inr _, s) \<Rightarrow>
               (case apply_request E now to_pretty io n req s of
                  (response, s) \<Rightarrow> (response, n\<lparr>n1_registry := s\<rparr>))))"

definition api_nonce :: "string option \<Rightarrow> string \<Rightarrow> int \<Rightarrow> node1 \<Rightarrow> json_response \<times> node1" where
  "api_nonce nonce_err fresh now n =
     (case issue_nonce nonce_err (n1_registry n) fresh (timestamp now) of
        (Inr (nonce, expires_at), s) \<Rightarrow>
          ((200, json_obj [(''nonce'', JString nonce), (''expires_at_unix'', json_int expires_at),
             (''ttl_secs'', json_int NONCE_TTL_SECS)]), n\<lparr>n1_registry := s\<rparr>)
      | (Inl e, s) \<Rightarrow> ((500, json_obj [(''error'', JString (error_display e))]), n\<lparr>n1_registry := s\<rparr>))"

definition api_submit ::
  "'x store_deps_scheme \<Rightarrow> int \<Rightarrow> (root_zone \<Rightarrow> bytes) \<Rightarrow> string option \<Rightarrow> io \<Rightarrow> mutation_request \<Rightarrow> node1
     \<Rightarrow> json_response \<times> node1" where
  "api_submit E now to_pretty nonce_err io req n = run_mutation E now to_pretty nonce_err io req None n"

definition api_ingest ::
  "'x store_deps_scheme \<Rightarrow> int \<Rightarrow> (root_zone \<Rightarrow> bytes) \<Rightarrow> string option \<Rightarrow> io \<Rightarrow> site_package \<Rightarrow> node1
     \<Rightarrow> json_response \<times> node1" where
  "api_ingest E now to_pretty nonce_err io pkg n =
     (case site_package_decode E pkg of
        Inl e \<Rightarrow> (refusal 400 (error_display e), n)
      | Inr content \<Rightarrow> run_mutation E now to_pretty nonce_err io (sp_mutation pkg) (Some content) n)"

subsection \<open>Inspection over HTTP\<close>

definition api_mutation :: "node1 \<Rightarrow> string \<Rightarrow> nat + json" where
  "api_mutation n mutation = ok_or (map_option applied_json (bm_get (rs_applied (n1_registry n)) mutation)) 404"

definition api_target :: "node1 \<Rightarrow> string \<Rightarrow> string \<Rightarrow> nat + json" where
  "api_target n kind name =
     (if kind \<noteq> ''domain'' \<and> kind \<noteq> ''tld'' then Inl 400
      else
        let key = kind @ '':'' @ to_ascii_lowercase name;
            current = target_version (n1_registry n) key
        in Inr (json_obj [(''target'', JString key), (''current_version'', json_nat current),
          (''next_version'', json_nat ((current + 1) mod 2 ^ 64))]))"

definition api_registry_status :: "string \<Rightarrow> node1 \<Rightarrow> json" where
  "api_registry_status dir n =
     (let r = n1_registry n; zone = rs_zone r in json_obj
       [(''root_version'', json_nat (rz_root_version zone)), (''generated_at'', JString (rz_generated_at zone)),
        (''root_public_key'', JString (rz_root_public_key zone)), (''tlds'', json_nat (length (rz_tlds zone))),
        (''domains'', json_nat (length (rz_domains zone))),
        (''delegated_registries'', json_nat (length (filter (\<lambda>t. tr_registry_type t \<noteq> RootManaged)
           (bm_values (rz_tlds zone))))),
        (''manifests'', json_nat (length (rs_manifests r))),
        (''blocks'', json_nat (length (block_store_list (rs_blocks r)))),
        (''mutations_applied'', json_nat (length (rs_applied r))),
        (''audit_events'', json_nat (length (rs_audit r))), (''registry_dir'', JString dir),
        (''persistent'', JBool True), (''seed_is_first_boot_only'', JBool True)])"

definition audit_limit :: "(string, string) bmap \<Rightarrow> nat" where
  "audit_limit q =
     min (case Option.bind (bm_get q ''limit'') parse_u64 of Some l \<Rightarrow> l | None \<Rightarrow> 50) 500"

definition api_registry_audit :: "node1 \<Rightarrow> (string, string) bmap \<Rightarrow> json" where
  "api_registry_audit n q = json_obj
     [(''total'', json_nat (length (rs_audit (n1_registry n)))),
      (''events'', JArray (map audit_record_json (audit_tail (n1_registry n) (audit_limit q))))]"

text \<open>The report \<open>verify_all\<close> returns when every check passed.\<close>

definition verify_report :: "registry_store \<Rightarrow> json" where
  "verify_report r = json_obj
     [(''root_version'', json_nat (rz_root_version (rs_zone r))),
      (''tlds'', json_nat (length (rz_tlds (rs_zone r)))),
      (''domains'', json_nat (length (rz_domains (rs_zone r)))),
      (''delegated_registries'', json_nat (length (rs_registries r))),
      (''manifests'', json_nat (length (rs_manifests r))),
      (''blocks'', json_nat (length (block_store_list (rs_blocks r)))),
      (''audit_events'', json_nat (length (rs_audit r))), (''mutations'', json_nat (length (rs_applied r))),
      (''backend'', JString ''redb''), (''verified'', JBool True)]"

definition api_registry_verify :: "'x store_deps_scheme \<Rightarrow> node1 \<Rightarrow> json_response" where
  "api_registry_verify E n =
     (case verify_all E (n1_registry n) (node_id E (n1_root_key n)) of
        Inr _ \<Rightarrow> (200, verify_report (n1_registry n))
      | Inl e \<Rightarrow> (500, json_obj [(''verified'', JBool False), (''error'', JString (error_display e))]))"

definition api_snapshot ::
  "'x store_deps_scheme \<Rightarrow> (root_zone \<Rightarrow> bytes) \<Rightarrow> io \<Rightarrow> string \<Rightarrow> node1 \<Rightarrow> json_response \<times> node1" where
  "api_snapshot E to_pretty io dir n =
     (case write_snapshot E to_pretty io (n1_registry n) of
        (Inr _, s) \<Rightarrow>
          ((200, json_obj [(''root_version'', json_nat (rz_root_version (rs_zone s))),
             (''snapshot'', JString (dir @ ''/snapshots/root-zone-v'' @ show_nat (rz_root_version (rs_zone s)) @ ''.json''))]),
           n\<lparr>n1_registry := s\<rparr>)
      | (Inl e, s) \<Rightarrow> ((500, json_obj [(''error'', JString (error_display e))]), n\<lparr>n1_registry := s\<rparr>))"

end
