(* ===== verification/Node1_Properties.thy ===== *)
theory Node1_Properties
  imports Node1_Server Publish_Properties
begin

text \<open>
  What Node 1 promises over HTTP and the native protocol: its handlers are steps of the registry store,
  the outcome of a submitted mutation, and that everything it hands out verifies.
\<close>

subsection \<open>Handlers are steps of the store\<close>

text \<open>\<open>dir\<close> is the registry's directory. Disk and database work while a mutation is applied.\<close>

inductive node1_step ::
  "'x store_deps_scheme \<Rightarrow> (root_zone \<Rightarrow> bytes) \<Rightarrow> string \<Rightarrow> node1 \<Rightarrow> node1 \<Rightarrow> bool"
  for E to_pretty dir where
  n1_nonce: "api_nonce err fresh now n = (resp, n') \<Longrightarrow> node1_step E to_pretty dir n n'"
| n1_submit: "api_submit E now to_pretty err io_ok req n = (resp, n') \<Longrightarrow> mutation_request_wf req \<Longrightarrow>
     clock_ok now \<Longrightarrow> node1_step E to_pretty dir n n'"
| n1_ingest: "api_ingest E now to_pretty err io_ok pkg n = (resp, n') \<Longrightarrow>
     mutation_request_wf (sp_mutation pkg) \<Longrightarrow> clock_ok now \<Longrightarrow> node1_step E to_pretty dir n n'"
| n1_snapshot: "api_snapshot E to_pretty io dir n = (resp, n') \<Longrightarrow> node1_step E to_pretty dir n n'"
| n1_restart: "registry_open E dir (disk_of (n1_registry n)) (node_id E (n1_root_key n)) = Inr s \<Longrightarrow>
     node1_step E to_pretty dir n (n\<lparr>n1_registry := s\<rparr>)"

definition good_node :: "'x store_deps_scheme \<Rightarrow> node1 \<Rightarrow> bool" where
  "good_node E n \<longleftrightarrow> good_store E (n1_root_key n) (n1_registry n) \<and> keys_ok E (mutation_ctx n 0)"

text \<open>Only the registry changes, by steps of the store.\<close>

definition store_run ::
  "'x store_deps_scheme \<Rightarrow> (root_zone \<Rightarrow> bytes) \<Rightarrow> node1 \<Rightarrow> node1 \<Rightarrow> bool" where
  "store_run E to_pretty n n' \<longleftrightarrow>
     (store_step E to_pretty (n1_root_key n))\<^sup>*\<^sup>* (n1_registry n) (n1_registry n') \<and>
     n' = n\<lparr>n1_registry := n1_registry n'\<rparr>"

lemma mutation_ctx_fields [simp]:
  "mc_root (mutation_ctx n now) = n1_root_key n" "mc_now (mutation_ctx n now) = now"
  "mutation_ctx (n\<lparr>n1_registry := s\<rparr>) now = mutation_ctx n now"
  by (simp_all add: mutation_ctx_def)

lemma keys_ok_any_time: "keys_ok E (mutation_ctx n 0) \<Longrightarrow> keys_ok E (mutation_ctx n now)"
  by (simp add: keys_ok_def mutation_ctx_def)

lemma store_run_refl [simp]: "store_run E to_pretty n n"
  by (simp add: store_run_def)

lemma store_run_step:
  "store_step E to_pretty (n1_root_key n) (n1_registry n) s \<Longrightarrow> store_run E to_pretty n (n\<lparr>n1_registry := s\<rparr>)"
  by (simp add: store_run_def)

lemma store_content_run:
  assumes "store_content E io s content = (u, s')"
  shows "(store_step E to_pretty root)\<^sup>*\<^sup>* s s'"
proof -
  obtain m blocks where c: "content = (m, blocks)" by (cases content)
  obtain v s1 where blocks: "store_blocks E io s blocks = (v, s1)" by (cases "store_blocks E io s blocks")
  then have "store_step E to_pretty root s s1" by (rule step_blocks)
  moreover have "s1 = s' \<or> store_step E to_pretty root s1 s'"
    using assms blocks c by (cases v) (auto simp: store_content_def intro: step_manifest)
  ultimately show ?thesis by (auto intro: rtranclp.rtrancl_into_rtrancl)
qed

lemma apply_request_store:
  "snd (apply_request E now to_pretty io n req s) = snd (apply_mutation E now to_pretty io s req (mutation_ctx n now))"
  unfolding apply_request_def by (simp only: split: prod.split sum.split) simp

lemma run_mutation_run:
  assumes run: "run_mutation E now to_pretty err io_ok req content n = (resp, n')"
    and "mutation_request_wf req" "clock_ok now" "keys_ok E (mutation_ctx n 0)"
  shows "store_run E to_pretty n n'"
proof -
  let ?step = "store_step E to_pretty (n1_root_key n)"
  obtain b s1 where nonce: "store_consume_nonce err (n1_registry n) (mr_nonce req) (timestamp now) = (b, s1)"
    by (cases "store_consume_nonce err (n1_registry n) (mr_nonce req) (timestamp now)")
  from step_consume [OF this] have one: "?step\<^sup>*\<^sup>* (n1_registry n) s1" by (rule r_into_rtranclp)
  obtain u s2 where con: "(case content of None \<Rightarrow> (Inr (), s1) | Some c \<Rightarrow> store_content E io_ok s1 c) = (u, s2)"
    by (cases "case content of None \<Rightarrow> (Inr (), s1) | Some c \<Rightarrow> store_content E io_ok s1 c")
  then have "?step\<^sup>*\<^sup>* s1 s2" by (auto split: option.splits intro: store_content_run)
  with one have two: "?step\<^sup>*\<^sup>* (n1_registry n) s2" by simp
  obtain r s3 where app: "apply_mutation E now to_pretty io_ok s2 req (mutation_ctx n now) = (r, s3)"
    by (cases "apply_mutation E now to_pretty io_ok s2 req (mutation_ctx n now)")
  have "?step s2 s3"
    by (rule step_apply [OF app]) (use assms(2-4) in \<open>simp_all add: keys_ok_any_time\<close>)
  with two have three: "?step\<^sup>*\<^sup>* (n1_registry n) s3" by (rule rtranclp.rtrancl_into_rtrancl)
  have "n' = n\<lparr>n1_registry := s1\<rparr> \<or> n' = n\<lparr>n1_registry := s2\<rparr> \<or> n' = n\<lparr>n1_registry := s3\<rparr>"
  proof (cases "b = Inr True \<and> is_ok u")
    case True
    then obtain v where "u = Inr v" by (cases u) simp_all
    moreover obtain resp' where "apply_request E now to_pretty io_ok n req s2 = (resp', s3)"
      using apply_request_store [of E now to_pretty io_ok n req s2] app
      by (cases "apply_request E now to_pretty io_ok n req s2") simp
    ultimately show ?thesis using True run nonce con by (simp add: run_mutation_def)
  next
    case False
    with run nonce con show ?thesis by (cases b; cases u) (auto simp: run_mutation_def split: if_splits bool.splits)
  qed
  with one two three show ?thesis by (auto simp: store_run_def)
qed

lemma node1_step_run:
  assumes "node1_step E to_pretty dir n n'" and "keys_ok E (mutation_ctx n 0)"
  shows "store_run E to_pretty n n'"
  using assms(1)
proof cases
  case (n1_nonce err fresh now resp)
  obtain r s where issue: "issue_nonce err (n1_registry n) fresh (timestamp now) = (r, s)"
    by (cases "issue_nonce err (n1_registry n) fresh (timestamp now)")
  with n1_nonce have "n' = n\<lparr>n1_registry := s\<rparr>" by (auto simp: api_nonce_def split: sum.splits prod.splits)
  with step_issue [OF issue] show ?thesis by (auto intro: store_run_step)
next
  case (n1_submit now err req resp)
  with assms(2) show ?thesis by (auto simp: api_submit_def intro: run_mutation_run)
next
  case (n1_ingest now err pkg resp)
  with assms(2) show ?thesis
    by (cases "site_package_decode E pkg")
       (auto simp: api_ingest_def intro: run_mutation_run)
next
  case (n1_snapshot io resp)
  obtain r s where snap: "write_snapshot E to_pretty io (n1_registry n) = (r, s)"
    by (cases "write_snapshot E to_pretty io (n1_registry n)")
  with n1_snapshot have "n' = n\<lparr>n1_registry := s\<rparr>" by (auto simp: api_snapshot_def split: sum.splits)
  with step_snapshot [OF snap] show ?thesis by (auto intro: store_run_step)
next
  case (n1_restart s)
  with step_restart [OF n1_restart(2)] show ?thesis by (auto intro: store_run_step)
qed

definition node1_le :: "node1 \<Rightarrow> node1 \<Rightarrow> bool" where
  "node1_le n n' \<longleftrightarrow> n' = n\<lparr>n1_registry := n1_registry n'\<rparr> \<and> store_le (n1_registry n) (n1_registry n')"

lemma store_run_good:
  assumes "good_node E n" "store_run E to_pretty n n'"
  shows "good_node E n' \<and> node1_le n n'"
proof -
  have run: "(store_step E to_pretty (n1_root_key n))\<^sup>*\<^sup>* (n1_registry n) (n1_registry n')"
    and n': "n' = n\<lparr>n1_registry := n1_registry n'\<rparr>"
    using assms(2) by (simp_all add: store_run_def)
  have good: "good_store E (n1_root_key n) (n1_registry n)" using assms(1) by (simp add: good_node_def)
  from n' have same: "n1_root_key n' = n1_root_key n" "mutation_ctx n' 0 = mutation_ctx n 0"
    by (metis node1.select_convs(3) node1.surjective node1.update_convs(1), metis mutation_ctx_fields(3))
  from rs.run_inv [OF run good] rs.run_le [OF run good] n' same assms(1) show ?thesis
    by (simp add: good_node_def node1_le_def)
qed

interpretation n1: forward_system "node1_step E to_pretty dir" "good_node E" node1_le
  for E :: "'x store_deps_scheme" and to_pretty and dir
proof
  fix n n' n''
  assume "good_node E n"
  then have keys: "keys_ok E (mutation_ctx n 0)" by (simp add: good_node_def)
  show "good_node E n'" if "node1_step E to_pretty dir n n'"
    using store_run_good [OF \<open>good_node E n\<close> node1_step_run [OF that keys]] by simp
  show "node1_le n n'" if "node1_step E to_pretty dir n n'"
    using store_run_good [OF \<open>good_node E n\<close> node1_step_run [OF that keys]] by simp
next
  fix n n' n''
  show "node1_le n n" by (simp add: node1_le_def store_le_core)
  show "node1_le n n' \<Longrightarrow> node1_le n' n'' \<Longrightarrow> node1_le n n''"
    unfolding node1_le_def
    by (metis (no_types, lifting) node1.surjective node1.update_convs(1) store_le_trans)
qed

lemma store_run_trans:
  assumes "store_run E to_pretty n n'" "store_run E to_pretty n' n''"
  shows "store_run E to_pretty n n''"
proof -
  have "n' = n\<lparr>n1_registry := n1_registry n'\<rparr>" using assms(1) by (simp add: store_run_def)
  then have key: "n1_root_key n' = n1_root_key n" by (metis node1.select_convs(3) node1.surjective node1.update_convs(1))
  have "n'' = n\<lparr>n1_registry := n1_registry n''\<rparr>"
    using assms by (simp add: store_run_def) (metis node1.surjective node1.update_convs(1))
  moreover have "(store_step E to_pretty (n1_root_key n))\<^sup>*\<^sup>* (n1_registry n) (n1_registry n'')"
    using assms key unfolding store_run_def by (metis rtranclp_trans)
  ultimately show ?thesis by (simp add: store_run_def)
qed

lemma node1_runs:
  assumes "(node1_step E to_pretty dir)\<^sup>*\<^sup>* n n'" "good_node E n"
  shows "store_run E to_pretty n n'"
  using assms(1)
proof (induction rule: rtranclp_induct)
  case (step n' n'')
  with assms have "good_node E n'" by (blast intro: n1.run_inv)
  with step show ?case by (blast intro: store_run_trans node1_step_run dest: good_node_def [THEN iffD1])
qed simp

subsection \<open>Submitting a mutation\<close>

lemma apply_action_db [simp]:
  "apply_action E clock (s\<lparr>rs_db := db\<rparr>) ctx actor action zone = apply_action E clock s ctx actor action zone"
proof -
  have same: "rs_manifests (s\<lparr>rs_db := db\<rparr>) = rs_manifests s" "rs_registries (s\<lparr>rs_db := db\<rparr>) = rs_registries s"
    by simp_all
  show ?thesis
    by (cases action; hypsubst; unfold apply_action.simps apply_publish_def apply_update_registry_pointer_def same; rule refl)
qed

lemma prepare_mutation_db [simp]:
  "prepare_mutation E clock (s\<lparr>rs_db := db\<rparr>) req ctx = prepare_mutation E clock s req ctx"
  by (simp add: prepare_mutation_def target_version_def cong: if_cong)

lemma commit_keeps_nonces:
  "commit_mutation E err db b = (r, db') \<Longrightarrow> t_nonces db' = t_nonces db"
  by (auto simp: commit_mutation_def db_commit_def write_record_tables_def write_zone_pointer_def
      write_snapshot_meta_def Let_def split: option.splits if_splits)

lemma snapshot_keeps_nonces:
  "write_snapshot E to_pretty io s = (r, s') \<Longrightarrow> t_nonces (rs_db s') = t_nonces (rs_db s)"
  by (auto simp: write_snapshot_def create_snapshot_def db_commit_def write_snapshot_meta_def Let_def
      split: option.splits if_splits)

lemma install_keeps_db: "rs_db (snd (install_registry E io s reg)) = rs_db s"
  by (simp add: install_registry_def write_manifest_def split: option.split prod.split sum.split)

lemma apply_keeps_nonces:
  "t_nonces (rs_db (snd (apply_mutation E clock to_pretty io s req ctx))) = t_nonces (rs_db s)"
proof (cases "prepare_mutation E clock s req ctx")
  case (Inr p)
  obtain zone reg event where p: "p = (zone, reg, event)" by (cases p)
  let ?s = "s\<lparr>rs_zone := zone\<rparr>"
  obtain r s1 where inst: "install_registry E io ?s reg = (r, s1)" by (cases "install_registry E io ?s reg")
  then have "rs_db s1 = rs_db s" using install_keeps_db [of E io ?s reg] by simp
  moreover have "t_nonces (rs_db (snd (commit_applied E to_pretty io s req ctx zone reg event))) = t_nonces (rs_db s1)"
    unfolding commit_applied_def inst Let_def
    by (cases r)
       (auto simp: record_mutation_def split: prod.split sum.split
          dest!: commit_keeps_nonces snapshot_keeps_nonces)
  ultimately show ?thesis using Inr p by (simp add: apply_mutation_def)
qed (simp add: apply_mutation_def)

text \<open>The nonce is used up whatever becomes of the mutation.\<close>

definition nonce_valid :: "node1 \<Rightarrow> string \<Rightarrow> int \<Rightarrow> bool" where
  "nonce_valid n nonce now \<longleftrightarrow>
     (case bm_get (t_nonces (rs_db (n1_registry n))) nonce of Some e \<Rightarrow> timestamp now < e | None \<Rightarrow> False)"

lemma consume_nonce_store:
  "store_consume_nonce None (n1_registry n) nonce (timestamp now) = (Inr (nonce_valid n nonce now),
     (n1_registry n)\<lparr>rs_db := (rs_db (n1_registry n))\<lparr>t_nonces :=
       bm_remove nonce (t_nonces (rs_db (n1_registry n)))\<rparr>\<rparr>)"
  by (simp add: store_consume_nonce_def consume_nonce_def db_commit_def nonce_valid_def Let_def)

lemma mutation_status_refuses: "mutation_status e \<in> {400, 403, 404, 409}"
  by (cases e) simp_all

lemma submit_used_nonce:
  assumes "bm_get (t_nonces (rs_db (n1_registry n))) (mr_nonce req) = None"
    and "api_submit E now to_pretty err io req n = (resp, n')"
  shows "fst resp \<in> {409, 500} \<and> same_core (n1_registry n) (n1_registry n')"
proof -
  obtain b s where nonce: "store_consume_nonce err (n1_registry n) (mr_nonce req) (timestamp now) = (b, s)"
    by (cases "store_consume_nonce err (n1_registry n) (mr_nonce req) (timestamp now)")
  have "b \<noteq> Inr True"
    using assms(1) nonce by (cases err) (auto simp: store_consume_nonce_def consume_nonce_def db_commit_def Let_def)
  then have "fst resp \<in> {409, 500} \<and> n' = n\<lparr>n1_registry := s\<rparr>"
    using assms(2) nonce by (cases b) (auto simp: api_submit_def run_mutation_def refusal_def)
  with consume_nonce_ok [OF nonce] show ?thesis by auto
qed

lemma submit_fresh_nonce:
  assumes "nonce_valid n (mr_nonce req) now" and "api_submit E now to_pretty None io req n = (resp, n')"
  obtains r s' where "apply_mutation E now to_pretty io (snd (store_consume_nonce None (n1_registry n)
      (mr_nonce req) (timestamp now))) req (mutation_ctx n now) = (r, s')"
    "n' = n\<lparr>n1_registry := s'\<rparr>" "fst resp = 200 \<longleftrightarrow> is_ok r"
proof -
  let ?s = "snd (store_consume_nonce None (n1_registry n) (mr_nonce req) (timestamp now))"
  obtain r s' where app: "apply_mutation E now to_pretty io ?s req (mutation_ctx n now) = (r, s')"
    by (cases "apply_mutation E now to_pretty io ?s req (mutation_ctx n now)")
  have status: "mutation_status e \<noteq> 200" for e using mutation_status_refuses [of e] by auto
  obtain resp' where req: "apply_request E now to_pretty io n req ?s = (resp', s')"
    using apply_request_store [of E now to_pretty io n req ?s] app
    by (cases "apply_request E now to_pretty io n req ?s") simp
  then have "api_submit E now to_pretty None io req n = (resp', n\<lparr>n1_registry := s'\<rparr>)"
    using assms(1) by (simp add: api_submit_def run_mutation_def consume_nonce_store)
  with assms(2) have "resp' = resp" "n' = n\<lparr>n1_registry := s'\<rparr>" by simp_all
  moreover have "fst resp' = 200 \<longleftrightarrow> is_ok r"
    using req unfolding apply_request_def app by (cases r) (auto simp: refusal_def status)
  ultimately show ?thesis using that app by blast
qed

lemma submitted_nonce_gone:
  assumes "api_submit E now to_pretty None io req n = (resp, n')"
  shows "bm_get (t_nonces (rs_db (n1_registry n'))) (mr_nonce req) = None"
proof (cases "nonce_valid n (mr_nonce req) now")
  case True
  let ?s = "snd (store_consume_nonce None (n1_registry n) (mr_nonce req) (timestamp now))"
  from submit_fresh_nonce [OF True assms] obtain r s' where
    app: "apply_mutation E now to_pretty io ?s req (mutation_ctx n now) = (r, s')"
    and n': "n' = n\<lparr>n1_registry := s'\<rparr>" by blast
  have "t_nonces (rs_db s') = t_nonces (rs_db ?s)"
    using apply_keeps_nonces [of E now to_pretty io ?s req "mutation_ctx n now"] unfolding app by simp
  then show ?thesis by (simp add: n' consume_nonce_store map_simps)
next
  case False
  with assms show ?thesis by (auto simp: api_submit_def run_mutation_def consume_nonce_store map_simps)
qed


subsection \<open>What the node hands out\<close>

lemma good_node_store:
  assumes "good_node E n"
  shows "serde_ok E" "store_ok E (node_id E (n1_root_key n)) (n1_registry n)"
    "memory_ok E (node_id E (n1_root_key n)) (n1_registry n)"
    "zone_ok E (node_id E (n1_root_key n)) (rs_zone (n1_registry n))" "manifests_ok E (n1_registry n)"
  using assms by (simp_all add: good_node_def good_store_def store_ok_def memory_ok_def)

lemma kept_manifest_verifies:
  assumes "manifests_ok E s" "bm_get (rs_manifests s) h = Some bs"
  shows "hash_bytes E bs = h"
  using assms by (auto simp: manifests_ok_def load_manifests_filter dest!: bm_get_in_set)

lemma kept_registry_verifies:
  assumes "memory_ok E k s" "bm_get (rs_registries s) tld = Some (bs, g)"
  shows "from_slice (x_registry E) bs = Some g \<and>
    (\<exists>tr. root_zone_lookup_tld (rs_zone s) tld = Some tr \<and>
       tld_registry_verify E g tld (tr_operator_public_key tr) = Inr ())"
  using assms by (fastforce simp: memory_ok_def registries_ok_def root_zone_lookup_tld_def dest: bm_get_in_set)

lemma find_map_Some: "find_map f xs = Some y \<Longrightarrow> \<exists>x \<in> set xs. f x = Some y"
  by (induction xs) (auto split: option.splits)

lemma looked_up_domain:
  assumes mem: "memory_ok E k s" and look: "lookup_domain s name = Some rec"
  shows "dr_domain rec = name \<and> (\<exists>tr. root_zone_lookup_tld (rs_zone s) (dr_tld rec) = Some tr \<and>
    (domain_record_verify E rec (tr_operator_public_key tr) = Inr () \<or>
     (\<exists>bs g. store_registry s (dr_tld rec) = Some (bs, g) \<and> tld_registry_lookup g name = Some rec \<and>
        tld_registry_verify E g (dr_tld rec) (tr_operator_public_key tr) = Inr ())))"
proof (cases "root_zone_lookup (rs_zone s) name")
  case (Some r)
  with look have "bm_get (rz_domains (rs_zone s)) name = Some rec" by (simp add: lookup_domain_def root_zone_lookup_def)
  moreover have "zone_ok E k (rs_zone s)" using mem by (simp add: memory_ok_def)
  ultimately have "domain_entry_ok E (rz_tlds (rs_zone s)) (name, rec)"
    by (auto simp: zone_ok_def intro: entries_ok_domain_entry)
  then show ?thesis by (auto simp: domain_entry_ok_def root_zone_lookup_tld_def)
next
  case None
  with look obtain bs g where g: "(bs, g) \<in> set (bm_values (rs_registries s))" "tld_registry_lookup g name = Some rec"
    by (auto simp: lookup_domain_def dest!: find_map_Some)
  have regs: "registries_ok E (rz_tlds (rs_zone s)) (rs_registries s)" using mem by (simp add: memory_ok_def)
  from g(1) obtain t where t: "(t, bs, g) \<in> set (rs_registries s)" by (auto simp: bm_values_def)
  with regs obtain tr where tr: "bm_get (rz_tlds (rs_zone s)) t = Some tr"
      "tld_registry_verify E g t (tr_operator_public_key tr) = Inr ()" by (fastforce simp: registries_ok_def)
  have "bm_get (rs_registries s) t = Some (bs, g)"
    using regs t by (simp add: registries_ok_def bm_get_def bm_sorted_distinct)
  moreover have "dr_tld rec = t" "dr_domain rec = name"
    using tr(2) g(2) by (auto simp: tld_registry_verify_iff tld_registry_lookup_def dest!: bm_get_in_set)
  ultimately show ?thesis
    using tr g(2) by (auto simp: store_registry_def root_zone_lookup_tld_def)
qed

text \<open>
  C19: Whatever Node 1 hands out over the native protocol can be checked by its receiver. The zone verifies
  under the root key; manifests and blocks hash to the address asked for, whatever has become of the files;
  a TLD registry verifies under the operator key of the TLD's record in that zone; a domain record carries
  the name asked for and is either signed by the operator of its TLD or comes from such a registry.
\<close>

theorem node1_serves_only_verified:
  assumes "good_node E n" and "node1_native E n request = reply"
  shows "(\<forall>bs. reply = RootMsg bs \<longrightarrow> (\<exists>zone. from_slice (x_zone E) bs = Some zone \<and>
      root_zone_verify E zone (node_id E (n1_root_key n)) = Inr ())) \<and>
    (\<forall>h bs. reply = ManifestMsg h bs \<longrightarrow> request = GetManifest h \<and> hash_bytes E bs = h) \<and>
    (\<forall>h bs. reply = BlockMsg h bs \<longrightarrow> request = GetBlock h \<and> storage_verify E bs h = Inr ()) \<and>
    (\<forall>tld bs. reply = TldRegistryMsg tld bs \<longrightarrow> request = GetTldRegistry tld \<and>
      (\<exists>g tr. from_slice (x_registry E) bs = Some g \<and>
         root_zone_lookup_tld (rs_zone (n1_registry n)) tld = Some tr \<and>
         tld_registry_verify E g tld (tr_operator_public_key tr) = Inr ())) \<and>
    (\<forall>name bs. reply = DomainRecordMsg name bs \<longrightarrow> request = GetDomainRecord name \<and>
      (\<exists>rec tr. bs = to_vec (x_domain E) rec \<and> dr_domain rec = name \<and>
         root_zone_lookup_tld (rs_zone (n1_registry n)) (dr_tld rec) = Some tr \<and>
         (domain_record_verify E rec (tr_operator_public_key tr) = Inr () \<or>
          (\<exists>bs' g. store_registry (n1_registry n) (dr_tld rec) = Some (bs', g) \<and>
             tld_registry_lookup g name = Some rec \<and>
             tld_registry_verify E g (dr_tld rec) (tr_operator_public_key tr) = Inr ()))))"
proof -
  note ok = good_node_store [OF assms(1)]
  have zone: "from_slice (x_zone E) (to_vec (x_zone E) (rs_zone (n1_registry n))) = Some (rs_zone (n1_registry n))"
    using ok(1) zone_ok_wf [OF ok(4)] by (simp add: serde_ok_def codec_ok_def)
  show ?thesis
  proof (intro conjI allI impI)
    fix bs assume "reply = RootMsg bs"
    with assms(2) have "bs = to_vec (x_zone E) (rs_zone (n1_registry n))"
      by (cases request) (auto simp: not_found_def split: option.splits)
    with zone zone_ok_verify [OF ok(4)]
    show "\<exists>zone. from_slice (x_zone E) bs = Some zone \<and> root_zone_verify E zone (node_id E (n1_root_key n)) = Inr ()"
      by blast
  next
    fix h bs assume "reply = ManifestMsg h bs"
    with assms(2) have "request = GetManifest h \<and> bm_get (rs_manifests (n1_registry n)) h = Some bs"
      by (cases request) (auto simp: not_found_def store_get_manifest_def split: option.splits)
    with kept_manifest_verifies [OF ok(5)] show "request = GetManifest h" "hash_bytes E bs = h" by auto
  next
    fix h bs assume "reply = BlockMsg h bs"
    with assms(2) have "request = GetBlock h \<and> block_store_get E (rs_blocks (n1_registry n)) h = Inr bs"
      by (cases request) (auto simp: not_found_def store_block_def ok_option_eq_Some split: option.splits)
    then show "request = GetBlock h" "storage_verify E bs h = Inr ()" by (auto intro: bs.get_verified)
  next
    fix tld bs assume "reply = TldRegistryMsg tld bs"
    with assms(2) obtain g where "request = GetTldRegistry tld" "bm_get (rs_registries (n1_registry n)) tld = Some (bs, g)"
      by (cases request) (auto simp: not_found_def store_registry_def split: option.splits)
    with kept_registry_verifies [OF ok(3)] show "request = GetTldRegistry tld"
      "\<exists>g tr. from_slice (x_registry E) bs = Some g \<and> root_zone_lookup_tld (rs_zone (n1_registry n)) tld = Some tr \<and>
         tld_registry_verify E g tld (tr_operator_public_key tr) = Inr ()" by blast+
  next
    fix name bs assume "reply = DomainRecordMsg name bs"
    with assms(2) obtain rec where rec: "request = GetDomainRecord name" "bs = to_vec (x_domain E) rec"
        "lookup_domain (n1_registry n) name = Some rec"
      by (cases request) (auto simp: not_found_def split: option.splits)
    then show "request = GetDomainRecord name" by simp
    from looked_up_domain [OF ok(3) rec(3)] rec(2)
    show "\<exists>rec tr. bs = to_vec (x_domain E) rec \<and> dr_domain rec = name \<and>
         root_zone_lookup_tld (rs_zone (n1_registry n)) (dr_tld rec) = Some tr \<and>
         (domain_record_verify E rec (tr_operator_public_key tr) = Inr () \<or>
          (\<exists>bs' g. store_registry (n1_registry n) (dr_tld rec) = Some (bs', g) \<and>
             tld_registry_lookup g name = Some rec \<and>
             tld_registry_verify E g (dr_tld rec) (tr_operator_public_key tr) = Inr ()))" by blast
  qed
qed

subsection \<open>A node's life\<close>

lemma good_node_self_check:
  assumes "good_node E n" "blake3_ok E"
  shows "verify_all E (n1_registry n) (node_id E (n1_root_key n)) = Inr () \<longleftrightarrow>
    (\<forall>(h, len) \<in> set (block_store_list (rs_blocks (n1_registry n))). is_ok (block_store_get E (rs_blocks (n1_registry n)) h))"
  by (rule store_self_check [OF good_node_store(1,2) [OF assms(1)] assms(2)])


subsection \<open>The properties at a concrete node\<close>

text \<open>A node with an empty registry that has just issued the nonce of the sample request.\<close>

definition sample_node1 :: node1 where
  "sample_node1 =
     \<lparr>n1_registry = snd (issue_nonce None sample_store (mr_nonce sample_create) 6),
      n1_blocklists = mc_blocklists sample_context, n1_root_key = sample_identity,
      n1_operator_key = sample_identity, n1_node_id = sample_root, n1_started_at = ''5'',
      n1_native_port = 4077, n1_directory = directory_new None\<rparr>"

lemma sample_node1_fields [simp]:
  "n1_root_key sample_node1 = sample_identity" "mutation_ctx sample_node1 7000000000 = sample_context"
  by (simp_all add: sample_node1_def mutation_ctx_def sample_context_def)

lemma sample_node1_registry:
  obtains db where "n1_registry sample_node1 = sample_store\<lparr>rs_db := db\<rparr>"
    and "bm_get (t_nonces db) (mr_nonce sample_create) = Some 306"
proof -
  let ?db = "(rs_db sample_store)\<lparr>t_nonces := bm_insert (mr_nonce sample_create) 306
    (filter (\<lambda>(k, e). \<not> e < - 294) (t_nonces (rs_db sample_store)))\<rparr>"
  have "n1_registry sample_node1 = sample_store\<lparr>rs_db := ?db\<rparr>"
    by (simp add: sample_node1_def issue_nonce_def reserve_nonce_def db_commit_def Let_def NONCE_TTL_SECS_def)
  moreover have "bm_get (t_nonces ?db) (mr_nonce sample_create) = Some 306" by (simp add: map_simps)
  ultimately show ?thesis by (rule that)
qed

lemma sample_node1_good: "good_node sample_store_deps sample_node1"
proof -
  obtain r where "issue_nonce None sample_store (mr_nonce sample_create) 6 = (r, n1_registry sample_node1)"
    by (cases "issue_nonce None sample_store (mr_nonce sample_create) 6") (simp add: sample_node1_def)
  from store_step_ok [OF sample_serde_ok sample_store_ok(1) step_issue [OF this]]
  have "store_ok sample_store_deps sample_root (n1_registry sample_node1)" by simp
  moreover have "keys_ok sample_store_deps (mutation_ctx sample_node1 0)"
    using sample_keys_ok by (simp add: keys_ok_def mutation_ctx_def sample_node1_def)
  ultimately show ?thesis by (simp add: good_node_def good_store_def sample_serde_ok)
qed

lemma sample_node1_prepares:
  "is_ok (prepare_mutation sample_store_deps 7000000000 (n1_registry sample_node1) sample_create sample_context)"
proof (cases "prepare_mutation sample_store_deps 7000000000 sample_store sample_create sample_context")
  case (Inl e)
  with sample_created_ok(1) show ?thesis by (simp add: apply_mutation_def)
next
  case (Inr p)
  with sample_node1_registry show ?thesis by (metis is_ok_iff prepare_mutation_db)
qed

abbreviation sample_submit :: "mutation_request \<Rightarrow> node1 \<Rightarrow> json_response \<times> node1" where
  "sample_submit req n \<equiv> api_submit sample_store_deps 7000000000 sample_pretty None io_ok req n"



theorem node1_serves_only_verified_witness:
  "\<exists>bs zone. node1_native sample_store_deps sample_node1 GetRoot = RootMsg bs \<and>
     from_slice (x_zone sample_store_deps) bs = Some zone \<and>
     root_zone_verify sample_store_deps zone sample_root = Inr ()"
  using node1_serves_only_verified [OF sample_node1_good refl, of GetRoot] by simp

end
