(* ===== verification/Node_Runtime.thy ===== *)
theory Node_Runtime
  imports Directory_Signed Directory_Api
begin

text \<open>
  \<open>crates/federate-node/src/lib.rs\<close>: what every daemon shares, its configuration, identity, signed
  registration and health API; and \<open>crates/federate-bootstrap/src/lib.rs\<close>: how new nodes find others.
  The TOML and JSON parsers, the OS data directory and the network are parameters.
\<close>

subsection \<open>Configuration\<close>

definition NODE_VERSION :: string where
  "NODE_VERSION = ''0.1.0''"

record node_section =
  ns_roles :: "node_role list"
  ns_region :: string
  ns_public_ip :: string
  ns_listen :: string
  ns_dns_listen :: string
  ns_native_listen :: string
  ns_registry_files :: "string list"
  ns_data_dir :: "string option"

record network_section =
  nw_bootstrap :: string
  nw_directory :: "string option"
  nw_root_key :: "string option"
  nw_native_providers :: "string list"
  nw_upstream_dns :: string

record node_config =
  nc_node :: node_section
  nc_network :: network_section
  nc_capacity :: node_capacity

definition default_http_listen :: string where
  "default_http_listen = ''0.0.0.0:8080''"

definition default_dns_listen :: string where
  "default_dns_listen = ''0.0.0.0:5353''"

definition default_native_listen :: string where
  "default_native_listen = ''0.0.0.0:4077''"

definition default_upstream_dns :: string where
  "default_upstream_dns = ''1.1.1.1:53''"

text \<open>\<open>file\<close> is the text of the file, if it could be read; \<open>toml\<close> is the parser.\<close>

definition node_config_load ::
  "(string \<Rightarrow> string + node_config) \<Rightarrow> string \<Rightarrow> string option \<Rightarrow> node_config result" where
  "node_config_load toml path file =
     and_then (ok_or file Io) (\<lambda>text.
     case toml text of
       Inl e \<Rightarrow> Inl (InvalidRoot (''invalid node config '' @ path @ '': '' @ e))
     | Inr config \<Rightarrow> Inr config)"

definition directory_url :: "node_config \<Rightarrow> string" where
  "directory_url c =
     (case nw_directory (nc_network c) of Some url \<Rightarrow> url | None \<Rightarrow> nw_bootstrap (nc_network c))"

definition node_data_dir :: "string option \<Rightarrow> node_config \<Rightarrow> string" where
  "node_data_dir os_data_dir c =
     (case ns_data_dir (nc_node c) of
        Some dir \<Rightarrow> dir
      | None \<Rightarrow> (case os_data_dir of Some d \<Rightarrow> d | None \<Rightarrow> ''.'') @ ''/federate-node'')"

subsection \<open>The runtime\<close>

record node_runtime =
  rt_config :: node_config
  rt_identity :: node_identity
  rt_started_at :: string

text \<open>
  \<open>made\<close>: whether the data directory could be made; then as for \<open>load_or_create\<close>.
\<close>

definition runtime_new ::
  "'x deps_scheme \<Rightarrow> int \<Rightarrow> node_config \<Rightarrow> bool \<Rightarrow> bytes result option \<Rightarrow> bytes \<Rightarrow> bool
     \<Rightarrow> (node_runtime \<times> bytes) result" where
  "runtime_new E clock config made key_file generated written =
     (if \<not> made then Inl Io
      else and_then (load_or_create key_file generated written) (\<lambda>(identity, file).
        Inr (\<lparr>rt_config = config, rt_identity = identity, rt_started_at = x_to_rfc3339 E clock\<rparr>, file)))"

definition runtime_node_id :: "'x deps_scheme \<Rightarrow> node_runtime \<Rightarrow> string" where
  "runtime_node_id E rt = node_id E (rt_identity rt)"

text \<open>\<open>str::parse::<u16>()\<close>.\<close>

definition parse_u16 :: "string \<Rightarrow> u16 option" where
  "parse_u16 s = (case parse_u64 s of Some n \<Rightarrow> if n < 2 ^ 16 then Some (of_nat n) else None | None \<Rightarrow> None)"

definition health_base :: "string \<Rightarrow> string \<Rightarrow> string" where
  "health_base ip listen =
     (let port = rsplit_first (CHR '':'') listen;
          host = (if contains_char ip (CHR '':'') then ''['' @ ip @ '']'' else ip)
      in ''http://'' @ host @ '':'' @ port)"

definition build_registration :: "'x deps_scheme \<Rightarrow> int \<Rightarrow> node_runtime \<Rightarrow> node_registration" where
  "build_registration E clock rt =
     (let node = nc_node (rt_config rt);
          reg = \<lparr>nr_node_id = runtime_node_id E rt, nr_public_key = runtime_node_id E rt,
            nr_roles = ns_roles node, nr_public_ips = [ns_public_ip node], nr_region = ns_region node,
            nr_version = NODE_VERSION, nr_capacity = nc_capacity (rt_config rt),
            nr_health_endpoint = health_base (ns_public_ip node) (ns_listen node),
            nr_native_port = parse_u16 (rsplit_first (CHR '':'') (ns_native_listen node)),
            nr_registered_at = x_to_rfc3339 E clock, nr_signature_algorithm = ''ed25519'', nr_signature = None\<rparr>
      in reg\<lparr>nr_signature := Some (sign E (rt_identity rt) (registration_signable_bytes E reg))\<rparr>)"

text \<open>One round of \<open>registration_loop\<close>, which repeats it for ever and only logs the result.\<close>

definition register_once :: "'x deps_scheme \<Rightarrow> directory_client_deps \<Rightarrow> int \<Rightarrow> node_runtime \<Rightarrow> unit result" where
  "register_once E C clock rt =
     client_register C (client_new (directory_url (rt_config rt))) (build_registration E clock rt)"

definition roles_json :: "node_config \<Rightarrow> json" where
  "roles_json c = JArray (map (\<lambda>r. JString (node_role_as_str r)) (ns_roles (nc_node c)))"

definition runtime_status :: "'x deps_scheme \<Rightarrow> node_runtime \<Rightarrow> json" where
  "runtime_status E rt =
     (let c = rt_config rt in json_obj
       [(''node_id'', JString (runtime_node_id E rt)), (''roles'', roles_json c),
        (''region'', JString (ns_region (nc_node c))), (''version'', JString NODE_VERSION),
        (''started_at'', JString (rt_started_at rt)), (''capacity'', capacity_json (nc_capacity c)),
        (''bootstrap'', JString (nw_bootstrap (nc_network c))), (''directory'', JString (directory_url c))])"

definition runtime_roles :: "node_runtime \<Rightarrow> json" where
  "runtime_roles rt = json_obj [(''roles'', roles_json (rt_config rt))]"

subsection \<open>Bootstrap\<close>

record bootstrap_info =
  bi_network :: string
  bi_root_public_key :: string
  bi_root_version :: nat
  bi_root_url :: string
  bi_native_port :: "u16 option"
  bi_native_nodes :: "string list"
  bi_root_mirrors :: "string list"
  bi_dns_nodes :: "string list"
  bi_gateway_nodes :: "string list"
  bi_directory_nodes :: "string list"
  bi_bootstrap_nodes :: "string list"

definition bootstrap_host :: "string \<Rightarrow> string option" where
  "bootstrap_host url =
     Option.bind (case strip_prefix ''http://'' url of Some rest \<Rightarrow> Some rest
       | None \<Rightarrow> strip_prefix ''https://'' url) (\<lambda>rest.
     let authority = split_first (CHR ''/'') rest in
     if authority = [] then None
     else
       Option.bind
         (if starts_with authority (CHR ''['')
          then (if contains_char authority (CHR '']'')
                then Some (takeWhile (\<lambda>c. c \<noteq> CHR '']'') authority @ '']'') else None)
          else Some (split_first (CHR '':'') authority)) (\<lambda>host.
       if host = [] then None else Some host))"

definition native_providers :: "bootstrap_info \<Rightarrow> string \<Rightarrow> string list" where
  "native_providers info bootstrap_url =
     foldl (\<lambda>out node. if node \<noteq> [] \<and> node \<notin> set out then out @ [node] else out)
       (case (bi_native_port info, bootstrap_host bootstrap_url) of
          (Some port, Some host) \<Rightarrow> [host @ '':'' @ show_nat (unat port)]
        | _ \<Rightarrow> [])
       (bi_native_nodes info)"

text \<open>\<open>get\<close> sends a GET and gives the body of the answer; \<open>read_info\<close> is the JSON reader.\<close>

definition bootstrap_fetch ::
  "(string \<Rightarrow> string + bytes) \<Rightarrow> (bytes \<Rightarrow> string + bootstrap_info) \<Rightarrow> string \<Rightarrow> bootstrap_info result" where
  "bootstrap_fetch get read_info base =
     (case get (trim_end_matches (CHR ''/'') base @ ''/v1/bootstrap'') of
        Inl e \<Rightarrow> Inl (NetworkError e)
      | Inr body \<Rightarrow> (case read_info body of Inl e \<Rightarrow> Inl (NetworkError e) | Inr info \<Rightarrow> Inr info))"

fun bootstrap_discover ::
  "(string \<Rightarrow> string + bytes) \<Rightarrow> (bytes \<Rightarrow> string + bootstrap_info) \<Rightarrow> string list \<Rightarrow> bootstrap_info result" where
  "bootstrap_discover get read_info [] = Inl (NetworkError ''no bootstrap node reachable'')"
| "bootstrap_discover get read_info (url # urls) =
     (case bootstrap_fetch get read_info url of
        Inr info \<Rightarrow> Inr info
      | Inl _ \<Rightarrow> bootstrap_discover get read_info urls)"

end
