(* ===== verification/Node_Properties.thy ===== *)
theory Node_Properties
  imports Node_Runtime Directory_Properties
begin

text \<open>
  What a configured node registers is what the directory accepts; and what a client makes of a
  bootstrap answer.
\<close>

subsection \<open>Registrations\<close>

lemma health_base_host:
  assumes "parse_ip ip = Some a"
  shows "health_endpoint_host (health_base ip listen) = Some ip"
proof -
  have ip: "\<forall>c \<in> set ip. c \<notin> set ''[]@/?#''"
    using parse_ip_chars [OF assms] ip_char_not_delimiter by (auto simp: list_all_iff)
  have "parse_ip [] = None" by code_simp
  with assms have ne: "ip \<noteq> []" by auto
  let ?port = "rsplit_first (CHR '':'') listen"
  let ?cut = "takeWhile (\<lambda>x. x \<noteq> CHR ''/'') ?port"
  show ?thesis
  proof (cases "CHR '':'' \<in> set ip")
    case True
    have base: "health_base ip listen = ''http://'' @ (''['' @ ip @ '']'') @ '':'' @ ?port"
      using True by (simp add: health_base_def Let_def contains_char_def)
    have "split_first (CHR ''/'') ((''['' @ ip @ '']'') @ '':'' @ ?port) = ''['' @ ip @ CHR '']'' # '':'' @ ?cut"
      using ip by (simp add: split_first_def takeWhile_append)
    moreover have "authority_host (''['' @ ip @ CHR '']'' # '':'' @ ?cut) = ip"
      using ip unfolding authority_host_def strip_prefix_append by (auto intro: split_first_sep)
    ultimately show ?thesis
      unfolding health_endpoint_host_def base strip_prefix_append using ne by (simp add: Let_def)
  next
    case False
    then have no: "strip_prefix ''['' (ip @ CHR '':'' # ?cut) = None"
      using ip ne by (cases ip) (auto simp: strip_prefix_def)
    have base: "health_base ip listen = ''http://'' @ ip @ '':'' @ ?port"
      using False by (simp add: health_base_def Let_def contains_char_def)
    have "split_first (CHR ''/'') (ip @ '':'' @ ?port) = ip @ CHR '':'' # ?cut"
      using ip by (auto simp: split_first_def takeWhile_append)
    moreover have "authority_host (ip @ CHR '':'' # ?cut) = ip"
      unfolding authority_host_def no using False by (simp add: split_first_sep)
    ultimately show ?thesis
      unfolding health_endpoint_host_def base strip_prefix_append using ne by (simp add: Let_def)
  qed
qed

lemma built_registration_verifies:
  assumes "hex_ok E" "ed25519_ok E" "length (signing_key (rt_identity rt)) = 32"
  shows "registration_verify E (build_registration E clock rt) = Inr () \<longleftrightarrow>
    ns_roles (nc_node (rt_config rt)) \<noteq> [] \<and> parse_ip (ns_public_ip (nc_node (rt_config rt))) \<noteq> None"
proof -
  let ?r = "build_registration E clock rt" and ?node = "nc_node (rt_config rt)"
  have fields: "nr_node_id ?r = node_id E (rt_identity rt)" "nr_public_key ?r = node_id E (rt_identity rt)"
    "nr_roles ?r = ns_roles ?node" "nr_public_ips ?r = [ns_public_ip ?node]"
    "nr_health_endpoint ?r = health_base (ns_public_ip ?node) (ns_listen ?node)"
    by (simp_all add: build_registration_def Let_def runtime_node_id_def)
  define d where "d = ?r\<lparr>nr_signature := None\<rparr>"
  have "?r = d\<lparr>nr_signature := Some (sign E (rt_identity rt) (registration_signable_bytes E d))\<rparr>"
    by (simp add: d_def build_registration_def Let_def)
  from reg.sealed_checks [OF assms this]
  have "signature_check E (node_id E (rt_identity rt)) (registration_signable_bytes E ?r) (nr_signature ?r)" .
  then show ?thesis
    using health_base_host [of "ns_public_ip ?node" _ "ns_listen ?node"]
    by (auto simp: registration_verify_iff fields)
qed

text \<open>
  A configured node is accepted by the directory. The registration a node builds verifies exactly
  when its configuration names a role and a valid public IP address (of either family, whatever the
  listen address looks like); and then a directory with room takes it, shows the node online under its
  own key, and offers its native port at that address.
\<close>

lemma node_registration_accepted:
  assumes "hex_ok E" "ed25519_ok E" "length (signing_key (rt_identity rt)) = 32"
  shows "(registration_verify E (build_registration E clock rt) = Inr () \<longleftrightarrow>
      ns_roles (nc_node (rt_config rt)) \<noteq> [] \<and> parse_ip (ns_public_ip (nc_node (rt_config rt))) \<noteq> None) \<and>
    (ns_roles (nc_node (rt_config rt)) \<noteq> [] \<longrightarrow> RootAuthority \<notin> set (ns_roles (nc_node (rt_config rt))) \<longrightarrow>
     parse_ip (ns_public_ip (nc_node (rt_config rt))) = Some ip \<longrightarrow> length (d_nodes d) < 5000 \<longrightarrow>
       (\<exists>d' e. register_node E now written (build_registration E clock rt) d = (Inr (), d') \<and>
          directory_get (runtime_node_id E rt) d' = Some e \<and> ne_status e = Online \<and>
          ne_registration e = build_registration E clock rt \<and>
          native_addr e = map_option (Pair ip) (parse_u16 (rsplit_first (CHR '':'')
            (ns_native_listen (nc_node (rt_config rt)))))))"
proof (intro conjI impI)
  let ?r = "build_registration E clock rt" and ?node = "nc_node (rt_config rt)"
  show "registration_verify E ?r = Inr () \<longleftrightarrow> ns_roles ?node \<noteq> [] \<and> parse_ip (ns_public_ip ?node) \<noteq> None"
    by (rule built_registration_verifies [OF assms])
  assume roles: "ns_roles ?node \<noteq> []" "RootAuthority \<notin> set (ns_roles ?node)"
    and ip: "parse_ip (ns_public_ip ?node) = Some ip" and room: "length (d_nodes d) < 5000"
  have verified: "registration_verify E ?r = Inr ()"
    using built_registration_verifies [OF assms] roles ip by simp
  have fields: "nr_node_id ?r = runtime_node_id E rt" "nr_roles ?r = ns_roles ?node"
    "registration_ips ?r = [ip]"
    "nr_native_port ?r = parse_u16 (rsplit_first (CHR '':'') (ns_native_listen ?node))"
    using ip by (simp_all add: build_registration_def Let_def runtime_node_id_def registration_ips_def List.map_filter_simps)
  obtain e where "register_node E now written ?r d =
        (Inr (), persist_nodes E written (d\<lparr>d_nodes := bm_insert (runtime_node_id E rt) e (d_nodes d)\<rparr>))"
      and "ne_registration e = ?r" "ne_status e = Online"
    using verified roles room fields by (fastforce simp: register_node_def Let_def MAX_NODES_def)
  then show "\<exists>d' e. register_node E now written ?r d = (Inr (), d') \<and>
      directory_get (runtime_node_id E rt) d' = Some e \<and> ne_status e = Online \<and> ne_registration e = ?r \<and>
      native_addr e = map_option (Pair ip) (parse_u16 (rsplit_first (CHR '':'') (ns_native_listen ?node)))"
    using fields by (cases "parse_u16 (rsplit_first (CHR '':'') (ns_native_listen ?node))")
      (auto simp: directory_get_def map_simps native_addr_def)
qed

subsection \<open>Bootstrap answers\<close>

text \<open>No address twice, no empty one, and the answering node's own first.\<close>

lemma native_providers_distinct:
  "distinct (native_providers info url) \<and> [] \<notin> set (native_providers info url)"
proof -
  let ?step = "\<lambda>out node. if node \<noteq> [] \<and> node \<notin> set out then out @ [node] else out"
  have "distinct out \<Longrightarrow> [] \<notin> set out \<Longrightarrow> distinct (foldl ?step out nodes) \<and> [] \<notin> set (foldl ?step out nodes)"
    for out and nodes :: "string list"
    by (induction nodes arbitrary: out) auto
  then show ?thesis
    unfolding native_providers_def by (auto split: option.split)
qed

text \<open>Discovery gives the answer of the first node that answers well.\<close>

lemma bootstrap_discover_first:
  "bootstrap_discover get read_info urls = Inr info \<longleftrightarrow>
     (\<exists>pre url post. urls = pre @ url # post \<and> bootstrap_fetch get read_info url = Inr info \<and>
        (\<forall>u \<in> set pre. \<not> is_ok (bootstrap_fetch get read_info u)))"
proof (induction urls)
  case (Cons url urls)
  show ?case
  proof (cases "bootstrap_fetch get read_info url")
    case (Inl e)
    have "(\<exists>pre u post. url # urls = pre @ u # post \<and> bootstrap_fetch get read_info u = Inr info \<and>
        (\<forall>v \<in> set pre. \<not> is_ok (bootstrap_fetch get read_info v))) \<longleftrightarrow>
      (\<exists>pre u post. urls = pre @ u # post \<and> bootstrap_fetch get read_info u = Inr info \<and>
        (\<forall>v \<in> set pre. \<not> is_ok (bootstrap_fetch get read_info v)))" (is "?L \<longleftrightarrow> ?R")
    proof
      assume ?L
      then obtain pre u post where p: "url # urls = pre @ u # post" "bootstrap_fetch get read_info u = Inr info"
        "\<forall>v \<in> set pre. \<not> is_ok (bootstrap_fetch get read_info v)" by blast
      with Inl show ?R by (cases pre) auto
    next
      assume ?R
      then obtain pre u post where "urls = pre @ u # post" "bootstrap_fetch get read_info u = Inr info"
        "\<forall>v \<in> set pre. \<not> is_ok (bootstrap_fetch get read_info v)" by blast
      with Inl show ?L by (intro exI [of _ "url # pre"] exI [of _ u] exI [of _ post]) (auto simp: is_ok_iff)
    qed
    with Cons.IH Inl show ?thesis by simp
  next
    case (Inr i)
    then have "(\<exists>pre u post. url # urls = pre @ u # post \<and> bootstrap_fetch get read_info u = Inr info \<and>
        (\<forall>v \<in> set pre. \<not> is_ok (bootstrap_fetch get read_info v))) \<longleftrightarrow> i = info" (is "?L \<longleftrightarrow> _")
    proof -
      have "?L \<Longrightarrow> i = info"
      proof -
        assume ?L
        then obtain pre u post where p: "url # urls = pre @ u # post" "bootstrap_fetch get read_info u = Inr info"
          "\<forall>v \<in> set pre. \<not> is_ok (bootstrap_fetch get read_info v)" by blast
        with Inr show "i = info" by (cases pre) (auto simp: is_ok_iff)
      qed
      moreover have "i = info \<Longrightarrow> ?L" using Inr by (intro exI [of _ "[]"] exI [of _ url] exI [of _ urls]) auto
      ultimately show ?thesis by blast
    qed
    with Inr show ?thesis by simp
  qed
qed simp

subsection \<open>The properties at concrete inputs\<close>

definition sample_runtime :: node_runtime where
  "sample_runtime =
     \<lparr>rt_config = \<lparr>nc_node = \<lparr>ns_roles = [RoleGateway], ns_region = ''br-sp'', ns_public_ip = ''2001:db8::1'',
        ns_listen = default_http_listen, ns_dns_listen = default_dns_listen,
        ns_native_listen = default_native_listen, ns_registry_files = [], ns_data_dir = None\<rparr>,
        nc_network = \<lparr>nw_bootstrap = ''https://federate.network'', nw_directory = None, nw_root_key = None,
          nw_native_providers = [], nw_upstream_dns = default_upstream_dns\<rparr>,
        nc_capacity = \<lparr>storage_gb = 0, bandwidth_mbps = 0\<rparr>\<rparr>,
      rt_identity = sample_identity, rt_started_at = ''1''\<rparr>"

lemma node_registration_accepted_witness:
  "\<exists>d' e ip. register_node sample_directory_deps 2 True (build_registration sample_directory_deps 1 sample_runtime)
       (directory_new None) = (Inr (), d') \<and>
     directory_get sample_node d' = Some e \<and> ne_status e = Online \<and> native_addr e = Some (ip, 4077)"
proof -
  let ?E = sample_directory_deps
  have ip: "\<not> Option.is_none (parse_ip ''2001:db8::1'')" by code_simp
  then obtain ip where ip: "parse_ip ''2001:db8::1'' = Some ip" by (auto simp: Option.is_none_def)
  have port: "parse_u16 (rsplit_first (CHR '':'') default_native_listen) = Some 4077" by code_simp
  have "length (signing_key (rt_identity sample_runtime)) = 32"
    by (simp add: sample_runtime_def length_sample_identity)
  from node_registration_accepted [OF sample_directory_ok(1,2) this, where d = "directory_new None" and ip = ip
      and clock = 1 and now = 2 and written = True] ip port
  show ?thesis by (auto simp: sample_runtime_def directory_new_def runtime_node_id_def)
qed

end
