(* ===== verification/Noded.thy ===== *)
theory Noded
  imports Node_Runtime Resolution
begin

text \<open>
  \<open>crates/federate-noded/src/main.rs\<close>: the participant node with its roles. Its state is assembled from
  the configuration; the native protocol and the HTTP routes answer from the resolver and the block cache.
  The HTTP gateway, DNS and search roles are the components of their own theories. Not modelled: argument
  parsing, sockets, the timers that repeat the background steps.
\<close>

record noded =
  nd_runtime :: node_runtime
  nd_resolver :: resolver
  nd_cache :: "cdn_cache option"
  nd_fetch_on_miss :: bool
  nd_registries :: "(string, bytes) bmap"

text \<open>
  What a request meets: the clock (for expiry and for the cache, in seconds), whether the cache can write
  a file and save its index, and the order in which a hash map lists its keys.
\<close>

record noded_env =
  ne_clock :: int
  ne_secs :: nat
  ne_write :: "string \<Rightarrow> bool"
  ne_saved :: bool
  ne_hash_iter :: "string list \<Rightarrow> string list"

text \<open>The codecs only this program uses.\<close>

record noded_codecs =
  nx_index :: "cache_index codec"
  nx_domain :: "domain_record codec"

subsection \<open>Start-up\<close>

text \<open>The roles of the command line replace those of the file; the root authority's is refused.\<close>

definition noded_configure :: "node_role list option \<Rightarrow> node_config \<Rightarrow> node_config option" where
  "noded_configure overriding config =
     (let config = (case overriding of
          None \<Rightarrow> config | Some roles \<Rightarrow> config\<lparr>nc_node := (nc_node config)\<lparr>ns_roles := roles\<rparr>\<rparr>)
      in if RootAuthority \<in> set (ns_roles (nc_node config)) then None else Some config)"

text \<open>The cache's capacity in bytes: multiplication wraps, as in the release profile.\<close>

definition cache_limit :: "node_capacity \<Rightarrow> nat" where
  "cache_limit capacity = max (storage_gb capacity) 1 * 1024 * 1024 * 1024 mod 2 ^ 64"

text \<open>\<open>registry_files\<close>: a file that cannot be read or parsed stops the node.\<close>

fun load_local_registries ::
  "(bytes \<Rightarrow> tld_registry option) \<Rightarrow> (string \<Rightarrow> bytes option) \<Rightarrow> string list \<Rightarrow> (string, bytes) bmap
     \<Rightarrow> (string, bytes) bmap result" where
  "load_local_registries reader files [] m = Inr m"
| "load_local_registries reader files (path # paths) m =
     and_then (load_registry_file reader path (files path)) (\<lambda>(bs, registry).
     load_local_registries reader files paths (bm_insert (rg_tld registry) bs m))"

text \<open>
  The resolver with the node's configuration, its zone refreshed once whatever comes of it; the cache of a
  storage or CDN node; the registries to serve. \<open>disk\<close> is what the resolver finds in the data directory.
\<close>

definition noded_start ::
  "'x resolution_deps_scheme \<Rightarrow> noded_codecs \<Rightarrow> node_runtime \<Rightarrow> resolver \<Rightarrow> block_store \<Rightarrow> bytes option
     \<Rightarrow> (string \<Rightarrow> bytes option) \<Rightarrow> noded result" where
  "noded_start E N rt disk cdn_blocks cdn_index files =
     (let config = rt_config rt; network = nc_network config; roles = ns_roles (nc_node config);
          resolver = with_native_providers (nw_native_providers network)
            (with_directory (client_new (directory_url config)) (Some (ns_region (nc_node config)))
              (resolver_new (node_client_new (nw_bootstrap network)) disk (nw_root_key network) (rt_identity rt)));
          (_, resolver) = refresh_root E resolver;
          storage = RoleStorage \<in> set roles; cdn = RoleCdn \<in> set roles
      in and_then (load_local_registries (from_slice (rx_registry E)) files (ns_registry_files (nc_node config)) [])
           (\<lambda>registries.
         Inr \<lparr>nd_runtime = rt, nd_resolver = resolver,
              nd_cache = (if storage \<or> cdn
                then Some (cdn_new (nx_index N) cdn_blocks cdn_index (cache_limit (nc_capacity config))) else None),
              nd_fetch_on_miss = cdn, nd_registries = registries\<rparr>))"

subsection \<open>Blocks\<close>

text \<open>The cache first; a CDN node fetches what it misses and keeps it if it can.\<close>

definition cached_or_fetched ::
  "'x resolution_deps_scheme \<Rightarrow> noded_codecs \<Rightarrow> noded_env \<Rightarrow> string \<Rightarrow> cdn_cache \<Rightarrow> noded \<Rightarrow> bytes option \<times> noded" where
  "cached_or_fetched E N env hash cache n =
     (case cdn_get E (ne_secs env) hash cache of
        (Inr bs, cache) \<Rightarrow> (Some bs, n\<lparr>nd_cache := Some cache\<rparr>)
      | (Inl _, cache) \<Rightarrow>
          if nd_fetch_on_miss n
          then (case load_block E hash (nd_resolver n) of
              (Inr bs, resolver) \<Rightarrow>
                (Some bs, n\<lparr>nd_resolver := resolver, nd_cache := Some (snd (cdn_put E (nx_index N)
                   (ne_hash_iter env) (ne_write env) (ne_saved env) (ne_secs env) hash bs cache))\<rparr>)
            | (Inl _, resolver) \<Rightarrow> (None, n\<lparr>nd_resolver := resolver\<rparr>))
          else (None, n))"

subsection \<open>The native protocol\<close>

definition noded_agent :: string where
  "noded_agent = ''federate-noded/'' @ NODE_VERSION"

definition noded_capabilities :: "noded \<Rightarrow> capability list" where
  "noded_capabilities n =
     [CapRoot, CapManifests, CapTldRegistries] @ (case nd_cache n of None \<Rightarrow> [] | Some _ \<Rightarrow> [CapBlocks])"

definition on_resolver :: "(resolver \<Rightarrow> 'a result \<times> resolver) \<Rightarrow> ('a result \<Rightarrow> message) \<Rightarrow> noded \<Rightarrow> message \<times> noded" where
  "on_resolver m answer n = (case m (nd_resolver n) of (r, s) \<Rightarrow> (answer r, n\<lparr>nd_resolver := s\<rparr>))"

fun noded_native ::
  "'x resolution_deps_scheme \<Rightarrow> noded_codecs \<Rightarrow> noded_env \<Rightarrow> message \<Rightarrow> noded \<Rightarrow> message \<times> noded" where
  "noded_native E N env GetRoot n =
     on_resolver (current_root E) (\<lambda>r. case r of
         Inr zone \<Rightarrow> RootMsg (to_vec (rx_zone E) zone)
       | Inl e \<Rightarrow> ErrorMsg Unavailable (''no verified root zone: '' @ error_display e)) n"
| "noded_native E N env (GetManifest hash) n =
     (if \<not> is_valid_hash hash then (ErrorMsg BadRequest ''not a valid content address'', n)
      else on_resolver (manifest_bytes E hash) (\<lambda>r. case r of
           Inr bs \<Rightarrow> ManifestMsg hash bs
         | Inl _ \<Rightarrow> ErrorMsg NotFound ''manifest not available here'') n)"
| "noded_native E N env (GetBlock hash) n =
     (if \<not> is_valid_hash hash then (ErrorMsg BadRequest ''not a valid content address'', n)
      else (case nd_cache n of
          None \<Rightarrow> (ErrorMsg Unsupported ''this node does not serve blocks'', n)
        | Some cache \<Rightarrow>
            (case cached_or_fetched E N env hash cache n of
               (Some bs, n) \<Rightarrow> (BlockMsg hash bs, n)
             | (None, n) \<Rightarrow> (ErrorMsg NotFound ''block not held by this node'', n))))"
| "noded_native E N env (GetTldRegistry tld) n =
     (case bm_get (nd_registries n) tld of
        Some bs \<Rightarrow> (TldRegistryMsg tld bs, n)
      | None \<Rightarrow> on_resolver (tld_registry_by_name E tld) (\<lambda>r. case r of
            Inr registry \<Rightarrow> TldRegistryMsg tld (to_vec (rx_registry E) registry)
          | Inl e \<Rightarrow> ErrorMsg NotFound (''no verified registry for .'' @ tld @ '': '' @ error_display e)) n)"
| "noded_native E N env (GetDomainRecord name) n =
     on_resolver (resolve_domain E (ne_clock env) name) (\<lambda>r. case r of
         Inr record \<Rightarrow> DomainRecordMsg name (to_vec (nx_domain N) record)
       | Inl e \<Rightarrow> ErrorMsg NotFound (name @ '': '' @ error_display e)) n"
| "noded_native E N env GetStatus n =
     on_resolver (current_root E) (\<lambda>r. StatusMsg (runtime_node_id E (nd_runtime n))
       (map node_role_as_str (ns_roles (nc_node (rt_config (nd_runtime n)))))
       (ns_region (nc_node (rt_config (nd_runtime n)))) noded_agent
       (map_option rz_root_version (ok_option r))) n"
| "noded_native E N env _ n =
     (ErrorMsg Unsupported ''this node answers GetRoot, GetManifest, GetBlock, GetTldRegistry, GetDomainRecord, and GetStatus'', n)"

text \<open>The service the transport runs; every request of a session meets the same environment.\<close>

definition noded_service ::
  "'x resolution_deps_scheme \<Rightarrow> noded_codecs \<Rightarrow> noded_env \<Rightarrow> noded \<Rightarrow> noded node_service" where
  "noded_service E N env n =
     \<lparr>ns_node_id = runtime_node_id E (nd_runtime n), ns_capabilities = noded_capabilities n,
      ns_handle = (\<lambda>n m. noded_native E N env m n)\<rparr>"

subsection \<open>The HTTP routes\<close>

definition serve_block ::
  "'x resolution_deps_scheme \<Rightarrow> noded_codecs \<Rightarrow> noded_env \<Rightarrow> string \<Rightarrow> cdn_cache \<Rightarrow> noded
     \<Rightarrow> (nat + (string \<times> string) list \<times> bytes) \<times> noded" where
  "serve_block E N env hash cache n =
     (case cached_or_fetched E N env hash cache n of
        (Some bs, n) \<Rightarrow> (Inr ([(''content-type'', ''application/octet-stream''),
          (''cache-control'', ''public, max-age=31536000, immutable'')], bs), n)
      | (None, n) \<Rightarrow> (Inl 404, n))"

definition serve_root_mirror :: "'x resolution_deps_scheme \<Rightarrow> noded \<Rightarrow> (nat + json) \<times> noded" where
  "serve_root_mirror E n =
     (case current_root E (nd_resolver n) of
        (Inr zone, s) \<Rightarrow> (Inr (root_zone_json zone), n\<lparr>nd_resolver := s\<rparr>)
      | (Inl _, s) \<Rightarrow> (Inl 503, n\<lparr>nd_resolver := s\<rparr>))"

text \<open>\<open>get_json\<close> is the HTTP client's; the answer of the official bootstrap node is passed on.\<close>

definition relay_bootstrap :: "(string \<Rightarrow> json result) \<Rightarrow> noded \<Rightarrow> nat + json" where
  "relay_bootstrap get_json n =
     (case get_json (trim_end_matches (CHR ''/'')
         (nw_bootstrap (nc_network (rt_config (nd_runtime n)))) @ ''/v1/bootstrap'') of
        Inr v \<Rightarrow> Inr v
      | Inl _ \<Rightarrow> Inl 502)"

subsection \<open>Background steps\<close>

text \<open>One round of each loop; the results are only logged.\<close>

definition announce_once ::
  "'x resolution_deps_scheme \<Rightarrow> directory_client_deps \<Rightarrow> noded_env \<Rightarrow> noded \<Rightarrow> unit result" where
  "announce_once E C env n =
     (case nd_cache n of
        None \<Rightarrow> Inr ()
      | Some cache \<Rightarrow>
          (let blocks = cached_hashes (ne_hash_iter env) cache in
           if blocks = [] then Inr ()
           else client_announce E C (ne_clock env) (client_new (directory_url (rt_config (nd_runtime n))))
             (rt_identity (nd_runtime n)) blocks))"

definition mirror_once :: "'x resolution_deps_scheme \<Rightarrow> noded \<Rightarrow> noded" where
  "mirror_once E n = n\<lparr>nd_resolver := snd (refresh_root E (nd_resolver n))\<rparr>"

end
