(* ===== verification/Noded_Properties.thy ===== *)
theory Noded_Properties
  imports Noded Resolution_Sample
begin

text \<open>
  What a participant node promises: it relays only what its resolver or its cache has verified, whoever
  asks and over whichever protocol, and no request weakens the resolver's trust.
\<close>

subsection \<open>Verified results of the resolver\<close>

lemma registry_by_name_result:
  assumes "resolver_inv E s" "zone_reprints E" "tld_registry_by_name E tld s = (Inr registry, s')"
  shows "\<exists>root t. zone_trusted E s' root \<and> root_zone_lookup_tld root tld = Some t \<and> registry_of E t registry"
proof -
  from assms(3) obtain root s1 where r: "current_root E s = (Inr root, s1)"
      "(case root_zone_lookup_tld root tld of None \<Rightarrow> (Inl (TldNotFound tld), s1)
        | Some t \<Rightarrow> resolver_tld_registry E t s1) = (Inr registry, s')"
    by (auto simp: tld_registry_by_name_def try_then_eq_Inr)
  then obtain t where t: "root_zone_lookup_tld root tld = Some t" "resolver_tld_registry E t s1 = (Inr registry, s')"
    by (auto split: option.splits)
  from current_root_ok [OF assms(1,2) r(1)] have "zone_trusted E s1 root" using resolver_invD by blast
  moreover from step_okD [OF resolver_tld_registry_ok t(2)] have "same_root s1 s'" "registry_of E t registry" by auto
  ultimately show ?thesis using t zone_trusted_pins same_root_pins by blast
qed

lemma resolved_record_result:
  assumes "resolver_inv E s" "zone_reprints E" "resolve_domain E clock host s = (Inr record, s')"
  shows "\<exists>domain root t. federate_domain_parse host = Inr domain \<and> zone_trusted E s' root \<and>
    tld_active E clock root (fd_tld domain) t \<and> record_source E root t (fqdn domain) record \<and>
    record_active E clock domain t record"
proof -
  obtain domain where d: "federate_domain_parse host = Inr domain"
    using assms(3) by (auto simp: resolve_domain_def split: sum.splits)
  with assms(3) obtain root s1 where root: "current_root E s = (Inr root, s1)" and
    rest: "(case root_zone_lookup_tld root (fd_tld domain) of
        None \<Rightarrow> (Inl (TldNotFound (fd_tld domain)), s1)
      | Some t \<Rightarrow> if \<not> tld_status_is_resolvable (tr_status t) \<or> tld_record_is_expired E clock t
          then (Inl (TldUnavailable (fd_tld domain) (if tld_record_is_expired E clock t then ''expired''
             else tld_status_as_str (tr_status t))), s1)
          else try_then (locate_record E root t (fqdn domain)) (\<lambda>record s.
            (and_then (domain_record_verify E record (tr_operator_public_key t)) (\<lambda>_.
             if dr_tld record \<noteq> fd_tld domain
             then Inl (VerificationFailed ''domain'' (fqdn domain) ''domain record belongs to a different TLD'')
             else if \<not> domain_status_is_resolvable (dr_status record) \<or> domain_record_is_expired E clock record
             then Inl (TldUnavailable (fd_tld domain) (if domain_record_is_expired E clock record then ''expired''
                else domain_status_as_str (dr_status record)))
             else Inr record), s)) s1) = (Inr record, s')"
    by (auto simp: resolve_domain_def try_then_eq_Inr)
  then obtain t where t: "root_zone_lookup_tld root (fd_tld domain) = Some t"
      "tld_active E clock root (fd_tld domain) t"
    by (auto simp: tld_active_def split: option.splits if_splits)
  with rest obtain rec where rec: "locate_record E root t (fqdn domain) s1 = (Inr rec, s')"
      "record_active E clock domain t rec" "rec = record"
    by (auto simp: tld_active_def try_then_eq_Inr record_active_def and_then_eq_Inr split: if_splits)
  from current_root_ok [OF assms(1,2) root] have "zone_trusted E s1 root" using resolver_invD by blast
  moreover from step_okD [OF locate_record_ok rec(1)] have "same_root s1 s'"
    "record_source E root t (fqdn domain) rec" by auto
  ultimately show ?thesis using d t rec zone_trusted_pins same_root_pins by blast
qed

subsection \<open>The block cache\<close>

lemma cached_or_fetched_ok:
  assumes "cached_or_fetched E N env hash cache n = (r, n')" "resolver_inv E (nd_resolver n)"
  shows "resolver_inv E (nd_resolver n') \<and> no_rollback E (nd_resolver n) (nd_resolver n') \<and>
    (\<forall>bs. r = Some bs \<longrightarrow> verified E hash bs)"
proof -
  obtain x c where g: "cdn_get E (ne_secs env) hash cache = (x, c)" by fastforce
  have got: "\<forall>bs. x = Inr bs \<longrightarrow> verified E hash bs"
    using g by (auto simp: cdn_get_def Let_def dest: block_store_get_verified split: sum.splits)
  obtain y s where l: "load_block E hash (nd_resolver n) = (y, s)" by fastforce
  from step_okD [OF load_block_ok l] have "pins (nd_resolver n) s" and
    "\<forall>bs. y = Inr bs \<longrightarrow> verified E hash bs" using same_root_pins by auto
  then have "resolver_inv E s" "no_rollback E (nd_resolver n) s"
    using assms(2) resolver_inv_pins no_rollback_pins by auto
  with assms g l got \<open>\<forall>bs. y = Inr bs \<longrightarrow> verified E hash bs\<close> show ?thesis
    by (cases x; cases y) (auto simp: cached_or_fetched_def no_rollback_refl split: if_splits)
qed

text \<open>What an answer may be, given the resolver after it.\<close>

definition answer_ok ::
  "'x resolution_deps_scheme \<Rightarrow> noded_codecs \<Rightarrow> noded_env \<Rightarrow> noded \<Rightarrow> resolver \<Rightarrow> message \<Rightarrow> bool" where
  "answer_ok E N env n s reply \<longleftrightarrow>
    (case reply of
       RootMsg bs \<Rightarrow> \<exists>zone. bs = to_vec (rx_zone E) zone \<and> zone_trusted E s zone
     | ManifestMsg h bs \<Rightarrow> verified E h bs
     | BlockMsg h bs \<Rightarrow> verified E h bs
     | TldRegistryMsg tld bs \<Rightarrow> bm_get (nd_registries n) tld = Some bs \<or>
         (\<exists>root t registry. bs = to_vec (rx_registry E) registry \<and> zone_trusted E s root \<and>
            root_zone_lookup_tld root tld = Some t \<and> registry_of E t registry)
     | DomainRecordMsg name bs \<Rightarrow>
         (\<exists>domain root t record. bs = to_vec (nx_domain N) record \<and> federate_domain_parse name = Inr domain \<and>
            zone_trusted E s root \<and> tld_active E (ne_clock env) root (fd_tld domain) t \<and>
            record_source E root t (fqdn domain) record \<and> record_active E (ne_clock env) domain t record)
     | _ \<Rightarrow> True)"

lemma on_resolver_ok:
  assumes "on_resolver m answer n = (reply, n')"
    and "\<And>r s. m (nd_resolver n) = (r, s) \<Longrightarrow> resolver_inv E s \<and> no_rollback E (nd_resolver n) s \<and>
      answer_ok E N env n s (answer r)"
  shows "resolver_inv E (nd_resolver n') \<and> no_rollback E (nd_resolver n) (nd_resolver n') \<and>
    answer_ok E N env n (nd_resolver n') reply"
  using assms(1) assms(2) [OF prod.collapse [symmetric]] by (auto simp: on_resolver_def split: prod.splits)

lemma resolver_frame:
  assumes "resolver_inv E s" "same_root s s'"
  shows "resolver_inv E s' \<and> no_rollback E s s'"
  using assms same_root_pins resolver_inv_pins no_rollback_pins by blast

lemma noded_native_ok:
  assumes inv: "resolver_inv E (nd_resolver n)" and re: "zone_reprints E"
    and run: "noded_native E N env request n = (reply, n')"
  shows "resolver_inv E (nd_resolver n') \<and> no_rollback E (nd_resolver n) (nd_resolver n') \<and>
    answer_ok E N env n (nd_resolver n') reply"
proof (cases request)
  case GetRoot
  show ?thesis
  proof (rule on_resolver_ok [OF run [unfolded GetRoot noded_native.simps]])
    fix r s assume root: "current_root E (nd_resolver n) = (r, s)"
    note ok = current_root_ok [OF inv re root]
    then show "resolver_inv E s \<and> no_rollback E (nd_resolver n) s \<and> answer_ok E N env n s (case r of
         Inr zone \<Rightarrow> RootMsg (to_vec (rx_zone E) zone)
       | Inl e \<Rightarrow> ErrorMsg Unavailable (''no verified root zone: '' @ error_display e))"
      by (cases r) (auto simp: answer_ok_def dest: resolver_invD)
  qed
next
  case (GetManifest hash)
  show ?thesis
  proof (cases "is_valid_hash hash")
    case True
    with run GetManifest have "on_resolver (manifest_bytes E hash) (\<lambda>r. case r of
           Inr bs \<Rightarrow> ManifestMsg hash bs
         | Inl _ \<Rightarrow> ErrorMsg NotFound ''manifest not available here'') n = (reply, n')" by simp
    then show ?thesis
    proof (rule on_resolver_ok)
      fix r s assume "manifest_bytes E hash (nd_resolver n) = (r, s)"
      from step_okD [OF manifest_bytes_ok this] resolver_frame [OF inv]
      show "resolver_inv E s \<and> no_rollback E (nd_resolver n) s \<and> answer_ok E N env n s (case r of
           Inr bs \<Rightarrow> ManifestMsg hash bs | Inl _ \<Rightarrow> ErrorMsg NotFound ''manifest not available here'')"
        by (cases r) (auto simp: answer_ok_def)
    qed
  qed (use run GetManifest inv in \<open>auto simp: answer_ok_def no_rollback_refl\<close>)
next
  case (GetBlock hash)
  show ?thesis
  proof (cases "is_valid_hash hash \<and> nd_cache n \<noteq> None")
    case True
    then obtain cache where c: "nd_cache n = Some cache" by auto
    obtain r n1 where f: "cached_or_fetched E N env hash cache n = (r, n1)" by fastforce
    from cached_or_fetched_ok [OF f inv] run GetBlock True c f show ?thesis
      by (cases r) (auto simp: answer_ok_def)
  qed (use run GetBlock inv in \<open>auto simp: answer_ok_def no_rollback_refl split: if_splits option.splits\<close>)
next
  case (GetTldRegistry tld)
  show ?thesis
  proof (cases "bm_get (nd_registries n) tld")
    case None
    from run have "on_resolver (tld_registry_by_name E tld) (\<lambda>r. case r of
            Inr registry \<Rightarrow> TldRegistryMsg tld (to_vec (rx_registry E) registry)
          | Inl e \<Rightarrow> ErrorMsg NotFound (''no verified registry for .'' @ tld @ '': '' @ error_display e)) n
        = (reply, n')" by (simp only: GetTldRegistry noded_native.simps None option.case)
    then show ?thesis
    proof (rule on_resolver_ok)
      fix r s assume x: "tld_registry_by_name E tld (nd_resolver n) = (r, s)"
      with tld_registry_by_name_ok [OF inv re x] registry_by_name_result [OF inv re, of tld]
      show "resolver_inv E s \<and> no_rollback E (nd_resolver n) s \<and> answer_ok E N env n s (case r of
            Inr registry \<Rightarrow> TldRegistryMsg tld (to_vec (rx_registry E) registry)
          | Inl e \<Rightarrow> ErrorMsg NotFound (''no verified registry for .'' @ tld @ '': '' @ error_display e))"
        by (cases r) (auto simp: answer_ok_def)
    qed
  qed (use run GetTldRegistry inv in \<open>auto simp: answer_ok_def no_rollback_refl\<close>)
next
  case (GetDomainRecord name)
  show ?thesis
  proof (rule on_resolver_ok [OF run [unfolded GetDomainRecord noded_native.simps]])
    fix r s assume x: "resolve_domain E (ne_clock env) name (nd_resolver n) = (r, s)"
    with resolve_domain_ok [OF inv re x] resolved_record_result [OF inv re, of "ne_clock env" name]
    show "resolver_inv E s \<and> no_rollback E (nd_resolver n) s \<and> answer_ok E N env n s (case r of
         Inr record \<Rightarrow> DomainRecordMsg name (to_vec (nx_domain N) record)
       | Inl e \<Rightarrow> ErrorMsg NotFound (name @ '': '' @ error_display e))"
      by (cases r) (fastforce simp: answer_ok_def)+
  qed
next
  case GetStatus
  show ?thesis
    by (rule on_resolver_ok [OF run [unfolded GetStatus noded_native.simps]])
       (use current_root_ok [OF inv re] in \<open>auto simp: answer_ok_def\<close>)
qed (use run inv in \<open>auto simp: answer_ok_def no_rollback_refl\<close>)


lemma load_block_keeps:
  assumes "load_block E hash s = (Inr bs, s')"
  shows "load_block E hash s' = (Inr bs, s')"
proof -
  have "block_store_get E (rv_blocks s') hash = Inr bs"
  proof (cases "block_store_get E (rv_blocks s) hash")
    case (Inr b)
    with assms show ?thesis by (simp add: load_block_def)
  next
    case (Inl e)
    with assms obtain b s1 where "keep_block E hash b s1 = (Inr bs, s')"
      by (auto simp: load_block_def try_then_eq_Inr)
    then show ?thesis
      by (auto simp: keep_block_def split: prod.splits sum.splits dest: bs.get_put [of E _ _ hash _ _ hash])
  qed
  then show ?thesis by (simp add: load_block_def)
qed

lemma cdn_get_after_put:
  assumes "cdn_put E ic hash_iter w saved now hash bs c = (Inr (), c')"
  shows "block_store_get E (cc_store c') hash = Inr bs"
proof -
  obtain st where put: "block_store_put E w (cc_store c) hash bs = Inr st"
    using assms by (auto simp: cdn_put_def split: sum.splits)
  then have "block_store_get E st hash = Inr bs" by (simp add: bs.get_put)
  moreover have "hash \<notin> fst ` set (victims hash m es used)" for m es used
    using victims_others [of hash m es used] by auto
  ultimately show ?thesis
    using assms put
    by (auto simp: cdn_put_def Let_def persist_index_def evict_victims block_store_get_evicted)
qed

lemma cached_again:
  assumes "cached_or_fetched E N env hash cache n = (Some bs, n')" "nd_cache n = Some cache"
  shows "\<exists>cache'. nd_cache n' = Some cache' \<and>
    (\<exists>n''. cached_or_fetched E N env' hash cache' n' = (Some bs, n'') \<and> nd_resolver n'' = nd_resolver n')"
proof -
  obtain x c where g: "cdn_get E (ne_secs env) hash cache = (x, c)" by fastforce
  show ?thesis
  proof (cases x)
    case (Inr b)
    with assms g have "n' = n\<lparr>nd_cache := Some c\<rparr>" "b = bs" by (simp_all add: cached_or_fetched_def)
    moreover have "block_store_get E (cc_store c) hash = Inr b"
      using g Inr by (auto simp: cdn_get_def Let_def split: sum.splits)
    ultimately show ?thesis by (simp add: cached_or_fetched_def cdn_get_def Let_def)
  next
    case (Inl e)
    then have miss: "block_store_get E (cc_store c) hash = Inl e" "c = cache"
      using g by (auto simp: cdn_get_def Let_def split: sum.splits)
    obtain s where l: "load_block E hash (nd_resolver n) = (Inr bs, s)" and miss_on: "nd_fetch_on_miss n"
      using assms(1) g Inl by (auto simp: cached_or_fetched_def split: prod.splits sum.splits if_splits)
    obtain r c' where put: "cdn_put E (nx_index N) (ne_hash_iter env) (ne_write env) (ne_saved env) (ne_secs env)
        hash bs c = (r, c')" by fastforce
    with assms(1) g Inl l miss_on have n': "n' = n\<lparr>nd_resolver := s, nd_cache := Some c'\<rparr>"
      by (simp add: cached_or_fetched_def)
    show ?thesis
    proof (cases r)
      case (Inr u)
      with put have "block_store_get E (cc_store c') hash = Inr bs" by (auto intro: cdn_get_after_put)
      with n' show ?thesis by (simp add: cached_or_fetched_def cdn_get_def Let_def)
    next
      case (Inl e')
      with put have "c' = c" by (auto simp: cdn_put_def Let_def split: sum.splits)
      with n' miss miss_on load_block_keeps [OF l] show ?thesis
        by (simp add: cached_or_fetched_def cdn_get_def Let_def)
    qed
  qed
qed

text \<open>
  A block that was answered once is answered again without the network. After a node has answered a
  block, every later request for it gives the same bytes and leaves the resolver as it is, whether or not
  the cache could write the file, as long as the files stay as they are.
\<close>

lemma answered_block_stays_local:
  assumes "noded_native E N env (GetBlock hash) n = (BlockMsg hash bs, n')"
  shows "\<exists>n''. noded_native E N env' (GetBlock hash) n' = (BlockMsg hash bs, n'') \<and> nd_resolver n'' = nd_resolver n'"
proof -
  obtain cache where c: "nd_cache n = Some cache" and v: "is_valid_hash hash"
    and first: "cached_or_fetched E N env hash cache n = (Some bs, n')"
    using assms by (auto split: option.splits if_splits prod.splits)
  from cached_again [OF first c, of env'] v show ?thesis by auto
qed

subsection \<open>A CDN node in front of the sample site\<close>

definition sample_noded :: noded where
  "sample_noded =
     \<lparr>nd_runtime = \<lparr>rt_config = \<lparr>nc_node = \<lparr>ns_roles = [RoleCdn], ns_region = ''br-sp'', ns_public_ip = ''45.1.1.1'',
          ns_listen = default_http_listen, ns_dns_listen = default_dns_listen,
          ns_native_listen = default_native_listen, ns_registry_files = [], ns_data_dir = None\<rparr>,
        nc_network = \<lparr>nw_bootstrap = ''http://n'', nw_directory = None, nw_root_key = Some site_key,
          nw_native_providers = [], nw_upstream_dns = default_upstream_dns\<rparr>,
        nc_capacity = \<lparr>storage_gb = 1, bandwidth_mbps = 0\<rparr>\<rparr>,
        rt_identity = sample_identity, rt_started_at = ''1''\<rparr>,
      nd_resolver = site_resolver,
      nd_cache = Some \<lparr>cc_store = [], cc_index = [], cc_index_file = None, cc_max_bytes = 2 ^ 30\<rparr>,
      nd_fetch_on_miss = True, nd_registries = []\<rparr>"

text \<open>Its disk is full: nothing can be written to the cache.\<close>

definition full_disk :: noded_env where
  "full_disk = \<lparr>ne_clock = 5, ne_secs = 5, ne_write = (\<lambda>_. False), ne_saved = False, ne_hash_iter = (\<lambda>ks. ks)\<rparr>"

definition sample_codecs :: noded_codecs where
  "sample_codecs = \<lparr>nx_index = \<lparr>to_vec = (\<lambda>_. []), from_slice = (\<lambda>_. None)\<rparr>,
     nx_domain = \<lparr>to_vec = (\<lambda>_. []), from_slice = (\<lambda>_. None)\<rparr>\<rparr>"

lemma site_hash_valid: "is_valid_hash site_hash"
  using site_storage [of "[72, 105]"] by (simp add: storage_verify_ok_iff site_hash_def)

lemma sample_noded_block:
  "noded_native site_deps sample_codecs full_disk (GetBlock site_hash) sample_noded = (BlockMsg site_hash [72, 105], sample_noded)"
proof -
  let ?cache = "\<lparr>cc_store = [], cc_index = [], cc_index_file = None, cc_max_bytes = 2 ^ 30\<rparr> :: cdn_cache"
  have miss: "\<exists>e. cdn_get site_deps 5 site_hash ?cache = (Inl e, ?cache)"
    using site_hash_valid by (simp add: cdn_get_def block_store_get_def block_path_def bm_get_def)
  have fetched: "load_block site_deps site_hash site_resolver = (Inr [72, 105], site_resolver)"
    by (simp add: load_block_def site_cached)
  have "cdn_put site_deps (nx_index sample_codecs) (\<lambda>ks. ks) (\<lambda>_. False) False 5 site_hash [72, 105] ?cache = (Inl Io, ?cache)"
    using site_storage [of "[72, 105]"] site_hash_valid
    by (simp add: cdn_put_def block_store_put_def site_hash_def block_path_def)
  with miss fetched site_hash_valid show ?thesis
    by (auto simp: cached_or_fetched_def sample_noded_def full_disk_def)
qed


lemma answered_block_stays_local_witness:
  "\<exists>n''. noded_native site_deps sample_codecs full_disk (GetBlock site_hash) sample_noded = (BlockMsg site_hash [72, 105], n'') \<and>
     nd_resolver n'' = nd_resolver sample_noded"
  by (rule answered_block_stays_local [OF sample_noded_block])

end
