(* ===== verification/Search.thy ===== *)
theory Search
  imports Resolution Utf8
begin

text \<open>
  \<open>crates/federate-search/src/lib.rs\<close>: extracting text from pages, the inverted index, queries, and the
  crawl through the verifying resolver. Parameters of the standard library: \<open>to_lowercase\<close> and
  \<open>is_alphanumeric\<close> (Unicode tables) and the order in which a hash map is walked. Scores are natural
  numbers: the sums and products of the \<open>f64\<close> values are exact for indexes of any realistic size.
\<close>

record search_env =
  se_lowercase :: "string \<Rightarrow> string"
  se_alphanumeric :: "string \<Rightarrow> bool"
  se_iter :: "nat list \<Rightarrow> nat list"

subsection \<open>Strings\<close>

text \<open>\<open>str::chars\<close>: each character as its UTF-8 bytes.\<close>

definition continuation :: "char \<Rightarrow> bool" where
  "continuation c \<longleftrightarrow> 128 \<le> code c \<and> code c < 192"

lemma length_dropWhile_less [termination_simp]: "length (dropWhile P s) < Suc (length s)"
  by (simp add: length_dropWhile_le le_imp_less_Suc)

fun utf8_chars :: "string \<Rightarrow> string list" where
  "utf8_chars [] = []"
| "utf8_chars (c # s) = (c # takeWhile continuation s) # utf8_chars (dropWhile continuation s)"

definition is_whitespace :: "string \<Rightarrow> bool" where
  "is_whitespace c \<longleftrightarrow> trim c = []"

text \<open>\<open>str::find\<close>.\<close>

fun find_str :: "string \<Rightarrow> string \<Rightarrow> nat option" where
  "find_str p [] = (if p = [] then Some 0 else None)"
| "find_str p (c # s) = (if take (length p) (c # s) = p then Some 0 else map_option Suc (find_str p s))"

definition contains_str :: "string \<Rightarrow> string \<Rightarrow> bool" where
  "contains_str s p \<longleftrightarrow> find_str p s \<noteq> None"

definition starts_with_str :: "string \<Rightarrow> string \<Rightarrow> bool" where
  "starts_with_str s p \<longleftrightarrow> strip_prefix p s \<noteq> None"

text \<open>The pieces of a string between characters with a property: \<open>split\<close>.\<close>

fun split_where :: "(string \<Rightarrow> bool) \<Rightarrow> string list \<Rightarrow> string \<Rightarrow> string list" where
  "split_where sep [] piece = [piece]"
| "split_where sep (c # cs) piece =
     (if sep c then piece # split_where sep cs [] else split_where sep cs (piece @ c))"

definition split_whitespace :: "string \<Rightarrow> string list" where
  "split_whitespace s = filter (\<lambda>w. w \<noteq> []) (split_where is_whitespace (utf8_chars s) [])"

subsection \<open>Pages\<close>

text \<open>A tag of \<open>html.split('<')\<close>, up to its closing bracket, in lower case.\<close>

definition tag_opts_out :: "string \<Rightarrow> bool" where
  "tag_opts_out tag \<longleftrightarrow>
     starts_with_str tag ''meta'' \<and>
     (let inner = split_first (CHR ''>'') tag;
          normalized = concat (filter (\<lambda>c. \<not> is_whitespace c \<and> c \<noteq> [CHR 0x22] \<and> c \<noteq> [CHR 0x27]) (utf8_chars inner));
          is_robots = contains_str normalized ''name=robots'';
          is_federate = contains_str normalized ''name=federate''
      in (is_robots \<or> is_federate) \<and> contains_str normalized ''noindex'')"

definition opted_out :: "string \<Rightarrow> bool" where
  "opted_out html \<longleftrightarrow> list_ex tag_opts_out (split_char (CHR ''<'') (to_ascii_lowercase html))"

text \<open>
  \<open>strip_tags\<close>: the loop over the bytes. A character outside tags is copied whole; its bytes are copied
  one by one here, which is the same, since only ASCII bytes have a case of their own.
\<close>

fun strip_tags_from :: "bool \<Rightarrow> bool \<Rightarrow> string \<Rightarrow> string" where
  "strip_tags_from in_tag skip_block [] = []"
| "strip_tags_from in_tag skip_block (c # s) =
     (if \<not> in_tag \<and> c = CHR ''<'' then
        (let rest = to_ascii_lowercase (c # s) in
         strip_tags_from True
           (if starts_with_str rest ''<script'' \<or> starts_with_str rest ''<style'' then True
            else if starts_with_str rest ''</script'' \<or> starts_with_str rest ''</style'' then False
            else skip_block) s)
      else if in_tag \<and> c = CHR ''>'' then CHR '' '' # strip_tags_from False skip_block s
      else if \<not> in_tag \<and> \<not> skip_block then c # strip_tags_from in_tag skip_block s
      else strip_tags_from in_tag skip_block s)"

definition strip_tags :: "string \<Rightarrow> string" where
  "strip_tags html = strip_tags_from False False html"

definition extract_title :: "string \<Rightarrow> string option" where
  "extract_title html =
     (let lower = to_ascii_lowercase html in
      Option.bind (find_str ''<title'' lower) (\<lambda>start.
      Option.bind (find_str ''>'' (drop start html)) (\<lambda>e. let open_end = e + start + 1 in
      Option.bind (find_str ''</title>'' (drop open_end lower)) (\<lambda>len.
      Some (trim (take len (drop open_end html)))))))"

definition tokenize :: "search_env \<Rightarrow> string \<Rightarrow> string list" where
  "tokenize S text =
     filter (\<lambda>t. 2 \<le> length t)
       (split_where (\<lambda>c. \<not> se_alphanumeric S c) (utf8_chars (se_lowercase S text)) [])"

subsection \<open>The index\<close>

record page_doc =
  pd_domain :: string
  pd_path :: string
  pd_title :: string
  pd_text :: string

record search_result =
  sr_domain :: string
  sr_path :: string
  sr_title :: string
  sr_snippet :: string
  sr_score :: nat

record search_index =
  si_docs :: "page_doc list"
  si_inverted :: "(string, (nat, nat) bmap) bmap"

definition empty_index :: search_index where
  "empty_index = \<lparr>si_docs = [], si_inverted = []\<rparr>"

definition bump :: "nat \<Rightarrow> string \<Rightarrow> (string, (nat, nat) bmap) bmap \<Rightarrow> (string, (nat, nat) bmap) bmap" where
  "bump doc term inverted =
     (let postings = (case bm_get inverted term of Some p \<Rightarrow> p | None \<Rightarrow> []);
          tf = (case bm_get postings doc of Some n \<Rightarrow> n | None \<Rightarrow> 0)
      in bm_insert term (bm_insert doc (tf + 1) postings) inverted)"

definition index_html :: "search_env \<Rightarrow> string \<Rightarrow> string \<Rightarrow> string \<Rightarrow> search_index \<Rightarrow> bool \<times> search_index" where
  "index_html S domain path html index =
     (if opted_out html then (False, index)
      else
        let text = strip_tags html;
            title = (case extract_title html of Some t \<Rightarrow> t | None \<Rightarrow> domain);
            doc_id = length (si_docs index);
            inverted = foldl (\<lambda>inv term. bump doc_id term inv) (si_inverted index)
              (tokenize S text @ tokenize S title)
        in (True, \<lparr>si_docs = si_docs index @ [\<lparr>pd_domain = domain, pd_path = path, pd_title = title,
                     pd_text = join '' '' (split_whitespace text)\<rparr>],
                   si_inverted = inverted\<rparr>))"

subsection \<open>Queries\<close>

text \<open>The scores of one query term: its frequency and one more matched term, for each of its documents.\<close>

definition add_posting :: "(nat, nat \<times> nat) bmap \<Rightarrow> nat \<times> nat \<Rightarrow> (nat, nat \<times> nat) bmap" where
  "add_posting scores posting =
     (case posting of (doc, tf) \<Rightarrow>
        let (tot, matched) = (case bm_get scores doc of Some e \<Rightarrow> e | None \<Rightarrow> (0, 0))
        in bm_insert doc (tot + tf, matched + 1) scores)"

definition score_term :: "search_index \<Rightarrow> (nat, nat \<times> nat) bmap \<Rightarrow> string \<Rightarrow> (nat, nat \<times> nat) bmap" where
  "score_term index scores term =
     (case bm_get (si_inverted index) term of
        None \<Rightarrow> scores
      | Some postings \<Rightarrow> foldl add_posting scores postings)"

text \<open>\<open>se_iter\<close> is the order in which the map of scores is walked before the stable sort.\<close>

definition search :: "search_env \<Rightarrow> string \<Rightarrow> nat \<Rightarrow> search_index \<Rightarrow> search_result list" where
  "search S query limit index =
     (let terms = tokenize S query in
      if terms = [] then []
      else
        let scores = foldl (score_term index) [] terms;
            ranked = map (\<lambda>doc. (doc, case bm_get scores doc of Some (tf, matched) \<Rightarrow> tf * matched | None \<Rightarrow> 0))
              (se_iter S (bm_keys scores));
            ranked = rev (sort_key snd (rev ranked))
        in map (\<lambda>(doc, score).
             let d = si_docs index ! doc
             in \<lparr>sr_domain = pd_domain d, sr_path = pd_path d, sr_title = pd_title d,
                 sr_snippet = concat (take 180 (utf8_chars (pd_text d))), sr_score = score\<rparr>)
           (take limit ranked))"

subsection \<open>The crawl\<close>

definition is_html_path :: "string \<Rightarrow> bool" where
  "is_html_path p \<longleftrightarrow> (\<exists>ext \<in> {''.html'', ''.htm''}. take (length ext) (rev p) = rev ext)"

fun crawl_paths ::
  "'x resolution_deps_scheme \<Rightarrow> search_env \<Rightarrow> int \<Rightarrow> string \<Rightarrow> string list \<Rightarrow> search_index \<times> resolver
     \<Rightarrow> search_index \<times> resolver" where
  "crawl_paths E S clock name [] (index, s) = (index, s)"
| "crawl_paths E S clock name (path # paths) (index, s) =
     (case resolve E clock name path s of
        (Inr (Content _ _ bs mime _), s) \<Rightarrow>
          crawl_paths E S clock name paths
            (if starts_with_str mime ''text/html''
             then (case from_utf8 bs of Some html \<Rightarrow> snd (index_html S name path html index) | None \<Rightarrow> index)
             else index, s)
      | (_, s) \<Rightarrow> crawl_paths E S clock name paths (index, s))"

fun crawl_domains ::
  "'x resolution_deps_scheme \<Rightarrow> search_env \<Rightarrow> int \<Rightarrow> (string \<times> domain_record) list \<Rightarrow> search_index \<times> resolver
     \<Rightarrow> search_index \<times> resolver" where
  "crawl_domains E S clock [] (index, s) = (index, s)"
| "crawl_domains E S clock ((name, rec) # domains) (index, s) =
     (if \<not> domain_status_is_resolvable (dr_status rec) then crawl_domains E S clock domains (index, s)
      else (case site_files E clock name s of
          (Inl _, s) \<Rightarrow> crawl_domains E S clock domains (index, s)
        | (Inr files, s) \<Rightarrow>
            crawl_domains E S clock domains
              (crawl_paths E S clock name (map (\<lambda>p. CHR ''/'' # p) (filter is_html_path files)) (index, s))))"

definition index_from_resolver ::
  "'x resolution_deps_scheme \<Rightarrow> search_env \<Rightarrow> int \<Rightarrow> resolver \<Rightarrow> search_index result \<times> resolver" where
  "index_from_resolver E S clock =
     try_then (current_root E) (\<lambda>zone s.
       case crawl_domains E S clock (rz_domains zone) (empty_index, s) of (index, s) \<Rightarrow> (Inr index, s))"

subsection \<open>The HTTP API\<close>

text \<open>The query that is answered, at most 256 characters, and its results.\<close>

definition api_search :: "search_env \<Rightarrow> (string, string) bmap \<Rightarrow> search_index \<Rightarrow> string \<times> search_result list" where
  "api_search S q index =
     (let query = (case bm_get q ''q'' of Some s \<Rightarrow> concat (take 256 (utf8_chars s)) | None \<Rightarrow> [])
      in (query, search S query 20 index))"

definition api_stats :: "search_index \<Rightarrow> json" where
  "api_stats index = json_obj [(''pages'', json_nat (length (si_docs index)))]"

end
