(* ===== verification/Search_Properties.thy ===== *)
theory Search_Properties
  imports Search Resolution_Sample
begin

text \<open>
  The inverted index against its specification, a scan of all pages, and what the crawl lets into the index.
\<close>

subsection \<open>Term frequencies\<close>

definition freq :: "(string, (nat, nat) bmap) bmap \<Rightarrow> string \<Rightarrow> nat \<Rightarrow> nat" where
  "freq inverted term doc =
     (case bm_get inverted term of None \<Rightarrow> 0 | Some p \<Rightarrow> (case bm_get p doc of None \<Rightarrow> 0 | Some n \<Rightarrow> n))"

definition postings_ok :: "(string, (nat, nat) bmap) bmap \<Rightarrow> bool" where
  "postings_ok inverted \<longleftrightarrow>
     (\<forall>term p. bm_get inverted term = Some p \<longrightarrow> bm_sorted p \<and> (\<forall>doc n. bm_get p doc = Some n \<longrightarrow> 0 < n))"

lemma freq_bump: "freq (bump d t m) t' d' = freq m t' d' + (if t' = t \<and> d' = d then 1 else 0)"
  by (auto simp: freq_def bump_def Let_def map_simps split: option.splits)

lemma postings_ok_bump: "postings_ok m \<Longrightarrow> postings_ok (bump d t m)"
  by (auto simp: postings_ok_def bump_def Let_def map_simps split: option.splits if_splits)

lemma bumps:
  "postings_ok m \<Longrightarrow> postings_ok (foldl (\<lambda>m t. bump d t m) m ts) \<and>
     freq (foldl (\<lambda>m t. bump d t m) m ts) t' d' = freq m t' d' + (if d' = d then count_list ts t' else 0)"
  by (induction ts arbitrary: m) (auto simp: postings_ok_bump freq_bump)

subsection \<open>The index of a list of pages\<close>

type_synonym page = "string \<times> string \<times> string"

definition page_title :: "page \<Rightarrow> string" where
  "page_title p = (case p of (domain, path, html) \<Rightarrow>
     (case extract_title html of Some t \<Rightarrow> t | None \<Rightarrow> domain))"

definition page_terms :: "search_env \<Rightarrow> page \<Rightarrow> string list" where
  "page_terms S p = (case p of (domain, path, html) \<Rightarrow>
     tokenize S (strip_tags html) @ tokenize S (page_title p))"

definition page_entry :: "page \<Rightarrow> page_doc" where
  "page_entry p = (case p of (domain, path, html) \<Rightarrow>
     \<lparr>pd_domain = domain, pd_path = path, pd_title = page_title p,
      pd_text = join '' '' (split_whitespace (strip_tags html))\<rparr>)"

definition add_page :: "search_env \<Rightarrow> search_index \<Rightarrow> page \<Rightarrow> search_index" where
  "add_page S index p = (case p of (domain, path, html) \<Rightarrow> snd (index_html S domain path html index))"

definition index_pages :: "search_env \<Rightarrow> page list \<Rightarrow> search_index" where
  "index_pages S pages = foldl (add_page S) empty_index pages"

definition kept_pages :: "page list \<Rightarrow> page list" where
  "kept_pages pages = filter (\<lambda>(_, _, html). \<not> opted_out html) pages"

definition index_of :: "search_env \<Rightarrow> page list \<Rightarrow> search_index \<Rightarrow> bool" where
  "index_of S pages index \<longleftrightarrow>
     si_docs index = map page_entry pages \<and> postings_ok (si_inverted index) \<and>
     (\<forall>t d. freq (si_inverted index) t d = (if d < length pages then count_list (page_terms S (pages ! d)) t else 0))"

lemma index_html_kept:
  assumes "index_of S pages index" "\<not> opted_out html"
  shows "index_of S (pages @ [(domain, path, html)]) (snd (index_html S domain path html index))"
proof -
  let ?p = "(domain, path, html)"
  let ?inv = "foldl (\<lambda>inv t. bump (length pages) t inv) (si_inverted index) (page_terms S ?p)"
  have idx: "snd (index_html S domain path html index)
      = \<lparr>si_docs = map page_entry (pages @ [?p]), si_inverted = ?inv\<rparr>"
    using assms by (simp add: index_html_def index_of_def Let_def page_entry_def page_title_def page_terms_def)
  have "postings_ok (si_inverted index)" using assms(1) by (simp add: index_of_def)
  from bumps [OF this, of "length pages" "page_terms S ?p"]
  have inv: "postings_ok ?inv" "\<And>t d. freq ?inv t d
      = freq (si_inverted index) t d + (if d = length pages then count_list (page_terms S ?p) t else 0)"
    by blast+
  then have "freq ?inv t d = (if d < length (pages @ [?p]) then count_list (page_terms S ((pages @ [?p]) ! d)) t else 0)"
    for t d
    using assms(1) by (auto simp: index_of_def nth_append less_Suc_eq)
  with inv(1) show ?thesis by (simp add: index_of_def idx)
qed

lemma index_of_pages: "index_of S (kept_pages pages) (index_pages S pages)"
proof (induction pages rule: rev_induct)
  case Nil
  show ?case by (simp add: index_of_def kept_pages_def index_pages_def empty_index_def postings_ok_def freq_def)
next
  case (snoc p pages)
  obtain domain path html where p: "p = (domain, path, html)" by (cases p)
  show ?case
  proof (cases "opted_out html")
    case True
    with snoc p show ?thesis by (simp add: kept_pages_def index_pages_def add_page_def index_html_def)
  next
    case False
    with index_html_kept [OF snoc this, of domain path] p show ?thesis
      by (simp add: kept_pages_def index_pages_def add_page_def)
  qed
qed

subsection \<open>Scores\<close>

definition total_freq :: "search_index \<Rightarrow> string list \<Rightarrow> nat \<Rightarrow> nat" where
  "total_freq index terms doc = sum_list (map (\<lambda>t. freq (si_inverted index) t doc) terms)"

definition matched_terms :: "search_index \<Rightarrow> string list \<Rightarrow> nat \<Rightarrow> nat" where
  "matched_terms index terms doc = length (filter (\<lambda>t. 0 < freq (si_inverted index) t doc) terms)"

lemma add_posting_get:
  "bm_get (add_posting scores (doc, tf)) d =
     (if d = doc then Some (case bm_get scores doc of Some (tot, m) \<Rightarrow> (tot + tf, m + 1) | None \<Rightarrow> (tf, 1))
      else bm_get scores d)"
  by (auto simp: add_posting_def map_simps split: option.split)

lemma add_posting_sorted: "bm_sorted scores \<Longrightarrow> bm_sorted (add_posting scores posting)"
  by (auto simp: add_posting_def Let_def split: prod.splits)

lemma score_postings:
  assumes "distinct (map fst postings)" "bm_sorted scores"
  shows "bm_sorted (foldl add_posting scores postings) \<and>
    bm_get (foldl add_posting scores postings) d =
      (case map_of postings d of
         None \<Rightarrow> bm_get scores d
       | Some tf \<Rightarrow> Some (case bm_get scores d of Some (tot, m) \<Rightarrow> (tot + tf, m + 1) | None \<Rightarrow> (tf, 1)))"
  using assms
proof (induction postings arbitrary: scores)
  case (Cons p postings)
  obtain doc tf where p: "p = (doc, tf)" by (cases p)
  have "distinct (map fst postings)" "bm_sorted (add_posting scores p)" "map_of postings doc = None"
    using Cons.prems p by (simp_all add: add_posting_sorted map_of_eq_None_iff)
  note run = Cons.IH [OF this(1,2)] and fresh = this(3)
  show ?case
  proof (cases "d = doc")
    case False
    then have same: "bm_get (add_posting scores p) d = bm_get scores d"
      and m: "map_of (p # postings) d = map_of postings d" by (auto simp: p add_posting_get)
    from run show ?thesis unfolding foldl_Cons same m .
  qed (use run fresh in \<open>simp add: p add_posting_get\<close>)
qed simp

lemma score_terms:
  assumes "postings_ok (si_inverted index)"
  shows "bm_sorted (foldl (score_term index) [] terms) \<and>
    bm_get (foldl (score_term index) [] terms) d =
      (if 0 < matched_terms index terms d then Some (total_freq index terms d, matched_terms index terms d) else None)"
proof (induction terms rule: rev_induct)
  case Nil
  show ?case by (simp add: matched_terms_def)
next
  case (snoc t terms)
  let ?scores = "foldl (score_term index) [] terms"
  show ?case
  proof (cases "bm_get (si_inverted index) t")
    case None
    then have "freq (si_inverted index) t d = 0" by (simp add: freq_def)
    with snoc None show ?thesis by (simp add: score_term_def matched_terms_def total_freq_def)
  next
    case (Some postings)
    with assms have post: "bm_sorted postings" "\<forall>d n. bm_get postings d = Some n \<longrightarrow> 0 < n" by (auto simp: postings_ok_def)
    have f: "freq (si_inverted index) t d = (case map_of postings d of None \<Rightarrow> 0 | Some n \<Rightarrow> n)"
      using Some by (simp add: freq_def bm_get_def)
    have "\<forall>n. map_of postings d = Some n \<longrightarrow> 0 < n" using post(2) by (simp add: bm_get_def)
    moreover have "total_freq index terms d = 0" if "matched_terms index terms d = 0"
      using that by (simp add: matched_terms_def total_freq_def filter_empty_conv)
    ultimately have zero: "bm_get ?scores d = None \<Longrightarrow> total_freq index terms d = 0"
        "bm_get ?scores d = None \<longleftrightarrow> matched_terms index terms d = 0"
        "\<And>n. map_of postings d = Some n \<Longrightarrow> 0 < n"
      using snoc by (auto split: if_splits)
    have new: "total_freq index (terms @ [t]) d = total_freq index terms d + freq (si_inverted index) t d"
      "matched_terms index (terms @ [t]) d
         = matched_terms index terms d + (if 0 < freq (si_inverted index) t d then 1 else 0)"
      by (simp_all add: total_freq_def matched_terms_def)
    have step: "foldl (score_term index) [] (terms @ [t]) = foldl add_posting ?scores postings"
      by (simp add: score_term_def Some)
    from score_postings [OF bm_sorted_distinct [OF post(1)], of ?scores d] snoc
    have run: "bm_sorted (foldl add_posting ?scores postings)"
      "bm_get (foldl add_posting ?scores postings) d =
      (case map_of postings d of None \<Rightarrow> bm_get ?scores d
       | Some tf \<Rightarrow> Some (case bm_get ?scores d of Some (tot, m) \<Rightarrow> (tot + tf, m + 1) | None \<Rightarrow> (tf, 1)))"
      by blast+
    show ?thesis
    proof (cases "map_of postings d")
      case None
      with run f snoc show ?thesis unfolding step new by simp
    next
      case (Some n)
      with run f snoc zero show ?thesis
        unfolding step new by (cases "matched_terms index terms d = 0") auto
    qed
  qed
qed

subsection \<open>Queries\<close>

text \<open>The score of a page for a query, by scanning its words.\<close>

definition scan_score :: "search_env \<Rightarrow> string \<Rightarrow> page \<Rightarrow> nat" where
  "scan_score S query p =
     (let words = page_terms S p; terms = tokenize S query
      in sum_list (map (count_list words) terms) * length (filter (\<lambda>t. t \<in> set words) terms))"

definition page_result :: "search_env \<Rightarrow> string \<Rightarrow> page \<Rightarrow> search_result" where
  "page_result S query p =
     \<lparr>sr_domain = pd_domain (page_entry p), sr_path = pd_path (page_entry p), sr_title = pd_title (page_entry p),
      sr_snippet = concat (take 180 (utf8_chars (pd_text (page_entry p)))), sr_score = scan_score S query p\<rparr>"

lemma index_scores:
  assumes "index_of S pages index"
  shows "total_freq index (tokenize S query) d * matched_terms index (tokenize S query) d
      = (if d < length pages then scan_score S query (pages ! d) else 0)"
    and "0 < matched_terms index (tokenize S query) d \<longleftrightarrow> d < length pages \<and> 0 < scan_score S query (pages ! d)"
proof -
  have f: "freq (si_inverted index) t d = (if d < length pages then count_list (page_terms S (pages ! d)) t else 0)" for t
    using assms by (simp add: index_of_def)
  have pos: "0 < count_list words t \<longleftrightarrow> t \<in> set words" for words and t :: string
    using count_list_0_iff [of words t] by auto
  show prod: "total_freq index (tokenize S query) d * matched_terms index (tokenize S query) d
      = (if d < length pages then scan_score S query (pages ! d) else 0)"
    by (simp add: total_freq_def matched_terms_def f scan_score_def Let_def pos)
  have "matched_terms index (tokenize S query) d = 0" if "total_freq index (tokenize S query) d = 0"
    using that by (simp add: matched_terms_def total_freq_def filter_empty_conv)
  then have "0 < matched_terms index (tokenize S query) d
      \<longleftrightarrow> 0 < total_freq index (tokenize S query) d * matched_terms index (tokenize S query) d"
    by (metis gr0I nat_0_less_mult_iff)
  then show "0 < matched_terms index (tokenize S query) d \<longleftrightarrow> d < length pages \<and> 0 < scan_score S query (pages ! d)"
    unfolding prod by simp
qed

lemma in_bm_keys: "k \<in> set (bm_keys m) \<longleftrightarrow> bm_get m k \<noteq> None"
  by (simp add: bm_keys_def bm_get_def map_of_eq_None_iff)

text \<open>Ranking: the stable sort by falling score keeps the documents.\<close>

lemma ranked_by_score:
  assumes "mset ks' = mset ks"
  shows "\<exists>ids. rev (sort_key snd (rev (map (\<lambda>d. (d, g d)) ks'))) = map (\<lambda>d. (d, g d)) ids \<and>
    mset ids = mset ks \<and> sorted (rev (map g ids))"
proof (intro exI conjI)
  let ?r = "rev (sort_key snd (rev (map (\<lambda>d. (d, g d)) ks')))"
  have "\<forall>p \<in> set ?r. snd p = g (fst p)" by auto
  then show eq: "?r = map (\<lambda>d. (d, g d)) (map fst ?r)" by (auto intro!: map_idI [symmetric])
  have "mset (map fst ?r) = image_mset fst (mset ?r)" by simp
  also have "mset ?r = image_mset (\<lambda>d. (d, g d)) (mset ks')" by simp
  finally show "mset (map fst ?r) = mset ks" using assms by (simp add: multiset.map_comp comp_def)
  have "rev (map g (map fst ?r)) = rev (map snd ?r)" by auto
  also have "\<dots> = map snd (sort_key snd (rev (map (\<lambda>d. (d, g d)) ks')))" by (simp only: rev_map rev_rev_ident)
  finally show "sorted (rev (map g (map fst ?r)))" by (simp only: sorted_sort_key)
qed


subsection \<open>The crawl\<close>

text \<open>A page whose text was served by the resolver, with the whole chain of trust behind it.\<close>

definition page_verified :: "'x resolution_deps_scheme \<Rightarrow> int \<Rightarrow> resolver \<Rightarrow> page \<Rightarrow> bool" where
  "page_verified E clock s p = (case p of (name, path, html) \<Rightarrow>
     \<exists>domain root t rec d q bs mime h. federate_domain_parse name = Inr domain \<and> zone_trusted E s root \<and>
       tld_active E clock root (fd_tld domain) t \<and> record_source E root t (fqdn domain) rec \<and>
       record_active E clock domain t rec \<and>
       content_from_record E (fqdn domain) path rec (Content d q bs mime h) \<and>
       starts_with_str mime ''text/html'' \<and> from_utf8 bs = Some html)"

lemma page_verified_later: "page_verified E clock s p \<Longrightarrow> no_rollback E s s' \<Longrightarrow> page_verified E clock s' p"
  by (fastforce simp: page_verified_def zone_trusted_def no_rollback_def)

text \<open>What a part of the crawl does: it adds verified pages and keeps the resolver's trust.\<close>

definition crawled ::
  "'x resolution_deps_scheme \<Rightarrow> search_env \<Rightarrow> int \<Rightarrow> search_index \<times> resolver \<Rightarrow> search_index \<times> resolver \<Rightarrow> bool" where
  "crawled E S clock before after \<longleftrightarrow>
     resolver_inv E (snd after) \<and> no_rollback E (snd before) (snd after) \<and>
     (\<exists>pages. fst after = foldl (add_page S) (fst before) pages \<and>
        (\<forall>p \<in> set pages. page_verified E clock (snd after) p))"

lemma crawled_refl: "resolver_inv E s \<Longrightarrow> crawled E S clock (index, s) (index, s)"
  unfolding crawled_def by (auto intro: exI [of _ "[]"] simp: no_rollback_refl)

lemma crawled_trans:
  assumes "crawled E S clock a b" "crawled E S clock b c"
  shows "crawled E S clock a c"
proof -
  from assms(1) obtain ps where a: "no_rollback E (snd a) (snd b)" "fst b = foldl (add_page S) (fst a) ps"
      "\<forall>p \<in> set ps. page_verified E clock (snd b) p" by (auto simp: crawled_def)
  from assms(2) obtain qs where b: "resolver_inv E (snd c)" "no_rollback E (snd b) (snd c)"
      "fst c = foldl (add_page S) (fst b) qs" "\<forall>p \<in> set qs. page_verified E clock (snd c) p"
    by (auto simp: crawled_def)
  from a b have "fst c = foldl (add_page S) (fst a) (ps @ qs)" by simp
  moreover have "\<forall>p \<in> set (ps @ qs). page_verified E clock (snd c) p"
  proof
    fix p assume "p \<in> set (ps @ qs)"
    then consider "p \<in> set ps" | "p \<in> set qs" by auto
    then show "page_verified E clock (snd c) p"
      using a(3) b(2,4) page_verified_later by cases blast+
  qed
  ultimately show ?thesis
    unfolding crawled_def using b(1) no_rollback_trans [OF a(1) b(2)] by blast
qed

lemma crawled_page:
  assumes "resolver_inv E s" "zone_reprints E" "resolve E clock name path s = (r, s')"
  shows "crawled E S clock (index, s)
    (case r of Inr (Content _ _ bs mime _) \<Rightarrow>
         (if starts_with_str mime ''text/html''
          then (case from_utf8 bs of Some html \<Rightarrow> snd (index_html S name path html index) | None \<Rightarrow> index)
          else index)
       | _ \<Rightarrow> index, s')"
    (is "crawled E S clock _ (?index, s')")
proof -
  note ok = resolve_ok [OF assms]
  show ?thesis
  proof (cases "\<exists>d q bs mime h html. r = Inr (Content d q bs mime h) \<and> starts_with_str mime ''text/html'' \<and>
      from_utf8 bs = Some html")
    case True
    then obtain d q bs mime h html where r: "r = Inr (Content d q bs mime h)" "starts_with_str mime ''text/html''"
      "from_utf8 bs = Some html" by blast
    from resolve_content [OF assms(1,2) assms(3) [unfolded r(1)]] r(2,3)
    have "page_verified E clock s' (name, path, html)" unfolding page_verified_def by fast
    with ok r show ?thesis
      unfolding crawled_def by (auto simp: add_page_def intro!: exI [of _ "[(name, path, html)]"])
  next
    case False
    then have "?index = index" by (auto split: sum.split resolved.split option.split)
    with ok show ?thesis unfolding crawled_def by (auto intro!: exI [of _ "[]"])
  qed
qed

lemma crawl_paths_crawled:
  assumes "resolver_inv E s" "zone_reprints E"
  shows "crawled E S clock (index, s) (crawl_paths E S clock name paths (index, s))"
  using assms(1)
proof (induction paths arbitrary: index s)
  case (Cons path paths)
  obtain r s1 where r: "resolve E clock name path s = (r, s1)" by fastforce
  let ?index = "case r of Inr (Content _ _ bs mime _) \<Rightarrow>
         (if starts_with_str mime ''text/html''
          then (case from_utf8 bs of Some html \<Rightarrow> snd (index_html S name path html index) | None \<Rightarrow> index)
          else index)
       | _ \<Rightarrow> index"
  have page: "crawled E S clock (index, s) (?index, s1)" by (rule crawled_page [OF Cons.prems assms(2) r])
  then have "resolver_inv E s1" by (simp add: crawled_def)
  from crawled_trans [OF page Cons.IH [OF this]]
  have "crawled E S clock (index, s) (crawl_paths E S clock name paths (?index, s1))" .
  moreover have "crawl_paths E S clock name (path # paths) (index, s)
      = crawl_paths E S clock name paths (?index, s1)"
    by (simp add: r split: sum.split resolved.split)
  ultimately show ?case by simp
qed (simp add: crawled_refl)

lemma crawled_keeps:
  "resolver_inv E s' \<and> no_rollback E s s' \<Longrightarrow> crawled E S clock (index, s) (index, s')"
  unfolding crawled_def by (auto intro!: exI [of _ "[]"])

lemma crawl_domains_crawled:
  assumes "resolver_inv E s" "zone_reprints E"
  shows "crawled E S clock (index, s) (crawl_domains E S clock domains (index, s))"
  using assms(1)
proof (induction domains arbitrary: index s)
  case (Cons d domains)
  obtain name rec where d: "d = (name, rec)" by (cases d)
  show ?case
  proof (cases "domain_status_is_resolvable (dr_status rec)")
    case True
    obtain r s1 where r: "site_files E clock name s = (r, s1)" by fastforce
    from site_files_ok [OF Cons.prems assms(2) r]
    have files: "crawled E S clock (index, s) (index, s1)" and inv: "resolver_inv E s1"
      using crawled_keeps by blast+
    show ?thesis
    proof (cases r)
      case (Inl e)
      with crawled_trans [OF files Cons.IH [OF inv]] True d r show ?thesis by simp
    next
      case (Inr fs)
      obtain index2 s2 where p: "crawl_paths E S clock name (map (\<lambda>p. CHR ''/'' # p) (filter is_html_path fs))
          (index, s1) = (index2, s2)" by fastforce
      with crawl_paths_crawled [OF inv assms(2)] have paths: "crawled E S clock (index, s1) (index2, s2)" by metis
      then have "resolver_inv E s2" by (simp add: crawled_def)
      from crawled_trans [OF crawled_trans [OF files paths] Cons.IH [OF this]] True d r Inr p
      show ?thesis by simp
    qed
  qed (use Cons d in simp)
qed (simp add: crawled_refl)

text \<open>
  C35: Only verified pages are indexed, and none that opted out. A crawl keeps the resolver's invariant, its
  pinned key and zone version, whatever the network answers; the index it returns is that of a list of
  pages each of which was served as HTML through the whole chain of trust, and its documents are exactly
  the pages of that list that did not opt out.
\<close>

theorem crawl_indexes_only_verified:
  assumes "resolver_inv E s" "zone_reprints E" "index_from_resolver E S clock s = (Inr index, s')"
  shows "resolver_inv E s' \<and> no_rollback E s s' \<and>
    (\<exists>pages. index = index_pages S pages \<and> (\<forall>p \<in> set pages. page_verified E clock s' p) \<and>
       si_docs index = map page_entry (kept_pages pages))"
proof -
  obtain zone s1 where root: "current_root E s = (Inr zone, s1)"
    and crawl: "(case crawl_domains E S clock (rz_domains zone) (empty_index, s1) of (index, s) \<Rightarrow> (Inr index, s))
      = (Inr index :: search_index result, s')"
    using assms(3) unfolding index_from_resolver_def try_then_eq_Inr by blast
  then have run: "crawl_domains E S clock (rz_domains zone) (empty_index, s1) = (index, s')"
    by (cases "crawl_domains E S clock (rz_domains zone) (empty_index, s1)") simp
  from current_root_ok [OF assms(1,2) root] have "crawled E S clock (empty_index, s) (empty_index, s1)"
    and inv: "resolver_inv E s1" using crawled_keeps by blast+
  from crawled_trans [OF this(1) crawl_domains_crawled [OF inv assms(2)]] run
  have "crawled E S clock (empty_index, s) (index, s')" by metis
  then obtain pages where "resolver_inv E s'" "no_rollback E s s'" "index = index_pages S pages"
    "\<forall>p \<in> set pages. page_verified E clock s' p" by (auto simp: crawled_def index_pages_def)
  moreover from index_of_pages [of S pages] have "si_docs (index_pages S pages) = map page_entry (kept_pages pages)"
    by (simp add: index_of_def)
  ultimately show ?thesis by blast
qed

subsection \<open>Examples\<close>

definition ascii_env :: search_env where
  "ascii_env = \<lparr>se_lowercase = to_ascii_lowercase,
     se_alphanumeric = (\<lambda>c. case c of [b] \<Rightarrow> is_ascii_lowercase b \<or> is_ascii_digit b | _ \<Rightarrow> False), se_iter = (\<lambda>ks. ks)\<rparr>"

definition demo_pages :: "page list" where
  "demo_pages =
     [(''a.pagina'', ''/index.html'', ''<title>Fed</title>fed fed'' ),
      (''b.pagina'', ''/index.html'', ''<meta name=robots content=noindex>fed fed fed''),
      (''c.pagina'', ''/index.html'', ''<p>one fed</p>'')]"


text \<open>The page that opted out is not found, though it has the word most often.\<close>

lemma demo_search:
  "map (\<lambda>r. (sr_domain r, sr_score r)) (search ascii_env ''fed'' 20 (index_pages ascii_env demo_pages))
     = [(''a.pagina'', 4), (''c.pagina'', 1)]"
  by code_simp

text \<open>
  A repeated word of the query counts each time, both as an occurrence and as a term that matches, though
  the ranking is described as counting distinct terms: the page with the word once scores four, not one.
\<close>

lemma repeated_term_counts_again:
  "map (\<lambda>r. (sr_domain r, sr_score r)) (search ascii_env ''one one'' 20 (index_pages ascii_env demo_pages))
     = [(''c.pagina'', 4)]"
  by code_simp

text \<open>
  The tag parser also runs inside scripts: a comparison in an inline script opens a tag, which swallows the
  closing tag of the script, and the rest of the page is lost to the index.
\<close>

lemma script_comparison_hides_the_rest:
  "strip_tags ''a<script>x>1</script>b'' = ''a  b'' \<and> strip_tags ''a<script>x<1</script>b'' = ''a  ''"
  by code_simp

theorem crawl_indexes_only_verified_witness:
  "\<exists>index s'. index_from_resolver site_deps ascii_env 5 site_resolver = (Inr index, s') \<and> resolver_inv site_deps s' \<and>
     (\<exists>pages. index = index_pages ascii_env pages \<and> (\<forall>p \<in> set pages. page_verified site_deps 5 s' p))"
proof -
  have "\<exists>index s'. index_from_resolver site_deps ascii_env 5 site_resolver = (Inr index, s')"
    by (auto simp: index_from_resolver_def try_then_def site_roots current_root_def split: prod.split)
  then obtain index s' where run: "index_from_resolver site_deps ascii_env 5 site_resolver = (Inr index, s')" by blast
  from crawl_indexes_only_verified [OF site_inv site_reprints run] run show ?thesis by blast
qed

end
