(* ===== verification/Cli_Operator.thy ===== *)
theory Cli_Operator
  imports Mutation_Apply
begin

text \<open>
  \<open>crates/federate-cli/src/main.rs\<close>: the tools of a TLD operator, \<open>federate operator\<close>, which run on the
  operator's machine, and the offline \<open>federate root\<close> commands. A command ends in \<open>die\<close> with a message
  (\<open>Inl\<close>) or in a result; what it prints on success is left out. Files are named by their paths; \<open>Inl\<close>
  is an error of the file system. Keys are what \<open>load_or_create\<close> returned.
\<close>

type_synonym 'a command = "string + 'a"

definition or_die :: "string \<Rightarrow> 'a result \<Rightarrow> 'a command" where
  "or_die what r = map_err (\<lambda>e. what @ error_display e) r"

definition write_file :: "string \<Rightarrow> bytes \<Rightarrow> string option \<Rightarrow> (string \<times> bytes) command" where
  "write_file path bs err =
     (case err of Some e \<Rightarrow> Inl (''cannot write '' @ path @ '': '' @ e) | None \<Rightarrow> Inr (path, bs))"

subsection \<open>Signing a record\<close>

record sign_record_args =
  sr_domain :: string
  sr_owner :: string
  sr_manifest_hash :: string
  sr_expires :: "string option"
  sr_out :: "string option"

definition unsigned_record :: "string \<Rightarrow> federate_domain \<Rightarrow> sign_record_args \<Rightarrow> domain_record" where
  "unsigned_record now parsed args =
     \<lparr>dr_domain = fqdn parsed, dr_tld = fd_tld parsed, dr_label = fd_name parsed,
      dr_owner_public_key = sr_owner args, dr_target_type = TargetManifest,
      dr_manifest_hash = sr_manifest_hash args, dr_service_id = None, dr_node_id = None,
      dr_status = Active, dr_created_at = now, dr_updated_at = now, dr_expires_at = sr_expires args,
      dr_renewal = None, dr_pricing = None, dr_signature_algorithm = SIGNATURE_ALGORITHM,
      dr_signature = None\<rparr>"

text \<open>\<open>pretty\<close> is \<open>to_vec_pretty\<close>; \<open>err\<close> the failure to write the file, if any.\<close>

definition sign_record ::
  "'x deps_scheme \<Rightarrow> int \<Rightarrow> (domain_record \<Rightarrow> bytes) \<Rightarrow> string option \<Rightarrow> node_identity result
     \<Rightarrow> sign_record_args \<Rightarrow> (string \<times> bytes) command" where
  "sign_record E now pretty err key args =
     and_then (or_die ''invalid domain: '' (federate_domain_parse (sr_domain args))) (\<lambda>parsed.
     if \<not> hex_key_ok (sr_owner args) then Inl ''--owner must be a 64-char hex public key''
     else if \<not> is_valid_hash (sr_manifest_hash args)
     then Inl ''--manifest-hash must be a 64-char BLAKE3 hex content address''
     else and_then (or_die ''cannot load operator key: '' key) (\<lambda>operator.
       let record = unsigned_record (x_to_rfc3339 E now) parsed args;
           record = record\<lparr>dr_signature := Some (sign E operator (domain_record_signable_bytes E record))\<rparr>;
           path = (case sr_out args of Some p \<Rightarrow> p | None \<Rightarrow> fqdn parsed @ ''.record.json'')
       in write_file path (pretty record) err))"

subsection \<open>Building a registry\<close>

text \<open>\<open>Path::extension\<close> of a file name: what follows the last dot, unless nothing precedes it.\<close>

definition file_extension :: "string \<Rightarrow> string option" where
  "file_extension name =
     (let ext = rsplit_first (CHR ''.'') name
      in if length name \<le> length ext + 1 then None else Some ext)"

definition is_record_file :: "string \<Rightarrow> bool" where
  "is_record_file name \<longleftrightarrow>
     file_extension name = Some ''json'' \<and> strip_prefix (rev ''.registry.json'') (rev name) = None"

text \<open>The loop over the directory, in the order the file system lists it.\<close>

fun collect_records ::
  "'x store_deps_scheme \<Rightarrow> node_identity \<Rightarrow> string \<Rightarrow> string \<Rightarrow> (string \<times> (string + bytes)) list
     \<Rightarrow> (string, domain_record) bmap \<Rightarrow> (string, domain_record) bmap command" where
  "collect_records E operator tld dir [] domains = Inr domains"
| "collect_records E operator tld dir ((name, content) # rest) domains =
     (let path = dir @ ''/'' @ name in
      if \<not> is_record_file name then collect_records E operator tld dir rest domains
      else
        and_then (map_err (\<lambda>e. ''cannot read '' @ path @ '': '' @ e) content) (\<lambda>bs.
        case from_slice (x_domain E) bs of
          None \<Rightarrow> collect_records E operator tld dir rest domains
        | Some record \<Rightarrow>
            if dr_tld record \<noteq> tld
            then Inl (path @ '' is a record for .'' @ dr_tld record @ '', not .'' @ tld @
              ''; a registry never mixes TLDs'')
            else (case domain_record_verify E record (node_id E operator) of
                Inl e \<Rightarrow> Inl (path @ '' does not verify against YOUR operator key ('' @ error_display e @
                  ''); re-sign it with `federate operator sign-record`'')
              | Inr _ \<Rightarrow>
                  collect_records E operator tld dir rest (bm_insert (dr_domain record) record domains))))"

record build_registry_args =
  br_tld :: string
  br_records :: string
  br_version :: "nat option"
  br_out :: "string option"

definition build_registry ::
  "'x store_deps_scheme \<Rightarrow> int \<Rightarrow> string option \<Rightarrow> node_identity result
     \<Rightarrow> (string + (string \<times> (string + bytes)) list) \<Rightarrow> build_registry_args
     \<Rightarrow> (string \<times> bytes) command" where
  "build_registry E now err key listing args =
     and_then (or_die ''invalid TLD: '' (validate_tld_name (br_tld args))) (\<lambda>tld.
     and_then (or_die ''cannot load operator key: '' key) (\<lambda>operator.
     and_then (map_err (\<lambda>e. ''cannot read '' @ br_records args @ '': '' @ e) listing) (\<lambda>entries.
     and_then (collect_records E operator tld (br_records args) entries []) (\<lambda>domains.
     if domains = [] then Inl (''no valid .'' @ tld @ '' domain records found in '' @ br_records args)
     else
       let version = (case br_version args of Some v \<Rightarrow> v | None \<Rightarrow> nat (max (timestamp now) 0));
           registry = tld_registry_signed E operator tld version (x_to_rfc3339 E now) domains;
           path = (case br_out args of Some p \<Rightarrow> p | None \<Rightarrow> tld @ ''.registry.json'')
       in write_file path (to_vec (x_registry E) registry) err))))"

subsection \<open>Verifying a registry file\<close>

record verify_registry_args =
  vr_file :: string
  vr_tld :: string
  vr_operator :: "string option"

text \<open>The result is what the last lines report: version, number of domains, hash, and the note's condition.\<close>

record registry_report =
  rp_version :: nat
  rp_domains :: nat
  rp_hash :: string
  rp_self_check :: bool

definition failed_records :: "'x deps_scheme \<Rightarrow> string \<Rightarrow> tld_registry \<Rightarrow> nat" where
  "failed_records E operator_key registry =
     length (filter (\<lambda>rec. \<not> is_ok (domain_record_verify E rec operator_key)) (bm_values (rg_domains registry)))"

definition verify_registry ::
  "'x store_deps_scheme \<Rightarrow> bytes option \<Rightarrow> verify_registry_args \<Rightarrow> registry_report command" where
  "verify_registry E content args =
     and_then (or_die ''invalid TLD: '' (validate_tld_name (vr_tld args))) (\<lambda>tld.
     and_then (or_die ''[!!] '' (load_registry_file (from_slice (x_registry E)) (vr_file args) content))
       (\<lambda>(bs, registry).
     let operator_key = (case vr_operator args of Some k \<Rightarrow> k | None \<Rightarrow> rg_operator_public_key registry) in
     and_then (or_die ''[!!] registry verification FAILED: '' (tld_registry_verify E registry tld operator_key))
       (\<lambda>_.
     let failed = failed_records E operator_key registry in
     if 0 < failed then Inl (''[!!] '' @ show_nat failed @ '' record(s) failed verification'')
     else Inr \<lparr>rp_version = rg_version registry, rp_domains = length (rg_domains registry),
               rp_hash = hash_bytes E bs, rp_self_check = (vr_operator args = None)\<rparr>)))"

subsection \<open>Verifying a root zone\<close>

text \<open>\<open>root verify\<close>: the zone as Node 1 served it; the result is the number of domain records.\<close>

definition root_verify :: "'x deps_scheme \<Rightarrow> root_zone command \<Rightarrow> nat command" where
  "root_verify E fetched =
     and_then (map_err (\<lambda>e. ''cannot fetch root zone ('' @ e @ '')'') fetched) (\<lambda>zone.
     and_then (or_die ''[!!] root zone verification FAILED: ''
       (root_zone_verify E zone (rz_root_public_key zone))) (\<lambda>_.
     let bad = length (filter (\<lambda>rec.
           case bm_get (rz_tlds zone) (dr_tld rec) of
             None \<Rightarrow> True
           | Some tld \<Rightarrow> \<not> is_ok (domain_record_verify E rec (tr_operator_public_key tld)))
           (bm_values (rz_domains zone)))
     in if 0 < bad then Inl [] else Inr (length (rz_domains zone))))"

text \<open>\<open>tld verify\<close>.\<close>

definition tld_verify :: "'x deps_scheme \<Rightarrow> root_zone command \<Rightarrow> string \<Rightarrow> tld_status command" where
  "tld_verify E fetched tld =
     and_then (map_err (\<lambda>e. ''cannot fetch root zone ('' @ e @ '')'') fetched) (\<lambda>zone.
     let name = to_ascii_lowercase (trim_start_matches (CHR ''.'') tld) in
     (case bm_get (rz_tlds zone) name of
        Some rec \<Rightarrow>
          and_then (or_die (''[!!] .'' @ name @ '' verification FAILED: '')
            (tld_record_verify E rec (rz_root_public_key zone))) (\<lambda>_. Inr (tr_status rec))
      | None \<Rightarrow> Inl (''.'' @ name @ '' not found in the root registry'')))"

text \<open>\<open>domain check\<close>: whether the name is taken, and the record's status then.\<close>

definition domain_check :: "root_zone command \<Rightarrow> string \<Rightarrow> domain_status option command" where
  "domain_check fetched domain =
     and_then (or_die ''invalid domain: '' (federate_domain_parse domain)) (\<lambda>parsed.
     and_then (map_err (\<lambda>e. ''cannot fetch root zone ('' @ e @ '')'') fetched) (\<lambda>zone.
     (case bm_get (rz_tlds zone) (fd_tld parsed) of
        None \<Rightarrow> Inl (''.'' @ fd_tld parsed @ '' does not exist in the Federate root registry'')
      | Some t \<Rightarrow>
          if \<not> tld_status_is_resolvable (tr_status t)
          then Inl (''.'' @ fd_tld parsed @ '' exists but is '' @ tld_status_as_str (tr_status t) @
            '', so domains cannot be registered under it'')
          else Inr (map_option dr_status (root_zone_lookup zone (fqdn parsed))))))"

subsection \<open>Initialising and seeding a registry offline\<close>

definition root_init ::
  "'x store_deps_scheme \<Rightarrow> int \<Rightarrow> (root_zone \<Rightarrow> bytes) \<Rightarrow> io \<Rightarrow> string \<Rightarrow> disk \<Rightarrow> node_identity result
     \<Rightarrow> registry_store command" where
  "root_init E clock to_pretty io data_dir d key =
     and_then (or_die ''cannot load/create root key: '' key) (\<lambda>root.
     or_die ''[!!] init failed: ''
       (init_empty_registry E clock to_pretty io (data_dir @ ''/registry'') d root))"

text \<open>The store is returned in either case: a seed that is refused half-way has changed it.\<close>

definition root_seed ::
  "'x store_deps_scheme \<Rightarrow> int \<Rightarrow> (root_zone \<Rightarrow> bytes) \<Rightarrow> io \<Rightarrow> string \<Rightarrow> disk \<Rightarrow> string
     \<Rightarrow> seed_tld list result \<Rightarrow> node_identity result \<Rightarrow> node_identity result \<Rightarrow> blocklists result \<Rightarrow> bool
     \<Rightarrow> (seed_outcome command \<times> registry_store) command" where
  "root_seed E clock to_pretty io data_dir d path seed_file root_key operator_key loaded force =
     (let dir = data_dir @ ''/registry'' in
      and_then (or_die (''cannot load seed file '' @ path @ '': '') seed_file) (\<lambda>seed.
      and_then (or_die ''cannot load root key: '' root_key) (\<lambda>root.
      and_then (or_die ''cannot load official operator key: '' operator_key) (\<lambda>operator.
      and_then (or_die ''cannot load blocklists: '' loaded) (\<lambda>blocklists.
      and_then
        (if registry_exists d
         then or_die ''[!!] cannot open registry: '' (registry_open E dir d (node_id E root))
         else or_die ''[!!] cannot initialize registry: ''
           (init_empty_registry E clock to_pretty io dir d root)) (\<lambda>store.
      let ctx = \<lparr>mc_root = root, mc_official_operator = operator, mc_blocklists = blocklists, mc_now = clock\<rparr>;
          (r, store) = apply_seed E clock to_pretty io store seed ctx force
      in Inr (or_die ''[!!] seed refused: '' r, store)))))))"

end
