(* ===== verification/Cli_Publisher.thy ===== *)
theory Cli_Publisher
  imports Cli_Operator Node1_Server
begin

text \<open>
  \<open>crates/federate-cli/src/main.rs\<close>: packaging a site, and the commands that send a signed mutation or a
  site package to a node. The state \<open>'n\<close> of the node is threaded through the calls; \<open>node_link\<close> is what
  the HTTP client does with it. At the end the link to Node 1's own handlers.
\<close>

subsection \<open>HTTP\<close>

text \<open>The bodies the commands post; the JSON is what \<open>to_value\<close> makes of them.\<close>

datatype post_body = EmptyBody | MutationBody mutation_request | PackageBody site_package

text \<open>
  A request ends in a transport error, or in a status and a body that is JSON or not (the error of
  \<open>resp.json\<close>). \<open>nl_display\<close> prints a JSON value.
\<close>

type_synonym http_answer = "string + (nat \<times> (string + json))"

record 'n node_link =
  nl_get :: "string \<Rightarrow> 'n \<Rightarrow> http_answer"
  nl_post :: "string \<Rightarrow> post_body \<Rightarrow> 'n \<Rightarrow> http_answer \<times> 'n"
  nl_display :: "json \<Rightarrow> string"

definition node_get :: "'n node_link \<Rightarrow> string \<Rightarrow> string \<Rightarrow> 'n \<Rightarrow> json command" where
  "node_get L bootstrap path n =
     and_then (nl_get L (trim_end_matches (CHR ''/'') bootstrap @ path) n) (\<lambda>(status, body).
     if status = 404 then Inl ''not found'' else body)"

definition node_post ::
  "'n node_link \<Rightarrow> string \<Rightarrow> string \<Rightarrow> post_body \<Rightarrow> 'n \<Rightarrow> (nat \<times> json) command \<times> 'n" where
  "node_post L bootstrap path body n =
     (case nl_post L (trim_end_matches (CHR ''/'') bootstrap @ path) body n of
        (answer, n) \<Rightarrow>
          (and_then answer (\<lambda>(status, body). and_then body (\<lambda>v. Inr (status, v))), n))"

fun as_str :: "json \<Rightarrow> string option" where
  "as_str (JString s) = Some s"
| "as_str _ = None"

fun as_u64 :: "json \<Rightarrow> nat option" where
  "as_u64 (JNumber (PosInt n)) = Some n"
| "as_u64 _ = None"

fun as_bool :: "json \<Rightarrow> bool option" where
  "as_bool (JBool b) = Some b"
| "as_bool _ = None"

text \<open>A command that ends early keeps what the node has become.\<close>

definition and_next :: "'a command \<times> 'n \<Rightarrow> ('a \<Rightarrow> 'n \<Rightarrow> 'b command \<times> 'n) \<Rightarrow> 'b command \<times> 'n" where
  "and_next m f = (case m of (Inl e, n) \<Rightarrow> (Inl e, n) | (Inr x, n) \<Rightarrow> f x n)"

subsection \<open>Submitting mutations\<close>

definition nonce_of :: "'n node_link \<Rightarrow> string \<Rightarrow> (nat \<times> json) command \<Rightarrow> string command" where
  "nonce_of L bootstrap answer =
     (case answer of
        Inr (status, v) \<Rightarrow>
          if status = 200
          then (case as_str (json_index ''nonce'' v) of
              Some nonce \<Rightarrow> if nonce \<noteq> [] then Inr nonce else Inl ''node answered the nonce request without a nonce''
            | None \<Rightarrow> Inl ''node answered the nonce request without a nonce'')
          else Inl (''nonce request failed ('' @ show_nat status @ ''): '' @ nl_display L v)
      | Inl e \<Rightarrow> Inl (''cannot reach '' @ bootstrap @ '' ('' @ e @ '')''))"

definition fetch_mutation_nonce :: "'n node_link \<Rightarrow> string \<Rightarrow> 'n \<Rightarrow> string command \<times> 'n" where
  "fetch_mutation_nonce L bootstrap n =
     (case node_post L bootstrap ''/v1/mutations/nonce'' EmptyBody n of
        (answer, n) \<Rightarrow> (nonce_of L bootstrap answer, n))"

definition next_target_version :: "'n node_link \<Rightarrow> string \<Rightarrow> mutation_action \<Rightarrow> 'n \<Rightarrow> nat command" where
  "next_target_version L bootstrap action n =
     (case mutation_action_target action of (kind, target) \<Rightarrow>
        (case node_get L bootstrap (''/v1/mutations/target/'' @ target_kind_as_str kind @ ''/'' @ target) n of
           Inr v \<Rightarrow> ok_or (as_u64 (json_index ''next_version'' v)) ''node answered without a next_version''
         | Inl e \<Rightarrow> Inl (''cannot query target version ('' @ e @ '')'')))"

definition report_mutation_outcome :: "nat \<Rightarrow> json \<Rightarrow> unit command" where
  "report_mutation_outcome status v =
     (if as_bool (json_index ''accepted'' v) = Some True then Inr ()
      else Inl (''[!!] mutation rejected ('' @ show_nat status @ ''): '' @
        (case as_str (json_index ''error'' v) of Some e \<Rightarrow> e | None \<Rightarrow> ''unknown error'')))"

text \<open>What the two submitting commands do first: the challenge, the version, the signed envelope.\<close>

definition signed_request ::
  "'x deps_scheme \<Rightarrow> 'n node_link \<Rightarrow> string \<Rightarrow> int \<Rightarrow> node_identity \<Rightarrow> mutation_action \<Rightarrow> 'n
     \<Rightarrow> mutation_request command \<times> 'n" where
  "signed_request E L bootstrap now identity action n =
     and_next (fetch_mutation_nonce L bootstrap n) (\<lambda>nonce n.
       (and_then (next_target_version L bootstrap action n) (\<lambda>version.
          Inr (mutation_signed E identity nonce (x_to_rfc3339 E now) version action)), n))"

definition sign_and_submit_mutation ::
  "'x deps_scheme \<Rightarrow> 'n node_link \<Rightarrow> string \<Rightarrow> int \<Rightarrow> string \<Rightarrow> node_identity result \<Rightarrow> mutation_action \<Rightarrow> 'n
     \<Rightarrow> unit command \<times> 'n" where
  "sign_and_submit_mutation E L bootstrap now key_dir key action n =
     and_next (map_err (\<lambda>e. ''cannot load key from '' @ key_dir @ '' ('' @ error_display e @ '')'') key, n)
       (\<lambda>identity n.
     and_next (signed_request E L bootstrap now identity action n) (\<lambda>req n.
     (case node_post L bootstrap ''/v1/mutations'' (MutationBody req) n of
        (Inr (status, v), n) \<Rightarrow> (report_mutation_outcome status v, n)
      | (Inl e, n) \<Rightarrow> (Inl (''cannot submit mutation ('' @ e @ '')''), n))))"

subsection \<open>The commands that submit one mutation\<close>

datatype mutation_command =
    TldDelegate string string string "string option" string "string option" "string option"
  | TldCreate string string string
  | TldBlock string string
  | TldReserve string string
  | DomainUpdate string string
  | DomainSuspend string
  | DomainReinstate string

definition delegated_type :: "string \<Rightarrow> registry_type command" where
  "delegated_type name =
     (if name = ''delegated_manifest'' then Inr DelegatedManifest
      else if name = ''delegated_native'' then Inr DelegatedNative
      else if name = ''delegated_http'' then Inr DelegatedHttp
      else Inl (''unsupported registry type '' @ [CHR 0x27] @ name @ [CHR 0x27] @
        '' (use delegated_manifest, delegated_native, or delegated_http)''))"

fun command_action :: "mutation_command \<Rightarrow> mutation_action command" where
  "command_action (TldDelegate tld owner operator operator_name registry_type endpoint expires) =
     and_then (or_die ''invalid TLD: '' (validate_tld_name tld)) (\<lambda>tld.
     and_then (delegated_type registry_type) (\<lambda>registry_type.
     Inr (DelegateTld tld owner operator
       (case operator_name of Some n \<Rightarrow> n | None \<Rightarrow> ''operator of .'' @ tld) registry_type endpoint expires)))"
| "command_action (TldCreate tld mode purpose) =
     (if mode \<noteq> ''official''
      then Inl (''`federate tld create` only creates official TLDs; use `federate tld delegate` '' @
        ''for delegated ones'')
      else and_then (or_die ''invalid TLD: '' (validate_tld_name tld)) (\<lambda>tld. Inr (CreateTld tld purpose)))"
| "command_action (TldBlock tld reason) =
     and_then (or_die ''invalid TLD: '' (validate_tld_name tld)) (\<lambda>tld. Inr (BlockTld tld reason))"
| "command_action (TldReserve tld reason) =
     and_then (or_die ''invalid TLD: '' (validate_tld_name tld)) (\<lambda>tld. Inr (ReserveTld tld reason))"
| "command_action (DomainUpdate domain manifest) =
     (if \<not> is_valid_hash manifest then Inl ''--manifest must be a 64-char BLAKE3 hex content address''
      else Inr (UpdateDomainManifest domain manifest))"
| "command_action (DomainSuspend domain) = Inr (SetDomainStatus domain Suspended)"
| "command_action (DomainReinstate domain) = Inr (SetDomainStatus domain Active)"

definition run_mutation_command ::
  "'x deps_scheme \<Rightarrow> 'n node_link \<Rightarrow> string \<Rightarrow> int \<Rightarrow> string \<Rightarrow> node_identity result \<Rightarrow> mutation_command \<Rightarrow> 'n
     \<Rightarrow> unit command \<times> 'n" where
  "run_mutation_command E L bootstrap now key_dir key cmd n =
     and_next (command_action cmd, n) (sign_and_submit_mutation E L bootstrap now key_dir key)"

subsection \<open>Packaging a site\<close>

text \<open>
  The regular files under a directory as \<open>walkdir\<close> finds them: path relative to the directory (already
  with forward slashes) and content.
\<close>

type_synonym site_listing = "(string \<times> (string + bytes)) list"

fun read_site ::
  "'x deps_scheme \<Rightarrow> string \<Rightarrow> site_listing \<Rightarrow> (string, string) bmap \<Rightarrow> (string \<times> bytes) list
     \<Rightarrow> ((string, string) bmap \<times> (string \<times> bytes) list) command" where
  "read_site E dir [] files blocks = Inr (files, blocks)"
| "read_site E dir ((rel, content) # rest) files blocks =
     and_then (map_err (\<lambda>e. ''cannot read '' @ dir @ ''/'' @ rel @ '': '' @ e) content) (\<lambda>bs.
     read_site E dir rest (bm_insert rel (hash_bytes E bs) files) (blocks @ [(hash_bytes E bs, bs)]))"

definition collect_site_blocks ::
  "'x deps_scheme \<Rightarrow> string \<Rightarrow> site_listing \<Rightarrow> ((string, string) bmap \<times> (string \<times> bytes) list) command" where
  "collect_site_blocks E dir listing =
     and_then (read_site E dir listing [] []) (\<lambda>(files, blocks).
     if \<not> bm_contains files ''index.html'' then Inl (dir @ '' has no index.html'') else Inr (files, blocks))"

definition owner_manifest ::
  "'x deps_scheme \<Rightarrow> int \<Rightarrow> node_identity \<Rightarrow> federate_domain \<Rightarrow> nat \<Rightarrow> (string, string) bmap \<Rightarrow> manifest" where
  "owner_manifest E now owner parsed version files =
     (let manifest =
        \<lparr>mf_domain = fqdn parsed, mf_version = version, mf_entry = ''index.html'', mf_files = files,
         mf_owner_public_key = node_id E owner, mf_created_at = x_to_rfc3339 E now,
         mf_signature_algorithm = SIGNATURE_ALGORITHM, mf_signature = None\<rparr>
      in manifest\<lparr>mf_signature := Some (sign E owner (manifest_signable_bytes E manifest))\<rparr>)"

text \<open>
  The output directory of \<open>site package\<close>: the files at its root and those under \<open>blocks/\<close>. It may hold
  files already; nothing removes them. \<open>w\<close> is the error of writing a path, if any.
\<close>

record package_dir =
  pd_root :: "(string, bytes) bmap"
  pd_blocks :: "(string, bytes) bmap"

definition default_out :: "string \<Rightarrow> string" where
  "default_out dir = dir @ ''.federate-package''"

fun write_package_blocks ::
  "(string \<Rightarrow> string option) \<Rightarrow> string \<Rightarrow> (string \<times> bytes) list \<Rightarrow> package_dir \<Rightarrow> unit command \<times> package_dir" where
  "write_package_blocks w out [] pd = (Inr (), pd)"
| "write_package_blocks w out ((hash, bs) # rest) pd =
     (case w (out @ ''/blocks/'' @ hash) of
        Some e \<Rightarrow> (Inl (''cannot write block '' @ hash @ '': '' @ e), pd)
      | None \<Rightarrow> write_package_blocks w out rest (pd\<lparr>pd_blocks := bm_insert hash bs (pd_blocks pd)\<rparr>))"

definition write_package ::
  "(string \<Rightarrow> string option) \<Rightarrow> string \<Rightarrow> (string \<times> bytes) list \<Rightarrow> string \<Rightarrow> bytes \<Rightarrow> package_dir
     \<Rightarrow> unit command \<times> package_dir" where
  "write_package w out blocks manifest_hash manifest_bytes pd =
     (case w (out @ ''/blocks'') of
        Some e \<Rightarrow> (Inl (''cannot create '' @ out @ ''/blocks: '' @ e), pd)
      | None \<Rightarrow>
          and_next (write_package_blocks w out blocks pd) (\<lambda>_ pd.
          (case w (out @ ''/'' @ manifest_hash) of
             Some e \<Rightarrow> (Inl (''cannot write manifest: '' @ e), pd)
           | None \<Rightarrow> (Inr (), pd\<lparr>pd_root := bm_insert manifest_hash manifest_bytes (pd_root pd)\<rparr>))))"

record site_args =
  si_dir :: string
  si_domain :: string
  si_out :: "string option"
  si_version :: nat

text \<open>The result is what the command prints and installs: manifest address and bytes, and the blocks.\<close>

definition site_cmd ::
  "'x store_deps_scheme \<Rightarrow> int \<Rightarrow> (string \<Rightarrow> string option) \<Rightarrow> node_identity result \<Rightarrow> site_args
     \<Rightarrow> site_listing \<Rightarrow> package_dir \<Rightarrow> (string \<times> bytes \<times> (string \<times> bytes) list) command \<times> package_dir" where
  "site_cmd E now w key args listing pd =
     and_next
       (and_then (or_die ''invalid domain: '' (federate_domain_parse (si_domain args))) (\<lambda>parsed.
        and_then (or_die ''cannot load owner key: '' key) (\<lambda>owner.
        and_then (collect_site_blocks E (si_dir args) listing) (\<lambda>(files, blocks).
        Inr (to_vec (x_manifest E) (owner_manifest E now owner parsed (si_version args) files), blocks)))), pd)
       (\<lambda>(manifest_bytes, blocks) pd.
        let manifest_hash = hash_bytes E manifest_bytes;
            out = (case si_out args of Some p \<Rightarrow> p | None \<Rightarrow> default_out (si_dir args))
        in and_next (write_package w out blocks manifest_hash manifest_bytes pd) (\<lambda>_ pd.
           (Inr (manifest_hash, manifest_bytes, blocks), pd)))"

text \<open>
  \<open>--install\<close>: the blocks into a node's block store, the manifest into its cache of manifests. \<open>err\<close> is the
  error of opening the store, of creating a directory or of writing a file, if any.
\<close>

fun install_blocks ::
  "'x deps_scheme \<Rightarrow> (string \<Rightarrow> bool) \<Rightarrow> (string \<times> bytes) list \<Rightarrow> block_store \<Rightarrow> unit command \<times> block_store" where
  "install_blocks E w [] st = (Inr (), st)"
| "install_blocks E w ((hash, bs) # rest) st =
     (case block_store_put E w st hash bs of
        Inl e \<Rightarrow> (Inl (''cannot install block '' @ hash @ '': '' @ error_display e), st)
      | Inr st \<Rightarrow> install_blocks E w rest st)"

definition install_package ::
  "'x deps_scheme \<Rightarrow> (string \<Rightarrow> bool) \<Rightarrow> (string \<Rightarrow> string option) \<Rightarrow> string \<Rightarrow> string \<times> bytes \<times> (string \<times> bytes) list
     \<Rightarrow> block_store \<times> (string, bytes) bmap \<Rightarrow> unit command \<times> (block_store \<times> (string, bytes) bmap)" where
  "install_package E w err data_dir package node =
     (case (package, node) of ((manifest_hash, manifest_bytes, blocks), (st, manifests)) \<Rightarrow>
        let manifest_dir = data_dir @ ''/manifests'' in
        (case err (data_dir @ ''/cdn'') of
           Some e \<Rightarrow> (Inl (''cannot open node block store: '' @ e), st, manifests)
         | None \<Rightarrow>
        (case install_blocks E w blocks st of
           (Inl e, st) \<Rightarrow> (Inl e, st, manifests)
         | (Inr _, st) \<Rightarrow>
        (case err manifest_dir of
           Some e \<Rightarrow> (Inl (''cannot create '' @ manifest_dir @ '': '' @ e), st, manifests)
         | None \<Rightarrow>
        (case err (manifest_dir @ ''/'' @ manifest_hash) of
           Some e \<Rightarrow> (Inl (''cannot install manifest: '' @ e), st, manifests)
         | None \<Rightarrow> (Inr (), st, bm_insert manifest_hash manifest_bytes manifests))))))"

subsection \<open>Publishing\<close>

definition submit_site_package ::
  "'x deps_scheme \<Rightarrow> 'n node_link \<Rightarrow> string \<Rightarrow> int \<Rightarrow> node_identity \<Rightarrow> string \<Rightarrow> bytes \<Rightarrow> string
     \<Rightarrow> (string \<times> bytes) list \<Rightarrow> 'n \<Rightarrow> unit command \<times> 'n" where
  "submit_site_package E L bootstrap now owner domain manifest_bytes manifest_hash blocks n =
     and_next (signed_request E L bootstrap now owner (PublishSite domain manifest_hash) n) (\<lambda>mutation n.
       let package =
         \<lparr>sp_mutation = mutation, sp_manifest_hex = x_hex_encode E manifest_bytes,
          sp_blocks = map (\<lambda>(hash, bs). \<lparr>pb_hash = hash, pb_data_hex = x_hex_encode E bs\<rparr>) blocks\<rparr>
       in (case node_post L bootstrap ''/v1/ingest/package'' (PackageBody package) n of
             (Inr (status, v), n) \<Rightarrow> (report_mutation_outcome status v, n)
           | (Inl e, n) \<Rightarrow> (Inl (''cannot submit package ('' @ e @ '')''), n)))"

definition publish_cmd ::
  "'x store_deps_scheme \<Rightarrow> 'n node_link \<Rightarrow> string \<Rightarrow> int \<Rightarrow> node_identity result \<Rightarrow> string \<Rightarrow> site_listing
     \<Rightarrow> string \<Rightarrow> nat \<Rightarrow> 'n \<Rightarrow> unit command \<times> 'n" where
  "publish_cmd E L bootstrap now key dir listing domain version n =
     and_next
       (and_then (or_die ''invalid domain: '' (federate_domain_parse domain)) (\<lambda>parsed.
        and_then (or_die ''cannot load owner key: '' key) (\<lambda>owner.
        and_then (collect_site_blocks E dir listing) (\<lambda>(files, blocks).
        Inr (parsed, owner, files, blocks)))), n)
       (\<lambda>(parsed, owner, files, blocks) n.
        let manifest_bytes = to_vec (x_manifest E) (owner_manifest E now owner parsed version files)
        in submit_site_package E L bootstrap now owner (fqdn parsed) manifest_bytes
             (hash_bytes E manifest_bytes) blocks n)"

subsection \<open>Submitting a package from disk\<close>

text \<open>The files at the root of the package, in the order the file system lists them; the last manifest wins. The message
  of the JSON decoder is left out.\<close>

fun find_manifest ::
  "'x store_deps_scheme \<Rightarrow> (string \<times> (string + bytes)) list \<Rightarrow> (string \<times> bytes \<times> manifest) option
     \<Rightarrow> (string \<times> bytes \<times> manifest) option command" where
  "find_manifest E [] found = Inr found"
| "find_manifest E ((name, content) # rest) found =
     (if \<not> is_valid_hash name then find_manifest E rest found
      else and_then (map_err (\<lambda>e. ''cannot read manifest: '' @ e) content) (\<lambda>bs.
        if hash_bytes E bs \<noteq> name then Inl (name @ '' does not match its own content address'')
        else (case from_slice (x_manifest E) bs of
            None \<Rightarrow> Inl (name @ '' is not a manifest: '')
          | Some manifest \<Rightarrow> find_manifest E rest (Some (name, bs, manifest)))))"

fun read_blocks ::
  "'x deps_scheme \<Rightarrow> (string \<times> (string + bytes)) list \<Rightarrow> (string \<times> bytes) list command" where
  "read_blocks E [] = Inr []"
| "read_blocks E ((name, content) # rest) =
     and_then (map_err (\<lambda>e. ''cannot read block '' @ name @ '': '' @ e) content) (\<lambda>bs.
     and_then (or_die (''block '' @ name @ '' is corrupted: '') (storage_verify E bs name)) (\<lambda>_.
     and_then (read_blocks E rest) (\<lambda>blocks. Inr ((name, bs) # blocks))))"

definition load_package ::
  "'x store_deps_scheme \<Rightarrow> node_identity \<Rightarrow> string \<Rightarrow> string
     \<Rightarrow> (string + (string \<times> (string + bytes)) list) \<Rightarrow> (string + (string \<times> (string + bytes)) list)
     \<Rightarrow> (string \<times> bytes \<times> manifest \<times> (string \<times> bytes) list) command" where
  "load_package E owner key_dir package root_listing blocks_listing =
     and_then (map_err (\<lambda>e. ''cannot read '' @ package @ '': '' @ e) root_listing) (\<lambda>entries.
     and_then (find_manifest E entries None) (\<lambda>found.
     and_then (ok_or found (package @ '' has no manifest file (expected the output of `federate site package`)''))
       (\<lambda>(manifest_hash, manifest_bytes, manifest).
     if mf_owner_public_key manifest \<noteq> node_id E owner
     then Inl (''the manifest is owned by '' @ mf_owner_public_key manifest @ '' but '' @ key_dir @ '' holds '' @
       node_id E owner @ ''; sign with the manifest owner's key'')
     else and_then (map_err (\<lambda>e. ''cannot read '' @ package @ ''/blocks: '' @ e) blocks_listing) (\<lambda>entries.
       and_then (read_blocks E entries) (\<lambda>blocks.
       Inr (manifest_hash, manifest_bytes, manifest, blocks))))))"

definition submit_package ::
  "'x store_deps_scheme \<Rightarrow> 'n node_link \<Rightarrow> string \<Rightarrow> int \<Rightarrow> node_identity result \<Rightarrow> string \<Rightarrow> string
     \<Rightarrow> (string + (string \<times> (string + bytes)) list) \<Rightarrow> (string + (string \<times> (string + bytes)) list)
     \<Rightarrow> 'n \<Rightarrow> unit command \<times> 'n" where
  "submit_package E L bootstrap now key key_dir package root_listing blocks_listing n =
     and_next
       (and_then (or_die ''cannot load owner key: '' key) (\<lambda>owner.
        and_then (load_package E owner key_dir package root_listing blocks_listing) (\<lambda>p. Inr (owner, p))), n)
       (\<lambda>(owner, manifest_hash, manifest_bytes, manifest, blocks) n.
        submit_site_package E L bootstrap now owner (mf_domain manifest) manifest_bytes manifest_hash blocks n)"

subsection \<open>The link to Node 1\<close>

text \<open>
  Node 1 behind the client's URLs: its handlers for these routes, the other routes being a parameter. \<open>clock\<close>
  is the node's time when a request for the URL arrives; \<open>fresh\<close> the nonce it draws. The names in the
  URLs are in their path form, with nothing to escape.
\<close>

definition node1_get :: "string \<Rightarrow> (string \<Rightarrow> node1 \<Rightarrow> http_answer) \<Rightarrow> string \<Rightarrow> node1 \<Rightarrow> http_answer" where
  "node1_get base others url n =
     (case Option.bind (strip_prefix (base @ ''/v1/mutations/target/'') url) (split_once (CHR ''/'')) of
        Some (kind, name) \<Rightarrow>
          (case api_target n kind name of
             Inl status \<Rightarrow> Inr (status, Inl [])
           | Inr v \<Rightarrow> Inr (200, Inr v))
      | None \<Rightarrow> others url n)"

definition answered :: "json_response \<times> node1 \<Rightarrow> http_answer \<times> node1" where
  "answered r = (case r of ((status, v), n) \<Rightarrow> (Inr (status, Inr v), n))"

definition node1_post ::
  "'x store_deps_scheme \<Rightarrow> (string \<Rightarrow> int) \<Rightarrow> (root_zone \<Rightarrow> bytes) \<Rightarrow> io \<Rightarrow> string \<Rightarrow> string \<Rightarrow> string \<Rightarrow> post_body
     \<Rightarrow> node1 \<Rightarrow> http_answer \<times> node1" where
  "node1_post E clock to_pretty io fresh base url body n =
     (case body of
        EmptyBody \<Rightarrow>
          if url = base @ ''/v1/mutations/nonce'' then answered (api_nonce None fresh (clock url) n)
          else (Inr (404, Inl []), n)
      | MutationBody req \<Rightarrow>
          if url = base @ ''/v1/mutations'' then answered (api_submit E (clock url) to_pretty None io req n)
          else (Inr (404, Inl []), n)
      | PackageBody pkg \<Rightarrow>
          if url = base @ ''/v1/ingest/package''
          then answered (api_ingest E (clock url) to_pretty None io pkg n)
          else (Inr (404, Inl []), n))"

definition node1_link ::
  "'x store_deps_scheme \<Rightarrow> (string \<Rightarrow> int) \<Rightarrow> (root_zone \<Rightarrow> bytes) \<Rightarrow> io \<Rightarrow> string \<Rightarrow> string
     \<Rightarrow> (string \<Rightarrow> node1 \<Rightarrow> http_answer) \<Rightarrow> (json \<Rightarrow> string) \<Rightarrow> node1 node_link" where
  "node1_link E clock to_pretty io fresh base others display =
     \<lparr>nl_get = node1_get base others, nl_post = node1_post E clock to_pretty io fresh base,
      nl_display = display\<rparr>"

end
