(* ===== verification/Cli_Properties.thy ===== *)
theory Cli_Properties
  imports Cli_Publisher Publish_Properties
begin

text \<open>
  The command line tools on one machine: the registry an operator builds verifies and is accepted, a
  packaged site loads back, and where the tools do something else than they say.
\<close>

subsection \<open>The operator's registry\<close>

text \<open>A signed record verifies under the operator's key, and carries the name it was asked for.\<close>

lemma signed_record_verifies:
  assumes "sign_record E now pretty None (Inr operator) args = Inr (path, bs)"
    and "hex_ok E" "ed25519_ok E" "length (signing_key operator) = 32"
  obtains d r where "federate_domain_parse (sr_domain args) = Inr d" "bs = pretty r"
    "domain_record_verify E r (node_id E operator) = Inr ()" "dr_domain r = fqdn d" "dr_tld r = fd_tld d"
    "dr_manifest_hash r = sr_manifest_hash args" "dr_owner_public_key r = sr_owner args"
proof -
  obtain d where d: "federate_domain_parse (sr_domain args) = Inr d"
    using assms(1) by (auto simp: sign_record_def or_die_def and_then_eq_Inr map_err_eq_Inr)
  let ?u = "unsigned_record (x_to_rfc3339 E now) d args"
  define r where "r = ?u\<lparr>dr_signature := Some (sign E operator (domain_record_signable_bytes E ?u))\<rparr>"
  from dr.sealed_checks [OF assms(2-4) r_def]
  have "domain_record_verify E r (node_id E operator) = Inr ()"
    by (simp add: domain_record_verify_iff r_def unsigned_record_def fqdn_def)
  moreover have "bs = pretty r"
    using assms(1) d
    by (auto simp: sign_record_def or_die_def Let_def write_file_def r_def and_then_eq_Inr split: if_splits)
  moreover have "dr_domain r = fqdn d" "dr_tld r = fd_tld d" "dr_manifest_hash r = sr_manifest_hash args"
    "dr_owner_public_key r = sr_owner args"
    by (simp_all add: r_def unsigned_record_def)
  ultimately show ?thesis using d by (intro that)
qed

text \<open>What is collected is filed under its own name, under the one TLD, and verifies.\<close>

definition collected_ok ::
  "'x store_deps_scheme \<Rightarrow> node_identity \<Rightarrow> string \<Rightarrow> (string, domain_record) bmap \<Rightarrow> bool" where
  "collected_ok E operator tld domains \<longleftrightarrow> bm_sorted domains \<and>
     (\<forall>(k, r) \<in> set domains. dr_domain r = k \<and> dr_tld r = tld \<and> domain_record_wf r \<and>
        domain_record_verify E r (node_id E operator) = Inr ())"

lemma lowercase_tld: "tld_ok t \<Longrightarrow> to_ascii_lowercase t = t"
  by (intro to_ascii_lowercase_id) (auto simp: tld_ok_def list_all_iff dest: lowercase_not_upper)

text \<open>\<open>serde_json\<close> reads only values it can hold.\<close>

definition records_wf :: "'x store_deps_scheme \<Rightarrow> bool" where
  "records_wf E \<longleftrightarrow> (\<forall>bs r. from_slice (x_domain E) bs = Some r \<longrightarrow> domain_record_wf r)"

lemma collect_records_ok:
  "collect_records E operator tld dir entries domains = Inr out \<Longrightarrow> collected_ok E operator tld domains \<Longrightarrow>
    records_wf E \<Longrightarrow>
    collected_ok E operator tld out \<and> (\<forall>k. bm_get domains k \<noteq> None \<longrightarrow> bm_get out k \<noteq> None) \<and>
    (\<forall>(name, content) \<in> set entries. is_record_file name \<longrightarrow> (\<exists>bs. content = Inr bs \<and>
       (\<forall>r. from_slice (x_domain E) bs = Some r \<longrightarrow> bm_get out (dr_domain r) \<noteq> None)))"
proof (induction E operator tld dir entries domains rule: collect_records.induct)
  case (2 E operator tld dir name content rest domains)
  note run = 2(4) and ok = 2(5,6)
  show ?case
  proof (cases "is_record_file name")
    case False
    with 2(1) [OF refl] run ok show ?thesis by simp
  next
    case True
    with run obtain bs where bs: "content = Inr bs"
      by (auto simp: Let_def and_then_eq_Inr map_err_eq_Inr)
    show ?thesis
    proof (cases "from_slice (x_domain E) bs")
      case None
      with 2(2) [OF refl _ None] run ok True bs show ?thesis by simp
    next
      case (Some r)
      let ?domains = "bm_insert (dr_domain r) r domains"
      have r: "dr_tld r = tld" "domain_record_verify E r (node_id E operator) = Inr ()"
        and rest: "collect_records E operator tld dir rest ?domains = Inr out"
        using run True bs Some by (auto simp: Let_def split: if_splits sum.splits)
      have "collected_ok E operator tld ?domains"
        using ok r Some by (auto simp: collected_ok_def set_bm_insert records_wf_def)
      note IH = 2(3) [OF refl _ Some _ r(2) rest this ok(2)]
      show ?thesis using IH True bs Some r by (auto simp: map_simps)
    qed
  qed
qed simp


subsection \<open>Packages\<close>

lemma read_site_ok:
  "read_site E dir listing files0 blocks0 = Inr (files, blocks) \<Longrightarrow>
     \<exists>contents. listing = map (\<lambda>(rel, bs). (rel, Inr bs)) contents \<and>
       files = bm_extend (map (\<lambda>(rel, bs). (rel, hash_bytes E bs)) contents) files0 \<and>
       blocks = blocks0 @ map (\<lambda>(rel, bs). (hash_bytes E bs, bs)) contents"
proof (induction E dir listing files0 blocks0 rule: read_site.induct)
  case (2 E dir rel content rest files0 blocks0)
  then obtain bs where bs: "content = Inr bs" by (auto simp: and_then_eq_Inr map_err_eq_Inr)
  with 2 obtain contents where "rest = map (\<lambda>(rel, bs). (rel, Inr bs)) contents"
    "files = bm_extend (map (\<lambda>(rel, bs). (rel, hash_bytes E bs)) contents) (bm_insert rel (hash_bytes E bs) files0)"
    "blocks = (blocks0 @ [(hash_bytes E bs, bs)]) @ map (\<lambda>(rel, bs). (hash_bytes E bs, bs)) contents"
    by (auto simp: and_then_eq_Inr)
  with bs show ?case
    by (intro exI [of _ "(rel, bs) # contents"]) (simp add: bm_extend_def)
qed (auto simp: bm_extend_def)

text \<open>Conversely, a directory whose files can all be read is collected.\<close>

lemma read_site_reads:
  "read_site E dir (map (\<lambda>(rel, bs). (rel, Inr bs)) contents) files blocks =
     Inr (bm_extend (map (\<lambda>(rel, bs). (rel, hash_bytes E bs)) contents) files,
          blocks @ map (\<lambda>(rel, bs). (hash_bytes E bs, bs)) contents)"
  by (induction contents arbitrary: files blocks) (auto simp: bm_extend_def)


lemma collected_site:
  assumes "collect_site_blocks E dir listing = Inr (files, blocks)"
  obtains contents where "listing = map (\<lambda>(rel, bs). (rel, Inr bs)) contents"
    "files = bm_extend (map (\<lambda>(rel, bs). (rel, hash_bytes E bs)) contents) []"
    "blocks = map (\<lambda>(rel, bs). (hash_bytes E bs, bs)) contents" "bm_contains files ''index.html''"
  using assms read_site_ok [of E dir listing "[]" "[]"]
  by (fastforce simp: collect_site_blocks_def and_then_eq_Inr split: if_splits)

lemma site_manifest_fields [simp]:
  "mf_files (owner_manifest E now owner d v files) = files" "mf_domain (owner_manifest E now owner d v files) = fqdn d"
  "mf_entry (owner_manifest E now owner d v files) = ''index.html''"
  "mf_version (owner_manifest E now owner d v files) = v"
  "mf_owner_public_key (owner_manifest E now owner d v files) = node_id E owner"
  by (simp_all add: owner_manifest_def Let_def)

text \<open>The manifest of a packaged site is valid, and verifies as its owner's for its domain.\<close>

lemma owner_manifest_ok:
  assumes "hex_ok E" "ed25519_ok E" "length (signing_key owner) = 32" "bm_contains files ''index.html''"
  shows "manifest_validate (owner_manifest E now owner d v files) = Inr ()"
    "manifest_verify E (owner_manifest E now owner d v files) (fqdn d) (node_id E owner) = Inr ()"
proof -
  show "manifest_validate (owner_manifest E now owner d v files) = Inr ()"
    using assms(4) by (simp add: manifest_validate_def)
  let ?u = "\<lparr>mf_domain = fqdn d, mf_version = v, mf_entry = ''index.html'', mf_files = files,
    mf_owner_public_key = node_id E owner, mf_created_at = x_to_rfc3339 E now,
    mf_signature_algorithm = SIGNATURE_ALGORITHM, mf_signature = None\<rparr>"
  have eq: "owner_manifest E now owner d v files = ?u\<lparr>mf_signature := Some (sign E owner (manifest_signable_bytes E ?u))\<rparr>"
    by (simp add: owner_manifest_def)
  show "manifest_verify E (owner_manifest E now owner d v files) (fqdn d) (node_id E owner) = Inr ()"
    using mf.sealed_checks [OF assms(1-3) eq] by (simp add: manifest_verify_iff)
qed

lemma owner_manifest_wf: "bm_sorted files \<Longrightarrow> v \<le> u64_max \<Longrightarrow> manifest_wf (owner_manifest E now owner d v files)"
  by (simp add: manifest_wf_def)

subsection \<open>Packages on disk\<close>

text \<open>A directory listing of readable files.\<close>

abbreviation readable :: "(string \<times> bytes) list \<Rightarrow> (string \<times> (string + bytes)) list" where
  "readable files \<equiv> map (\<lambda>(name, bs). (name, Inr bs)) files"

lemma write_package_blocks_works:
  "write_package_blocks (\<lambda>_. None) out blocks pd = (Inr (), pd\<lparr>pd_blocks := bm_extend blocks (pd_blocks pd)\<rparr>)"
  by (induction "\<lambda>_ :: string. None :: string option" out blocks pd rule: write_package_blocks.induct)
     (simp_all add: bm_extend_def)

lemma site_cmd_writes:
  assumes "site_cmd E now (\<lambda>_. None) (Inr owner) args listing pd = (Inr (mh, mb, blocks), pd')"
  obtains d files where "federate_domain_parse (si_domain args) = Inr d"
    "collect_site_blocks E (si_dir args) listing = Inr (files, blocks)"
    "mb = to_vec (x_manifest E) (owner_manifest E now owner d (si_version args) files)" "mh = hash_bytes E mb"
    "pd_root pd' = bm_insert mh mb (pd_root pd)" "pd_blocks pd' = bm_extend blocks (pd_blocks pd)"
proof -
  obtain d files blocks' where "federate_domain_parse (si_domain args) = Inr d"
      "collect_site_blocks E (si_dir args) listing = Inr (files, blocks')"
    using assms
    by (cases "federate_domain_parse (si_domain args)"; cases "collect_site_blocks E (si_dir args) listing")
       (auto simp: site_cmd_def and_next_def or_die_def)
  with assms that show ?thesis
    by (auto simp: site_cmd_def and_next_def or_die_def Let_def write_package_def write_package_blocks_works)
qed

lemma read_blocks_verified:
  "\<forall>(h, b) \<in> set blocks. storage_verify E b h = Inr () \<Longrightarrow> read_blocks E (readable blocks) = Inr blocks"
  by (induction blocks) (auto simp: or_die_def)

lemma find_manifest_append:
  "find_manifest E (xs @ ys) found = and_then (find_manifest E xs found) (find_manifest E ys)"
proof (induction E xs found rule: find_manifest.induct)
  case (2 E name content rest found)
  then show ?case by (cases content) (auto split: option.split)
qed simp

lemma set_bm_extend_entries:
  "set (bm_extend kvs []) \<subseteq> set kvs" "fst ` set (bm_extend kvs []) = fst ` set kvs"
proof -
  have entry: "(k, v) \<in> set (bm_extend kvs []) \<longleftrightarrow> map_of (rev kvs) k = Some v" for k v
    by (simp only: bm_in_set bm_sorted_extend bm_sorted_Nil bm_get_extend) (simp add: bm_get_def split: option.split)
  then show "set (bm_extend kvs []) \<subseteq> set kvs" using map_of_SomeD [of "rev kvs"] by fastforce
  have "k \<in> fst ` set (bm_extend kvs []) \<longleftrightarrow> k \<in> fst ` set kvs" for k
  proof -
    have "k \<in> fst ` set (bm_extend kvs []) \<longleftrightarrow> (\<exists>v. map_of (rev kvs) k = Some v)"
      using entry by (force simp: image_iff)
    also have "\<dots> \<longleftrightarrow> k \<in> fst ` set (rev kvs)" by (metis map_of_eq_None_iff not_Some_eq)
    finally show ?thesis by simp
  qed
  then show "fst ` set (bm_extend kvs []) = fst ` set kvs" by blast
qed


text \<open>
  Packaging a second time into the same directory adds the new manifest and leaves the old one; of the two,
  \<open>submit-package\<close> takes the one the file system lists last, so the edited site may be announced and the old
  one submitted.
\<close>

lemma repackaged_site_submits_old:
  assumes "find_manifest E (readable [(mh, mb)]) None = Inr (Some (mh, mb, m))"
    and "find_manifest E (readable [(old_hash, old)]) None = Inr (Some (old_hash, old, m0))"
    and "mf_owner_public_key m0 = node_id E owner" "read_blocks E entries = Inr blocks"
  shows "load_package E owner key_dir dir (Inr (readable [(mh, mb), (old_hash, old)])) (Inr entries)
    = Inr (old_hash, old, m0, blocks)"
  using assms
  by (auto simp: load_package_def and_then_eq_Inr split: if_splits option.splits)

text \<open>
  The default output directory of a site given with a trailing slash lies inside the site: the next
  packaging takes the package for content.
\<close>

lemma trailing_slash_packages_inside:
  "default_out (dir @ ''/'') @ ''/blocks/'' @ hash = dir @ ''/'' @ ''.federate-package/blocks/'' @ hash"
  by (simp add: default_out_def)


subsection \<open>The properties at concrete inputs\<close>

lemma sample_cli_codecs:
  "codec_ok tld_registry_wf (x_registry sample_store_deps)" "codec_ok manifest_wf (x_manifest sample_store_deps)"
  "codec_ok domain_record_wf (x_domain sample_store_deps)" "records_wf sample_store_deps"
proof -
  have "x_registry sample_store_deps = inverse_codec (\<lambda>r. sample_bytes (tld_registry_json r)) tld_registry_wf"
    by (simp add: sample_store_deps_def sample_ext_def store_deps.defs)
  then show "codec_ok tld_registry_wf (x_registry sample_store_deps)"
    by (simp, intro codec_ok_inverse)
       (auto intro: tld_registry_json_inj simp: tld_registry_json_wf
          dest!: canonical_bytes_eqD [OF sample_deps_scalar_ok, rotated 2])
  show "codec_ok manifest_wf (x_manifest sample_store_deps)"
    unfolding sample_store_codecs
    by (rule codec_ok_inverse)
       (auto intro: manifest_json_inj simp: manifest_json_wf
          dest!: canonical_bytes_eqD [OF sample_deps_scalar_ok, rotated 2])
  show "codec_ok domain_record_wf (x_domain sample_store_deps)" using sample_serde_ok by (simp add: serde_ok_def)
  show "records_wf sample_store_deps"
    unfolding records_wf_def sample_store_codecs inverse_codec_def
    using inv_into_into [of _ "\<lambda>r. sample_bytes (domain_record_json r)" "{r. domain_record_wf r}"] by (auto split: if_splits)
qed

definition cli_record :: domain_record where
  "cli_record = sign_domain sample_store_deps sample_identity sample_domain_record"

definition cli_entries :: "(string \<times> (string + bytes)) list" where
  "cli_entries = [(''notes.txt'', Inl ''unreadable''),
     (''joao.pagina.record.json'', Inr (to_vec (x_domain sample_store_deps) cli_record))]"

abbreviation cli_build :: "(string \<times> bytes) command" where
  "cli_build \<equiv> build_registry sample_store_deps 5000000000 None (Inr sample_identity) (Inr cli_entries)
     \<lparr>br_tld = ''.Pagina'', br_records = ''records'', br_version = Some 3, br_out = None\<rparr>"

lemma cli_record_ok:
  "domain_record_verify sample_store_deps cli_record sample_root = Inr ()" "dr_tld cli_record = ''pagina''"
  "from_slice (x_domain sample_store_deps) (to_vec (x_domain sample_store_deps) cli_record) = Some cli_record"
proof -
  show "domain_record_verify sample_store_deps cli_record sample_root = Inr ()"
    using sign_domain_verifies [OF sample_keys_ok, of sample_domain_record]
    by (simp add: cli_record_def sample_domain_record_def)
  show "dr_tld cli_record = ''pagina''" by (simp add: cli_record_def sample_domain_record_def)
  have "domain_record_wf cli_record"
    by (simp add: cli_record_def sample_domain_record_def sign_domain_def Let_def domain_record_wf_def)
  then show "from_slice (x_domain sample_store_deps) (to_vec (x_domain sample_store_deps) cli_record) = Some cli_record"
    using sample_cli_codecs(3) by (simp add: codec_ok_def)
qed

lemma cli_build_works: "\<exists>bs. cli_build = Inr (''pagina.registry.json'', bs)"
proof -
  have names: "\<not> is_record_file ''notes.txt''" "is_record_file ''joao.pagina.record.json''" by code_simp+
  have "validate_tld_name ''.Pagina'' = Inr ''pagina''" by code_simp
  with names show ?thesis
    by (simp add: build_registry_def or_die_def cli_entries_def cli_record_ok write_file_def Let_def)
qed

lemma sample_root_length: "length sample_root = 64"
  by (simp add: node_id_def sample_store_deps_def sample_ext_def length_sample_hex_encode sample_identity_def)



definition cli_site :: "(string \<times> (string + bytes)) list" where
  "cli_site = [(''index.html'', Inr [60, 112, 62]), (''a/b.css'', Inr [1])]"

abbreviation cli_package ::
  "(string \<times> bytes \<times> (string \<times> bytes) list) command \<times> package_dir" where
  "cli_package \<equiv> site_cmd sample_store_deps 6000000000 (\<lambda>_. None) (Inr sample_identity)
     \<lparr>si_dir = ''site'', si_domain = ''Joao.pagina'', si_out = None, si_version = 1\<rparr> cli_site
     \<lparr>pd_root = [], pd_blocks = []\<rparr>"

lemma cli_package_works: "\<exists>mh mb blocks pd. cli_package = (Inr (mh, mb, blocks), pd)"
proof -
  have "federate_domain_parse ''Joao.pagina'' = Inr \<lparr>fd_name = ''joao'', fd_tld = ''pagina''\<rparr>" by code_simp
  moreover have "bm_contains (bm_insert ''a/b.css'' h [(''index.html'', h')]) ''index.html''" for h h'
    by (simp add: bm_contains_iff map_simps bm_get_def)
  ultimately show ?thesis
    by (simp add: site_cmd_def or_die_def collect_site_blocks_def cli_site_def and_next_def Let_def
        write_package_def write_package_blocks_works)
qed


end
