(* ===== verification/Cli_Publishing.thy ===== *)
theory Cli_Publishing
  imports Cli_Properties Node1_Properties
begin

text \<open>
  The command line tools against Node 1: what a submitting command relies on, stated as a locale and proved of
  Node 1's handlers, and the way of a site from the publisher's directory to the readers.
\<close>

lemma json_index_obj:
  "json_index k (json_obj fs) = (case map_of (rev fs) k of Some v \<Rightarrow> v | None \<Rightarrow> JNull)"
  by (simp only: json_obj_def json_index.simps bm_get_extend) (simp add: bm_get_def split: option.split)

subsection \<open>The interface between client and node\<close>

text \<open>
  What the submitting commands rely on: a node in a good state issues a nonce that is then pending, which
  only \<open>keeps\<close> its state otherwise, and reports the version that advances a target. \<open>version\<close> is the
  target's current version.
\<close>

locale challenge_node =
  fixes L :: "'n node_link" and bootstrap :: string and good :: "'n \<Rightarrow> bool"
    and keeps :: "'n \<Rightarrow> 'n \<Rightarrow> bool" and pending :: "'n \<Rightarrow> string \<Rightarrow> bool" and version :: "'n \<Rightarrow> string \<Rightarrow> nat"
  assumes nonce_answer: "good n \<Longrightarrow> \<exists>v n' nonce.
      node_post L bootstrap ''/v1/mutations/nonce'' EmptyBody n = (Inr (200, v), n') \<and>
      as_str (json_index ''nonce'' v) = Some nonce \<and> nonce \<noteq> [] \<and> pending n' nonce \<and> keeps n n'"
    and version_answer: "good n \<Longrightarrow> to_ascii_lowercase target = target \<Longrightarrow> \<exists>v.
      node_get L bootstrap (''/v1/mutations/target/'' @ target_kind_as_str kind @ ''/'' @ target) n = Inr v \<and>
      as_u64 (json_index ''next_version'' v) = Some ((version n (target_kind_as_str kind @ '':'' @ target) + 1) mod 2 ^ 64)"
    and keeps_good: "keeps n n' \<Longrightarrow> good n \<Longrightarrow> good n'"
    and keeps_version: "keeps n n' \<Longrightarrow> version n' = version n"
begin

lemma fetch_nonce:
  assumes "good n"
  shows "\<exists>nonce n'. fetch_mutation_nonce L bootstrap n = (Inr nonce, n') \<and> pending n' nonce \<and> keeps n n'"
  using nonce_answer [OF assms] by (auto simp: fetch_mutation_nonce_def nonce_of_def)

lemma next_version:
  assumes "good n"
  shows "next_target_version L bootstrap action n =
    Inr ((version n (mutation_action_target_key action) + 1) mod 2 ^ 64)"
proof -
  obtain kind target where t: "mutation_action_target action = (kind, target)" by (cases "mutation_action_target action")
  then have "to_ascii_lowercase target = target" by (cases action) (auto simp: to_ascii_lowercase_idem)
  with version_answer [OF assms, of target kind] t show ?thesis
    by (auto simp: next_target_version_def mutation_action_target_key_def)
qed

text \<open>The envelope carries the pending nonce and the version that advances the target.\<close>

lemma signed_request_ready:
  assumes "good n"
  shows "\<exists>nonce n'. signed_request E L bootstrap now i action n = (Inr (mutation_signed E i nonce
      (x_to_rfc3339 E now) ((version n (mutation_action_target_key action) + 1) mod 2 ^ 64) action), n') \<and>
    pending n' nonce \<and> keeps n n'"
proof -
  obtain nonce n' where f: "fetch_mutation_nonce L bootstrap n = (Inr nonce, n')" "pending n' nonce" "keeps n n'"
    using fetch_nonce [OF assms] by blast
  have "next_target_version L bootstrap action n' = Inr ((version n (mutation_action_target_key action) + 1) mod 2 ^ 64)"
    using next_version [OF keeps_good [OF f(3) assms]] keeps_version [OF f(3)] by simp
  with f(1) have "signed_request E L bootstrap now i action n = (Inr (mutation_signed E i nonce
      (x_to_rfc3339 E now) ((version n (mutation_action_target_key action) + 1) mod 2 ^ 64) action), n')"
    by (simp add: signed_request_def and_next_def)
  with f(2,3) show ?thesis by blast
qed

end

subsection \<open>Node 1 behind the link\<close>

definition after_nonce :: "string \<Rightarrow> int \<Rightarrow> node1 \<Rightarrow> node1" where
  "after_nonce fresh now n = snd (api_nonce None fresh now n)"

lemma issue_nonce_works:
  "issue_nonce None s nonce now = (Inr (nonce, now + 300), s\<lparr>rs_db := (rs_db s)\<lparr>t_nonces := bm_insert nonce (now + 300)
     (filter (\<lambda>(k, e). \<not> e < now + 300 - 600) (t_nonces (rs_db s)))\<rparr>\<rparr>)"
  by (simp add: issue_nonce_def reserve_nonce_def db_commit_def Let_def NONCE_TTL_SECS_def)

lemma after_nonce_db:
  obtains db where "after_nonce fresh now n = n\<lparr>n1_registry := (n1_registry n)\<lparr>rs_db := db\<rparr>\<rparr>"
    "bm_get (t_nonces db) fresh = Some (timestamp now + 300)"
  by (simp add: after_nonce_def api_nonce_def issue_nonce_works map_simps)

lemma node1_nonce_answer:
  "\<exists>v. node_post (node1_link E clock to_pretty io fresh (trim_end_matches (CHR ''/'') bootstrap) others display)
      bootstrap ''/v1/mutations/nonce'' EmptyBody n = (Inr (200, v),
        after_nonce fresh (clock (trim_end_matches (CHR ''/'') bootstrap @ ''/v1/mutations/nonce'')) n) \<and>
    as_str (json_index ''nonce'' v) = Some fresh"
  by (simp add: node_post_def node1_link_def node1_post_def answered_def api_nonce_def issue_nonce_works
      after_nonce_def json_index_obj)

lemma strip_prefix_simps:
  "strip_prefix (p @ q) (p @ s) = strip_prefix q s" "strip_prefix (c # p) (c # s) = strip_prefix p s"
  "strip_prefix [] s = Some s"
  by (simp_all add: strip_prefix_def)

lemma target_kind_no_slash: "split_once (CHR ''/'') (target_kind_as_str kind @ ''/'' @ s) = Some (target_kind_as_str kind, s)"
  by (cases kind) (simp_all add: split_once_def)

lemma node1_version_answer:
  assumes "to_ascii_lowercase target = target"
  shows "\<exists>v. node_get (node1_link E clock to_pretty io fresh (trim_end_matches (CHR ''/'') bootstrap) others display)
      bootstrap (''/v1/mutations/target/'' @ target_kind_as_str kind @ ''/'' @ target) n = Inr v \<and>
    as_u64 (json_index ''next_version'' v) =
      Some ((target_version (n1_registry n) (target_kind_as_str kind @ '':'' @ target) + 1) mod 2 ^ 64)"
proof -
  let ?key = "target_kind_as_str kind @ '':'' @ target"
  have "api_target n (target_kind_as_str kind) target = Inr (json_obj [(''target'', JString ?key),
      (''current_version'', json_nat (target_version (n1_registry n) ?key)),
      (''next_version'', json_nat ((target_version (n1_registry n) ?key + 1) mod 2 ^ 64))])"
    using assms by (cases kind) (simp_all add: api_target_def Let_def)
  with target_kind_no_slash [of kind target] show ?thesis
    by (simp add: node_get_def node1_link_def node1_get_def json_index_obj strip_prefix_simps)
qed

interpretation ch: challenge_node
    "node1_link E clock to_pretty io fresh (trim_end_matches (CHR ''/'') bootstrap) others display" bootstrap
    "\<lambda>n. fresh \<noteq> []"
    "\<lambda>n n'. n' = after_nonce fresh (clock (trim_end_matches (CHR ''/'') bootstrap @ ''/v1/mutations/nonce'')) n"
    "\<lambda>n nonce. nonce = fresh" "\<lambda>n. target_version (n1_registry n)"
  for E :: "'x store_deps_scheme" and clock to_pretty io fresh bootstrap others display
proof
  fix n n' :: node1
  let ?L = "node1_link E clock to_pretty io fresh (trim_end_matches (CHR ''/'') bootstrap) others display"
  let ?after = "after_nonce fresh (clock (trim_end_matches (CHR ''/'') bootstrap @ ''/v1/mutations/nonce''))"
  show "fresh \<noteq> [] \<Longrightarrow> \<exists>v n' nonce.
      node_post ?L bootstrap ''/v1/mutations/nonce'' EmptyBody n = (Inr (200, v), n') \<and>
      as_str (json_index ''nonce'' v) = Some nonce \<and> nonce \<noteq> [] \<and> nonce = fresh \<and> n' = ?after n"
    using node1_nonce_answer [of E clock to_pretty io fresh bootstrap others display n] by blast
  show "n' = ?after n \<Longrightarrow> target_version (n1_registry n') = target_version (n1_registry n)"
    by (rule after_nonce_db [of fresh "clock (trim_end_matches (CHR ''/'') bootstrap @ ''/v1/mutations/nonce'')" n])
       (auto simp: target_version_def fun_eq_iff)
qed (assumption | rule node1_version_answer, assumption)+


lemma node1_signed_request:
  assumes "fresh \<noteq> []" and "url = trim_end_matches (CHR ''/'') bootstrap"
  shows "signed_request E (node1_link E clock to_pretty io fresh url others display) bootstrap now i action n =
    (Inr (mutation_signed E i fresh (x_to_rfc3339 E now)
       ((target_version (n1_registry n) (mutation_action_target_key action) + 1) mod 2 ^ 64) action),
     after_nonce fresh (clock (url @ ''/v1/mutations/nonce'')) n)"
  unfolding assms(2) using ch.signed_request_ready [OF assms(1)] by blast

subsection \<open>Accepting a publication\<close>

text \<open>Who may publish a domain at a node: the TLD is the node's own and open, the domain new or the actor's.\<close>

definition may_publish :: "'x store_deps_scheme \<Rightarrow> int \<Rightarrow> node1 \<Rightarrow> string \<Rightarrow> federate_domain \<Rightarrow> bool" where
  "may_publish E now n actor d \<longleftrightarrow>
     (case root_zone_lookup_tld (rs_zone (n1_registry n)) (fd_tld d) of
        None \<Rightarrow> False
      | Some tr \<Rightarrow> tr_registry_type tr = RootManaged \<and> tld_status_is_resolvable (tr_status tr) \<and>
          \<not> tld_record_is_expired E now tr \<and> tr_operator_public_key tr = node_id E (n1_operator_key n)) \<and>
     (case root_zone_lookup (rs_zone (n1_registry n)) (fqdn d) of
        None \<Rightarrow> True
      | Some r \<Rightarrow> dr_owner_public_key r = actor \<and> (dr_status r = Active \<or> dr_status r = Pending) \<and>
          \<not> domain_record_is_expired E now r)"

lemma may_publish_zone:
  "n' = n\<lparr>n1_registry := s\<rparr> \<Longrightarrow> rs_zone s = rs_zone (n1_registry n) \<Longrightarrow>
     may_publish E now n' actor d = may_publish E now n actor d"
  by (simp add: may_publish_def cong: option.case_cong)

lemma publish_accepts:
  assumes may: "may_publish E now n actor d" and d: "federate_domain_parse domain = Inr d"
    and s: "rs_zone s = rs_zone (n1_registry n)"
    and m: "bm_get (rs_manifests s) mh = Some bs" "from_slice (x_manifest E) bs = Some m"
      "manifest_validate m = Inr ()" "manifest_verify E m (fqdn d) actor = Inr ()"
  shows "\<exists>z1. apply_publish E now s (mutation_ctx n t) (rs_zone s) actor False domain mh = Inr (RoleDomainOwner, z1)"
proof -
  obtain tr where tr: "bm_get (rz_tlds (rs_zone s)) (fd_tld d) = Some tr" "tr_registry_type tr = RootManaged"
      "tld_status_is_resolvable (tr_status tr)" "\<not> tld_record_is_expired E now tr"
      "tr_operator_public_key tr = node_id E (n1_operator_key n)"
    using may s by (auto simp: may_publish_def root_zone_lookup_tld_def split: option.splits)
  show ?thesis
  proof (cases "bm_get (rz_domains (rs_zone s)) (fqdn d)")
    case None
    with tr m d show ?thesis
      by (simp add: apply_publish_def Let_def root_zone_lookup_tld_def decode_as_def mutation_ctx_def)
  next
    case (Some r)
    with may s have "dr_owner_public_key r = actor" "dr_status r = Active \<or> dr_status r = Pending"
      by (auto simp: may_publish_def root_zone_lookup_def)
    with Some tr m d show ?thesis
      by (simp add: apply_publish_def Let_def root_zone_lookup_tld_def decode_as_def mutation_ctx_def)
  qed
qed

lemma may_publish_old:
  "may_publish E now n actor d \<Longrightarrow> bm_get (rz_domains (rs_zone (n1_registry n))) (fqdn d) = Some old \<Longrightarrow>
     \<not> domain_record_is_expired E now old"
  by (simp add: may_publish_def root_zone_lookup_def)

text \<open>The content of a package is stored, and every block can be read back.\<close>

lemma store_blocks_put_all:
  "store_blocks E io s blocks = (Inr u, s') \<Longrightarrow>
     \<exists>st. content_store.put_all (block_store_put E (io_write io)) blocks (rs_blocks s) = Inr st \<and> s' = s\<lparr>rs_blocks := st\<rparr>"
proof (induction E io s blocks rule: store_blocks.induct)
  case (2 E io s hash bs rest)
  then show ?case
    by (cases "block_store_put E (io_write io) (rs_blocks s) hash bs") auto
qed simp

lemma store_blocks_work:
  assumes "blake3_ok E" "\<forall>(h, b) \<in> set blocks. hash_bytes E b = h"
  shows "\<exists>s'. store_blocks E io_ok s blocks = (Inr (), s')"
  using assms(2)
proof (induction blocks arbitrary: s)
  case (Cons p blocks)
  obtain h b where p: "p = (h, b)" by (cases p)
  have "is_valid_hash h" using assms(1) Cons.prems p by (auto simp: blake3_ok_def hash_bytes_def)
  then obtain st where "block_store_put E (\<lambda>_. True) (rs_blocks s) h b = Inr st"
    using Cons.prems p by (simp add: block_store_put_def storage_verify_def Let_def block_path_def)
  with Cons p show ?case by (simp add: io_ok_def)
qed simp

text \<open>What a store serves, as far as the content of a package is concerned.\<close>

definition serves :: "'x deps_scheme \<Rightarrow> registry_store \<Rightarrow> bytes \<Rightarrow> (string \<times> bytes) list \<Rightarrow> bool" where
  "serves E s manifest_bytes blocks \<longleftrightarrow>
     bm_get (rs_manifests s) (hash_bytes E manifest_bytes) = Some manifest_bytes \<and>
     (\<forall>(h, b) \<in> set blocks. \<exists>b'. block_store_get E (rs_blocks s) h = Inr b')"

lemma store_content_works:
  assumes "blake3_ok E" "\<forall>(h, b) \<in> set blocks. hash_bytes E b = h"
  shows "\<exists>s'. store_content E io_ok s (mb, blocks) = (Inr (), s') \<and> serves E s' mb blocks"
proof -
  obtain s1 where s1: "store_blocks E io_ok s blocks = (Inr (), s1)" using store_blocks_work [OF assms] by blast
  from store_blocks_put_all [OF this] obtain st where
    st: "content_store.put_all (block_store_put E (io_write io_ok)) blocks (rs_blocks s) = Inr st" "rs_blocks s1 = st"
    by auto
  have "is_valid_hash (hash_bytes E mb)" using assms(1) by (simp add: blake3_ok_def hash_bytes_def)
  then have "store_content E io_ok s (mb, blocks) = (Inr (), s1\<lparr>rs_manifest_dir := bm_insert (hash_bytes E mb) mb (rs_manifest_dir s1),
      rs_manifests := bm_insert (hash_bytes E mb) mb (rs_manifests s1)\<rparr>)"
    by (simp add: store_content_def s1 store_manifest_def storage_verify_def write_manifest_def)
  moreover have "\<exists>b'. block_store_get E st h = Inr b'" if "(h, b) \<in> set blocks" for h b
    by (rule bs.put_all_available [OF st(1)]) (use that in force)
  ultimately show ?thesis using st(2) by (auto simp: serves_def map_simps)
qed

lemma store_content_core:
  "store_content E io s content = (u, s') \<Longrightarrow> same_core s s'"
  by (cases content; cases "store_blocks E io s (snd content)")
     (auto simp: store_content_def store_manifest_def write_manifest_def same_core_def
        split: sum.splits if_splits dest!: store_blocks_ok)

text \<open>Applying a publication leaves the content where it is.\<close>

lemma snapshot_keeps_content [simp]:
  "rs_manifests (snd (write_snapshot E to_pretty io s)) = rs_manifests s"
  "rs_blocks (snd (write_snapshot E to_pretty io s)) = rs_blocks s"
  by (simp_all add: write_snapshot_def Let_def case_prod_unfold)

lemma apply_keeps_content:
  assumes "apply_mutation E clock to_pretty io s req ctx = (r, s')"
    and "prepare_mutation E clock s req ctx = Inr (zone, None, event)"
  shows "rs_manifests s' = rs_manifests s \<and> rs_blocks s' = rs_blocks s"
  using assms
  by (auto simp: apply_mutation_def commit_applied_def install_registry_def record_mutation_def Let_def
      case_prod_unfold split: sum.splits)


text \<open>
  A package whose mutation carries a pending nonce, advances its target and is signed by a key that may
  publish the domain: the node answers that it is accepted, and then locates the domain and serves it.
\<close>

lemma ingest_accepts:
  assumes good: "good_node E n" and now: "clock_ok now" and blake: "blake3_ok E"
    and key: "length (signing_key owner) = 32"
    and may: "may_publish E now n (node_id E owner) d" and d: "federate_domain_parse (fqdn d) = Inr d"
    and m: "from_slice (x_manifest E) mb = Some m" "manifest_validate m = Inr ()"
      "manifest_verify E m (fqdn d) (node_id E owner) = Inr ()"
    and req: "sp_mutation pkg = mutation_signed E owner nonce issued v (PublishSite (fqdn d) (hash_bytes E mb))"
      "target_version (n1_registry n) (mutation_action_target_key (PublishSite (fqdn d) (hash_bytes E mb))) < v"
      "v \<le> u64_max" "mutation_check_age E (sp_mutation pkg) now = Inr ()" "nonce_valid n nonce now"
      "bm_get (rs_applied (n1_registry n)) (mr_mutation_id (sp_mutation pkg)) = None"
    and pkg: "site_package_decode E pkg = Inr (mb, blocks)"
  shows "\<exists>v' n' rec. api_ingest E now to_pretty None io_ok pkg n = ((200, v'), n') \<and>
    as_bool (json_index ''accepted'' v') = Some True \<and> good_node E n' \<and>
    locate_domain E now (rs_zone (n1_registry n')) (fqdn d) = Inr (SourceRootManaged rec) \<and>
    dr_domain rec = fqdn d \<and> dr_owner_public_key rec = node_id E owner \<and>
    dr_manifest_hash rec = hash_bytes E mb \<and> serves E (n1_registry n') mb blocks"
proof -
  let ?req = "sp_mutation pkg" and ?ctx = "mutation_ctx n now" and ?k = "node_id E (n1_root_key n)"
  note ok = good_node_store [OF good]
  have keys: "keys_ok E ?ctx" using good by (auto simp: good_node_def intro: keys_ok_any_time)
  have nonce: "mr_nonce ?req = nonce" by (simp add: req(1) mutation_signed_def Let_def)
  have wf: "mutation_request_wf ?req"
    using req(3) by (simp add: req(1) mutation_request_wf_def mutation_action_wf_def)
  obtain s1 where s1: "store_consume_nonce None (n1_registry n) nonce (timestamp now) = (Inr True, s1)"
    using req(5) by (simp add: consume_nonce_store)
  have blocks: "\<forall>(h, b) \<in> set blocks. hash_bytes E b = h"
    using pkg by (fastforce simp: site_package_decode_exact list_all2_conv_all_nth in_set_conv_nth)
  obtain s2 where s2: "store_content E io_ok s1 (mb, blocks) = (Inr (), s2)" "serves E s2 mb blocks"
    using store_content_works [OF blake blocks] by blast
  have run: "(store_step E to_pretty (n1_root_key n))\<^sup>*\<^sup>* (n1_registry n) s2"
    using step_consume [OF s1] store_content_run [OF s2(1)] by (rule converse_rtranclp_into_rtranclp)
  have ok2: "store_ok E ?k s2"
    using rs.run_inv [OF run] ok(1,2) by (simp add: good_store_def)
  have core: "same_core (n1_registry n) s2"
    using consume_nonce_ok [OF s1] store_content_core [OF s2(1)] same_core_trans by blast
  then have s2_eq: "rs_zone s2 = rs_zone (n1_registry n)" "rs_applied s2 = rs_applied (n1_registry n)"
    "rs_target_versions s2 = rs_target_versions (n1_registry n)" by (simp_all add: same_core_def)
  obtain z1 where z1: "apply_publish E now s2 ?ctx (rs_zone s2) (node_id E owner) False (fqdn d) (hash_bytes E mb)
      = Inr (RoleDomainOwner, z1)"
    using publish_accepts [OF may d s2_eq(1) _ m, of "hash_bytes E mb" now] s2(2) unfolding serves_def by blast
  then have act: "apply_action E now s2 ?ctx (mr_actor_public_key ?req) (mr_action ?req) (rs_zone s2)
      = Inr (RoleDomainOwner, z1, None)"
    by (simp add: req(1) no_registry_def)
  have verified: "mutation_verify E ?req = Inr ()"
    unfolding req(1) by (rule mutation_signed_verifies) (use keys key in \<open>simp_all add: keys_ok_def\<close>)
  have version: "target_version s2 (mutation_action_target_key (mr_action ?req)) < mr_target_version ?req"
    using req(2) by (simp add: req(1) target_version_def s2_eq)
  have age: "mutation_check_age E ?req (mc_now ?ctx) = Inr ()" and clk: "clock_ok (mc_now ?ctx)"
    and fresh: "bm_get (rs_applied s2) (mr_mutation_id ?req) = None"
    using req(4,6) now by (simp_all add: s2_eq)
  have ok2': "store_ok E (node_id E (mc_root ?ctx)) s2" using ok2 by simp
  obtain event s3 where app: "apply_mutation E now to_pretty io_ok s2 ?req ?ctx = (Inr event, s3)"
    and s3: "rs_zone s3 = resign_zone E ?ctx ?req RoleDomainOwner z1" "store_ok E (node_id E (mc_root ?ctx)) s3"
    by (rule apply_accepts [OF ok2' keys wf clk verified age fresh version act])
  have "memory_ok E (node_id E (mc_root ?ctx)) s2" using ok2' by (simp add: store_ok_def)
  from apply_keeps_content [OF app prepare_accepts [OF this keys wf verified age fresh version act]]
  have serves: "serves E s3 mb blocks" using s2(2) by (simp add: serves_def)
  obtain rec where rec: "locate_domain E now z1 (fqdn d) = Inr (SourceRootManaged rec)" "dr_domain rec = fqdn d"
      "dr_owner_public_key rec = node_id E owner" "dr_manifest_hash rec = hash_bytes E mb"
    using publish_located [OF z1 keys] may_publish_old [OF may] d s2_eq(1) by fastforce
  have "api_ingest E now to_pretty None io_ok pkg n = ((200, json_obj [(''accepted'', JBool True),
      (''mutation_id'', JString (mr_mutation_id ?req)), (''root_version'', json_nat (rz_root_version (rs_zone s3))),
      (''audit_event'', audit_record_json event)]), n\<lparr>n1_registry := s3\<rparr>)"
    by (simp add: api_ingest_def pkg run_mutation_def nonce s1 s2(1) apply_request_def app)
  moreover have "good_node E (n\<lparr>n1_registry := s3\<rparr>)"
    using s3(2) ok(1) good by (simp add: good_node_def good_store_def)
  ultimately show ?thesis using rec s3(1) serves by (auto simp: json_index_obj)
qed


subsection \<open>Publishing end to end\<close>

abbreviation site_of :: "(string \<times> bytes) list \<Rightarrow> site_listing" where
  "site_of contents \<equiv> map (\<lambda>(rel, bs). (rel, Inr bs)) contents"

abbreviation files_of :: "'x deps_scheme \<Rightarrow> (string \<times> bytes) list \<Rightarrow> (string, string) bmap" where
  "files_of E contents \<equiv> bm_extend (map (\<lambda>(rel, bs). (rel, hash_bytes E bs)) contents) []"

abbreviation blocks_of :: "'x deps_scheme \<Rightarrow> (string \<times> bytes) list \<Rightarrow> (string \<times> bytes) list" where
  "blocks_of E contents \<equiv> map (\<lambda>(rel, bs). (hash_bytes E bs, bs)) contents"

lemma files_of_get:
  "bm_get (files_of E contents) rel = map_option (hash_bytes E) (map_of (rev contents) rel)"
proof -
  have "rev (map (\<lambda>(rel, bs). (rel, hash_bytes E bs)) contents) = map (\<lambda>(rel, bs). (rel, hash_bytes E bs)) (rev contents)"
    by (simp add: rev_map)
  then show ?thesis
    by (simp only: bm_get_extend map_of_map) (simp add: bm_get_def split: option.split)
qed

lemma files_of_entry:
  "distinct (map fst contents) \<Longrightarrow> (rel, bs) \<in> set contents \<Longrightarrow>
     bm_get (files_of E contents) rel = Some (hash_bytes E bs)"
  by (simp only: files_of_get) (simp add: map_of_is_SomeI rev_map [symmetric])

lemma locate_same_domain:
  "federate_domain_parse host = federate_domain_parse host' \<Longrightarrow>
     locate_domain E clock zone host = locate_domain E clock zone host'"
  by (simp only: locate_domain_def)

lemma collect_readable:
  assumes "''index.html'' \<in> fst ` set contents"
  shows "collect_site_blocks E dir (site_of contents) = Inr (files_of E contents, blocks_of E contents)"
proof -
  have "map_of (rev contents) ''index.html'' \<noteq> None" using assms by (simp add: map_of_eq_None_iff)
  then have "bm_contains (files_of E contents) ''index.html''" by (simp only: bm_contains_iff files_of_get) simp
  then show ?thesis by (simp add: collect_site_blocks_def read_site_reads)
qed

lemma packaged_decodes:
  assumes "hex_ok E" "blake3_ok E" "length blocks \<le> MAX_PACKAGE_BLOCKS" "\<forall>(h, b) \<in> set blocks. hash_bytes E b = h"
    and "length mb + sum_list (map (length \<circ> snd) blocks) \<le> MAX_PACKAGE_BYTES"
    and "mr_action req = PublishSite domain (hash_bytes E mb)"
  shows "site_package_decode E \<lparr>sp_mutation = req, sp_manifest_hex = x_hex_encode E mb,
    sp_blocks = map (\<lambda>(hash, bs). \<lparr>pb_hash = hash, pb_data_hex = x_hex_encode E bs\<rparr>) blocks\<rparr> = Inr (mb, blocks)"
  using assms
  by (auto simp: site_package_decode_exact hex_ok_def blake3_ok_def hash_bytes_def list.rel_map list_all2_same)


lemma after_nonce_ready:
  assumes "good_node E n"
  shows "good_node E (after_nonce fresh c n)"
    "may_publish E now (after_nonce fresh c n) actor d = may_publish E now n actor d"
    "target_version (n1_registry (after_nonce fresh c n)) = target_version (n1_registry n)"
    "rs_applied (n1_registry (after_nonce fresh c n)) = rs_applied (n1_registry n)"
    "timestamp now < timestamp c + 300 \<Longrightarrow> nonce_valid (after_nonce fresh c n) fresh now"
proof -
  obtain db where n1: "after_nonce fresh c n = n\<lparr>n1_registry := (n1_registry n)\<lparr>rs_db := db\<rparr>\<rparr>"
      "bm_get (t_nonces db) fresh = Some (timestamp c + 300)"
    by (rule after_nonce_db)
  have "node1_step E (\<lambda>_. []) [] n (after_nonce fresh c n)"
    unfolding after_nonce_def by (rule n1_nonce) (rule surjective_pairing)
  with assms show "good_node E (after_nonce fresh c n)" by (rule n1.step_inv)
  show "may_publish E now (after_nonce fresh c n) actor d = may_publish E now n actor d"
    by (rule may_publish_zone [OF n1(1)]) simp
  show "target_version (n1_registry (after_nonce fresh c n)) = target_version (n1_registry n)"
    by (simp add: n1 target_version_def fun_eq_iff)
  show "rs_applied (n1_registry (after_nonce fresh c n)) = rs_applied (n1_registry n)" by (simp add: n1)
  show "timestamp now < timestamp c + 300 \<Longrightarrow> nonce_valid (after_nonce fresh c n) fresh now"
    by (simp add: n1 nonce_valid_def)
qed

text \<open>
  C14: Publishing works end to end. A site whose files can be read, with an index page and within the
  package limits, published with the command line by a key that may publish the domain at a node in a good
  state: the command fetches the nonce and the version, signs, uploads and reports success; the node's next
  zone locates the domain in a record of that owner; the record points at a manifest the node holds, which
  lists every file of the site under its content address, and the node has a block for each of them.
\<close>

theorem publishing_reaches_readers:
  assumes names: "url = trim_end_matches (CHR ''/'') bootstrap"
      "m = owner_manifest E now owner d version (files_of E contents)"
      "action = PublishSite (fqdn d) (hash_bytes E (to_vec (x_manifest E) m))"
      "current = target_version (n1_registry n) (mutation_action_target_key action)"
    and good: "good_node E n" and lib: "blake3_ok E" "codec_ok manifest_wf (x_manifest E)"
    and key: "length (signing_key owner) = 32" and fresh: "fresh \<noteq> []"
    and site: "''index.html'' \<in> fst ` set contents" "distinct (map fst contents)" "version \<le> u64_max"
      "length contents \<le> MAX_PACKAGE_BLOCKS"
      "length (to_vec (x_manifest E) m) + sum_list (map (length \<circ> snd) contents) \<le> MAX_PACKAGE_BYTES"
    and d: "federate_domain_parse domain = Inr d"
    and may: "may_publish E (clock (url @ ''/v1/ingest/package'')) n (node_id E owner) d"
    and new: "current < u64_max" "bm_get (rs_applied (n1_registry n)) (mr_mutation_id
      (mutation_signed E owner fresh (x_to_rfc3339 E now) (current + 1) action)) = None"
    and time: "clock_ok (clock (url @ ''/v1/ingest/package''))" "x_parse_rfc3339 E (x_to_rfc3339 E now) = Some t"
      "timestamp t \<le> timestamp (clock (url @ ''/v1/ingest/package'')) + 30"
      "timestamp (clock (url @ ''/v1/ingest/package'')) \<le> timestamp t + 300"
      "timestamp (clock (url @ ''/v1/ingest/package'')) < timestamp (clock (url @ ''/v1/mutations/nonce'')) + 300"
  shows "\<exists>n' rec mb. publish_cmd E (node1_link E clock to_pretty io_ok fresh url others display) bootstrap now (Inr owner)
      dir (site_of contents) domain version n = (Inr (), n') \<and> good_node E n' \<and>
    locate_domain E (clock (url @ ''/v1/ingest/package'')) (rs_zone (n1_registry n')) domain = Inr (SourceRootManaged rec) \<and>
    dr_domain rec = fqdn d \<and> dr_owner_public_key rec = node_id E owner \<and>
    store_get_manifest (n1_registry n') (dr_manifest_hash rec) = Some mb \<and> from_slice (x_manifest E) mb = Some m \<and>
    (\<forall>(rel, bs) \<in> set contents. bm_get (mf_files m) rel = Some (hash_bytes E bs) \<and>
       (\<exists>b. store_block E (n1_registry n') (hash_bytes E bs) = Some b))"
proof -
  let ?now = "clock (url @ ''/v1/ingest/package'')" and ?mb = "to_vec (x_manifest E) m"
  let ?L = "node1_link E clock to_pretty io_ok fresh url others display"
  let ?n1 = "after_nonce fresh (clock (url @ ''/v1/mutations/nonce'')) n"
  let ?req = "mutation_signed E owner fresh (x_to_rfc3339 E now) (current + 1) action"
  let ?pkg = "\<lparr>sp_mutation = ?req, sp_manifest_hex = x_hex_encode E ?mb,
    sp_blocks = map (\<lambda>(hash, bs). \<lparr>pb_hash = hash, pb_data_hex = x_hex_encode E bs\<rparr>) (blocks_of E contents)\<rparr>"
  have keys: "hex_ok E" "ed25519_ok E" using good by (simp_all add: good_node_def keys_ok_def)
  note ready = after_nonce_ready [OF good, where fresh = fresh and c = "clock (url @ ''/v1/mutations/nonce'')"]
  have index: "bm_contains (files_of E contents) ''index.html''"
    using collect_readable [OF site(1), of E dir] by (auto simp: collect_site_blocks_def read_site_reads split: if_splits)
  have m: "from_slice (x_manifest E) ?mb = Some m" "manifest_validate m = Inr ()"
      "manifest_verify E m (fqdn d) (node_id E owner) = Inr ()"
    using lib(2) owner_manifest_wf [of "files_of E contents" version E now owner d] site(3)
      owner_manifest_ok [OF keys key index] by (simp_all add: names(2) codec_ok_def bm_sorted_extend)
  have req: "signed_request E ?L bootstrap now owner action n = (Inr ?req, ?n1)"
    using new(1) by (simp add: node1_signed_request [OF fresh names(1)] names(4))
  have pkg: "site_package_decode E ?pkg = Inr (?mb, blocks_of E contents)"
    using site(4,5) by (intro packaged_decodes keys lib(1)) (auto simp: names(3) comp_def case_prod_unfold)
  have "mutation_check_age E ?req ?now = Inr ()"
    using time(2-4) by (simp add: mutation_check_age_iff MUTATION_MAX_AGE_SECS_def)
  moreover have same: "federate_domain_parse (fqdn d) = Inr d"
    using federate_domain_parse_Inr [OF d] by (rule federate_domain_parse_fqdn)
  ultimately obtain v' n' rec where up: "api_ingest E ?now to_pretty None io_ok ?pkg ?n1 = ((200, v'), n')"
    "as_bool (json_index ''accepted'' v') = Some True" "good_node E n'"
    "locate_domain E ?now (rs_zone (n1_registry n')) (fqdn d) = Inr (SourceRootManaged rec)"
    "dr_domain rec = fqdn d" "dr_owner_public_key rec = node_id E owner" "dr_manifest_hash rec = hash_bytes E ?mb"
    "serves E (n1_registry n') ?mb (blocks_of E contents)"
    using ingest_accepts [OF ready(1) time(1) lib(1) key, of d ?mb m ?pkg fresh "x_to_rfc3339 E now" "current + 1"
        "blocks_of E contents" to_pretty] may m new ready time(5) pkg
    by (auto simp: names(3,4))
  have "publish_cmd E ?L bootstrap now (Inr owner) dir (site_of contents) domain version n = (Inr (), n')"
    using req up(1,2) names d collect_readable [OF site(1), of E dir]
    by (simp add: publish_cmd_def or_die_def and_next_def submit_site_package_def Let_def node_post_def
        node1_link_def node1_post_def answered_def report_mutation_outcome_def)
  moreover have "locate_domain E ?now (rs_zone (n1_registry n')) domain = Inr (SourceRootManaged rec)"
    using up(4) d same by (subst locate_same_domain [of domain "fqdn d"]) simp_all
  moreover have "bm_get (mf_files m) rel = Some (hash_bytes E bs) \<and> (\<exists>b. store_block E (n1_registry n') (hash_bytes E bs) = Some b)"
    if "(rel, bs) \<in> set contents" for rel bs
    using that up(8) files_of_entry [OF site(2) that] by (fastforce simp: names(2) serves_def store_block_def)
  moreover have "store_get_manifest (n1_registry n') (dr_manifest_hash rec) = Some ?mb"
    using up(7,8) by (simp add: serves_def store_get_manifest_def)
  ultimately show ?thesis using up(3,5,6) m(1) by blast
qed


subsection \<open>The properties at concrete inputs\<close>

text \<open>A registry that starts with the zone in which \<open>.pagina\<close> was created.\<close>

definition cli_store :: registry_store where
  "cli_store =
     (let z = rs_zone sample_created;
          s = \<lparr>rs_db = redb_create, rs_zone = z, rs_registries = [], rs_manifests = [], rs_blocks = [],
               rs_target_versions = [], rs_applied = [], rs_audit = [], rs_manifest_dir = [], rs_snapshot_dir = []\<rparr>
      in s\<lparr>rs_db := snd (commit_initial sample_store_deps None redb_create
        \<lparr>is_zone_json = to_vec (x_zone sample_store_deps) z, is_root_version = rz_root_version z,
         is_state_hash = state_hash sample_store_deps z, is_tlds = bm_values (rz_tlds z),
         is_domains = bm_values (rz_domains z), is_delegated_registries = [],
         is_snapshot = \<lparr>sm_root_version = 0, sm_created_at = [], sm_state_hash = []\<rparr>\<rparr>)\<rparr>)"

lemma cli_store_fields [simp]:
  "rs_zone cli_store = rs_zone sample_created" "rs_registries cli_store = []" "rs_manifests cli_store = []"
  "rs_target_versions cli_store = []" "rs_applied cli_store = []" "rs_audit cli_store = []"
  "rs_manifest_dir cli_store = []"
  by (simp_all add: cli_store_def Let_def)

lemma cli_store_ok: "store_ok sample_store_deps sample_root cli_store"
proof -
  have z: "zone_ok sample_store_deps sample_root (rs_zone sample_created)"
    using sample_created_ok(2) by (simp add: store_ok_def memory_ok_def)
  let ?i = "\<lparr>is_zone_json = to_vec (x_zone sample_store_deps) (rs_zone cli_store),
    is_root_version = rz_root_version (rs_zone cli_store), is_state_hash = state_hash sample_store_deps (rs_zone cli_store),
    is_tlds = bm_values (rz_tlds (rs_zone cli_store)), is_domains = bm_values (rz_domains (rs_zone cli_store)),
    is_delegated_registries = map (\<lambda>(tld, bs, _). (tld, bs)) (rs_registries cli_store),
    is_snapshot = \<lparr>sm_root_version = 0, sm_created_at = [], sm_state_hash = []\<rparr>\<rparr>"
  have "snd (commit_initial sample_store_deps None redb_create ?i) = rs_db cli_store"
    by (simp add: cli_store_def Let_def)
  then have "db_mirrors sample_store_deps cli_store (rs_db cli_store)"
    using commit_initial_mirrors [of sample_store_deps sample_root cli_store _ "fst (commit_initial sample_store_deps None redb_create ?i)"] z
    by (cases "commit_initial sample_store_deps None redb_create ?i") auto
  moreover have "memory_ok sample_store_deps sample_root cli_store"
    using z by (simp add: memory_ok_def registries_ok_def applied_ok_def)
  moreover have "manifests_ok sample_store_deps cli_store" by (simp add: manifests_ok_def load_manifests_def bm_extend_def)
  ultimately show ?thesis by (simp add: store_ok_def)
qed

definition cli_node :: node1 where
  "cli_node = sample_node1\<lparr>n1_registry := cli_store\<rparr>"

lemma cli_node_good: "good_node sample_store_deps cli_node"
  using sample_node1_good cli_store_ok
  by (simp add: good_node_def good_store_def cli_node_def)

lemma cli_node_may: "may_publish sample_store_deps now cli_node actor \<lparr>fd_name = ''joao'', fd_tld = ''pagina''\<rparr>"
  by (simp add: may_publish_def root_zone_lookup_tld_def root_zone_lookup_def cli_node_def sample_created_exact
      bm_get_def sample_tld_def new_tld_record_def tld_record_is_expired_def expired_def expired_at_def)
     (simp add: sample_node1_def)

lemma length_escape: "length (escape s) = 2 * length s + 1"
  by (induction s) simp_all

lemma cli_manifest_size:
  "length (sample_bytes (manifest_json
     \<lparr>mf_domain = ''joao.pagina'', mf_version = 1, mf_entry = ''index.html'', mf_files = [(''index.html'', h)],
      mf_owner_public_key = k, mf_created_at = c, mf_signature_algorithm = ''ed25519'', mf_signature = Some sg\<rparr>))
    \<le> 1000 + 2 * (length h + length k + length c + length sg)"
  by code_simp (simp add: length_escape)


definition cli_manifest :: manifest where
  "cli_manifest = owner_manifest sample_store_deps 6000000000 sample_identity \<lparr>fd_name = ''joao'', fd_tld = ''pagina''\<rparr> 1
     (files_of sample_store_deps [(''index.html'', [60, 112, 62])])"

lemma cli_manifest_files: "mf_files cli_manifest = [(''index.html'', hash_bytes sample_store_deps [60, 112, 62])]"
  by (simp add: cli_manifest_def owner_manifest_def Let_def bm_extend_def)

lemma cli_manifest_small: "length (to_vec (x_manifest sample_store_deps) cli_manifest) \<le> 2000"
proof -
  let ?E = sample_store_deps
  define sg where "sg = sign ?E sample_identity (manifest_signable_bytes ?E (cli_manifest\<lparr>mf_signature := None\<rparr>))"
  have "x_hex_encode ?E = sample_hex_encode" "x_ed_sign ?E = sample_sign" "x_to_rfc3339 ?E = sample_show_time"
    "x_blake3_hex ?E = sample_digest"
    by (simp_all add: sample_store_deps_def sample_ext_def)
  moreover have "length (sample_show_time 6000000000) \<le> 8" by code_simp
  ultimately have "length sg = 128" "length (hash_bytes ?E [60, 112, 62]) = 64" "length (x_to_rfc3339 ?E 6000000000) \<le> 8"
    by (simp_all add: sg_def sign_def length_sample_hex_encode sample_sign_def hash_bytes_def sample_digest_def)
  moreover have "cli_manifest = \<lparr>mf_domain = ''joao.pagina'', mf_version = 1, mf_entry = ''index.html'',
      mf_files = [(''index.html'', hash_bytes ?E [60, 112, 62])], mf_owner_public_key = node_id ?E sample_identity,
      mf_created_at = x_to_rfc3339 ?E 6000000000, mf_signature_algorithm = ''ed25519'', mf_signature = Some sg\<rparr>"
    using cli_manifest_files
    by (simp add: cli_manifest_def owner_manifest_def Let_def sg_def SIGNATURE_ALGORITHM_def fqdn_def bm_extend_def)
  ultimately show ?thesis
    using cli_manifest_size [of "hash_bytes ?E [60, 112, 62]" "node_id ?E sample_identity" "x_to_rfc3339 ?E 6000000000" sg]
      sample_root_length
    by (simp add: sample_store_codecs inverse_codec_def)
qed

theorem publishing_reaches_readers_witness:
  "\<exists>n' rec mb m. publish_cmd sample_store_deps
      (node1_link sample_store_deps (\<lambda>_. 7000000000) sample_pretty io_ok ''n9'' ''http://node'' (\<lambda>_ _. Inl []) (\<lambda>_. []))
      ''http://node/'' 6000000000 (Inr sample_identity) ''site'' [(''index.html'', Inr [60, 112, 62])] ''Joao.pagina'' 1
      cli_node = (Inr (), n') \<and>
    locate_domain sample_store_deps 7000000000 (rs_zone (n1_registry n')) ''Joao.pagina'' = Inr (SourceRootManaged rec) \<and>
    store_get_manifest (n1_registry n') (dr_manifest_hash rec) = Some mb \<and>
    from_slice (x_manifest sample_store_deps) mb = Some m \<and>
    manifest_resolve_path m ''/'' \<noteq> None"
proof -
  let ?E = sample_store_deps and ?d = "\<lparr>fd_name = ''joao'', fd_tld = ''pagina''\<rparr>"
  let ?action = "PublishSite (fqdn ?d) (hash_bytes ?E (to_vec (x_manifest ?E) cli_manifest))"
  have url: "''http://node'' = trim_end_matches (CHR ''/'') ''http://node/''" by code_simp
  have parse: "federate_domain_parse ''Joao.pagina'' = Inr ?d" by code_simp
  have "sample_parse_time (sample_show_time 6000000000) = Some 6000000000" by code_simp
  then have time: "x_parse_rfc3339 ?E (x_to_rfc3339 ?E 6000000000) = Some 6000000000"
    by (simp add: sample_store_deps_def sample_ext_def)
  have versions: "target_version (n1_registry cli_node) k = 0" "rs_applied (n1_registry cli_node) = []" for k
    by (simp_all add: cli_node_def target_version_def bm_get_def)
  have "manifest_resolve_path cli_manifest ''/'' \<noteq> None"
    by (simp add: manifest_resolve_path_def trim_start_matches_def cli_manifest_files bm_get_def)
       (simp add: cli_manifest_def owner_manifest_def Let_def)
  then show ?thesis
    using publishing_reaches_readers [OF url cli_manifest_def refl refl cli_node_good sample_store_libraries(4)
      sample_cli_codecs(2) length_sample_identity, where fresh = "''n9''" and clock = "\<lambda>_. 7000000000"
      and domain = "''Joao.pagina''" and to_pretty = sample_pretty and dir = "''site''" and others = "\<lambda>_ _. Inl []"
      and display = "\<lambda>_. []"]
      cli_manifest_small parse cli_node_may [of 7000000000 "node_id ?E sample_identity"] versions time
    by (simp add: MAX_PACKAGE_BLOCKS_def MAX_PACKAGE_BYTES_def clock_ok_def timestamp_def bm_get_def) blast
qed

end
