(* ===== verification/Store_Admin.thy ===== *)
theory Store_Admin
  imports Mutation_Apply Utf8
begin

text \<open>
  The offline tools of the registry: \<open>crates/federate-mutation/src/legacy_json.rs\<close>, the file layout
  before the database, and \<open>migrate_json_to_redb\<close>, \<open>backup_registry\<close> and \<open>restore_registry\<close> of
  \<open>store.rs\<close>. A directory is the disk of a store with the old files; the reports are left out.
\<close>

record persisted_state =
  ps_zone :: root_zone
  ps_registries :: "(string, string) bmap"
  ps_target_versions :: "(string, nat) bmap"

record legacy_json_state =
  lg_zone :: root_zone
  lg_registries :: "(string, bytes \<times> tld_registry) bmap"
  lg_target_versions :: "(string, nat) bmap"
  lg_applied :: "applied_mutation list"
  lg_audit :: "audit_record list"
  lg_snapshot_zones :: "(nat, bytes) bmap"

record registry_dir = disk +
  rd_state :: "bytes option"
  rd_mutations :: "bytes option"
  rd_audit :: "bytes option"
  rd_legacy_backup :: "(string, bytes) bmap"

definition legacy_exists :: "registry_dir \<Rightarrow> bool" where
  "legacy_exists d \<longleftrightarrow> rd_state d \<noteq> None"

text \<open>The directory as \<open>RegistryStore::open\<close> sees it.\<close>

definition as_disk :: "registry_dir \<Rightarrow> disk" where
  "as_disk d =
     \<lparr>dk_db = dk_db d, dk_legacy = legacy_exists d, dk_manifest_dir = dk_manifest_dir d,
      dk_snapshot_dir = dk_snapshot_dir d, dk_blocks = dk_blocks d\<rparr>"

subsection \<open>Lines\<close>

definition strip_cr :: "string \<Rightarrow> string" where
  "strip_cr l = (if l \<noteq> [] \<and> last l = CHR 0x0D then butlast l else l)"

text \<open>\<open>str::lines\<close>: a line that ends with a newline loses it and a carriage return before it.\<close>

definition str_lines :: "string \<Rightarrow> string list" where
  "str_lines s =
     (let pieces = split_char (CHR 0x0A) s
      in map strip_cr (butlast pieces) @ (if last pieces = [] then [] else [last pieces]))"

definition read_lines :: "bytes option \<Rightarrow> string list result" where
  "read_lines file =
     (case file of
        None \<Rightarrow> Inr []
      | Some bs \<Rightarrow> and_then (ok_or (from_utf8 bs) Io) (\<lambda>s. Inr (filter (\<lambda>l. trim l \<noteq> []) (str_lines s))))"

definition jsonl :: "'a codec \<Rightarrow> 'a list \<Rightarrow> bytes" where
  "jsonl c items = concat (map (\<lambda>x. to_vec c x @ [10]) items)"

subsection \<open>Reading the old layout\<close>

text \<open>The loop over the registries: hex, JSON, and the operator of the zone's TLD record.\<close>

fun load_legacy_registries ::
  "'x store_deps_scheme \<Rightarrow> root_zone \<Rightarrow> (string \<times> string) list \<Rightarrow> (string, bytes \<times> tld_registry) bmap
     \<Rightarrow> (string, bytes \<times> tld_registry) bmap result" where
  "load_legacy_registries E zone [] m = Inr m"
| "load_legacy_registries E zone ((tld, hex_bytes) # rest) m =
     and_then (ok_or (x_hex_decode E hex_bytes)
       (InvalidRoot (''persisted .'' @ tld @ '' registry is not hex''))) (\<lambda>raw.
     and_then (decode_as (x_registry E) raw) (\<lambda>parsed.
     and_then (ok_or (root_zone_lookup_tld zone tld) (InvalidRoot
       (''persisted registry for .'' @ tld @ '' has no TLD record in the zone''))) (\<lambda>record.
     and_then (tld_registry_verify E parsed tld (tr_operator_public_key record)) (\<lambda>_.
     load_legacy_registries E zone rest (bm_insert tld (raw, parsed) m)))))"

fun load_history :: "'x store_deps_scheme \<Rightarrow> string list \<Rightarrow> applied_mutation list result" where
  "load_history E [] = Inr []"
| "load_history E (line # lines) =
     and_then (ok_or (from_slice (x_applied E) (bytes_of_str line))
       (InvalidRoot ''unreadable mutation history line: '')) (\<lambda>applied.
     and_then (load_history E lines) (\<lambda>rest. Inr (applied # rest)))"

fun load_audit :: "'x store_deps_scheme \<Rightarrow> string \<Rightarrow> string list \<Rightarrow> audit_record list result" where
  "load_audit E key [] = Inr []"
| "load_audit E key (line # lines) =
     and_then (ok_or (from_slice (x_audit E) (bytes_of_str line))
       (InvalidRoot ''unreadable audit line: '')) (\<lambda>event.
     and_then (audit_verify E event key) (\<lambda>_.
     and_then (load_audit E key lines) (\<lambda>rest. Inr (event # rest))))"

text \<open>Older zones: the snapshot files that parse and verify, in the order \<open>walk\<close> in which the directory lists them.\<close>

definition legacy_snapshots ::
  "'x store_deps_scheme \<Rightarrow> string \<Rightarrow> (string \<times> bytes) list \<Rightarrow> (nat, bytes) bmap" where
  "legacy_snapshots E key entries =
     foldl (\<lambda>m (_, bs). case from_slice (x_zone E) bs of
         None \<Rightarrow> m
       | Some zone \<Rightarrow> if is_ok (root_zone_verify E zone key) then bm_insert (rz_root_version zone) bs m else m)
       [] entries"

definition legacy_load ::
  "'x store_deps_scheme \<Rightarrow> persisted_state codec \<Rightarrow> ((string \<times> bytes) list \<Rightarrow> (string \<times> bytes) list)
     \<Rightarrow> registry_dir \<Rightarrow> string \<Rightarrow> legacy_json_state result" where
  "legacy_load E pc walk d key =
     and_then (ok_or (rd_state d) Io) (\<lambda>bs.
     and_then (decode_as pc bs) (\<lambda>state.
     and_then (root_zone_validate (ps_zone state)) (\<lambda>_.
     and_then (root_zone_verify E (ps_zone state) key) (\<lambda>_.
     and_then (load_legacy_registries E (ps_zone state) (ps_registries state) []) (\<lambda>registries.
     and_then (read_lines (rd_mutations d)) (\<lambda>history.
     and_then (load_history E history) (\<lambda>applied.
     and_then (read_lines (rd_audit d)) (\<lambda>events.
     and_then (load_audit E key events) (\<lambda>audit.
     Inr \<lparr>lg_zone = ps_zone state, lg_registries = registries, lg_target_versions = ps_target_versions state,
          lg_applied = applied, lg_audit = audit,
          lg_snapshot_zones = legacy_snapshots E key (walk (dk_snapshot_dir d))\<rparr>)))))))))"

text \<open>\<open>backup_files\<close> moves the old files away, one by one, up to the first that cannot be moved.\<close>

definition move_legacy ::
  "(string \<Rightarrow> bool) \<Rightarrow> string \<Rightarrow> (registry_dir \<Rightarrow> bytes option) \<Rightarrow> (registry_dir \<Rightarrow> registry_dir)
     \<Rightarrow> registry_dir \<Rightarrow> unit result \<times> registry_dir" where
  "move_legacy rn name file gone d =
     (case file d of
        None \<Rightarrow> (Inr (), d)
      | Some bs \<Rightarrow>
          if rn name then (Inr (), (gone d)\<lparr>rd_legacy_backup := bm_insert name bs (rd_legacy_backup d)\<rparr>)
          else (Inl Io, d))"

definition backup_files :: "(string \<Rightarrow> bool) \<Rightarrow> registry_dir \<Rightarrow> unit result \<times> registry_dir" where
  "backup_files rn d =
     (case move_legacy rn ''state.json'' rd_state (rd_state_update (\<lambda>_. None)) d of
        (Inl e, d) \<Rightarrow> (Inl e, d)
      | (Inr _, d) \<Rightarrow>
          (case move_legacy rn ''mutations.jsonl'' rd_mutations (rd_mutations_update (\<lambda>_. None)) d of
             (Inl e, d) \<Rightarrow> (Inl e, d)
           | (Inr _, d) \<Rightarrow> move_legacy rn ''audit.jsonl'' rd_audit (rd_audit_update (\<lambda>_. None)) d))"

text \<open>\<open>write\<close>: the writer for migration tests; it rewrites all three files.\<close>

definition legacy_write ::
  "'x store_deps_scheme \<Rightarrow> persisted_state codec \<Rightarrow> (string \<Rightarrow> bool) \<Rightarrow> root_zone
     \<Rightarrow> (string, bytes \<times> tld_registry) bmap \<Rightarrow> (string, nat) bmap \<Rightarrow> applied_mutation list
     \<Rightarrow> audit_record list \<Rightarrow> registry_dir \<Rightarrow> unit result \<times> registry_dir" where
  "legacy_write E pc w zone registries target_versions applied audit d =
     (if \<not> w ''state.json'' then (Inl Io, d)
      else
        let d = d\<lparr>rd_state := Some (to_vec pc \<lparr>ps_zone = zone,
              ps_registries = bm_map (\<lambda>(bs, _). x_hex_encode E bs) registries,
              ps_target_versions = target_versions\<rparr>)\<rparr>
        in if \<not> w ''mutations.jsonl'' then (Inl Io, d)
           else
             let d = d\<lparr>rd_mutations := Some (jsonl (x_applied E) applied)\<rparr>
             in if \<not> w ''audit.jsonl'' then (Inl Io, d)
                else (Inr (), d\<lparr>rd_audit := Some (jsonl (x_audit E) audit)\<rparr>))"

subsection \<open>Migration\<close>

text \<open>
  Transactions one after the other, up to the first the engine fails: \<open>err n\<close> is the outcome of the
  \<open>n\<close>th. A crash leaves what a failure at that transaction leaves.
\<close>

fun run_commits ::
  "(nat \<Rightarrow> string option) \<Rightarrow> nat \<Rightarrow> (string option \<Rightarrow> redb \<Rightarrow> unit result \<times> redb) list \<Rightarrow> redb
     \<Rightarrow> unit result \<times> redb" where
  "run_commits err n [] t = (Inr (), t)"
| "run_commits err n (op # ops) t =
     (case op (err n) t of
        (Inl e, t) \<Rightarrow> (Inl e, t)
      | (Inr _, t) \<Rightarrow> run_commits err (Suc n) ops t)"

definition migration_steps ::
  "'x store_deps_scheme \<Rightarrow> legacy_json_state \<Rightarrow> (string option \<Rightarrow> redb \<Rightarrow> unit result \<times> redb) list" where
  "migration_steps E legacy =
     (let zone = lg_zone legacy; hash = state_hash E zone in
      [\<lambda>err t. commit_initial E err t
         \<lparr>is_zone_json = to_vec (x_zone E) zone, is_root_version = rz_root_version zone,
          is_state_hash = hash, is_tlds = bm_values (rz_tlds zone),
          is_domains = bm_values (rz_domains zone),
          is_delegated_registries = map (\<lambda>(tld, bs, _). (tld, bs)) (lg_registries legacy),
          is_snapshot = \<lparr>sm_root_version = rz_root_version zone,
            sm_created_at = rz_generated_at zone, sm_state_hash = hash\<rparr>\<rparr>] @
      map (\<lambda>(version, bs) err t. put_root_zone_version err t version bs)
        (filter (\<lambda>(version, _). version \<noteq> rz_root_version zone) (lg_snapshot_zones legacy)) @
      map (\<lambda>applied err t. append_mutation E err t applied) (lg_applied legacy) @
      map (\<lambda>event err t. append_audit_event E err t event) (lg_audit legacy) @
      map (\<lambda>(key, version) err t. put_target_version err t key version) (lg_target_versions legacy))"

definition migrate_json_to_redb ::
  "'x store_deps_scheme \<Rightarrow> persisted_state codec \<Rightarrow> ((string \<times> bytes) list \<Rightarrow> (string \<times> bytes) list)
     \<Rightarrow> (nat \<Rightarrow> string option) \<Rightarrow> (string \<Rightarrow> bool) \<Rightarrow> string \<Rightarrow> string \<Rightarrow> registry_dir
     \<Rightarrow> unit result \<times> registry_dir" where
  "migrate_json_to_redb E pc walk err rn dir key d =
     (if dk_db d \<noteq> None
      then (Inl (StorageError (''database already exists at '' @ db_path dir @ ''; nothing to migrate'')), d)
      else if \<not> legacy_exists d
      then (Inl (StorageError (''no legacy JSON registry at '' @ dir @ ''/state.json'')), d)
      else (case legacy_load E pc walk d key of
          Inl e \<Rightarrow> (Inl e, d)
        | Inr legacy \<Rightarrow>
            (case run_commits err 0 (migration_steps E legacy) redb_create of
               (Inl e, t) \<Rightarrow> (Inl e, d\<lparr>dk_db := Some t\<rparr>)
             | (Inr _, t) \<Rightarrow> backup_files rn (d\<lparr>dk_db := Some t\<rparr>))))"

subsection \<open>Backup and restore\<close>

text \<open>
  \<open>copied\<close>: whether the file could be copied; \<open>opens\<close>: whether the engine opens the copy. The result is
  the backup file.
\<close>

definition backup_registry ::
  "string \<Rightarrow> disk \<Rightarrow> string \<Rightarrow> bool \<Rightarrow> bool \<Rightarrow> bool \<Rightarrow> redb result" where
  "backup_registry dir d output output_exists copied opens =
     (case dk_db d of
        None \<Rightarrow> Inl (StorageError (''no registry database at '' @ db_path dir))
      | Some db \<Rightarrow>
          if output_exists
          then Inl (StorageError (output @ '' already exists; refusing to overwrite a backup''))
          else if \<not> copied then Inl Io
          else if \<not> opens then Inl (StorageError ''backup copy failed verification: '')
          else Inr db)"

text \<open>\<open>input\<close> is the backup, if it can be copied; a copy that fails halfway is not modelled.\<close>

definition restore_registry ::
  "'x store_deps_scheme \<Rightarrow> redb option \<Rightarrow> string \<Rightarrow> disk \<Rightarrow> string \<Rightarrow> bool \<Rightarrow> registry_store result \<times> disk" where
  "restore_registry E input dir d key force =
     (if dk_db d \<noteq> None \<and> \<not> force
      then (Inl (StorageError (db_path dir @ '' already exists; pass --force to replace it with the backup'')), d)
      else (case input of
          None \<Rightarrow> (Inl Io, d)
        | Some db \<Rightarrow>
            let d = d\<lparr>dk_db := Some db\<rparr>
            in (and_then (registry_open E dir d key) (\<lambda>s. and_then (verify_all E s key) (\<lambda>_. Inr s)), d)))"

end
