(* ===== verification/Cli_Verifier.thy ===== *)
theory Cli_Verifier
  imports Resolution_Sample Search Dns_Server Node_Runtime Cli_Operator Store_Admin
begin

text \<open>
  \<open>crates/federate-cli/src/main.rs\<close>, the commands that verify on the user's machine: fetching an address,
  verifying domains, delegated registries and manifests through the resolver, the offline commands on a
  registry's database, the local DNS proxy's settings, and the clean-up of the hosts file at \<open>setup\<close>.
\<close>

subsection \<open>Addresses\<close>

text \<open>\<open>str::trim_start_matches\<close> with a string: every repetition of the prefix goes.\<close>

function trim_start_str :: "string \<Rightarrow> string \<Rightarrow> string" where
  "trim_start_str p s =
     (if p = [] then s
      else (case strip_prefix p s of Some r \<Rightarrow> trim_start_str p r | None \<Rightarrow> s))"
  by auto
termination
proof (relation "measure (\<lambda>(p, s). length s)")
  fix p s r :: string
  assume "p \<noteq> []" "strip_prefix p s = Some r"
  then have "s \<noteq> []" "r = drop (length p) s" by (auto simp: strip_prefix_def split: if_splits)
  then show "((p, r), p, s) \<in> measure (\<lambda>(p, s). length s)" using \<open>p \<noteq> []\<close> by (cases s; cases p) auto
qed simp

declare trim_start_str.simps [simp del]

definition parse_target :: "string \<Rightarrow> federate_uri command" where
  "parse_target input =
     (let normalized = (if starts_with_str input ''fed://'' then input
        else ''fed://'' @ trim_start_str ''http://'' input)
      in or_die ''invalid Federate address: '' (federate_uri_parse normalized))"

subsection \<open>The resolver of a command\<close>

text \<open>\<open>info\<close> is the bootstrap answer, if there was one; \<open>disk\<close> what the data directory holds.\<close>

definition build_resolver ::
  "string \<Rightarrow> bootstrap_info option \<Rightarrow> resolver \<Rightarrow> node_identity \<Rightarrow> string option \<Rightarrow> string list \<Rightarrow> resolver" where
  "build_resolver bootstrap info disk i root_key providers =
     (let providers = (case info of
          None \<Rightarrow> providers
        | Some info \<Rightarrow> foldl (\<lambda>ps p. if p \<in> set ps then ps else ps @ [p]) providers
            (native_providers info bootstrap))
      in with_native_providers providers (with_directory (client_new bootstrap) None
           (resolver_new (node_client_new bootstrap) disk root_key i)))"

text \<open>\<open>debug\<close> prints a result; the body goes to the file or, where none is named, to the standard output.\<close>

definition fetch_cmd ::
  "'x resolution_deps_scheme \<Rightarrow> int \<Rightarrow> (resolved \<Rightarrow> string) \<Rightarrow> string option \<Rightarrow> federate_uri \<Rightarrow> string option
     \<Rightarrow> resolver \<Rightarrow> (string option \<times> bytes) command \<times> resolver" where
  "fetch_cmd E clock debug err uri output s =
     (case resolve_uri E clock uri s of
        (Inr (Content d p bs mime h), s) \<Rightarrow>
          ((case output of
              Some path \<Rightarrow> and_then (write_file path bs err) (\<lambda>(path, bs). Inr (Some path, bs))
            | None \<Rightarrow> Inr (None, bs)), s)
      | (Inr other, s) \<Rightarrow> (Inl (federate_uri_display uri @ '' did not resolve to content: '' @ debug other), s)
      | (Inl e, s) \<Rightarrow> (Inl (''fetch failed for '' @ federate_uri_display uri @ '': '' @ error_display e), s))"

subsection \<open>Verifying through the resolver\<close>

text \<open>\<open>domain verify\<close>: the record, and the type of its registry as far as the zone still tells.\<close>

definition domain_verify ::
  "'x resolution_deps_scheme \<Rightarrow> int \<Rightarrow> string \<Rightarrow> resolver \<Rightarrow> (domain_record \<times> string) command \<times> resolver" where
  "domain_verify E clock domain s =
     (case resolve_domain E clock domain s of
        (Inl e, s) \<Rightarrow> (Inl (''[!!] '' @ domain @ '': '' @ error_display e), s)
      | (Inr rec, s) \<Rightarrow>
          (case current_root E s of
             (z, s) \<Rightarrow>
               (Inr (rec, case z of
                  Inl _ \<Rightarrow> ''?''
                | Inr zone \<Rightarrow> (case root_zone_lookup_tld zone (dr_tld rec) of
                      Some t \<Rightarrow> registry_type_debug (tr_registry_type t) | None \<Rightarrow> ''?'')), s)))"

text \<open>
  \<open>delegated-registry inspect\<close> and \<open>verify\<close>: the TLD record and the registry that were printed; no registry
  for a TLD managed by the root.
\<close>

definition delegated_registry_cmd ::
  "'x resolution_deps_scheme \<Rightarrow> bool \<Rightarrow> string \<Rightarrow> resolver
     \<Rightarrow> (tld_record \<times> tld_registry option) command \<times> resolver" where
  "delegated_registry_cmd E verify_mode name s =
     (let tld = to_ascii_lowercase (trim_start_matches (CHR ''.'') name) in
      case current_root E s of
        (Inl e, s) \<Rightarrow> (Inl (''cannot load a verified root zone ('' @ error_display e @ '')''), s)
      | (Inr root, s) \<Rightarrow>
      (case root_zone_lookup_tld root tld of
         None \<Rightarrow> (Inl (''.'' @ tld @ '' not found in the Federate root registry''), s)
       | Some tld_rec \<Rightarrow>
           if tr_registry_type tld_rec = RootManaged then (Inr (tld_rec, None), s)
           else
             (case (if verify_mode
                    then tld_record_verify E tld_rec (case rv_trusted s of Some key \<Rightarrow> key | None \<Rightarrow> [])
                    else Inr ()) of
                Inl e \<Rightarrow> (Inl ([CHR 0x0A] @ ''[!!] TLD record verification FAILED: '' @ error_display e), s)
              | Inr _ \<Rightarrow>
             (case tld_registry_by_name E tld s of
                (Inl e, s) \<Rightarrow> (Inl ([CHR 0x0A] @ ''[!!] cannot load the .'' @ tld @ '' registry: '' @ error_display e), s)
              | (Inr registry, s) \<Rightarrow>
                  let failed = failed_records E (tr_operator_public_key tld_rec) registry in
                  if verify_mode \<and> 0 < failed
                  then (Inl (''[!!] '' @ show_nat failed @ '' domain record(s) under .'' @ tld @ '' failed verification''), s)
                  else (Inr (tld_rec, Some registry), s)))))"

text \<open>\<open>manifest verify\<close>: \<open>get\<close> sends the request and reads the body. The result is the number of files.\<close>

definition manifest_verify_cmd ::
  "'x resolution_deps_scheme \<Rightarrow> int \<Rightarrow> (string \<Rightarrow> bytes command) \<Rightarrow> string \<Rightarrow> string \<Rightarrow> resolver
     \<Rightarrow> nat command \<times> resolver" where
  "manifest_verify_cmd E clock get bootstrap domain s =
     (case resolve_domain E clock domain s of
        (Inl e, s) \<Rightarrow> (Inl (''[!!] '' @ domain @ '': '' @ error_display e), s)
      | (Inr rec, s) \<Rightarrow>
          (and_then (get (trim_end_matches (CHR ''/'') bootstrap @ ''/v1/manifest/'' @ dr_manifest_hash rec)) (\<lambda>bs.
           and_then (or_die ''[!!] manifest hash mismatch: '' (storage_verify E bs (dr_manifest_hash rec))) (\<lambda>_.
           and_then (ok_or (from_slice (rx_manifest E) bs) ''bad manifest JSON: '') (\<lambda>manifest.
           and_then (or_die ''[!!] manifest verification FAILED: ''
             (manifest_verify E manifest domain (dr_owner_public_key rec))) (\<lambda>_.
           Inr (length (mf_files manifest)))))), s))"

subsection \<open>The registry's database, offline\<close>

definition root_status ::
  "'x store_deps_scheme \<Rightarrow> string \<Rightarrow> disk \<Rightarrow> node_identity result \<Rightarrow> registry_store option command" where
  "root_status E data_dir d key =
     (if \<not> registry_exists d then Inr None
      else and_then (or_die ''cannot load root key: '' key) (\<lambda>root.
        and_then (or_die ''[!!] cannot open registry: ''
          (registry_open E (data_dir @ ''/registry'') d (node_id E root))) (\<lambda>store. Inr (Some store))))"

definition migrate_cmd ::
  "'x store_deps_scheme \<Rightarrow> persisted_state codec \<Rightarrow> ((string \<times> bytes) list \<Rightarrow> (string \<times> bytes) list)
     \<Rightarrow> (nat \<Rightarrow> string option) \<Rightarrow> (string \<Rightarrow> bool) \<Rightarrow> string \<Rightarrow> node_identity result \<Rightarrow> registry_dir
     \<Rightarrow> unit command \<times> registry_dir" where
  "migrate_cmd E pc walk err rn data_dir key d =
     (case key of
        Inl e \<Rightarrow> (Inl (''cannot load root key: '' @ error_display e), d)
      | Inr root \<Rightarrow>
          (case migrate_json_to_redb E pc walk err rn (data_dir @ ''/registry'') (node_id E root) d of
             (r, d) \<Rightarrow> (or_die ''[!!] migration refused: '' r, d)))"

definition backup_cmd :: "string \<Rightarrow> disk \<Rightarrow> string \<Rightarrow> bool \<Rightarrow> bool \<Rightarrow> bool \<Rightarrow> redb command" where
  "backup_cmd data_dir d output output_exists copied opens =
     or_die ''[!!] backup failed: '' (backup_registry (data_dir @ ''/registry'') d output output_exists copied opens)"

definition restore_cmd ::
  "'x store_deps_scheme \<Rightarrow> redb option \<Rightarrow> string \<Rightarrow> node_identity result \<Rightarrow> bool \<Rightarrow> disk
     \<Rightarrow> registry_store command \<times> disk" where
  "restore_cmd E input data_dir key force d =
     (case key of
        Inl e \<Rightarrow> (Inl (''cannot load root key: '' @ error_display e), d)
      | Inr root \<Rightarrow>
          (case restore_registry E input (data_dir @ ''/registry'') d (node_id E root) force of
             (r, d) \<Rightarrow> (or_die ''[!!] restore failed: '' r, d)))"

text \<open>\<open>db stats\<close> and \<open>db verify\<close>: the counts, or that every check passed.\<close>

definition registry_db ::
  "'x store_deps_scheme \<Rightarrow> bool \<Rightarrow> string \<Rightarrow> node_identity result \<Rightarrow> disk \<Rightarrow> (string \<times> nat) list option command" where
  "registry_db E verify data_dir key d =
     and_then (or_die ''cannot load root key: '' key) (\<lambda>root.
     and_then (or_die ''[!!] cannot open registry: ''
       (registry_open E (data_dir @ ''/registry'') d (node_id E root))) (\<lambda>store.
     if verify
     then and_then (or_die ''[!!] database verification FAILED: '' (verify_all E store (node_id E root)))
       (\<lambda>_. Inr None)
     else Inr (Some (redb_stats (rs_db store)))))"

subsection \<open>The local resolver\<close>

text \<open>The first candidate both of whose ports can be bound.\<close>

definition dns_candidates :: "ip_addr list" where
  "dns_candidates = [IpV4 [127, 0, 0, 1], IpV4 [127, 53, 0, 1], IpV4 [127, 53, 0, 2], IpV4 [127, 53, 0, 3]]"

definition pick_dns_loopback :: "(ip_addr \<Rightarrow> bool) \<Rightarrow> (ip_addr \<Rightarrow> bool) \<Rightarrow> ip_addr command" where
  "pick_dns_loopback udp tcp =
     ok_or (List.find (\<lambda>ip. udp ip \<and> tcp ip) dns_candidates)
       (''port 53 is busy on every candidate loopback address; find the occupant with: sudo lsof -i :53'')"

text \<open>
  One question to the local resolver: \<open>send\<close> is the datagram that arrives within the two seconds, cut at the
  buffer's 512 bytes.
\<close>

definition local_resolve :: "(bytes \<Rightarrow> bytes option) \<Rightarrow> string \<Rightarrow> ip_addr list option" where
  "local_resolve send name =
     Option.bind (send (build_query 0x1a2b name 1)) (\<lambda>reply.
     (case parse_answers (take 512 reply) of
        Inr (rcode, answers) \<Rightarrow> if rcode = 0 \<and> answers \<noteq> [] then Some (map fst answers) else None
      | Inl _ \<Rightarrow> None))"

subsection \<open>The hosts file\<close>

record hosts_files =
  hf_hosts :: "string option"
  hf_backup :: "string option"

text \<open>A line whose address is followed by a name that resolves; what follows a hash sign is a comment.\<close>

definition stale_line :: "(string \<Rightarrow> ip_addr list option) \<Rightarrow> string \<Rightarrow> bool" where
  "stale_line lookup line =
     (case split_whitespace (split_first (CHR ''#'') line) of
        [] \<Rightarrow> False
      | _ # names \<Rightarrow> list_ex (\<lambda>name. lookup name \<noteq> None) names)"

text \<open>
  \<open>w_backup\<close> and \<open>w_hosts\<close>: \<open>None\<close> when the file could be written, otherwise what the failed write left of
  it. The result are the lines that were removed.
\<close>

definition setup_clean_hosts ::
  "(string \<Rightarrow> ip_addr list option) \<Rightarrow> string option option \<Rightarrow> string option option \<Rightarrow> hosts_files
     \<Rightarrow> string list \<times> hosts_files" where
  "setup_clean_hosts lookup w_backup w_hosts files =
     (case hf_hosts files of
        None \<Rightarrow> ([], files)
      | Some content \<Rightarrow>
          let lines = str_lines content;
              removed = filter (stale_line lookup) lines;
              kept = filter (\<lambda>l. \<not> stale_line lookup l) lines
          in if removed = [] then ([], files)
             else
               (case w_backup of
                  Some left \<Rightarrow> ([], files\<lparr>hf_backup := left\<rparr>)
                | None \<Rightarrow>
               (let files = files\<lparr>hf_backup := Some content\<rparr> in
                case w_hosts of
                  Some left \<Rightarrow> ([], files\<lparr>hf_hosts := left\<rparr>)
                | None \<Rightarrow> (removed, files\<lparr>hf_hosts := Some (join [CHR 0x0A] kept @ [CHR 0x0A])\<rparr>))))"

end
