(* ===== verification/Cli_Verifier_Properties.thy ===== *)
theory Cli_Verifier_Properties
  imports Cli_Verifier Noded_Properties
begin

text \<open>
  The verdicts of the verifying commands are backed by the pinned root key, and what the clean-up of the hosts
  file keeps and removes.
\<close>

subsection \<open>Addresses\<close>

lemma trim_start_str_other: "strip_prefix p s = None \<Longrightarrow> trim_start_str p s = s"
  by (subst trim_start_str.simps) simp

lemma trim_start_str_once: "p \<noteq> [] \<Longrightarrow> strip_prefix p s = None \<Longrightarrow> trim_start_str p (p @ s) = s"
  by (subst trim_start_str.simps) (simp add: trim_start_str_other)

text \<open>An address is accepted with its scheme, without one, and as an HTTP URL, and means the same.\<close>

lemma parse_target_spellings:
  assumes "strip_prefix ''fed://'' rest = None" "strip_prefix ''http://'' rest = None"
  shows "parse_target rest = parse_target (''fed://'' @ rest)"
    "parse_target (''http://'' @ rest) = parse_target (''fed://'' @ rest)"
proof -
  have "strip_prefix ''fed://'' (''http://'' @ rest) = None" by (simp add: strip_prefix_def)
  moreover have "starts_with_str (''fed://'' @ rest) ''fed://''"
    unfolding starts_with_str_def by (simp only: strip_prefix_append) simp
  ultimately show "parse_target rest = parse_target (''fed://'' @ rest)"
    "parse_target (''http://'' @ rest) = parse_target (''fed://'' @ rest)"
    using assms trim_start_str_other [OF assms(2)] trim_start_str_once [OF _ assms(2)]
    by (simp_all only: parse_target_def Let_def if_True if_False starts_with_str_def) simp_all
qed

subsection \<open>Verdicts\<close>

lemma fetched_content_verified:
  assumes inv: "resolver_inv E s" "zone_reprints E"
    and run: "fetch_cmd E clock debug err uri output s = (Inr (path, bs), s')"
  shows "\<exists>h domain root t rec. storage_verify E bs h = Inr () \<and>
    federate_domain_parse (federate_uri_fqdn uri) = Inr domain \<and> zone_trusted E s' root \<and>
    record_source E root t (fqdn domain) rec \<and> record_active E clock domain t rec \<and> path = output"
proof -
  obtain d p mime h where c: "resolve_uri E clock uri s = (Inr (Content d p bs mime h), s')" "path = output"
    using run by (auto simp: fetch_cmd_def write_file_def split: prod.splits sum.splits resolved.splits option.splits)
  show ?thesis
    using resolve_content [OF inv c(1) [unfolded resolve_uri_def]] c(2) unfolding content_from_record_def
    by blast
qed

text \<open>
  C39: The verdict of \<open>manifest verify\<close> is backed by the pinned root key. When the command reports success,
  the name parses to a domain; under the pinned key a zone verifies with an active TLD record whose operator
  signed an active record of that domain; what the node answered hashes to the address in the record and
  decodes to a manifest signed by the record's owner for the name as it was typed, with as many files as
  reported; and the resolver's trust is kept. A record the chain does not yield is never asked for.
\<close>

theorem manifest_verdict_sound:
  assumes inv: "resolver_inv E s" "zone_reprints E"
    and run: "manifest_verify_cmd E clock get bootstrap name s = (Inr n, s')"
  shows "\<exists>domain key root t rec bs m. federate_domain_parse name = Inr domain \<and>
    rv_trusted s' = Some key \<and> root_zone_verify E root key = Inr () \<and> tld_active E clock root (fd_tld domain) t \<and>
    record_source E root t (fqdn domain) rec \<and> record_active E clock domain t rec \<and>
    get (trim_end_matches (CHR ''/'') bootstrap @ ''/v1/manifest/'' @ dr_manifest_hash rec) = Inr bs \<and>
    storage_verify E bs (dr_manifest_hash rec) = Inr () \<and> from_slice (rx_manifest E) bs = Some m \<and>
    manifest_verify E m name (dr_owner_public_key rec) = Inr () \<and> mf_domain m = name \<and> n = length (mf_files m) \<and>
    resolver_inv E s' \<and> no_rollback E s s'"
proof -
  obtain rec where rec: "resolve_domain E clock name s = (Inr rec, s')"
    using run by (auto simp: manifest_verify_cmd_def split: prod.splits sum.splits)
  from run rec obtain bs m where m: "get (trim_end_matches (CHR ''/'') bootstrap @ ''/v1/manifest/'' @ dr_manifest_hash rec) = Inr bs"
      "storage_verify E bs (dr_manifest_hash rec) = Inr ()" "from_slice (rx_manifest E) bs = Some m"
      "manifest_verify E m name (dr_owner_public_key rec) = Inr ()" "n = length (mf_files m)"
    by (auto simp: manifest_verify_cmd_def or_die_def and_then_eq_Inr map_err_eq_Inr ok_or_eq_Inr)
  then have "mf_domain m = name" by (auto simp: manifest_verify_def Let_def split: if_splits option.splits)
  with m resolved_record_result [OF inv rec] resolve_domain_ok [OF inv rec] show ?thesis
    unfolding zone_trusted_def by blast
qed

text \<open>
  \<open>delegated-registry verify\<close>: the TLD record is signed by the pinned key, the registry by the operator this
  record names, and so is every record of the registry.
\<close>

lemma delegated_verdict_sound:
  assumes inv: "resolver_inv E s" "zone_reprints E"
    and run: "delegated_registry_cmd E True name s = (Inr (t, Some g), s')"
  shows "\<exists>key root. rv_trusted s' = Some key \<and> root_zone_verify E root key = Inr () \<and>
    root_zone_lookup_tld root (to_ascii_lowercase (trim_start_matches (CHR ''.'') name)) = Some t \<and>
    tld_record_verify E t key = Inr () \<and> registry_of E t g \<and>
    (\<forall>rec \<in> set (bm_values (rg_domains g)). domain_record_verify E rec (tr_operator_public_key t) = Inr ())"
proof -
  let ?tld = "to_ascii_lowercase (trim_start_matches (CHR ''.'') name)"
  obtain root s1 where root: "current_root E s = (Inr root, s1)" "root_zone_lookup_tld root ?tld = Some t"
      "tld_record_verify E t (case rv_trusted s1 of Some key \<Rightarrow> key | None \<Rightarrow> []) = Inr ()"
      "tld_registry_by_name E ?tld s1 = (Inr g, s')" "failed_records E (tr_operator_public_key t) g = 0"
    using run by (auto simp: delegated_registry_cmd_def Let_def split: prod.splits sum.splits option.splits if_splits)
  note ok = current_root_ok [OF inv root(1)]
  then have same: "current_root E s1 = (Inr root, s1)" and tr: "zone_trusted E s1 root"
    using resolver_invD by (auto simp: current_root_def)
  from root(2,4) same have reg: "resolver_tld_registry E t s1 = (Inr g, s')"
    by (simp add: tld_registry_by_name_def try_then_def)
  from step_okD [OF resolver_tld_registry_ok reg] have "same_root s1 s'" "registry_of E t g" by auto
  moreover obtain key where "rv_trusted s1 = Some key" "root_zone_verify E root key = Inr ()"
    using tr by (auto simp: zone_trusted_def)
  moreover have "\<forall>rec \<in> set (bm_values (rg_domains g)). domain_record_verify E rec (tr_operator_public_key t) = Inr ()"
    using root(5) by (auto simp: failed_records_def filter_empty_conv is_ok_iff)
  ultimately show ?thesis using root(2,3) by (auto simp: same_root_def)
qed

subsection \<open>The clean-up of the hosts file\<close>

lemma split_char_parts: "w \<in> set (split_char c s) \<Longrightarrow> c \<notin> set w"
proof (induction s arbitrary: w)
  case (Cons x s)
  obtain p ps where "split_char c s = p # ps" by (cases "split_char c s") auto
  with Cons show ?case by (auto split: if_splits)
qed simp

lemma str_lines_parts: "l \<in> set (str_lines s) \<Longrightarrow> CHR 0x0A \<notin> set l"
  using split_char_parts [of _ "CHR 0x0A" s]
  by (auto simp: str_lines_def Let_def strip_cr_def dest!: in_set_butlastD split: if_splits)

lemma str_lines_join:
  assumes "\<forall>l \<in> set ls. CHR 0x0A \<notin> set l"
  shows "str_lines (join [CHR 0x0A] ls @ [CHR 0x0A]) = (if ls = [] then [[]] else map strip_cr ls)"
  using assms split_join [of ls "CHR 0x0A"]
  by (cases "ls = []") (simp_all add: str_lines_def split_char_snoc strip_cr_def)

lemma utf8_chars_snoc: "\<not> continuation c \<Longrightarrow> utf8_chars (s @ [c]) = utf8_chars s @ [[c]]"
proof (induction s rule: utf8_chars.induct)
  case (2 x s)
  show ?case
  proof (cases "\<forall>y \<in> set s. continuation y")
    case True
    with 2(2) have parts: "takeWhile continuation (s @ [c]) = s" "dropWhile continuation (s @ [c]) = [c]"
      "takeWhile continuation s = s" "dropWhile continuation s = []"
      by (induction s) simp_all
    show ?thesis
      by (simp only: append_Cons append_Nil utf8_chars.simps parts takeWhile.simps dropWhile.simps)
  next
    case False
    with 2 show ?thesis by (auto simp: takeWhile_append dropWhile_append)
  qed
qed simp

lemma split_where_snoc: "sep c \<Longrightarrow> split_where sep (cs @ [c]) piece = split_where sep cs piece @ [[]]"
  by (induction cs arbitrary: piece) simp_all

lemma split_whitespace_strip_cr: "split_whitespace (split_first (CHR ''#'') (strip_cr l)) = split_whitespace (split_first (CHR ''#'') l)"
proof (cases "l \<noteq> [] \<and> last l = CHR 0x0D")
  case True
  then obtain s where l: "l = s @ [CHR 0x0D]" by (cases l rule: rev_cases) auto
  have cr: "\<not> continuation (CHR 0x0D)" "is_whitespace [CHR 0x0D]" by code_simp+
  have "split_whitespace (s @ [CHR 0x0D]) = split_whitespace s" for s
    by (simp add: split_whitespace_def utf8_chars_snoc [OF cr(1)] split_where_snoc [of is_whitespace, OF cr(2)])
  moreover have "split_first (CHR ''#'') (s @ [CHR 0x0D]) =
      (if CHR ''#'' \<in> set s then split_first (CHR ''#'') s else s @ [CHR 0x0D])"
    by (auto simp: split_first_def takeWhile_append)
  ultimately show ?thesis using l by (auto simp: strip_cr_def split_first_no_sep)
next
  case False
  then have "strip_cr l = l" by (simp only: strip_cr_def) simp
  then show ?thesis by simp
qed

lemma stale_line_strip_cr: "stale_line lookup (strip_cr l) = stale_line lookup l"
  by (simp only: stale_line_def split_whitespace_strip_cr)


text \<open>
  The local resolver forwards every name outside the zone to the upstream server, so a name that resolves is
  not a name of the network: an entry for an ordinary host goes too, even while there is no zone at all. And
  it is the line that goes: a name beside a Federate name on the same line loses its entry.
\<close>

definition answering_upstream :: "bytes \<Rightarrow> bytes list option" where
  "answering_upstream packet =
     (case dns_query_parse packet of Inl _ \<Rightarrow> None | Inr q \<Rightarrow> Some [build_response q [IpV4 [45, 1, 1, 1]] 30])"

lemma ordinary_name_resolves:
  "local_resolve (handle_packet E clock (Inl e) answering_upstream server) ''db.example'' = Some [IpV4 [45, 1, 1, 1]]"
proof -
  let ?p = "build_query 0x1a2b ''db.example'' 1"
  have "is_ok (dns_query_parse ?p)" by code_simp
  then obtain q where q: "dns_query_parse ?p = Inr q" by (auto simp: is_ok_iff)
  have "case dns_query_parse ?p of Inl _ \<Rightarrow> False | Inr q \<Rightarrow>
      forward_upstream (answering_upstream ?p) (dq_id q) = Some (build_response q [IpV4 [45, 1, 1, 1]] 30) \<and>
      parse_answers (take 512 (build_response q [IpV4 [45, 1, 1, 1]] 30)) = Inr (0, [(IpV4 [45, 1, 1, 1], 30)])"
    by code_simp
  then show ?thesis
    by (simp add: q local_resolve_def handle_packet_def is_federate_name_def Let_def)
qed

lemma ordinary_entries_are_removed:
  "setup_clean_hosts (local_resolve (handle_packet E clock (Inl e) answering_upstream server)) None None
      \<lparr>hf_hosts = Some ''10.0.0.5 db.example'', hf_backup = None\<rparr> =
    ([''10.0.0.5 db.example''], \<lparr>hf_hosts = Some [CHR 0x0A], hf_backup = Some ''10.0.0.5 db.example''\<rparr>)"
  "setup_clean_hosts (\<lambda>name. if name = ''home.fed'' then Some [IpV4 [45, 1, 1, 1]] else None) None None
      \<lparr>hf_hosts = Some ''127.0.0.1 localhost home.fed'', hf_backup = None\<rparr> =
    ([''127.0.0.1 localhost home.fed''],
     \<lparr>hf_hosts = Some [CHR 0x0A], hf_backup = Some ''127.0.0.1 localhost home.fed''\<rparr>)"
proof -
  have "str_lines ''10.0.0.5 db.example'' = [''10.0.0.5 db.example'']"
    "split_whitespace (split_first (CHR ''#'') ''10.0.0.5 db.example'') = [''10.0.0.5'', ''db.example'']"
    by code_simp+
  moreover from this(2) have "stale_line (local_resolve (handle_packet E clock (Inl e) answering_upstream server)) ''10.0.0.5 db.example''"
    unfolding stale_line_def by (simp add: ordinary_name_resolves)
  ultimately show "setup_clean_hosts (local_resolve (handle_packet E clock (Inl e) answering_upstream server)) None None
      \<lparr>hf_hosts = Some ''10.0.0.5 db.example'', hf_backup = None\<rparr> =
    ([''10.0.0.5 db.example''], \<lparr>hf_hosts = Some [CHR 0x0A], hf_backup = Some ''10.0.0.5 db.example''\<rparr>)"
    by (simp add: setup_clean_hosts_def)
qed code_simp

subsection \<open>At concrete inputs\<close>

lemma site_located:
  "federate_domain_parse host = Inr \<lparr>fd_name = ''joao'', fd_tld = ''pagina''\<rparr> \<Longrightarrow>
     resolve_domain site_deps 6 host site_resolver = (Inr site_record, site_resolver)"
  using site_active(1-4,7) site_active(5,6) [of 6] site_roots
  by (simp add: resolve_domain_def try_then_def current_root_def locate_record_def fqdn_def site_record_fields)

theorem manifest_verdict_sound_witness:
  "\<exists>s'. manifest_verify_cmd site_deps 6 (\<lambda>_. Inr [3]) ''http://node'' ''joao.pagina'' site_resolver = (Inr 1, s') \<and>
     resolver_inv site_deps s'"
proof -
  have "federate_domain_parse ''joao.pagina'' = Inr \<lparr>fd_name = ''joao'', fd_tld = ''pagina''\<rparr>" by code_simp
  from site_located [OF this] have
    "manifest_verify_cmd site_deps 6 (\<lambda>_. Inr [3]) ''http://node'' ''joao.pagina'' site_resolver = (Inr 1, site_resolver)"
    using site_cached by (simp add: manifest_verify_cmd_def site_record_fields site_deps_fields or_die_def)
       (simp add: site_manifest_def site_draft_def)
  with manifest_verdict_sound [OF site_inv site_reprints this] show ?thesis by blast
qed

text \<open>
  The manifest is compared with the name as typed: the spelling with capital letters, which resolves to the
  same record, is refused for the same manifest.
\<close>

lemma manifest_verify_needs_spelling:
  "\<not> is_ok (fst (manifest_verify_cmd site_deps 6 (\<lambda>_. Inr [3]) ''http://node'' ''Joao.Pagina'' site_resolver))"
proof -
  have "mf_domain site_manifest = ''joao.pagina''" by (simp add: site_manifest_def site_draft_def)
  then have "\<exists>e. manifest_verify site_deps site_manifest ''Joao.Pagina'' site_key = Inl e"
    by (simp add: manifest_verify_def Let_def)
  then show ?thesis
    using site_located [OF site_domain] site_cached(2)
    by (auto simp: manifest_verify_cmd_def site_record_fields site_deps_fields or_die_def)
qed


end
