(* ===== verification/Store_Admin_Properties.thy ===== *)
theory Store_Admin_Properties
  imports Store_Admin Store_Properties
begin

text \<open>
  What the offline tools keep: a migration carries the whole registry over when it ends, and loses its
  replay protection when it is cut short; a backup restores the registry it was taken from.
\<close>

subsection \<open>Text files\<close>

lemma utf8_step_append:
  assumes "utf8_step b rest = (True, n)"
  shows "utf8_step b (rest @ cs) = (True, n) \<and> n - 1 \<le> length rest"
proof -
  note step = assms [unfolded utf8_step_def Let_def]
  have get: "(rest @ cs) ! i = rest ! i" if "i < length rest" for i using that by (simp add: nth_append)
  consider "unat b < 128" | "194 \<le> unat b \<and> unat b \<le> 223" | "224 \<le> unat b \<and> unat b \<le> 239"
    | "240 \<le> unat b \<and> unat b \<le> 244"
    using step by (auto split: if_splits)
  then show ?thesis
  proof cases
    case 1
    with step show ?thesis by (simp add: utf8_step_def)
  next
    case 2
    with step have "0 < length rest" "128 \<le> unat (rest ! 0)" "unat (rest ! 0) < 192" "n = 2" by (simp_all split: if_splits)
    with 2 show ?thesis by (auto simp: utf8_step_def Let_def get Suc_le_eq)
  next
    case 3
    with step have "1 < length rest" "n = 3" "128 \<le> unat (rest ! 1)" "unat (rest ! 1) < 192"
      "(if unat b = 224 then 160 else 128) \<le> unat (rest ! 0)" "unat (rest ! 0) \<le> (if unat b = 237 then 159 else 191)"
      by (simp_all split: if_splits)
    moreover from this have "0 < length rest" by linarith
    ultimately show ?thesis using 3 by (simp add: utf8_step_def Let_def get)
  next
    case 4
    with step have "2 < length rest" "n = 4" "128 \<le> unat (rest ! 1)" "unat (rest ! 1) < 192"
      "128 \<le> unat (rest ! 2)" "unat (rest ! 2) < 192"
      "(if unat b = 240 then 144 else 128) \<le> unat (rest ! 0)" "unat (rest ! 0) \<le> (if unat b = 244 then 143 else 191)"
      by (simp_all split: if_splits)
    moreover from this have "0 < length rest" "1 < length rest" by linarith+
    ultimately show ?thesis using 4 by (simp add: utf8_step_def Let_def get)
  qed
qed

lemma utf8_valid_append: "utf8_valid bs \<Longrightarrow> utf8_valid cs \<Longrightarrow> utf8_valid (bs @ cs)"
proof (induction bs rule: utf8_valid.induct)
  case (2 b rest)
  obtain n where n: "utf8_step b rest = (True, n)" "utf8_valid (drop (n - 1) rest)"
    using 2(2) by (cases "utf8_step b rest") auto
  note step = utf8_step_append [OF n(1), of cs]
  then have "utf8_valid (drop (n - 1) rest @ cs)" using 2(1) [OF n(1) [symmetric]] n(2) 2(3) by simp
  moreover have "n - Suc (length rest) = 0" using step by (simp add: le_diff_conv)
  ultimately show ?case using step by simp
qed simp

lemma byte_mod: "unat (b :: byte) mod 256 = unat b"
  using unat_byte_lt [of b] by simp

lemma bytes_of_str_of_bytes [simp]: "bytes_of_str (str_of_bytes bs) = bs"
  by (induction bs) (simp_all add: bytes_of_str_def str_of_bytes_def code_def byte_mod)

lemma split_char_lines:
  "\<forall>p \<in> set ps. c \<notin> set p \<Longrightarrow> split_char c (concat (map (\<lambda>p. p @ [c]) ps)) = ps @ [[]]"
proof (induction ps)
  case (Cons p ps)
  have "split_char c (p @ c # s) = p # split_char c s" if "c \<notin> set p" for p s
    using that by (induction p) auto
  with Cons show ?case by simp
qed simp

text \<open>A line of a JSONL file: what \<open>serde_json\<close> prints without newlines.\<close>

definition line_ok :: "bytes \<Rightarrow> bool" where
  "line_ok bs \<longleftrightarrow> utf8_valid bs \<and> (\<forall>b \<in> set bs. 14 \<le> unat b) \<and> trim (str_of_bytes bs) \<noteq> []"

lemma line_ok_str:
  assumes "line_ok bs"
  shows "CHR 0x0A \<notin> set (str_of_bytes bs)" "strip_cr (str_of_bytes bs) = str_of_bytes bs"
proof -
  have "c \<noteq> CHR 0x0A \<and> c \<noteq> CHR 0x0D" if "c \<in> set (str_of_bytes bs)" for c
  proof -
    from that obtain b where b: "b \<in> set bs" "c = char_of (unat b)" by (auto simp: str_of_bytes_def)
    then have "code c = unat b" by (simp add: code_def byte_mod)
    moreover have "14 \<le> unat b" using assms b(1) by (simp add: line_ok_def)
    moreover have "code (CHR 0x0A) = 10" "code (CHR 0x0D) = 13" by (simp_all add: code_def)
    ultimately show ?thesis by auto
  qed
  then show "CHR 0x0A \<notin> set (str_of_bytes bs)" "strip_cr (str_of_bytes bs) = str_of_bytes bs"
    by (auto simp: strip_cr_def dest!: last_in_set)
qed

lemma newline: "char_of (10 :: nat) = CHR 0x0A"
  by code_simp

lemma read_jsonl:
  assumes "\<forall>x \<in> set xs. line_ok (to_vec c x)"
  shows "read_lines (Some (jsonl c xs)) = Inr (map (\<lambda>x. str_of_bytes (to_vec c x)) xs)"
proof -
  let ?ps = "map (\<lambda>x. str_of_bytes (to_vec c x)) xs"
  have "utf8_valid (jsonl c xs)"
    using assms
  proof (induction xs)
    case (Cons y xs)
    have "utf8_valid (10 # jsonl c xs)" using Cons by (simp add: utf8_step_def)
    then have "utf8_valid (to_vec c y @ 10 # jsonl c xs)"
      using Cons.prems by (intro utf8_valid_append) (simp_all add: line_ok_def)
    then show ?case by (simp add: jsonl_def)
  qed (simp add: jsonl_def)
  moreover have "str_of_bytes (jsonl c xs) = concat (map (\<lambda>p. p @ [CHR 0x0A]) ?ps)"
    by (induction xs) (simp_all add: jsonl_def str_of_bytes_def newline)
  moreover have plain: "\<forall>p \<in> set ?ps. CHR 0x0A \<notin> set p \<and> strip_cr p = p \<and> trim p \<noteq> []"
    using assms line_ok_str by (auto simp: line_ok_def)
  then have "map strip_cr ?ps = ?ps" "filter (\<lambda>l. trim l \<noteq> []) ?ps = ?ps"
    by (auto intro!: map_idI)
  moreover have "split_char (CHR 0x0A) (concat (map (\<lambda>p. p @ [CHR 0x0A]) ?ps)) = ?ps @ [[]]"
    by (rule split_char_lines) (use plain in blast)
  ultimately show ?thesis
    by (simp only: read_lines_def from_utf8_def str_lines_def Let_def option.case ok_or.simps and_then.simps
        if_True butlast_snoc last_snoc append_Nil2 simp_thms)
qed

subsection \<open>Reading back what was written\<close>

definition lines_of :: "'a codec \<Rightarrow> 'a list \<Rightarrow> string list" where
  "lines_of c xs = map (\<lambda>x. str_of_bytes (to_vec c x)) xs"

lemma load_history_written:
  "codec_ok P (x_applied E) \<Longrightarrow> \<forall>a \<in> set xs. P a \<Longrightarrow> load_history E (lines_of (x_applied E) xs) = Inr xs"
  by (induction xs) (simp_all add: lines_of_def codec_ok_def)

lemma load_audit_written:
  "codec_ok P (x_audit E) \<Longrightarrow> \<forall>e \<in> set xs. P e \<and> audit_verify E e k = Inr () \<Longrightarrow>
     load_audit E k (lines_of (x_audit E) xs) = Inr xs"
  by (induction xs) (simp_all add: lines_of_def codec_ok_def)

lemma load_legacy_registries_written:
  assumes "hex_ok E" "\<forall>(t, b, g) \<in> set regs. from_slice (x_registry E) b = Some g \<and>
     (\<exists>tr. bm_get (rz_tlds zone) t = Some tr \<and> tld_registry_verify E g t (tr_operator_public_key tr) = Inr ())"
  shows "load_legacy_registries E zone (bm_map (\<lambda>(bs, _). x_hex_encode E bs) regs) m = Inr (bm_extend regs m)"
  using assms(2)
proof (induction regs arbitrary: m)
  case (Cons p regs)
  obtain t b g where p: "p = (t, b, g)" by (cases p)
  from Cons.prems obtain tr where "from_slice (x_registry E) b = Some g" "root_zone_lookup_tld zone t = Some tr"
    "tld_registry_verify E g t (tr_operator_public_key tr) = Inr ()"
    unfolding p root_zone_lookup_tld_def by auto
  moreover have "load_legacy_registries E zone (bm_map (\<lambda>(bs, _). x_hex_encode E bs) regs) m' = Inr (bm_extend regs m')" for m'
    by (rule Cons.IH) (use Cons.prems in simp)
  ultimately show ?case
    using assms(1) by (simp add: p bm_map_def decode_as_def hex_ok_def bm_extend_def)
qed (simp add: bm_map_def bm_extend_def)

text \<open>The legacy files of a store.\<close>

definition state_of :: "'x store_deps_scheme \<Rightarrow> registry_store \<Rightarrow> persisted_state" where
  "state_of E s =
     \<lparr>ps_zone = rs_zone s, ps_registries = bm_map (\<lambda>(bs, _). x_hex_encode E bs) (rs_registries s),
      ps_target_versions = rs_target_versions s\<rparr>"

lemma state_of_fields [simp]:
  "ps_zone (state_of E s) = rs_zone s" "ps_target_versions (state_of E s) = rs_target_versions s"
  by (simp_all add: state_of_def)

definition legacy_of :: "'x store_deps_scheme \<Rightarrow> string \<Rightarrow> ((string \<times> bytes) list \<Rightarrow> (string \<times> bytes) list)
     \<Rightarrow> registry_dir \<Rightarrow> registry_store \<Rightarrow> legacy_json_state" where
  "legacy_of E k walk d s =
     \<lparr>lg_zone = rs_zone s, lg_registries = rs_registries s, lg_target_versions = rs_target_versions s,
      lg_applied = bm_values (rs_applied s), lg_audit = rs_audit s,
      lg_snapshot_zones = legacy_snapshots E k (walk (dk_snapshot_dir d))\<rparr>"

lemma legacy_load_written:
  assumes lib: "serde_ok E" "hex_ok E" and pc: "from_slice pc (to_vec pc (state_of E s)) = Some (state_of E s)"
    and mem: "memory_ok E k s"
    and lines: "\<forall>a \<in> set (bm_values (rs_applied s)). line_ok (to_vec (x_applied E) a)"
      "\<forall>e \<in> set (rs_audit s). line_ok (to_vec (x_audit E) e)"
    and w: "legacy_write E pc (\<lambda>_. True) (rs_zone s) (rs_registries s) (rs_target_versions s)
      (bm_values (rs_applied s)) (rs_audit s) d = (r, d')"
  shows "r = Inr () \<and> legacy_exists d' \<and> dk_db d' = dk_db d \<and> legacy_load E pc walk d' k = Inr (legacy_of E k walk d s)"
proof -
  have d': "r = Inr ()" "d' = d\<lparr>rd_state := Some (to_vec pc (state_of E s)),
      rd_mutations := Some (jsonl (x_applied E) (bm_values (rs_applied s))),
      rd_audit := Some (jsonl (x_audit E) (rs_audit s))\<rparr>"
    using w by (simp_all add: legacy_write_def state_of_def Let_def)
  have z: "zone_ok E k (rs_zone s)" using mem by (simp add: memory_ok_def)
  have regs: "load_legacy_registries E (rs_zone s) (ps_registries (state_of E s)) [] = Inr (rs_registries s)"
    using mem load_legacy_registries_written [OF lib(2), of "rs_registries s" "rs_zone s" "[]"]
    by (simp add: memory_ok_def registries_ok_def state_of_def bm_extend_self)
  have applied: "load_history E (lines_of (x_applied E) (bm_values (rs_applied s))) = Inr (bm_values (rs_applied s))"
    using lib(1) mem
    by (intro load_history_written [of applied_wf]) (auto simp: serde_ok_def memory_ok_def applied_ok_def bm_values_def)
  have audit: "load_audit E k (lines_of (x_audit E) (rs_audit s)) = Inr (rs_audit s)"
    using lib(1) mem
    by (intro load_audit_written [of audit_record_wf]) (auto simp: serde_ok_def memory_ok_def audit_record_wf_def)
  show ?thesis
    using regs applied audit read_jsonl [OF lines(1)] read_jsonl [OF lines(2)]
    by (simp add: d' legacy_exists_def legacy_load_def decode_as_def pc zone_ok_validate [OF z] zone_ok_verify [OF z]
        legacy_of_def lines_of_def)
qed

subsection \<open>The transactions of a migration\<close>

lemma run_commits_map:
  assumes "\<And>x t. op x None t = (Inr (), g t x)"
  shows "run_commits (\<lambda>_. None) n (map op xs @ ops) t = run_commits (\<lambda>_. None) (n + length xs) ops (foldl g t xs)"
  using assms by (induction xs arbitrary: n t) simp_all

lemma put_zones:
  "foldl (\<lambda>t (v, bs). t\<lparr>t_root_zone_versions := bm_insert v bs (t_root_zone_versions t)\<rparr>) t kvs
     = t\<lparr>t_root_zone_versions := bm_extend kvs (t_root_zone_versions t)\<rparr>"
  by (induction kvs arbitrary: t) (auto simp: bm_extend_def)

lemma put_mutations:
  "foldl (\<lambda>t a. t\<lparr>t_mutations := bm_insert (mr_mutation_id (am_mutation a)) (to_vec c a) (t_mutations t)\<rparr>) t xs
     = t\<lparr>t_mutations := bm_extend (map (\<lambda>a. (mr_mutation_id (am_mutation a), to_vec c a)) xs) (t_mutations t)\<rparr>"
  by (induction xs arbitrary: t) (auto simp: bm_extend_def)

lemma put_audit:
  "t_audit_events t = bm_log ys \<Longrightarrow>
     foldl (\<lambda>t e. t\<lparr>t_audit_events := bm_insert (next_audit_seq t) (to_vec c e) (t_audit_events t)\<rparr>) t xs
     = t\<lparr>t_audit_events := bm_log (ys @ map (to_vec c) xs)\<rparr>"
  by (induction xs arbitrary: t ys) (simp_all add: next_audit_seq_log bm_log_append)

lemma put_versions:
  "foldl (\<lambda>t (key, v). t\<lparr>t_target_versions := bm_insert key v (t_target_versions t)\<rparr>) t kvs
     = t\<lparr>t_target_versions := bm_extend kvs (t_target_versions t)\<rparr>"
  by (induction kvs arbitrary: t) (auto simp: bm_extend_def)

lemma other_zones_kept:
  "\<forall>(v, bs) \<in> set kvs. v \<noteq> k \<Longrightarrow> bm_get (bm_extend kvs m) k = bm_get m k"
  by (auto simp: bm_get_extend map_of_eq_None_iff split: option.split dest!: map_of_SomeD)

text \<open>The first transaction, without the rows that follow it.\<close>

definition before_history :: "registry_store \<Rightarrow> registry_store" where
  "before_history s = s\<lparr>rs_applied := [], rs_audit := [], rs_target_versions := []\<rparr>"

lemma migration_initial:
  assumes "memory_ok E k s"
  obtains db where "db_mirrors E (before_history s) db"
    and "\<And>err. err 0 = None \<Longrightarrow> run_commits err 0 (migration_steps E (legacy_of E k walk d s)) redb_create
      = run_commits err 1 (tl (migration_steps E (legacy_of E k walk d s))) db"
proof -
  let ?i = "\<lparr>is_zone_json = to_vec (x_zone E) (rs_zone s), is_root_version = rz_root_version (rs_zone s),
       is_state_hash = state_hash E (rs_zone s), is_tlds = bm_values (rz_tlds (rs_zone s)),
       is_domains = bm_values (rz_domains (rs_zone s)),
       is_delegated_registries = map (\<lambda>(tld, bs, _). (tld, bs)) (rs_registries s),
       is_snapshot = \<lparr>sm_root_version = rz_root_version (rs_zone s), sm_created_at = rz_generated_at (rs_zone s),
         sm_state_hash = state_hash E (rs_zone s)\<rparr>\<rparr>"
  obtain r db where c: "commit_initial E None redb_create ?i = (r, db)" by fastforce
  have "r = Inr () \<and> db_mirrors E (before_history s) db"
    using assms c by (intro commit_initial_mirrors [of E k])
      (auto simp: before_history_def memory_ok_def registries_ok_def)
  then show ?thesis
    by (intro that [of db]) (simp_all add: migration_steps_def Let_def legacy_of_def c)
qed

lemma migration_runs:
  assumes "memory_ok E k s"
  obtains db where "run_commits (\<lambda>_. None) 0 (migration_steps E (legacy_of E k walk d s)) redb_create = (Inr (), db)"
    "db_mirrors E s db"
proof -
  obtain db1 where db1: "db_mirrors E (before_history s) db1"
    and start: "run_commits (\<lambda>_. None) 0 (migration_steps E (legacy_of E k walk d s)) redb_create
      = run_commits (\<lambda>_. None) 1 (tl (migration_steps E (legacy_of E k walk d s))) db1"
    using migration_initial [OF assms, of walk d] by metis
  let ?zones = "filter (\<lambda>(version, _). version \<noteq> rz_root_version (rs_zone s))
      (legacy_snapshots E k (walk (dk_snapshot_dir d)))"
  let ?rows = "map (\<lambda>a. (mr_mutation_id (am_mutation a), to_vec (x_applied E) a)) (bm_values (rs_applied s))"
  let ?t2 = "db1\<lparr>t_root_zone_versions := bm_extend ?zones (t_root_zone_versions db1)\<rparr>"
  let ?t3 = "?t2\<lparr>t_mutations := bm_extend ?rows (t_mutations ?t2)\<rparr>"
  let ?t4 = "?t3\<lparr>t_audit_events := bm_log ([] @ map (to_vec (x_audit E)) (rs_audit s))\<rparr>"
  let ?t5 = "?t4\<lparr>t_target_versions := bm_extend (rs_target_versions s) (t_target_versions ?t4)\<rparr>"
  have empty: "t_mutations db1 = []" "t_audit_events db1 = bm_log []" "t_target_versions db1 = []"
    using db1 by (simp_all add: db_mirrors_def before_history_def)
  have log: "t_audit_events ?t3 = bm_log []" by (simp add: empty)
  have z: "run_commits (\<lambda>_. None) n (map (\<lambda>(version, bs) err t. put_root_zone_version err t version bs) ?zones @ ops) db1
      = run_commits (\<lambda>_. None) (n + length ?zones) ops ?t2" for n ops
    by (subst run_commits_map [where g = "\<lambda>t (v, bs). t\<lparr>t_root_zone_versions := bm_insert v bs (t_root_zone_versions t)\<rparr>"])
       (auto simp: put_root_zone_version_def db_commit_def put_zones)
  have m: "run_commits (\<lambda>_. None) n (map (\<lambda>a err t. append_mutation E err t a) (bm_values (rs_applied s)) @ ops) ?t2
      = run_commits (\<lambda>_. None) (n + length (bm_values (rs_applied s))) ops ?t3" for n ops
    by (subst run_commits_map [where g = "\<lambda>t a. t\<lparr>t_mutations := bm_insert (mr_mutation_id (am_mutation a))
          (to_vec (x_applied E) a) (t_mutations t)\<rparr>"])
       (simp_all only: append_mutation_def db_commit_def put_mutations option.case)
  have a: "run_commits (\<lambda>_. None) n (map (\<lambda>e err t. append_audit_event E err t e) (rs_audit s) @ ops) ?t3
      = run_commits (\<lambda>_. None) (n + length (rs_audit s)) ops ?t4" for n ops
    by (subst run_commits_map [where g = "\<lambda>t e. t\<lparr>t_audit_events := bm_insert (next_audit_seq t)
          (to_vec (x_audit E) e) (t_audit_events t)\<rparr>"])
       (simp_all only: append_audit_event_def db_commit_def put_audit [OF log] option.case)
  have v: "run_commits (\<lambda>_. None) n (map (\<lambda>(key, version) err t. put_target_version err t key version) (rs_target_versions s) @ []) ?t4
      = (Inr (), ?t5)" for n
    by (subst run_commits_map [where g = "\<lambda>t (key, v). t\<lparr>t_target_versions := bm_insert key v (t_target_versions t)\<rparr>"])
       (auto simp: put_target_version_def db_commit_def put_versions)
  have "run_commits (\<lambda>_. None) 0 (migration_steps E (legacy_of E k walk d s)) redb_create = (Inr (), ?t5)"
    unfolding start using z m a v by (simp add: migration_steps_def legacy_of_def Let_def)
  moreover have "?rows = bm_map (to_vec (x_applied E)) (rs_applied s)"
    using assms by (auto simp: memory_ok_def applied_ok_def bm_values_def bm_map_def)
  moreover have "bm_get (bm_extend ?zones m) (rz_root_version (rs_zone s)) = bm_get m (rz_root_version (rs_zone s))" for m
    by (rule other_zones_kept) auto
  ultimately show ?thesis
    using that [of ?t5] db1 assms
    by (simp add: db_mirrors_def before_history_def get_meta_def get_root_zone_version_def empty bm_extend_self
        memory_ok_def applied_ok_def)
qed

subsection \<open>What a migration keeps and loses\<close>

text \<open>
  C12: A migration carries the whole registry over. When the old files hold the state of a well-formed
  registry and every transaction succeeds, the migration ends, the directory no longer holds a legacy
  registry, and the database opens with the same zone, delegated registries, target versions, applied
  mutations and audit log: the replay protection and the history continue where they were.
\<close>

theorem migration_keeps_registry:
  assumes "serde_ok E" "hex_ok E" "memory_ok E k s" "dk_db d = None"
    and "from_slice pc (to_vec pc (state_of E s)) = Some (state_of E s)"
    and "\<forall>a \<in> set (bm_values (rs_applied s)). line_ok (to_vec (x_applied E) a)"
    and "\<forall>e \<in> set (rs_audit s). line_ok (to_vec (x_audit E) e)"
    and "legacy_write E pc (\<lambda>_. True) (rs_zone s) (rs_registries s) (rs_target_versions s)
      (bm_values (rs_applied s)) (rs_audit s) d = (r, d1)"
  shows "\<exists>d2 s'. migrate_json_to_redb E pc walk (\<lambda>_. None) (\<lambda>_. True) dir k d1 = (Inr (), d2) \<and>
    \<not> legacy_exists d2 \<and> registry_open E dir (as_disk d2) k = Inr s' \<and>
    rs_zone s' = rs_zone s \<and> rs_registries s' = rs_registries s \<and> rs_applied s' = rs_applied s \<and>
    rs_target_versions s' = rs_target_versions s \<and> rs_audit s' = rs_audit s"
proof -
  note written = legacy_load_written [OF assms(1,2,5,3,6,7,8), of walk]
  obtain db where db: "run_commits (\<lambda>_. None) 0 (migration_steps E (legacy_of E k walk d s)) redb_create = (Inr (), db)"
    "db_mirrors E s db"
    by (rule migration_runs [OF assms(3), of walk d])
  obtain u d2 where moved: "backup_files (\<lambda>_. True) (d1\<lparr>dk_db := Some db\<rparr>) = (u, d2)" by fastforce
  then have d2: "u = Inr ()" "\<not> legacy_exists d2" "dk_db d2 = Some db"
    by (auto simp: backup_files_def move_legacy_def legacy_exists_def split: option.splits)
  from written db moved d2(1) assms(4) have "migrate_json_to_redb E pc walk (\<lambda>_. None) (\<lambda>_. True) dir k d1 = (Inr (), d2)"
    by (simp add: migrate_json_to_redb_def)
  with d2 open_mirrored [OF assms(1,3) db(2), of "as_disk d2" dir] show ?thesis by (auto simp: as_disk_def)
qed

lemma migration_step_fails:
  "op \<in> set (migration_steps E legacy) \<Longrightarrow> op (Some msg) t = (Inl (StorageError msg), t)"
  by (auto simp: migration_steps_def Let_def commit_initial_def put_root_zone_version_def append_mutation_def
      append_audit_event_def put_target_version_def db_commit_def)

text \<open>
  A migration that is cut short forgets the history. The zone goes in first and the rest row by row;
  when the transaction after the zone fails, or the machine stops there, the migration cannot be run again,
  because a database now exists, and that database opens as a registry without applied mutations, target
  versions or audit log: what protects it against replays is gone.
\<close>

lemma interrupted_migration_forgets:
  assumes "serde_ok E" "hex_ok E" "memory_ok E k s" "dk_db d = None"
    and "from_slice pc (to_vec pc (state_of E s)) = Some (state_of E s)"
    and "\<forall>a \<in> set (bm_values (rs_applied s)). line_ok (to_vec (x_applied E) a)"
    and "\<forall>e \<in> set (rs_audit s). line_ok (to_vec (x_audit E) e)"
    and "legacy_write E pc (\<lambda>_. True) (rs_zone s) (rs_registries s) (rs_target_versions s)
      (bm_values (rs_applied s)) (rs_audit s) d = (r, d1)"
    and "rs_applied s \<noteq> []" "err 0 = None" "err 1 = Some msg"
  shows "\<exists>d2 s'. migrate_json_to_redb E pc walk err rn dir k d1 = (Inl (StorageError msg), d2) \<and>
    (\<forall>err rn. migrate_json_to_redb E pc walk err rn dir k d2
       = (Inl (StorageError (''database already exists at '' @ db_path dir @ ''; nothing to migrate'')), d2)) \<and>
    registry_open E dir (as_disk d2) k = Inr s' \<and> rs_zone s' = rs_zone s \<and>
    rs_applied s' = [] \<and> rs_target_versions s' = [] \<and> rs_audit s' = []"
proof -
  note written = legacy_load_written [OF assms(1,2,5,3,6,7,8), of walk]
  let ?steps = "migration_steps E (legacy_of E k walk d s)"
  obtain db where db: "db_mirrors E (before_history s) db"
    and start: "\<And>err. err 0 = None \<Longrightarrow> run_commits err 0 ?steps redb_create = run_commits err 1 (tl ?steps) db"
    using migration_initial [OF assms(3), of walk d] by metis
  have "tl ?steps \<noteq> []" using assms(9) by (simp add: migration_steps_def Let_def legacy_of_def bm_values_def)
  then obtain op ops where op: "tl ?steps = op # ops" by (cases "tl ?steps") auto
  then have "op \<in> set ?steps" using list.set_sel(2) [of ?steps op] by (cases ?steps) auto
  then have "run_commits err 0 ?steps redb_create = (Inl (StorageError msg), db)"
    using start [of err, OF assms(10)] op assms(11) by (simp add: migration_step_fails)
  with written assms(4)
  have fails: "migrate_json_to_redb E pc walk err rn dir k d1 = (Inl (StorageError msg), d1\<lparr>dk_db := Some db\<rparr>)"
    by (simp add: migrate_json_to_redb_def)
  have "memory_ok E k (before_history s)"
    using assms(3) by (simp add: before_history_def memory_ok_def applied_ok_def)
  from open_mirrored [OF assms(1) this db, of "as_disk (d1\<lparr>dk_db := Some db\<rparr>)" dir] fails show ?thesis
    by (auto simp: as_disk_def migrate_json_to_redb_def before_history_def)
qed

subsection \<open>Backup and restore\<close>

text \<open>
  C13: A backup restores the registry it was taken from. The backup of a sound registry, put back beside the
  same content files, opens and passes every check exactly when no stored block is damaged, and gives the
  registry back; whatever is restored with success has passed the full self-check under the pinned key.
\<close>

theorem backup_restores_registry:
  assumes "serde_ok E" "blake3_ok E" "store_ok E k s"
    and "backup_registry dir (disk_of s) output False True True = Inr db"
    and "dk_db d = None \<or> force" "dk_manifest_dir d = rs_manifest_dir s" "dk_blocks d = rs_blocks s"
  shows "case restore_registry E (Some db) dir' d k force of (r, d') \<Rightarrow>
    d' = d\<lparr>dk_db := Some (rs_db s)\<rparr> \<and>
    (is_ok r \<longleftrightarrow> (\<forall>(h, len) \<in> set (block_store_list (rs_blocks s)). is_ok (block_store_get E (rs_blocks s) h))) \<and>
    (\<forall>s'. r = Inr s' \<longrightarrow> s' = s\<lparr>rs_snapshot_dir := dk_snapshot_dir d\<rparr> \<and> verify_all E s' k = Inr ())"
proof -
  let ?d = "d\<lparr>dk_db := Some (rs_db s)\<rparr>" and ?s = "s\<lparr>rs_snapshot_dir := dk_snapshot_dir d\<rparr>"
  have db: "db = rs_db s" using assms(4) by (simp add: backup_registry_def disk_of_def)
  have opened: "registry_open E dir' ?d k = Inr ?s"
    using open_mirrored [OF assms(1), of k s "rs_db s" ?d dir'] assms(3,6,7)
    by (simp add: store_ok_def manifests_ok_def)
  have "verify_all E ?s k = verify_all E s k" by (simp add: verify_all_def verify_tables_def cong: if_cong)
  with opened store_self_check [OF assms(1,3,2)] assms(5) db show ?thesis
    by (cases "verify_all E s k") (auto simp: restore_registry_def Let_def)
qed

text \<open>
  A forced restore replaces the database before it is checked: a backup that does not verify leaves the node
  with it, and the registry that was there is gone.
\<close>

lemma failed_restore_replaces_database:
  "restore_registry E (Some redb_create) dir d k True
     = (Inl (StorageError ''database has no current root zone''), d\<lparr>dk_db := Some redb_create\<rparr>)"
  by (simp add: restore_registry_def registry_open_def current_root_zone_def get_meta_def redb_create_def)

subsection \<open>A registry with history\<close>

definition sample_applied :: applied_mutation where
  "sample_applied =
     \<lparr>am_mutation = \<lparr>mr_mutation_id = ''m1'', mr_nonce = ''n1'', mr_issued_at = ''6'', mr_actor_public_key = ''aa'',
        mr_target_version = 1, mr_action = CreateTld ''pagina'' ''pages'', mr_signature_algorithm = ''ed25519'',
        mr_signature = Some ''bb''\<rparr>,
      am_audit_event_id = ''e1'', am_applied_at = ''7'', am_root_version = 7\<rparr>"

definition history_store :: registry_store where
  "history_store = sample_store\<lparr>rs_applied := [(''m1'', sample_applied)], rs_target_versions := [(''tld:pagina'', 1)]\<rparr>"

definition sample_state_codec :: "persisted_state codec" where
  "sample_state_codec =
     \<lparr>to_vec = (\<lambda>_. []), from_slice = (\<lambda>_. Some (state_of sample_store_deps history_store))\<rparr>"

definition sample_dir :: registry_dir where
  "sample_dir = disk.extend sample_disk
     \<lparr>rd_state = None, rd_mutations = None, rd_audit = None, rd_legacy_backup = []\<rparr>"

lemma sample_audit_empty: "rs_audit sample_store = []"
  using init_empty_ok [OF sample_store_init sample_store_libraries(1,2) length_sample_identity sample_clock_ok(1)]
  by (simp add: sample_disk_def)

lemma line_ok_graphic:
  assumes "list_all (\<lambda>b. 32 < b \<and> b < 127) bs" "bs \<noteq> []"
  shows "line_ok bs"
proof -
  have b: "33 \<le> unat b \<and> unat b < 128" if "b \<in> set bs" for b
    using assms(1) that by (auto simp: list_all_iff word_less_nat_alt)
  then have "\<forall>c \<in> set (str_of_bytes bs). graphic c"
    by (fastforce simp: str_of_bytes_def graphic_def code_def byte_mod)
  then have "trim (str_of_bytes bs) = str_of_bytes bs" by (rule trim_graphic)
  then show ?thesis
    using b assms(2) by (fastforce simp: line_ok_def str_of_bytes_def intro!: utf8_valid_ascii)
qed

lemma sample_line: "line_ok (sample_bytes (applied_json sample_applied))"
proof (rule line_ok_graphic)
  show "list_all (\<lambda>b. 32 < b \<and> b < 127) (sample_bytes (applied_json sample_applied))" by code_simp
  show "sample_bytes (applied_json sample_applied) \<noteq> []" by code_simp
qed

lemma history_store_ok: "memory_ok sample_store_deps sample_root history_store"
  using sample_store_ok(1)
  by (auto simp: history_store_def store_ok_def memory_ok_def applied_ok_def sample_applied_def applied_wf_def
      mutation_request_wf_def mutation_action_wf_def bm_sorted_def)

text \<open>The old files of that registry, and the engine that fails at the second transaction.\<close>

definition legacy_dir :: registry_dir where
  "legacy_dir = snd (legacy_write sample_store_deps sample_state_codec (\<lambda>_. True) (rs_zone history_store)
     (rs_registries history_store) (rs_target_versions history_store) (bm_values (rs_applied history_store))
     (rs_audit history_store) sample_dir)"

lemma legacy_dir_facts:
  "serde_ok sample_store_deps" "hex_ok sample_store_deps"
  "memory_ok sample_store_deps sample_root history_store" "dk_db sample_dir = None"
  "from_slice sample_state_codec (to_vec sample_state_codec (state_of sample_store_deps history_store))
     = Some (state_of sample_store_deps history_store)"
  "\<forall>a \<in> set (bm_values (rs_applied history_store)). line_ok (to_vec (x_applied sample_store_deps) a)"
  "\<forall>e \<in> set (rs_audit history_store). line_ok (to_vec (x_audit sample_store_deps) e)"
  "legacy_write sample_store_deps sample_state_codec (\<lambda>_. True) (rs_zone history_store)
     (rs_registries history_store) (rs_target_versions history_store) (bm_values (rs_applied history_store))
     (rs_audit history_store) sample_dir = (Inr (), legacy_dir)"
  using sample_line history_store_ok
  by (simp_all add: sample_serde_ok sample_store_libraries sample_dir_def disk.defs sample_disk_def
      sample_state_codec_def history_store_def bm_values_def sample_audit_empty sample_store_codecs
      inverse_codec_def legacy_dir_def legacy_write_def Let_def)

theorem migration_keeps_registry_witness:
  "\<exists>d2 s'. migrate_json_to_redb sample_store_deps sample_state_codec (\<lambda>fs. fs) (\<lambda>_. None) (\<lambda>_. True) ''data''
       sample_root legacy_dir = (Inr (), d2) \<and>
     registry_open sample_store_deps ''data'' (as_disk d2) sample_root = Inr s' \<and>
     rs_applied s' = [(''m1'', sample_applied)] \<and> rs_target_versions s' = [(''tld:pagina'', 1)]"
  using migration_keeps_registry [OF legacy_dir_facts, of "\<lambda>fs. fs" "''data''"]
  by (auto simp: history_store_def)

lemma interrupted_migration_forgets_witness:
  "\<exists>d2 s'. migrate_json_to_redb sample_store_deps sample_state_codec (\<lambda>fs. fs)
       (\<lambda>n. if n = 1 then Some ''disk full'' else None) (\<lambda>_. True) ''data'' sample_root legacy_dir
       = (Inl (StorageError ''disk full''), d2) \<and>
     registry_open sample_store_deps ''data'' (as_disk d2) sample_root = Inr s' \<and> rs_applied s' = []"
proof -
  let ?err = "\<lambda>n :: nat. if n = 1 then Some ''disk full'' else None"
  have "rs_applied history_store \<noteq> []" "?err 0 = None" "?err 1 = Some ''disk full''"
    by (simp_all add: history_store_def)
  from interrupted_migration_forgets [OF legacy_dir_facts this, of "\<lambda>fs. fs" "\<lambda>_. True" "''data''"]
  show ?thesis by blast
qed

lemma init_empty_content:
  assumes "init_empty_registry E clock to_pretty io dir d root = Inr s"
  shows "rs_manifest_dir s = dk_manifest_dir d \<and> rs_blocks s = dk_blocks d"
proof -
  obtain zone where "registry_init E to_pretty io dir d zone [] [] [] = Inr s"
    using assms by (auto simp: init_empty_registry_def Let_def and_then_eq_Inr split: if_splits)
  then obtain s0 u where "write_snapshot E to_pretty io s0 = (Inr u, s)" "rs_manifest_dir s0 = dk_manifest_dir d"
      "rs_blocks s0 = dk_blocks d"
    by (auto simp: registry_init_def put_blocks_def Let_def and_then_eq_Inr split: if_splits prod.splits sum.splits)
  then show ?thesis by (auto simp: write_snapshot_def Let_def split: if_splits prod.splits)
qed

theorem backup_restores_registry_witness:
  "\<exists>s'. restore_registry sample_store_deps (Some (rs_db sample_store)) ''new'' sample_disk sample_root False
       = (Inr s', sample_disk\<lparr>dk_db := Some (rs_db sample_store)\<rparr>) \<and>
     verify_all sample_store_deps s' sample_root = Inr ()"
proof -
  have content: "rs_manifest_dir sample_store = []" "rs_blocks sample_store = []"
    using init_empty_content [OF sample_store_init] by (simp_all add: sample_disk_def)
  have "backup_registry ''data'' (disk_of sample_store) ''b'' False True True = Inr (rs_db sample_store)"
    "dk_db sample_disk = None \<or> False" "dk_manifest_dir sample_disk = rs_manifest_dir sample_store"
    "dk_blocks sample_disk = rs_blocks sample_store"
    by (simp_all add: backup_registry_def disk_of_def sample_disk_def content)
  from backup_restores_registry [OF sample_serde_ok sample_store_libraries(4) sample_store_ok(1) this, of "''new''"]
  show ?thesis
    by (auto simp: content block_store_list_def is_ok_iff split: prod.splits)
qed

end
