(* ===== verification/Spec2Isabelle.thy ===== *)
theory Spec2Isabelle
  imports Manifest Uri Publish_Properties Dns_Server Native_Session Directory_Properties Cdn_Properties Gateway_Properties Node1_Properties Node_Properties Noded_Properties Search_Properties Cli_Publishing Cli_Verifier_Properties Store_Admin_Properties
begin

text \<open>
  Federate: a name system and content network run by nodes.

  The repository is a Rust workspace. A root authority, Node 1, signs a \<^emph>\<open>root zone\<close>: the top-level domains
  with their operators' keys, and the domains Node 1 manages itself. The operator of a \<^emph>\<open>delegated\<close> TLD
  signs a registry of its own. The owner of a domain signs a \<^emph>\<open>manifest\<close> that lists the files of a site by
  the BLAKE3 address of their bytes. A node that is asked for a name walks from the root key it has pinned
  to the block: root zone, TLD record, (delegated registry,) domain record, manifest, block; no node on the
  way is trusted. This development models the core of that program and proves the walk, the write path
  of the registry, and the protocols between them.

  \<^bold>\<open>How the parts interact.\<close> A publisher sends a signed mutation and a one-time nonce to Node 1
  (\<open>crates/federate-server\<close>), which applies it to the registry store (\<open>crates/federate-mutation\<close>): the
  store checks it against the zone, signs the next zone, appends to the audit log, and commits memory and
  tables in one transaction. Nodes (\<open>federate-noded\<close>, \<open>federate-node\<close>) register with the directory
  (\<open>federate-directory\<close>) and announce the blocks they cache (\<open>federate-cdn\<close>). The resolver
  (\<open>federate-resolution\<close>) fetches zones, registries, manifests and blocks over the native protocol
  (\<open>federate-protocol\<close>, \<open>federate-transport\<close>) or HTTP (\<open>federate-client\<close>) from the providers the directory
  and the TLD records name, verifies each, and caches it. The gateway (\<open>federate-gateway\<close>), the DNS server
  (\<open>federate-dns\<close>) and the search node (\<open>federate-search\<close>) serve what the resolver verified.

  \<^bold>\<open>Which theory models what\<close> (paths under \<open>src/crates/\<close>; definitions keep the names of the source).

  \<^item> \<open>Prelude\<close>, \<open>Rust_Str\<close>, \<open>Utf8\<close>, \<open>BTree_Map\<close>, \<open>Ip_Addr\<close>: bytes and words, the string operations and
    ordered maps of Rust's standard library as this code uses them, \<open>IpAddr\<close> and its parser; the locale
    \<open>forward_system\<close> of state machines with an invariant and an order that only grows.
  \<^item> \<open>Fed_Core\<close>: \<open>federate-core/src/lib.rs\<close>, errors and canonical JSON. \<open>Codec\<close>: serde as a parameter.
    \<open>Sample_Deps\<close>: one concrete instance of the parameters, for witnesses.
  \<^item> \<open>Identity\<close>, \<open>Storage\<close>, \<open>Naming\<close>, \<open>Uri\<close>, \<open>Manifest\<close>, \<open>Root\<close>, \<open>Registry\<close>: the crates of these names.
    \<open>Identity\<close> holds the locales \<open>signed_document\<close> and \<open>binding_document\<close>, interpreted for every signed
    document of the program: what a signature over the canonical bytes binds. \<open>Storage\<close> holds the locale
    \<open>content_store\<close>.
  \<^item> \<open>Mutation_Request\<close> (\<open>request.rs\<close>, \<open>audit.rs\<close>), \<open>Mutation_Backend\<close> (\<open>backend.rs\<close>,
    \<open>redb_backend.rs\<close>), \<open>Mutation_Store\<close> and \<open>Mutation_Apply\<close> (\<open>store.rs\<close>, \<open>seed.rs\<close>) of
    \<open>federate-mutation\<close>: the state \<open>registry_store\<close> is the struct \<open>RegistryStore\<close>, its tables are maps.
    Lemmas: \<open>Zone_Invariant\<close> (every zone the store serves), \<open>Store_Invariant\<close> (memory mirrors the tables),
    \<open>Store_Safety\<close> (the step relation \<open>store_step\<close>), \<open>Store_Sample\<close>, \<open>Store_Accept\<close> (which requests are
    accepted), \<open>Audit_Chain\<close>; \<open>Store_Properties\<close> and \<open>Publish_Properties\<close> hold the theorems.
    \<open>Store_Admin\<close>, \<open>Store_Admin_Properties\<close>: the offline tools, \<open>legacy_json.rs\<close> with migration, and
    backup and restore of \<open>store.rs\<close>.
  \<^item> \<open>Native_Protocol\<close>: messages, negotiation, frames and the serving of a connection
    (\<open>federate-protocol\<close>, \<open>federate-transport\<close>); \<open>Native_Session\<close>: the session as a function on messages,
    and the proof that the byte-level server implements it.
  \<^item> \<open>Dns_Wire\<close> (\<open>wire.rs\<close>), \<open>Dns_Server\<close> (\<open>lib.rs\<close>) of \<open>federate-dns\<close>.
  \<^item> \<open>Http_Client\<close>: \<open>federate-client\<close> and \<open>federate-bootstrap\<close>'s fetches. \<open>Directory\<close>, \<open>Directory_Api\<close>:
    \<open>federate-directory\<close>, its tables, handlers and client; \<open>Directory_Signed\<close>, \<open>Directory_Invariant\<close>,
    \<open>Directory_Properties\<close>: what its signatures bind, the step relation, the theorems. \<open>Cdn\<close>,
    \<open>Cdn_Properties\<close>: \<open>federate-cdn\<close>.
  \<^item> \<open>Resolver\<close>, \<open>Resolution\<close>: \<open>federate-resolution\<close>, the record \<open>resolver\<close> being the struct with its
    caches, root zone and disk. \<open>Resolution_Trust\<close>: what each fetch has verified when it succeeds;
    \<open>Resolution_Root\<close>: the pinned key and rollback protection; \<open>Resolution_Properties\<close>: the theorems;
    \<open>Resolution_Sample\<close>: a resolver with one signed site.
  \<^item> \<open>Gateway\<close>, \<open>Gateway_Properties\<close>: \<open>federate-gateway\<close>. \<open>Node1_Server\<close>, \<open>Node1_Properties\<close>:
    \<open>federate-server/src/main.rs\<close>. \<open>Node_Runtime\<close>, \<open>Node_Properties\<close>: \<open>federate-node\<close> and
    \<open>federate-bootstrap\<close>. \<open>Noded\<close>, \<open>Noded_Properties\<close>: \<open>federate-noded/src/main.rs\<close>. \<open>Search\<close>,
    \<open>Search_Properties\<close>: \<open>federate-search\<close>.
  \<^item> \<open>Cli_Operator\<close>, \<open>Cli_Publisher\<close>: the commands of \<open>federate-cli/src/main.rs\<close> that sign, build, verify,
    package and submit; \<open>Cli_Properties\<close>: what they write they read back; \<open>Cli_Publishing\<close>: the locale
    \<open>challenge_node\<close> of what a submitting client relies on, proved of Node 1, and publishing end to end.
    \<open>Cli_Verifier\<close>, \<open>Cli_Verifier_Properties\<close>: the commands that verify through the resolver, the offline
    database commands, and the clean-up of the hosts file.
  \<^bold>\<open>What the theorems show\<close> (a theorem stands after the text that states it, with its witness).

  \<^item> \<open>The write path\<close>: every reachable store is sound (memory and tables agree, the zone is signed by the
    root key and internally consistent, reopening gives it back); a mutation is accepted only from the key
    the action requires, only once, only with a fresh envelope, and changes what its action names; a refused
    one changes no record; after a crash the database holds the old or the new store; the audit log is a hash
    chain over every state; a completed migration and a restored backup give the registry back. Node 1's
    handlers are runs of this store, and every message it serves verifies. A site published with the command
    line is accepted by Node 1 and can be located and read there.
  \<^item> \<open>The read path\<close>: served content has the whole chain of trust behind it, over the resolver, the HTTP
    gateway, the native protocol of a relaying node and the search index; the pinned key and the version of
    the zone never go back, whatever the network and the disk do; warm caches need no network.
  \<^item> \<open>Documents\<close>: canonical bytes determine the value, so a signature binds every field; parsers and printers
    of names, addresses and DNS packets agree.
  \<^item> \<open>Protocols\<close>: the byte-level native server refines the message-level session and a client reads its
    answers in order; the DNS server decides by name alone and stays within its sizes.
  \<^item> \<open>Services\<close>: every reachable directory holds only verified registrations within its bounds; the block
    cache stays within its capacity and is content-addressed; error pages carry no foreign markup; the
    inverted index answers like a scan of the pages.
  \<^item> Some lemmas show where the code departs from its documentation (a commit that fails after memory was
    changed, upper-case labels that cannot be looked up, a snapshot restored without the root check, a
    script that hides the rest of a page); the manifest lists them as findings.

  \<^bold>\<open>Conventions.\<close> Bytes are 8-bit words and a Rust \<open>String\<close> is the list of its UTF-8 bytes as characters. A
  \<open>u64\<close> counter is a \<open>nat\<close> with its saturation or bound (\<open>u64_max\<close>) written out where the code's
  arithmetic can reach it, a \<open>u16\<close> or \<open>u32\<close> of a wire format is a word. \<open>Result\<close> is the sum with
  \<open>federate_error\<close> on the left. A \<open>BTreeMap\<close> is a sorted association list; the order in which a hash map is
  walked is a parameter constrained to be a permutation only where a theorem needs it. A method on a struct is a
  function from the struct (and the file system or tables it owns) to its result and the new state. The
  clock is an argument, in nanoseconds since the epoch (\<open>timestamp\<close> gives whole seconds); a request is
  handled at one instant. Whether a write to disk succeeds is
  an argument (\<open>io\<close>, \<open>w\<close>, \<open>rx_write\<close>, \<open>ne_write\<close>), so that theorems hold for every failure.

  \<^bold>\<open>Third-party code\<close> is a record of functions, \<open>deps\<close> and its extensions: BLAKE3, Ed25519, hex, number
  and string formatting of JSON, the clock's RFC 3339 form, redb's transactions (all or nothing), the TOML
  and JSON decoders (\<open>codec\<close>), the network (\<open>rx_dial\<close> answers a connection with the bytes the peer sends,
  \<open>rx_http\<close> a request with status and chunks, both depending on a counter of uses so that equal requests may
  be answered differently). Theorems name what they assume of it (\<open>hex_ok\<close>, \<open>ed25519_ok\<close>, that a codec reads
  back what it wrote); the witnesses discharge the assumptions on concrete instances.

  \<^bold>\<open>Bounds of the code\<close>, kept as they are: 10000 requests per native connection and frames of 68 MiB; HTTP
  bodies of 4 MiB (manifests), 16 MiB (zones, registries) and 64 MiB (blocks), packages of 32 MiB and 2048
  blocks; paths of 2048 bytes; 8 DNS answers and 4096-byte DNS messages over TCP; 5000 nodes in a directory;
  nonces and mutations that live 300 seconds; 20 search results for 256 characters of query. The only counter
  that stands in for a loop bound is the one the source has: \<open>serve_requests\<close> counts the requests of a
  connection as its \<open>for\<close> loop does. Every other recursion is structural or has a termination proof, so
  every operation modelled here returns.

  \<^bold>\<open>Not modelled\<close>, with the reason.
  \<^item> In \<open>federate-cli\<close>: argument parsing, the commands that print a node's answer, installation of system
    services, and certificates generated by a library (\<open>localca.rs\<close>).
  \<^item> The \<open>main\<close> functions of \<open>federated\<close>, \<open>federate-dnsd\<close>, \<open>federate-gatewayd\<close> and \<open>federate-searchd\<close>:
    arguments, sockets, spawned tasks.
  \<^item> Sockets, accept loops, semaphores, time-outs and timers (\<open>tokio\<close>): a time-out is a read or write error
    of the parameter; what a loop repeats is a function (\<open>register_once\<close>, \<open>announce_once\<close>, \<open>mirror_once\<close>).
  \<^item> Interleaving inside one handler: the code holds a lock over each state change; where it releases it
    in between (\<open>announce_blocks\<close>) the two halves are two steps.
  \<^item> The resolution trace (\<open>ResolutionTrace\<close>): it observes and decides nothing.
  \<^item> The constant HTML of the error and index pages, log messages, and the tests.
\<close>

end
